(* ===== verification/Relay_Prelude.thy ===== *)
theory Relay_Prelude
  imports Main "HOL-Library.Word" "HOL-Library.Mapping" "HOL-Library.Sublist"
begin

text \<open>
  The vocabulary the components share: machine integers at their width, the outcome of a
  fallible Rust computation (\<open>res\<close>: a value, an \<open>Err\<close>, or a panic) with the \<open>?\<close> operator and
  the \<open>collect\<close> of an iterator of results, the few functions of Rust's \<open>str\<close> that the sources
  call, and the lemmas on lists, maps and words that the component proofs rewrite with.
\<close>

named_theorems res_simps \<open>rewrite rules that push a case split through fallible computations\<close>
named_theorems relay_intros \<open>introduction rules for the invariants of the relay\<close>

section \<open>Machine integers\<close>

type_synonym u8 = "8 word"
type_synonym u16 = "16 word"
type_synonym u64 = "64 word"
type_synonym u256 = "256 word"
type_synonym bytes = "u8 list"

section \<open>Fallible computations\<close>

text \<open>
  \<open>Ok\<close> and \<open>Err\<close> are the two constructors of Rust's \<open>Result\<close>; \<open>Panic\<close> is a computation that
  unwinds (an \<open>expect\<close> on an error, a division by zero), with the panic message.
\<close>

datatype ('a, 'e) res = Ok 'a | Err 'e | Panic string

text \<open>The \<open>?\<close> operator, \<open>map_err\<close>, \<open>ok_or\<close> and \<open>is_ok\<close>.\<close>

fun res_bind :: "('a, 'e) res \<Rightarrow> ('a \<Rightarrow> ('b, 'e) res) \<Rightarrow> ('b, 'e) res" where
  "res_bind (Ok a) f = f a"
| "res_bind (Err e) f = Err e"
| "res_bind (Panic m) f = Panic m"

fun res_map_err :: "('e \<Rightarrow> 'f) \<Rightarrow> ('a, 'e) res \<Rightarrow> ('a, 'f) res" where
  "res_map_err f (Ok a) = Ok a"
| "res_map_err f (Err e) = Err (f e)"
| "res_map_err f (Panic m) = Panic m"

fun ok_or :: "'a option \<Rightarrow> 'e \<Rightarrow> ('a, 'e) res" where
  "ok_or (Some a) e = Ok a"
| "ok_or None e = Err e"

fun is_ok :: "('a, 'e) res \<Rightarrow> bool" where
  "is_ok (Ok a) = True"
| "is_ok (Err e) = False"
| "is_ok (Panic m) = False"

text \<open>\<open>expect\<close>: the value, or a panic with the given message.\<close>

fun expect :: "string \<Rightarrow> ('a, 'f) res \<Rightarrow> ('a, 'e) res" where
  "expect m (Ok a) = Ok a"
| "expect m (Err e) = Panic m"
| "expect m (Panic p) = Panic p"

text \<open>
  \<open>iter().map(f).collect::<Result<Vec<_>, _>>()\<close>: the images in order, or the first error met.
\<close>

fun res_mapM :: "('a \<Rightarrow> ('b, 'e) res) \<Rightarrow> 'a list \<Rightarrow> ('b list, 'e) res" where
  "res_mapM f [] = Ok []"
| "res_mapM f (x # xs) = res_bind (f x) (\<lambda>y. res_bind (res_mapM f xs) (\<lambda>ys. Ok (y # ys)))"

lemma res_bind_eq_Ok [res_simps]:
  "res_bind r f = Ok b \<longleftrightarrow> (\<exists>a. r = Ok a \<and> f a = Ok b)"
  by (cases r) auto

lemma res_bind_eq_Err [res_simps]:
  "res_bind r f = Err e \<longleftrightarrow> r = Err e \<or> (\<exists>a. r = Ok a \<and> f a = Err e)"
  by (cases r) auto

lemma res_bind_eq_Panic [res_simps]:
  "res_bind r f = Panic m \<longleftrightarrow> r = Panic m \<or> (\<exists>a. r = Ok a \<and> f a = Panic m)"
  by (cases r) auto

lemma res_map_err_eq_Ok [res_simps]: "res_map_err f r = Ok a \<longleftrightarrow> r = Ok a"
  by (cases r) auto

lemma res_map_err_eq_Err [res_simps]: "res_map_err f r = Err e \<longleftrightarrow> (\<exists>d. r = Err d \<and> e = f d)"
  by (cases r) auto

lemma res_map_err_eq_Panic [res_simps]: "res_map_err f r = Panic m \<longleftrightarrow> r = Panic m"
  by (cases r) auto

lemma ok_or_eq_Ok [res_simps]: "ok_or x e = Ok a \<longleftrightarrow> x = Some a"
  by (cases x) auto

lemma ok_or_eq_Err [res_simps]: "ok_or x e = Err d \<longleftrightarrow> x = None \<and> d = e"
  by (cases x) auto

lemma ok_or_neq_Panic [simp]: "ok_or x e \<noteq> Panic m"
  by (cases x) auto

lemma expect_eq_Ok [res_simps]: "expect m r = Ok a \<longleftrightarrow> r = Ok a"
  by (cases r) auto

lemma expect_neq_Err [simp]: "expect m r \<noteq> Err e"
  by (cases r) auto

lemma is_ok_iff: "is_ok r \<longleftrightarrow> (\<exists>a. r = Ok a)"
  by (cases r) auto

lemma res_mapM_eq_Ok:
  "res_mapM f xs = Ok ys \<longleftrightarrow> list_all2 (\<lambda>x y. f x = Ok y) xs ys"
  by (induction xs arbitrary: ys) (auto simp: res_simps list_all2_Cons1)

lemma res_mapM_length: "res_mapM f xs = Ok ys \<Longrightarrow> length ys = length xs"
  by (auto simp: res_mapM_eq_Ok dest: list_all2_lengthD)

lemma res_mapM_Ok_all:
  assumes "\<And>x. x \<in> set xs \<Longrightarrow> f x = Ok (g x)"
  shows "res_mapM f xs = Ok (map g xs)"
  using assms by (induction xs) auto

lemma res_mapM_no_Panic:
  assumes "\<And>x m. x \<in> set xs \<Longrightarrow> f x \<noteq> Panic m"
  shows "res_mapM f xs \<noteq> Panic m"
  using assms by (induction xs) (auto simp: res_simps)

lemma list_all2_mem_right:
  "list_all2 P xs ys \<Longrightarrow> y \<in> set ys \<Longrightarrow> \<exists>x\<in>set xs. P x y"
  by (induction rule: list_all2_induct) auto

section \<open>Strings\<close>

text \<open>
  \<open>str::trim_start_matches("0x")\<close> removes every leading occurrence of the pattern, not only the
  first one.
\<close>

function trim_start_0x :: "string \<Rightarrow> string" where
  "trim_start_0x s = (if take 2 s = ''0x'' then trim_start_0x (drop 2 s) else s)"
  by pat_completeness auto
termination
proof (relation "measure length")
  fix s :: string
  assume "take 2 s = ''0x''"
  then have "s \<noteq> []" by auto
  then show "(drop 2 s, s) \<in> measure length" by simp
qed simp

declare trim_start_0x.simps [simp del]

lemma trim_start_0x_id [simp]: "take 2 s \<noteq> ''0x'' \<Longrightarrow> trim_start_0x s = s"
  by (simp add: trim_start_0x.simps)

lemma trim_start_0x_prefix [simp]: "trim_start_0x (CHR ''0'' # CHR ''x'' # s) = trim_start_0x s"
  by (subst trim_start_0x.simps) simp

text \<open>
  \<open>str::to_lowercase\<close> on the ASCII range. Strings are byte strings; a byte outside ASCII is kept,
  and no code point outside ASCII has a lower case inside the names the sources compare with.
\<close>

definition ascii_lower :: "char \<Rightarrow> char" where
  "ascii_lower c =
     (let n = (of_char c :: nat) in if 65 \<le> n \<and> n \<le> 90 then char_of (n + 32) else c)"

definition to_lowercase :: "string \<Rightarrow> string" where
  "to_lowercase s = map ascii_lower s"

lemma ascii_lower_idem [simp]: "ascii_lower (ascii_lower c) = ascii_lower c"
proof (cases "65 \<le> (of_char c :: nat) \<and> (of_char c :: nat) \<le> 90")
  case True
  then have "of_char (char_of (of_char c + 32 :: nat)) = (of_char c + 32 :: nat)" by simp
  with True show ?thesis by (simp add: ascii_lower_def Let_def)
next
  case False
  then show ?thesis by (auto simp: ascii_lower_def Let_def)
qed

lemma to_lowercase_idem [simp]: "to_lowercase (to_lowercase s) = to_lowercase s"
  by (simp add: to_lowercase_def)

text \<open>The decimal rendering of an unsigned integer.\<close>

fun nat_to_string :: "nat \<Rightarrow> string" where
  "nat_to_string n =
     (if n < 10 then [char_of (48 + n)]
      else nat_to_string (n div 10) @ [char_of (48 + n mod 10)])"

declare nat_to_string.simps [simp del]

text \<open>\<open>str::contains\<close>.\<close>

definition str_contains :: "string \<Rightarrow> string \<Rightarrow> bool" where
  "str_contains s pat = sublist pat s"

section \<open>Lists and maps\<close>

text \<open>\<open>iter().find(p)\<close>: the first element that satisfies the predicate.\<close>

lemma find_Some_mem: "List.find P xs = Some x \<Longrightarrow> x \<in> set xs \<and> P x"
  by (auto simp: find_Some_iff)

lemma lookup_update_if [simp]:
  "Mapping.lookup (Mapping.update k v m) k' = (if k = k' then Some v else Mapping.lookup m k')"
  by (simp add: Mapping.lookup_update')

lemma lookup_update_fun:
  "Mapping.lookup (Mapping.update k v m) = (Mapping.lookup m)(k \<mapsto> v)"
  by (rule ext) simp

text \<open>\<open>filter_map\<close> over a list, as \<open>Iterator::filter_map\<close> followed by \<open>collect\<close>.\<close>

lemma map_filter_Nil_iff: "List.map_filter f xs = [] \<longleftrightarrow> (\<forall>x\<in>set xs. f x = None)"
  by (induction xs) (auto simp: map_filter_simps split: option.splits)

lemma map_filter_set: "y \<in> set (List.map_filter f xs) \<longleftrightarrow> (\<exists>x\<in>set xs. f x = Some y)"
  by (induction xs) (auto simp: map_filter_simps split: option.splits)

end
