(* ===== verification/Externs.thy ===== *)
theory Externs
  imports Relay_Prelude
begin

text \<open>
  Code that the relay calls and that is not part of the repository. Every such function is a
  field of the record \<open>externs\<close>, an argument of the definitions that use it; nothing is known of
  a field except what a theorem names as a hypothesis. The hypotheses that state documented
  behaviour are the predicates at the end of this theory.

  A point of the BLS curve is represented by its compressed encoding, the only thing the sources
  read of it: 48 bytes for a public key, 96 for a signature; a secret key by its 32 bytes.
\<close>

text \<open>The error codes of the \<open>blst\<close> crate.\<close>

datatype BLST_ERROR =
    BLST_SUCCESS
  | BLST_BAD_ENCODING
  | BLST_POINT_NOT_ON_CURVE
  | BLST_POINT_NOT_IN_GROUP
  | BLST_AGGR_TYPE_MISMATCH
  | BLST_VERIFY_FAIL
  | BLST_PK_IS_INFINITY
  | BLST_BAD_SCALAR

type_synonym Hash256 = bytes

text \<open>Values of \<open>serde_json\<close>; \<open>JOther\<close> are null and the numbers that are not natural.\<close>

datatype Json =
    JString string
  | JNumber nat
  | JBool bool
  | JSeq "Json list"
  | JObject "(string \<times> Json) list"
  | JOther

text \<open>
  \<open>th_container\<close> is the root that \<open>derive(TreeHash)\<close> computes from the roots of the fields, in
  the order of the declaration; \<open>th_variable_list\<close> and \<open>th_fixed_vector\<close> are the roots of the
  \<open>ssz_types\<close> containers of composite elements, from the maximal length and the element roots,
  and the \<open>_bytes\<close>, \<open>_u64\<close> and \<open>_bits\<close> variants are those of basic elements.
\<close>

record externs =
  \<comment> \<open>\<open>blst::min_pk\<close>\<close>
  blst_pk_from_bytes :: "bytes \<Rightarrow> (bytes, BLST_ERROR) res"
  blst_pk_default :: bytes
  blst_pk_key_validate :: "bytes \<Rightarrow> (bytes, BLST_ERROR) res"
  blst_sig_from_bytes :: "bytes \<Rightarrow> (bytes, BLST_ERROR) res"
  blst_sig_verify :: "bytes \<Rightarrow> bool \<Rightarrow> bytes \<Rightarrow> bytes \<Rightarrow> bytes \<Rightarrow> bytes \<Rightarrow> bool \<Rightarrow> BLST_ERROR"
  blst_sk_from_bytes :: "bytes \<Rightarrow> (bytes, BLST_ERROR) res"
  blst_sk_key_gen :: "bytes \<Rightarrow> bytes \<Rightarrow> (bytes, BLST_ERROR) res"
  blst_sk_to_pk :: "bytes \<Rightarrow> bytes"
  blst_sk_sign :: "bytes \<Rightarrow> bytes \<Rightarrow> bytes \<Rightarrow> bytes \<Rightarrow> bytes"
  \<comment> \<open>\<open>tree_hash\<close>, \<open>tree_hash_derive\<close> and the \<open>ssz_types\<close> containers\<close>
  th_container :: "Hash256 list \<Rightarrow> Hash256"
  th_u64 :: "u64 \<Rightarrow> Hash256"
  th_u8_array :: "bytes \<Rightarrow> Hash256"
  th_hash256 :: "Hash256 \<Rightarrow> Hash256"
  th_merkle_root :: "bytes \<Rightarrow> nat \<Rightarrow> Hash256"
  th_fixed_vector_bytes :: "nat \<Rightarrow> bytes \<Rightarrow> Hash256"
  th_variable_list_bytes :: "nat \<Rightarrow> bytes \<Rightarrow> Hash256"
  th_variable_list_u64 :: "nat \<Rightarrow> u64 list \<Rightarrow> Hash256"
  th_variable_list :: "nat \<Rightarrow> Hash256 list \<Rightarrow> Hash256"
  th_fixed_vector :: "nat \<Rightarrow> Hash256 list \<Rightarrow> Hash256"
  th_bitlist :: "nat \<Rightarrow> bool list \<Rightarrow> Hash256"
  th_bitvector :: "nat \<Rightarrow> bool list \<Rightarrow> Hash256"
  fixed_vector_from :: "nat \<Rightarrow> bytes \<Rightarrow> bytes"
  fixed_vector_new_ok :: "nat \<Rightarrow> nat \<Rightarrow> bool"
  variable_list_from :: "nat \<Rightarrow> bytes \<Rightarrow> bytes"
  variable_list_new_ok :: "nat \<Rightarrow> nat \<Rightarrow> bool"
  keccak256 :: "bytes \<Rightarrow> Hash256"
  \<comment> \<open>\<open>ruint\<close> and \<open>alloy_primitives\<close>\<close>
  u256_from_str :: "string \<Rightarrow> (u256, string) res"
  u256_to_string :: "u256 \<Rightarrow> string"
  u256_from_be_slice :: "bytes \<Rightarrow> u256"
  u256_as_le_slice :: "u256 \<Rightarrow> bytes"
  u256_try_into_u64 :: "u256 \<Rightarrow> u64 option"
  b256_from_str :: "string \<Rightarrow> (bytes, string) res"
  hash256_from_str :: "string \<Rightarrow> (bytes, string) res"
  address_from_str :: "string \<Rightarrow> (bytes, string) res"
  \<comment> \<open>\<open>hex\<close> and \<open>serde_utils::hex\<close>\<close>
  hex_decode :: "string \<Rightarrow> (bytes, string) res"
  hex_encode :: "bytes \<Rightarrow> string"
  serde_hex_decode :: "string \<Rightarrow> (bytes, string) res"
  serde_hex_encode :: "bytes \<Rightarrow> string"
  \<comment> \<open>\<open>Serialize\<close> and \<open>Deserialize\<close> of \<open>alloy_primitives\<close>, \<open>ruint\<close> and \<open>ssz_types\<close>\<close>
  fixed_bytes_to_serde :: "bytes \<Rightarrow> Json"
  fixed_bytes_from_serde :: "nat \<Rightarrow> Json \<Rightarrow> (bytes, string) res"
  u256_to_serde :: "u256 \<Rightarrow> Json"
  u256_from_serde :: "Json \<Rightarrow> (u256, string) res"
  bitlist_to_serde :: "nat \<Rightarrow> bool list \<Rightarrow> Json"
  bitlist_from_serde :: "nat \<Rightarrow> Json \<Rightarrow> (bool list, string) res"
  bitvector_to_serde :: "nat \<Rightarrow> bool list \<Rightarrow> Json"
  bitvector_from_serde :: "nat \<Rightarrow> Json \<Rightarrow> (bool list, string) res"
  variable_list_serde_ok :: "nat \<Rightarrow> nat \<Rightarrow> bool"
  fixed_vector_serde_ok :: "nat \<Rightarrow> nat \<Rightarrow> bool"
  ssz_error_debug :: "nat \<Rightarrow> nat \<Rightarrow> string"

section \<open>Documented behaviour, as named hypotheses\<close>

text \<open>
  The encodings of \<open>blst\<close>: \<open>from_bytes\<close>, \<open>key_validate\<close> and \<open>from_bytes\<close> of a signature give a
  point, whose compressed form has the documented length, and read back a compressed point.
\<close>

definition blst_encodings :: "externs \<Rightarrow> bool" where
  "blst_encodings X \<longleftrightarrow>
     (\<forall>bs p. blst_pk_from_bytes X bs = Ok p \<longrightarrow> length p = 48) \<and>
     (\<forall>bs p. blst_pk_key_validate X bs = Ok p \<longrightarrow> length p = 48) \<and>
     (\<forall>bs p. length bs = 48 \<longrightarrow> blst_pk_key_validate X bs = Ok p \<longrightarrow> p = bs) \<and>
     (\<forall>bs s. blst_sig_from_bytes X bs = Ok s \<longrightarrow> length s = 96) \<and>
     (\<forall>bs s. length bs = 96 \<longrightarrow> blst_sig_from_bytes X bs = Ok s \<longrightarrow> s = bs) \<and>
     (\<forall>bs k. blst_sk_from_bytes X bs = Ok k \<longrightarrow> k = bs)"

text \<open>
  The keys of \<open>blst\<close>: \<open>key_gen\<close> gives a key for 32 bytes of entropy; the public key of a key that it
  gave is a compressed point of the group other than the one at infinity; a key is read back from its
  bytes, which are not all zero. \<open>PublicKey::default()\<close> is the point at infinity.
\<close>

definition blst_keys :: "externs \<Rightarrow> bool" where
  "blst_keys X \<longleftrightarrow>
     (\<forall>ikm. length ikm = 32 \<longrightarrow> (\<exists>k. blst_sk_key_gen X ikm [] = Ok k)) \<and>
     (\<forall>ikm info k. blst_sk_key_gen X ikm info = Ok k \<longrightarrow>
        length k = 32 \<and> k \<noteq> replicate 32 0 \<and> blst_sk_from_bytes X k = Ok k \<and>
        length (blst_sk_to_pk X k) = 48 \<and> blst_sk_to_pk X k \<noteq> 0xc0 # replicate 47 0 \<and>
        blst_pk_from_bytes X (blst_sk_to_pk X k) = Ok (blst_sk_to_pk X k) \<and>
        blst_pk_key_validate X (blst_sk_to_pk X k) = Ok (blst_sk_to_pk X k)) \<and>
     blst_pk_default X = 0xc0 # replicate 47 0 \<and>
     blst_pk_from_bytes X (blst_pk_default X) = Ok (blst_pk_default X)"

text \<open>A signature that \<open>blst\<close> makes is verified against the key that belongs to it.\<close>

definition blst_correct :: "externs \<Rightarrow> bool" where
  "blst_correct X \<longleftrightarrow>
     (\<forall>sk msg dst aug. blst_sig_verify X (blst_sk_sign X sk msg dst aug) True msg dst aug
        (blst_sk_to_pk X sk) False = BLST_SUCCESS)"

text \<open>The roots of \<open>tree_hash\<close> have 32 bytes.\<close>

definition tree_hash_width :: "externs \<Rightarrow> bool" where
  "tree_hash_width X \<longleftrightarrow>
     (\<forall>rs. length (th_container X rs) = 32) \<and> (\<forall>n rs. length (th_variable_list X n rs) = 32)"

text \<open>
  \<open>VariableList::new\<close> and \<open>FixedVector::new\<close> check the length; \<open>From<Vec<_>>\<close> truncates a
  \<open>VariableList\<close> and truncates or pads with zeros a \<open>FixedVector\<close>.
\<close>

definition ssz_containers :: "externs \<Rightarrow> bool" where
  "ssz_containers X \<longleftrightarrow>
     (\<forall>n k. variable_list_new_ok X n k \<longleftrightarrow> k \<le> n) \<and>
     (\<forall>n k. fixed_vector_new_ok X n k \<longleftrightarrow> k = n) \<and>
     (\<forall>n bs. variable_list_from X n bs = take n bs) \<and>
     (\<forall>n bs. fixed_vector_from X n bs = take n bs @ replicate (n - length bs) 0)"

text \<open>A made signature is 96 bytes that read back, and not the all-zero encoding of no signature.\<close>

definition blst_signatures :: "externs \<Rightarrow> bool" where
  "blst_signatures X \<longleftrightarrow>
     (\<forall>sk msg dst aug. length (blst_sk_sign X sk msg dst aug) = 96 \<and>
        blst_sk_sign X sk msg dst aug \<noteq> replicate 96 0 \<and>
        blst_sig_from_bytes X (blst_sk_sign X sk msg dst aug) = Ok (blst_sk_sign X sk msg dst aug))"

text \<open>The byte view of \<open>ruint\<close>'s 256-bit integers: 32 bytes.\<close>

definition u256_slices :: "externs \<Rightarrow> bool" where
  "u256_slices X \<longleftrightarrow> (\<forall>v. length (u256_as_le_slice X v) = 32)"

text \<open>
  \<open>hex::encode\<close> writes two lower-case digits for each byte, \<open>hex::decode\<close> reads such digits back.
\<close>

definition hex_digit :: "nat \<Rightarrow> char" where
  "hex_digit n = ''0123456789abcdef'' ! n"

definition hex_byte :: "u8 \<Rightarrow> string" where
  "hex_byte b = [hex_digit (unat b div 16), hex_digit (unat b mod 16)]"

definition hex_documented :: "externs \<Rightarrow> bool" where
  "hex_documented X \<longleftrightarrow>
     (\<forall>bs. hex_encode X bs = concat (map hex_byte bs)) \<and>
     (\<forall>bs. hex_decode X (hex_encode X bs) = Ok bs) \<and>
     (\<forall>bs. serde_hex_decode X (serde_hex_encode X bs) = Ok bs)"

text \<open>
  \<open>serde_utils::hex\<close> writes a prefix; the fixed-size types read their digits with or without it; an
  integer is read back from its decimal digits.
\<close>

definition texts_documented :: "externs \<Rightarrow> bool" where
  "texts_documented X \<longleftrightarrow>
     (\<forall>bs. serde_hex_encode X bs = ''0x'' @ hex_encode X bs) \<and>
     (\<forall>bs. length bs = 32 \<longrightarrow>
        b256_from_str X (hex_encode X bs) = Ok bs \<and> b256_from_str X (''0x'' @ hex_encode X bs) = Ok bs \<and>
        hash256_from_str X (''0x'' @ hex_encode X bs) = Ok bs) \<and>
     (\<forall>bs. length bs = 20 \<longrightarrow> address_from_str X (''0x'' @ hex_encode X bs) = Ok bs) \<and>
     (\<forall>n < 2 ^ 256. u256_from_str X (nat_to_string n) = Ok (of_nat n)) \<and>
     u256_from_str X ''0x0'' = Ok 0 \<and>
     (\<forall>v. u256_from_str X (u256_to_string X v) = Ok v)"

text \<open>
  In JSON, fixed-size bytes are prefixed hexadecimal digits, and an integer of \<open>ruint\<close> is read back, also
  from decimal digits. A bit field is its SSZ encoding, eight bits to a byte from the lowest on, a bit
  list with a bit that marks its end. A container of \<open>ssz_types\<close> reads a sequence that fits; what it
  does with another length is not assumed.
\<close>

fun bits_bytes :: "bool list \<Rightarrow> bytes" where
  "bits_bytes [] = []"
| "bits_bytes (b # bs) = horner_sum of_bool 2 (take 8 (b # bs)) # bits_bytes (drop 8 (b # bs))"

definition serde_documented :: "externs \<Rightarrow> bool" where
  "serde_documented X \<longleftrightarrow>
     (\<forall>bs. fixed_bytes_to_serde X bs = JString (''0x'' @ hex_encode X bs)) \<and>
     (\<forall>bs. fixed_bytes_from_serde X (length bs) (JString (''0x'' @ hex_encode X bs)) = Ok bs) \<and>
     (\<forall>v. u256_from_serde X (u256_to_serde X v) = Ok v) \<and>
     (\<forall>n < 2 ^ 256. u256_from_serde X (JString (nat_to_string n)) = Ok (of_nat n)) \<and>
     (\<forall>n bs. bitlist_to_serde X n bs = JString (''0x'' @ hex_encode X (bits_bytes (bs @ [True])))) \<and>
     (\<forall>n bs. length bs \<le> n \<longrightarrow> bitlist_from_serde X n (bitlist_to_serde X n bs) = Ok bs) \<and>
     (\<forall>n bs. bitvector_to_serde X n bs = JString (''0x'' @ hex_encode X (bits_bytes bs))) \<and>
     (\<forall>n bs. length bs = n \<longrightarrow> bitvector_from_serde X n (bitvector_to_serde X n bs) = Ok bs) \<and>
     (\<forall>n k. k \<le> n \<longrightarrow> variable_list_serde_ok X n k) \<and> (\<forall>n. fixed_vector_serde_ok X n n)"

lemma hex_digit_neq_x: "n < 16 \<Longrightarrow> hex_digit n \<noteq> CHR ''x''"
proof -
  assume "n < 16"
  then have "hex_digit n \<in> set ''0123456789abcdef''"
    unfolding hex_digit_def by (intro nth_mem) simp
  then show ?thesis by auto
qed

lemma hex_encode_no_0x:
  assumes "hex_documented X"
  shows "take 2 (hex_encode X bs) \<noteq> ''0x''"
proof (cases bs)
  case Nil
  with assms show ?thesis by (simp add: hex_documented_def)
next
  case (Cons b bs')
  have "hex_digit (unat b mod 16) \<noteq> CHR ''x''" by (rule hex_digit_neq_x) simp
  with assms Cons show ?thesis by (simp add: hex_documented_def hex_byte_def)
qed

lemma blst_encodingsD:
  assumes "blst_encodings X"
  shows "blst_pk_from_bytes X bs = Ok p \<Longrightarrow> length p = 48"
    and "blst_pk_key_validate X bs = Ok p \<Longrightarrow> length p = 48"
    and "length bs = 48 \<Longrightarrow> blst_pk_key_validate X bs = Ok p \<Longrightarrow> p = bs"
    and "blst_sig_from_bytes X bs = Ok s \<Longrightarrow> length s = 96"
    and "length bs = 96 \<Longrightarrow> blst_sig_from_bytes X bs = Ok s \<Longrightarrow> s = bs"
    and "blst_sk_from_bytes X bs = Ok k \<Longrightarrow> k = bs"
  using assms unfolding blst_encodings_def by blast+

lemma ssz_containersD [simp]:
  assumes "ssz_containers X"
  shows "variable_list_new_ok X n k \<longleftrightarrow> k \<le> n"
    and "fixed_vector_new_ok X n k \<longleftrightarrow> k = n"
    and "variable_list_from X n bs = take n bs"
    and "fixed_vector_from X n bs = take n bs @ replicate (n - length bs) 0"
  using assms unfolding ssz_containers_def by blast+

end
