(* ===== verification/Types.thy ===== *)
theory Types
  imports Externs
begin

text \<open>
  \<open>crates/primitives/src/types.rs\<close> and \<open>beacon/kzg_commitments.rs\<close>: the newtypes around fixed-width
  byte arrays with their checked conversions from byte vectors, the execution payload and its
  header, and the roots and encodings that the sources define by hand for them
  (\<open>crates/primitives/src/blst/mod.rs\<close>).
\<close>

section \<open>Errors\<close>

datatype ConversionError =
    IncorrectLength string nat nat \<comment> \<open>data type, expected, actual\<close>
  | ParseError string string \<comment> \<open>data type, value\<close>
  | AlloyRlp
  | SszTypes

text \<open>The messages of \<open>thiserror\<close>.\<close>

fun ConversionError_to_string :: "ConversionError \<Rightarrow> string" where
  "ConversionError_to_string (IncorrectLength data_type expected actual) =
     data_type @ '' length mismatch: expected '' @ nat_to_string expected
       @ '', got '' @ nat_to_string actual"
| "ConversionError_to_string (ParseError data_type v) =
     ''Failed to parse '' @ data_type @ '' from provided value: '' @ v"
| "ConversionError_to_string AlloyRlp = ''Failed to parse bytes to tx''"
| "ConversionError_to_string SszTypes = ''Failed to parse ssz types''"

section \<open>Byte arrays\<close>

definition HASHSIZE :: nat where "HASHSIZE = 32"

datatype B256 = B256 (b256_bytes: bytes)

definition B256_zero :: B256 where
  "B256_zero = B256 (replicate 32 0)"

definition B256_to_vec :: "B256 \<Rightarrow> bytes" where
  "B256_to_vec h = b256_bytes h"

definition B256_of_str :: "externs \<Rightarrow> string \<Rightarrow> (B256, string) res" where
  "B256_of_str X s =
     res_bind (res_map_err (\<lambda>e. ''Failed to parse B256: '' @ e) (b256_from_str X s))
       (\<lambda>v. Ok (B256 v))"

definition B256_try_from :: "bytes \<Rightarrow> (B256, ConversionError) res" where
  "B256_try_from bs =
     (if length bs \<noteq> HASHSIZE then Err (IncorrectLength ''HASH'' HASHSIZE (length bs))
      else Ok (B256 bs))"

definition B256_from_hash256 :: "Hash256 \<Rightarrow> B256" where
  "B256_from_hash256 h = B256 h"

definition hash256_from_B256 :: "B256 \<Rightarrow> Hash256" where
  "hash256_from_B256 h = b256_bytes h"

datatype U256 = U256 (u256_val: u256)

definition U256_from_u64 :: "u64 \<Rightarrow> U256" where
  "U256_from_u64 v = U256 (ucast v)"

definition U256_try_from :: "externs \<Rightarrow> bytes \<Rightarrow> (U256, ConversionError) res" where
  "U256_try_from X bs =
     (if length bs \<noteq> HASHSIZE then Err (IncorrectLength ''U256'' HASHSIZE (length bs))
      else Ok (U256 (u256_from_be_slice X bs)))"

definition U256_of_str :: "externs \<Rightarrow> string \<Rightarrow> (U256, string) res" where
  "U256_of_str X s =
     res_bind (res_map_err (\<lambda>e. ''Failed to parse U256: '' @ e) (u256_from_str X s))
       (\<lambda>v. Ok (U256 v))"

definition U256_is_zero :: "U256 \<Rightarrow> bool" where
  "U256_is_zero v \<longleftrightarrow> u256_val v = 0"

text \<open>The derived \<open>PartialOrd\<close> and \<open>Ord\<close> of the newtype: those of the integer inside.\<close>

instantiation U256 :: linorder
begin

definition less_eq_U256 :: "U256 \<Rightarrow> U256 \<Rightarrow> bool" where
  "less_eq_U256 a b \<longleftrightarrow> u256_val a \<le> u256_val b"

definition less_U256 :: "U256 \<Rightarrow> U256 \<Rightarrow> bool" where
  "less_U256 a b \<longleftrightarrow> u256_val a < u256_val b"

instance
  by standard (auto simp: less_eq_U256_def less_U256_def U256.expand)

end

definition U256_ssz_bytes_len :: "U256 \<Rightarrow> nat" where
  "U256_ssz_bytes_len v = 32"

definition U256_ssz_append :: "externs \<Rightarrow> U256 \<Rightarrow> bytes \<Rightarrow> bytes" where
  "U256_ssz_append X v buf = buf @ u256_as_le_slice X (u256_val v)"

datatype Address = Address (address_bytes: bytes)

definition Address_zero :: Address where
  "Address_zero = Address (replicate 20 0)"

definition Address_to_vec :: "Address \<Rightarrow> bytes" where
  "Address_to_vec a = address_bytes a"

definition Address_of_str :: "externs \<Rightarrow> string \<Rightarrow> (Address, string) res" where
  "Address_of_str X s = res_bind (address_from_str X s) (\<lambda>v. Ok (Address v))"

definition Address_try_from :: "bytes \<Rightarrow> (Address, ConversionError) res" where
  "Address_try_from bs =
     (if length bs \<noteq> 20 then Err (IncorrectLength ''Address'' 20 (length bs))
      else Ok (Address bs))"

definition Address_ssz_bytes_len :: "Address \<Rightarrow> nat" where
  "Address_ssz_bytes_len a = 20"

definition Address_ssz_append :: "Address \<Rightarrow> bytes \<Rightarrow> bytes" where
  "Address_ssz_append a buf = buf @ address_bytes a"

datatype Bloom = Bloom (bloom_bytes: bytes)

definition BLOOM_SIZE_BYTES :: nat where "BLOOM_SIZE_BYTES = 256"

definition Bloom_new :: "bytes \<Rightarrow> Bloom" where
  "Bloom_new bs = Bloom bs"

definition Bloom_try_from :: "bytes \<Rightarrow> (Bloom, ConversionError) res" where
  "Bloom_try_from bs =
     (if length bs \<noteq> BLOOM_SIZE_BYTES
      then Err (IncorrectLength ''Bloom'' BLOOM_SIZE_BYTES (length bs))
      else Ok (Bloom bs))"

datatype Bytes = Bytes (bytes_of: bytes)

definition Bytes_of_str :: "externs \<Rightarrow> string \<Rightarrow> (Bytes, string) res" where
  "Bytes_of_str X s =
     res_bind (res_map_err (\<lambda>e. ''Failed to parse Bytes: '' @ e) (hex_decode X (trim_start_0x s)))
       (\<lambda>bs. Ok (Bytes bs))"

definition Bytes_from :: "bytes \<Rightarrow> Bytes" where
  "Bytes_from bs = Bytes bs"

datatype Bytes48 = Bytes48 (bytes48_bytes: bytes)

definition BYTES_PER_COMMITMENT :: nat where "BYTES_PER_COMMITMENT = 48"

datatype KzgCommitment = KzgCommitment (kzg_bytes: bytes)

definition KzgCommitment_from :: "bytes \<Rightarrow> KzgCommitment" where
  "KzgCommitment_from bs = KzgCommitment bs"

definition as_kzg_commitment :: "Bytes48 \<Rightarrow> KzgCommitment" where
  "as_kzg_commitment b = KzgCommitment (bytes48_bytes b)"

definition from_kzg_commitment :: "KzgCommitment \<Rightarrow> Bytes48" where
  "from_kzg_commitment c = Bytes48 (kzg_bytes c)"

definition Bytes48_try_from :: "bytes \<Rightarrow> (Bytes48, ConversionError) res" where
  "Bytes48_try_from bs =
     (if length bs \<noteq> 48 then Err (IncorrectLength ''Bytes48'' 48 (length bs))
      else Ok (Bytes48 bs))"

definition KzgCommitment_of_str :: "externs \<Rightarrow> string \<Rightarrow> (KzgCommitment, string) res" where
  "KzgCommitment_of_str X s =
     res_bind (serde_hex_decode X s) (\<lambda>bs.
       if length bs = BYTES_PER_COMMITMENT then Ok (KzgCommitment bs)
       else Err (''InvalidByteLength: got '' @ nat_to_string (length bs) @ '', expected ''
                 @ nat_to_string BYTES_PER_COMMITMENT))"

text \<open>\<open>Debug\<close>, which \<open>Serialize\<close> also writes, is the full hexadecimal string.\<close>

definition KzgCommitment_serialize :: "externs \<Rightarrow> KzgCommitment \<Rightarrow> string" where
  "KzgCommitment_serialize X c = serde_hex_encode X (kzg_bytes c)"

definition BYTES_PER_BLOB :: nat where "BYTES_PER_BLOB = 131072"

datatype Blob = Blob (blob_bytes: bytes)

definition Blob_try_from :: "bytes \<Rightarrow> (Blob, ConversionError) res" where
  "Blob_try_from bs =
     (if length bs \<noteq> BYTES_PER_BLOB
      then Err (IncorrectLength ''Blob'' BYTES_PER_BLOB (length bs))
      else Ok (Blob bs))"

section \<open>Execution payloads\<close>

record Withdrawal =
  wd_index :: u64
  wd_validator_index :: u64
  wd_address :: Address
  wd_amount :: u64

record ExecutionPayload =
  ep_parent_hash :: B256
  ep_fee_recipient :: Address
  ep_state_root :: B256
  ep_receipts_root :: B256
  ep_logs_bloom :: bytes
  ep_prev_randao :: B256
  ep_block_number :: u64
  ep_gas_limit :: u64
  ep_gas_used :: u64
  ep_timestamp :: u64
  ep_extra_data :: bytes
  ep_base_fee_per_gas :: U256
  ep_block_hash :: B256
  ep_transactions :: "bytes list"
  ep_withdrawals :: "Withdrawal list"
  ep_blob_gas_used :: u64
  ep_excess_blob_gas :: u64

record ExecutionPayloadHeader =
  eph_parent_hash :: B256
  eph_fee_recipient :: Address
  eph_state_root :: B256
  eph_receipts_root :: B256
  eph_logs_bloom :: bytes
  eph_prev_randao :: B256
  eph_block_number :: u64
  eph_gas_limit :: u64
  eph_gas_used :: u64
  eph_timestamp :: u64
  eph_extra_data :: bytes
  eph_base_fee_per_gas :: U256
  eph_block_hash :: B256
  eph_transactions_root :: B256
  eph_withdrawals_root :: B256
  eph_blob_gas_used :: u64
  eph_excess_blob_gas :: u64

record BlobsBundle =
  bb_commitments :: "Bytes48 list"
  bb_proofs :: "KzgCommitment list"
  bb_blobs :: "bytes list"

text \<open>\<open>derive(Default)\<close>: three empty lists.\<close>

definition BlobsBundle_default :: BlobsBundle where
  "BlobsBundle_default = \<lparr>bb_commitments = [], bb_proofs = [], bb_blobs = []\<rparr>"

section \<open>Roots\<close>

definition B256_tree_hash_root :: "B256 \<Rightarrow> Hash256" where
  "B256_tree_hash_root h = hash256_from_B256 h"

definition Bloom_tree_hash_root :: "externs \<Rightarrow> Bloom \<Rightarrow> Hash256" where
  "Bloom_tree_hash_root X b = keccak256 X (bloom_bytes b)"

definition Bytes_tree_hash_root :: "externs \<Rightarrow> Bytes \<Rightarrow> Hash256" where
  "Bytes_tree_hash_root X b = keccak256 X (bytes_of b)"

definition U256_tree_hash_root :: "externs \<Rightarrow> U256 \<Rightarrow> Hash256" where
  "U256_tree_hash_root X v = u256_as_le_slice X (u256_val v)"

text \<open>\<open>result[0..20].copy_from_slice(..)\<close> into a zeroed array of \<open>HASHSIZE\<close> bytes.\<close>

definition Address_tree_hash_root :: "Address \<Rightarrow> Hash256" where
  "Address_tree_hash_root a = address_bytes a @ replicate (HASHSIZE - 20) 0"

definition KzgCommitment_tree_hash_root :: "externs \<Rightarrow> KzgCommitment \<Rightarrow> Hash256" where
  "KzgCommitment_tree_hash_root X c = th_u8_array X (kzg_bytes c)"

definition Withdrawal_tree_hash_root :: "externs \<Rightarrow> Withdrawal \<Rightarrow> Hash256" where
  "Withdrawal_tree_hash_root X w = th_container X
     [th_u64 X (wd_index w), th_u64 X (wd_validator_index w),
      Address_tree_hash_root (wd_address w), th_u64 X (wd_amount w)]"

definition transactions_tree_hash_root :: "externs \<Rightarrow> bytes list \<Rightarrow> Hash256" where
  "transactions_tree_hash_root X txs =
     th_variable_list X 1048576 (map (th_variable_list_bytes X 1073741824) txs)"

definition withdrawals_tree_hash_root :: "externs \<Rightarrow> Withdrawal list \<Rightarrow> Hash256" where
  "withdrawals_tree_hash_root X ws = th_variable_list X 16 (map (Withdrawal_tree_hash_root X) ws)"

definition ExecutionPayloadHeader_tree_hash_root ::
    "externs \<Rightarrow> ExecutionPayloadHeader \<Rightarrow> Hash256" where
  "ExecutionPayloadHeader_tree_hash_root X h = th_container X
     [B256_tree_hash_root (eph_parent_hash h),
      Address_tree_hash_root (eph_fee_recipient h),
      B256_tree_hash_root (eph_state_root h),
      B256_tree_hash_root (eph_receipts_root h),
      th_fixed_vector_bytes X 256 (eph_logs_bloom h),
      B256_tree_hash_root (eph_prev_randao h),
      th_u64 X (eph_block_number h),
      th_u64 X (eph_gas_limit h),
      th_u64 X (eph_gas_used h),
      th_u64 X (eph_timestamp h),
      th_variable_list_bytes X 32 (eph_extra_data h),
      U256_tree_hash_root X (eph_base_fee_per_gas h),
      B256_tree_hash_root (eph_block_hash h),
      B256_tree_hash_root (eph_transactions_root h),
      B256_tree_hash_root (eph_withdrawals_root h),
      th_u64 X (eph_blob_gas_used h),
      th_u64 X (eph_excess_blob_gas h)]"

text \<open>
  \<open>impl From<ExecutionPayload> for ExecutionPayloadHeader\<close> (\<open>beacon/header.rs\<close>): the header keeps
  every scalar field and replaces the two lists by their roots.
\<close>

definition header_from_payload :: "externs \<Rightarrow> ExecutionPayload \<Rightarrow> ExecutionPayloadHeader" where
  "header_from_payload X p =
    \<lparr>eph_parent_hash = ep_parent_hash p,
     eph_fee_recipient = ep_fee_recipient p,
     eph_state_root = ep_state_root p,
     eph_receipts_root = ep_receipts_root p,
     eph_logs_bloom = ep_logs_bloom p,
     eph_prev_randao = ep_prev_randao p,
     eph_block_number = ep_block_number p,
     eph_gas_limit = ep_gas_limit p,
     eph_gas_used = ep_gas_used p,
     eph_timestamp = ep_timestamp p,
     eph_extra_data = ep_extra_data p,
     eph_base_fee_per_gas = ep_base_fee_per_gas p,
     eph_block_hash = ep_block_hash p,
     eph_transactions_root = B256_from_hash256 (transactions_tree_hash_root X (ep_transactions p)),
     eph_withdrawals_root = B256_from_hash256 (withdrawals_tree_hash_root X (ep_withdrawals p)),
     eph_blob_gas_used = ep_blob_gas_used p,
     eph_excess_blob_gas = ep_excess_blob_gas p\<rparr>"

section \<open>Well-formed values\<close>

text \<open>What the Rust types enforce by construction: the lengths of the arrays and lists.\<close>

definition wf_B256 :: "B256 \<Rightarrow> bool" where
  "wf_B256 h \<longleftrightarrow> length (b256_bytes h) = 32"

definition wf_Address :: "Address \<Rightarrow> bool" where
  "wf_Address a \<longleftrightarrow> length (address_bytes a) = 20"

definition wf_Withdrawal :: "Withdrawal \<Rightarrow> bool" where
  "wf_Withdrawal w \<longleftrightarrow> wf_Address (wd_address w)"

definition wf_ExecutionPayload :: "ExecutionPayload \<Rightarrow> bool" where
  "wf_ExecutionPayload p \<longleftrightarrow>
     wf_B256 (ep_parent_hash p) \<and> wf_Address (ep_fee_recipient p) \<and>
     wf_B256 (ep_state_root p) \<and> wf_B256 (ep_receipts_root p) \<and>
     length (ep_logs_bloom p) = 256 \<and> wf_B256 (ep_prev_randao p) \<and>
     length (ep_extra_data p) \<le> 32 \<and> wf_B256 (ep_block_hash p) \<and>
     length (ep_transactions p) \<le> 1048576 \<and>
     (\<forall>t\<in>set (ep_transactions p). length t \<le> 1073741824) \<and>
     length (ep_withdrawals p) \<le> 16 \<and> list_all wf_Withdrawal (ep_withdrawals p)"

section \<open>Lemmas\<close>

lemma B256_try_from_eq_Ok [res_simps]:
  "B256_try_from bs = Ok h \<longleftrightarrow> h = B256 bs \<and> length bs = 32"
  by (auto simp: B256_try_from_def HASHSIZE_def)

lemma Address_try_from_eq_Ok [res_simps]:
  "Address_try_from bs = Ok a \<longleftrightarrow> a = Address bs \<and> length bs = 20"
  by (auto simp: Address_try_from_def)

lemma U256_try_from_eq_Ok [res_simps]:
  "U256_try_from X bs = Ok v \<longleftrightarrow> v = U256 (u256_from_be_slice X bs) \<and> length bs = 32"
  by (auto simp: U256_try_from_def HASHSIZE_def)

lemma Bytes48_try_from_eq_Ok [res_simps]:
  "Bytes48_try_from bs = Ok b \<longleftrightarrow> b = Bytes48 bs \<and> length bs = 48"
  by (auto simp: Bytes48_try_from_def)

lemma try_from_no_Panic [simp]:
  "B256_try_from bs \<noteq> Panic m" "Address_try_from bs \<noteq> Panic m"
  "U256_try_from X bs \<noteq> Panic m" "Bytes48_try_from bs \<noteq> Panic m"
  by (auto simp: B256_try_from_def Address_try_from_def U256_try_from_def Bytes48_try_from_def)

lemma U256_less_iff: "a < b \<longleftrightarrow> u256_val a < u256_val b"
  by (simp add: less_U256_def)

lemma U256_zero_iff [simp]: "U256_is_zero (U256 v) \<longleftrightarrow> v = 0"
  by (simp add: U256_is_zero_def)

section \<open>Properties\<close>

text \<open>
  The checked conversions from byte vectors accept exactly the documented length (32 bytes for a hash,
  20 for an address, 48 for a proof, 256 for a bloom filter, 131072 for a blob), keep the bytes, and
  report both lengths otherwise; none panics.
\<close>

theorem byte_conversions_roundtrip:
  "(case B256_try_from bs of
      Ok h \<Rightarrow> B256_to_vec h = bs \<and> length bs = 32
    | Err e \<Rightarrow> e = IncorrectLength ''HASH'' 32 (length bs) \<and> length bs \<noteq> 32
    | Panic m \<Rightarrow> False) \<and>
   (case Address_try_from bs of
      Ok a \<Rightarrow> Address_to_vec a = bs \<and> length bs = 20
    | Err e \<Rightarrow> e = IncorrectLength ''Address'' 20 (length bs) \<and> length bs \<noteq> 20
    | Panic m \<Rightarrow> False) \<and>
   (case Bytes48_try_from bs of
      Ok b \<Rightarrow> kzg_bytes (as_kzg_commitment b) = bs \<and> length bs = 48
    | Err e \<Rightarrow> e = IncorrectLength ''Bytes48'' 48 (length bs) \<and> length bs \<noteq> 48
    | Panic m \<Rightarrow> False) \<and>
   (case Bloom_try_from bs of
      Ok b \<Rightarrow> bloom_bytes b = bs \<and> length bs = 256
    | Err e \<Rightarrow> e = IncorrectLength ''Bloom'' 256 (length bs) \<and> length bs \<noteq> 256
    | Panic m \<Rightarrow> False) \<and>
   (case Blob_try_from bs of
      Ok b \<Rightarrow> blob_bytes b = bs \<and> length bs = 131072
    | Err e \<Rightarrow> e = IncorrectLength ''Blob'' 131072 (length bs) \<and> length bs \<noteq> 131072
    | Panic m \<Rightarrow> False)"
  by (simp add: B256_try_from_def HASHSIZE_def B256_to_vec_def Address_try_from_def Address_to_vec_def
      Bytes48_try_from_def as_kzg_commitment_def Bloom_try_from_def BLOOM_SIZE_BYTES_def
      Blob_try_from_def BYTES_PER_BLOB_def)

end
