(* ===== verification/Bls.thy ===== *)
theory Bls
  imports Types
begin

text \<open>
  \<open>crates/primitives/src/blst\<close>: public keys, secret keys and signatures around the points of the
  \<open>blst\<close> crate, the signing root, the fork data with the two signing domains, the fork versions
  of the supported chains, and the relay's signer. \<open>GenericPublicKey\<close>, \<open>GenericSecretKey\<close> and
  \<open>GenericSignature\<close> are taken at the \<open>blst\<close> point types, the only instance the crate makes.
\<close>

section \<open>Errors\<close>

datatype BlsError =
    Blst BLST_ERROR
  | InvalidByteLength nat nat \<comment> \<open>got, expected\<close>
  | InvalidSecretKeyLength nat nat \<comment> \<open>got, expected\<close>
  | InvalidInfinityPublicKey
  | InvalidZeroSecretKey

fun BLST_ERROR_debug :: "BLST_ERROR \<Rightarrow> string" where
  "BLST_ERROR_debug BLST_SUCCESS = ''BLST_SUCCESS''"
| "BLST_ERROR_debug BLST_BAD_ENCODING = ''BLST_BAD_ENCODING''"
| "BLST_ERROR_debug BLST_POINT_NOT_ON_CURVE = ''BLST_POINT_NOT_ON_CURVE''"
| "BLST_ERROR_debug BLST_POINT_NOT_IN_GROUP = ''BLST_POINT_NOT_IN_GROUP''"
| "BLST_ERROR_debug BLST_AGGR_TYPE_MISMATCH = ''BLST_AGGR_TYPE_MISMATCH''"
| "BLST_ERROR_debug BLST_VERIFY_FAIL = ''BLST_VERIFY_FAIL''"
| "BLST_ERROR_debug BLST_PK_IS_INFINITY = ''BLST_PK_IS_INFINITY''"
| "BLST_ERROR_debug BLST_BAD_SCALAR = ''BLST_BAD_SCALAR''"

text \<open>The derived \<open>Debug\<close>, which the \<open>FromStr\<close> implementations put in their error.\<close>

fun BlsError_debug :: "BlsError \<Rightarrow> string" where
  "BlsError_debug (Blst e) = ''Blst('' @ BLST_ERROR_debug e @ '')''"
| "BlsError_debug (InvalidByteLength got expected) =
     ''InvalidByteLength { got: '' @ nat_to_string got @ '', expected: ''
       @ nat_to_string expected @ '' }''"
| "BlsError_debug (InvalidSecretKeyLength got expected) =
     ''InvalidSecretKeyLength { got: '' @ nat_to_string got @ '', expected: ''
       @ nat_to_string expected @ '' }''"
| "BlsError_debug InvalidInfinityPublicKey = ''InvalidInfinityPublicKey''"
| "BlsError_debug InvalidZeroSecretKey = ''InvalidZeroSecretKey''"

section \<open>Public keys\<close>

definition PUBLIC_KEY_BYTES_LEN :: nat where "PUBLIC_KEY_BYTES_LEN = 48"

definition INFINITY_PUBLIC_KEY :: bytes where
  "INFINITY_PUBLIC_KEY = 0xc0 # replicate 47 0"

text \<open>
  A key is represented by what \<open>serialize\<close> gives. \<open>PartialEq\<close> and \<open>Hash\<close> compare exactly these
  bytes, so equality of keys in the model is the equality of the source.
\<close>

datatype BlsPublicKey = BlsPublicKey (pk_serialize: bytes)

definition PublicKey_deserialize :: "externs \<Rightarrow> bytes \<Rightarrow> (bytes, BlsError) res" where
  "PublicKey_deserialize X bs =
     (if length bs \<noteq> PUBLIC_KEY_BYTES_LEN
      then Err (InvalidByteLength (length bs) PUBLIC_KEY_BYTES_LEN)
      else res_map_err Blst (blst_pk_key_validate X bs))"

definition BlsPublicKey_deserialize :: "externs \<Rightarrow> bytes \<Rightarrow> (BlsPublicKey, BlsError) res" where
  "BlsPublicKey_deserialize X bs =
     (if bs = INFINITY_PUBLIC_KEY then Err InvalidInfinityPublicKey
      else res_bind (PublicKey_deserialize X bs) (\<lambda>p. Ok (BlsPublicKey p)))"

definition BlsPublicKey_from_vec :: "externs \<Rightarrow> bytes \<Rightarrow> (BlsPublicKey, 'e) res" where
  "BlsPublicKey_from_vec X bs =
     res_bind (expect ''Failed to parse public key'' (blst_pk_from_bytes X bs))
       (\<lambda>p. Ok (BlsPublicKey p))"

definition BlsPublicKey_from_fixed :: "externs \<Rightarrow> bytes \<Rightarrow> (BlsPublicKey, 'e) res" where
  "BlsPublicKey_from_fixed X bs =
     res_bind (expect ''Failed to parse public key from fixed bytes'' (blst_pk_from_bytes X bs))
       (\<lambda>p. Ok (BlsPublicKey p))"

definition BlsPublicKey_of_str :: "externs \<Rightarrow> string \<Rightarrow> (BlsPublicKey, string) res" where
  "BlsPublicKey_of_str X s =
     res_bind (serde_hex_decode X s)
       (\<lambda>bs. res_map_err BlsError_debug (BlsPublicKey_deserialize X bs))"

definition BlsPublicKey_to_string :: "externs \<Rightarrow> BlsPublicKey \<Rightarrow> string" where
  "BlsPublicKey_to_string X k = serde_hex_encode X (pk_serialize k)"

text \<open>\<open>impl_tree_hash!\<close>: the Merkle root of the serialization, in chunks of 32 bytes.\<close>

definition div_ceil :: "nat \<Rightarrow> nat \<Rightarrow> nat" where
  "div_ceil a b = (a + b - 1) div b"

definition BlsPublicKey_tree_hash_root :: "externs \<Rightarrow> BlsPublicKey \<Rightarrow> Hash256" where
  "BlsPublicKey_tree_hash_root X k =
     th_merkle_root X (pk_serialize k) (div_ceil PUBLIC_KEY_BYTES_LEN 32)"

section \<open>Signatures\<close>

definition SIGNATURE_BYTES_LEN :: nat where "SIGNATURE_BYTES_LEN = 96"

definition DST :: bytes where
  "DST = map of_char ''BLS_SIG_BLS12381G2_XMD:SHA-256_SSWU_RO_POP_''"

definition INFINITY_SIGNATURE :: bytes where
  "INFINITY_SIGNATURE = 0xc0 # replicate 95 0"

definition NONE_SIGNATURE :: bytes where
  "NONE_SIGNATURE = replicate SIGNATURE_BYTES_LEN 0"

record BlsSignature =
  sig_point :: "bytes option"
  sig_is_infinity :: bool

definition BlsSignature_empty :: BlsSignature where
  "BlsSignature_empty = \<lparr>sig_point = None, sig_is_infinity = False\<rparr>"

definition BlsSignature_is_empty :: "BlsSignature \<Rightarrow> bool" where
  "BlsSignature_is_empty s \<longleftrightarrow> sig_point s = None"

definition BlsSignature_serialize :: "BlsSignature \<Rightarrow> bytes" where
  "BlsSignature_serialize s =
     (case sig_point s of Some p \<Rightarrow> p | None \<Rightarrow> NONE_SIGNATURE)"

definition BlsSignature_deserialize :: "externs \<Rightarrow> bytes \<Rightarrow> (BlsSignature, BlsError) res" where
  "BlsSignature_deserialize X bs =
     res_bind
       (if bs = NONE_SIGNATURE then Ok None
        else res_bind (res_map_err Blst (blst_sig_from_bytes X bs)) (\<lambda>p. Ok (Some p)))
       (\<lambda>point. Ok \<lparr>sig_point = point, sig_is_infinity = (bs = INFINITY_SIGNATURE)\<rparr>)"

definition BlsSignature_from_point :: "bytes \<Rightarrow> bool \<Rightarrow> BlsSignature" where
  "BlsSignature_from_point p infinity = \<lparr>sig_point = Some p, sig_is_infinity = infinity\<rparr>"

definition BlsSignature_from_vec :: "externs \<Rightarrow> bytes \<Rightarrow> (BlsSignature, 'e) res" where
  "BlsSignature_from_vec X bs =
     res_bind (expect ''Failed to parse signature'' (blst_sig_from_bytes X bs))
       (\<lambda>p. Ok (BlsSignature_from_point p False))"

definition Signature_verify :: "externs \<Rightarrow> bytes \<Rightarrow> bytes \<Rightarrow> Hash256 \<Rightarrow> bool" where
  "Signature_verify X sig pubkey msg \<longleftrightarrow>
     blst_sig_verify X sig True msg DST [] pubkey False = BLST_SUCCESS"

definition BlsSignature_verify :: "externs \<Rightarrow> BlsSignature \<Rightarrow> BlsPublicKey \<Rightarrow> Hash256 \<Rightarrow> bool" where
  "BlsSignature_verify X s pubkey msg =
     (case sig_point s of
        Some point \<Rightarrow> Signature_verify X point (pk_serialize pubkey) msg
      | None \<Rightarrow> False)"

definition BlsSignature_of_str :: "externs \<Rightarrow> string \<Rightarrow> (BlsSignature, string) res" where
  "BlsSignature_of_str X s =
     res_bind (serde_hex_decode X s)
       (\<lambda>bs. res_map_err BlsError_debug (BlsSignature_deserialize X bs))"

definition BlsSignature_tree_hash_root :: "externs \<Rightarrow> BlsSignature \<Rightarrow> Hash256" where
  "BlsSignature_tree_hash_root X s =
     th_merkle_root X (BlsSignature_serialize s) (div_ceil SIGNATURE_BYTES_LEN 32)"

text \<open>\<open>impl_ssz_encode!\<close> and \<open>impl_ssz_decode!\<close> at the width of the key and of the signature.\<close>

datatype DecodeError = SszInvalidByteLength nat nat | BytesInvalid string

definition BlsPublicKey_ssz_append :: "BlsPublicKey \<Rightarrow> bytes \<Rightarrow> bytes" where
  "BlsPublicKey_ssz_append k buf = buf @ pk_serialize k"

definition BlsSignature_ssz_append :: "BlsSignature \<Rightarrow> bytes \<Rightarrow> bytes" where
  "BlsSignature_ssz_append s buf = buf @ BlsSignature_serialize s"

definition BlsPublicKey_from_ssz_bytes :: "externs \<Rightarrow> bytes \<Rightarrow> (BlsPublicKey, DecodeError) res" where
  "BlsPublicKey_from_ssz_bytes X bs =
     (if length bs \<noteq> PUBLIC_KEY_BYTES_LEN
      then Err (SszInvalidByteLength (length bs) PUBLIC_KEY_BYTES_LEN)
      else res_map_err (\<lambda>e. BytesInvalid (BlsError_debug e)) (BlsPublicKey_deserialize X bs))"

definition BlsSignature_from_ssz_bytes :: "externs \<Rightarrow> bytes \<Rightarrow> (BlsSignature, DecodeError) res" where
  "BlsSignature_from_ssz_bytes X bs =
     (if length bs \<noteq> SIGNATURE_BYTES_LEN
      then Err (SszInvalidByteLength (length bs) SIGNATURE_BYTES_LEN)
      else res_map_err (\<lambda>e. BytesInvalid (BlsError_debug e)) (BlsSignature_deserialize X bs))"

section \<open>Secret keys\<close>

definition SECRET_KEY_BYTES_LEN :: nat where "SECRET_KEY_BYTES_LEN = 32"

datatype BlsSecretKey = BlsSecretKey (sk_serialize: bytes)

definition BlsSecretKey_sign :: "externs \<Rightarrow> BlsSecretKey \<Rightarrow> Hash256 \<Rightarrow> BlsSignature" where
  "BlsSecretKey_sign X sk msg =
     BlsSignature_from_point (blst_sk_sign X (sk_serialize sk) msg DST []) False"

definition BlsSecretKey_public_key :: "externs \<Rightarrow> BlsSecretKey \<Rightarrow> BlsPublicKey" where
  "BlsSecretKey_public_key X sk = BlsPublicKey (blst_sk_to_pk X (sk_serialize sk))"

definition BlsSecretKey_deserialize :: "externs \<Rightarrow> bytes \<Rightarrow> (BlsSecretKey, BlsError) res" where
  "BlsSecretKey_deserialize X bs =
     (if length bs \<noteq> SECRET_KEY_BYTES_LEN
      then Err (InvalidSecretKeyLength (length bs) SECRET_KEY_BYTES_LEN)
      else if list_all (\<lambda>b. b = 0) bs then Err InvalidZeroSecretKey
      else res_bind (res_map_err Blst (blst_sk_from_bytes X bs)) (\<lambda>k. Ok (BlsSecretKey k)))"

definition BlsSecretKey_of_str :: "externs \<Rightarrow> string \<Rightarrow> (BlsSecretKey, string) res" where
  "BlsSecretKey_of_str X s =
     res_bind (serde_hex_decode X s)
       (\<lambda>bs. res_map_err BlsError_debug (BlsSecretKey_deserialize X bs))"

section \<open>Signing roots\<close>

record SigningData =
  sd_object_root :: Hash256
  sd_domain :: Hash256

definition SigningData_tree_hash_root :: "externs \<Rightarrow> SigningData \<Rightarrow> Hash256" where
  "SigningData_tree_hash_root X d =
     th_container X [th_hash256 X (sd_object_root d), th_hash256 X (sd_domain d)]"

text \<open>The provided method of \<open>SignedRoot\<close>, on the tree hash root of the object.\<close>

definition signing_root :: "externs \<Rightarrow> Hash256 \<Rightarrow> Hash256 \<Rightarrow> Hash256" where
  "signing_root X object_root domain =
     SigningData_tree_hash_root X \<lparr>sd_object_root = object_root, sd_domain = domain\<rparr>"

section \<open>Fork data and domains\<close>

record ForkData =
  fd_current_version :: bytes
  fd_genesis_validators_root :: Hash256

definition ForkData_tree_hash_root :: "externs \<Rightarrow> ForkData \<Rightarrow> Hash256" where
  "ForkData_tree_hash_root X fd =
     th_container X [th_u8_array X (fd_current_version fd),
                     th_hash256 X (fd_genesis_validators_root fd)]"

type_synonym Domain = bytes

definition BuilderDomain_default :: bytes where
  "BuilderDomain_default = [0, 0, 0, 1]"

definition ProposerDomain_default :: bytes where
  "ProposerDomain_default = [0, 0, 0, 0]"

definition ForkData_compute_builder_domain :: "externs \<Rightarrow> ForkData \<Rightarrow> Domain" where
  "ForkData_compute_builder_domain X fd =
     BuilderDomain_default @ take 28 (ForkData_tree_hash_root X fd)"

definition ForkData_compute_proposer_domain :: "externs \<Rightarrow> ForkData \<Rightarrow> Domain" where
  "ForkData_compute_proposer_domain X fd =
     ProposerDomain_default @ take 28 (ForkData_tree_hash_root X fd)"

record ForkDatas =
  fds_builder :: ForkData
  fds_proposer :: ForkData

definition from_genesis_and_current_version :: "bytes \<Rightarrow> bytes \<Rightarrow> Hash256 \<Rightarrow> ForkDatas" where
  "from_genesis_and_current_version genesis_fork_version current_version genesis_validators_root =
     \<lparr>fds_builder = \<lparr>fd_current_version = genesis_fork_version,
                     fd_genesis_validators_root = replicate 32 0\<rparr>,
      fds_proposer = \<lparr>fd_current_version = current_version,
                      fd_genesis_validators_root = genesis_validators_root\<rparr>\<rparr>"

definition ForkDatas_new :: "ForkData \<Rightarrow> ForkData \<Rightarrow> ForkDatas" where
  "ForkDatas_new builder proposer = \<lparr>fds_builder = builder, fds_proposer = proposer\<rparr>"

definition compute_builder_domain :: "externs \<Rightarrow> ForkDatas \<Rightarrow> Domain" where
  "compute_builder_domain X fds = ForkData_compute_builder_domain X (fds_builder fds)"

definition compute_proposer_domain :: "externs \<Rightarrow> ForkDatas \<Rightarrow> Domain" where
  "compute_proposer_domain X fds = ForkData_compute_proposer_domain X (fds_proposer fds)"

section \<open>Fork versions\<close>

datatype ForkVersion = ForkVersion (fork_version_bytes: bytes)

text \<open>\<open>NamedChain\<close>: the chains the sources match on; every other one is \<open>OtherChain\<close>.\<close>

datatype NamedChain = Mainnet | Goerli | Holesky | Sepolia | Dev | OtherChain string

definition ForkVersion_of_str :: "externs \<Rightarrow> string \<Rightarrow> (ForkVersion, string) res" where
  "ForkVersion_of_str X s =
     res_bind (res_map_err (\<lambda>e. ''Invalid fork version: '' @ e) (hex_decode X (trim_start_0x s)))
       (\<lambda>bs. if length bs \<noteq> 4 then Err ''Invalid fork version length'' else Ok (ForkVersion bs))"

fun chain_hex_version :: "NamedChain \<Rightarrow> (string, string) res" where
  "chain_hex_version Mainnet = Ok ''0x00000000''"
| "chain_hex_version Goerli = Ok ''0x00001020''"
| "chain_hex_version Holesky = Ok ''0x01017000''"
| "chain_hex_version Sepolia = Ok ''0x90000069''"
| "chain_hex_version Dev = Ok ''0x20000089''"
| "chain_hex_version (OtherChain c) = Err (''Unsupported chain: '' @ c)"

definition try_from_chain :: "externs \<Rightarrow> NamedChain \<Rightarrow> (ForkVersion, string) res" where
  "try_from_chain X chain = res_bind (chain_hex_version chain) (ForkVersion_of_str X)"

section \<open>The signer\<close>

record BlsSigner =
  sg_secret_key :: BlsSecretKey
  sg_fork_data :: ForkDatas

definition BlsSigner_new :: "BlsSecretKey \<Rightarrow> ForkDatas \<Rightarrow> BlsSigner" where
  "BlsSigner_new sk fds = \<lparr>sg_secret_key = sk, sg_fork_data = fds\<rparr>"

definition BlsSigner_sign :: "externs \<Rightarrow> BlsSigner \<Rightarrow> Hash256 \<Rightarrow> BlsSignature" where
  "BlsSigner_sign X sg object_root =
     BlsSecretKey_sign X (sg_secret_key sg)
       (signing_root X object_root (compute_builder_domain X (sg_fork_data sg)))"

definition BlsSigner_proposer_sign :: "externs \<Rightarrow> BlsSigner \<Rightarrow> Hash256 \<Rightarrow> BlsSignature" where
  "BlsSigner_proposer_sign X sg object_root =
     BlsSecretKey_sign X (sg_secret_key sg)
       (signing_root X object_root (compute_proposer_domain X (sg_fork_data sg)))"

definition BlsSigner_public_key :: "externs \<Rightarrow> BlsSigner \<Rightarrow> BlsPublicKey" where
  "BlsSigner_public_key X sg = BlsSecretKey_public_key X (sg_secret_key sg)"

section \<open>Lemmas\<close>

lemma NONE_SIGNATURE_length [simp]: "length NONE_SIGNATURE = 96"
  by (simp add: NONE_SIGNATURE_def SIGNATURE_BYTES_LEN_def)

lemma BlsPublicKey_from_vec_eq_Ok [res_simps]:
  "BlsPublicKey_from_vec X bs = Ok k \<longleftrightarrow> (\<exists>p. blst_pk_from_bytes X bs = Ok p \<and> k = BlsPublicKey p)"
  by (auto simp: BlsPublicKey_from_vec_def res_simps)

lemma BlsPublicKey_from_vec_neq_Err [simp]: "BlsPublicKey_from_vec X bs \<noteq> Err e"
  by (auto simp: BlsPublicKey_from_vec_def res_simps)

lemma BlsSignature_from_vec_eq_Ok [res_simps]:
  "BlsSignature_from_vec X bs = Ok s \<longleftrightarrow>
     (\<exists>p. blst_sig_from_bytes X bs = Ok p \<and> s = BlsSignature_from_point p False)"
  by (auto simp: BlsSignature_from_vec_def res_simps)

lemma BlsSignature_from_vec_neq_Err [simp]: "BlsSignature_from_vec X bs \<noteq> Err e"
  by (auto simp: BlsSignature_from_vec_def res_simps)

lemma BlsPublicKey_deserialize_eq_Ok [res_simps]:
  "BlsPublicKey_deserialize X bs = Ok k \<longleftrightarrow>
     bs \<noteq> INFINITY_PUBLIC_KEY \<and> length bs = 48 \<and>
     (\<exists>p. blst_pk_key_validate X bs = Ok p \<and> k = BlsPublicKey p)"
  by (auto simp: BlsPublicKey_deserialize_def PublicKey_deserialize_def PUBLIC_KEY_BYTES_LEN_def
      res_simps split: if_splits)

lemma empty_never_verifies [simp]: "\<not> BlsSignature_verify X BlsSignature_empty k msg"
  by (simp add: BlsSignature_verify_def BlsSignature_empty_def)

lemma BlsSignature_deserialize_eq_Ok [res_simps]:
  "BlsSignature_deserialize X bs = Ok s \<longleftrightarrow>
     (if bs = NONE_SIGNATURE
      then s = \<lparr>sig_point = None, sig_is_infinity = bs = INFINITY_SIGNATURE\<rparr>
      else \<exists>p. blst_sig_from_bytes X bs = Ok p \<and>
             s = \<lparr>sig_point = Some p, sig_is_infinity = bs = INFINITY_SIGNATURE\<rparr>)"
  by (auto simp: BlsSignature_deserialize_def res_simps)

lemma BlsSignature_deserialize_serialize:
  assumes "blst_encodings X" and "length bs = 96" and "BlsSignature_deserialize X bs = Ok s"
  shows "BlsSignature_serialize s = bs"
proof (cases "bs = NONE_SIGNATURE")
  case True
  with assms(3) show ?thesis by (simp add: BlsSignature_deserialize_eq_Ok BlsSignature_serialize_def)
next
  case False
  with assms(3) obtain p where p: "blst_sig_from_bytes X bs = Ok p" "sig_point s = Some p"
    by (auto simp: BlsSignature_deserialize_eq_Ok)
  with blst_encodingsD(5) [OF assms(1,2)] show ?thesis by (simp add: BlsSignature_serialize_def)
qed

lemma BlsSecretKey_sign_verify:
  assumes "blst_correct X"
  shows "BlsSignature_verify X (BlsSecretKey_sign X sk msg) (BlsSecretKey_public_key X sk) msg"
  using assms by (simp add: BlsSignature_verify_def BlsSecretKey_sign_def BlsSignature_from_point_def
      BlsSecretKey_public_key_def Signature_verify_def blst_correct_def)

lemma BlsSigner_sign_verify:
  assumes "blst_correct X"
  shows "BlsSignature_verify X (BlsSigner_sign X sg root) (BlsSigner_public_key X sg)
     (signing_root X root (compute_builder_domain X (sg_fork_data sg)))"
  unfolding BlsSigner_sign_def BlsSigner_public_key_def
  by (rule BlsSecretKey_sign_verify [OF assms])

lemma builder_domain_length:
  "tree_hash_width X \<Longrightarrow> length (compute_builder_domain X fds) = 32"
  by (simp add: compute_builder_domain_def ForkData_compute_builder_domain_def
      BuilderDomain_default_def ForkData_tree_hash_root_def tree_hash_width_def)

lemma proposer_domain_length:
  "tree_hash_width X \<Longrightarrow> length (compute_proposer_domain X fds) = 32"
  by (simp add: compute_proposer_domain_def ForkData_compute_proposer_domain_def
      ProposerDomain_default_def ForkData_tree_hash_root_def tree_hash_width_def)

section \<open>Properties\<close>

text \<open>
  C22. The two signing domains of a relay are 32 bytes long, start with the domain type of the
  builder (0,0,0,1) and of the beacon proposer (0,0,0,0), and therefore never coincide, whatever
  the two fork data are: a signature asked for under one domain is not one under the other.
\<close>

theorem domains_separated:
  assumes "tree_hash_width X"
  shows "length (compute_builder_domain X fds) = 32 \<and>
     length (compute_proposer_domain X fds') = 32 \<and>
     take 4 (compute_builder_domain X fds) = [0, 0, 0, 1] \<and>
     take 4 (compute_proposer_domain X fds') = [0, 0, 0, 0] \<and>
     compute_builder_domain X fds \<noteq> compute_proposer_domain X fds'"
proof -
  have b: "take 4 (compute_builder_domain X fds) = [0, 0, 0, 1]"
    by (simp add: compute_builder_domain_def ForkData_compute_builder_domain_def
        BuilderDomain_default_def)
  have p: "take 4 (compute_proposer_domain X fds') = [0, 0, 0, 0]"
    by (simp add: compute_proposer_domain_def ForkData_compute_proposer_domain_def
        ProposerDomain_default_def)
  from b p have "compute_builder_domain X fds \<noteq> compute_proposer_domain X fds'" by auto
  with b p show ?thesis
    using builder_domain_length [OF assms] proposer_domain_length [OF assms] by blast
qed

text \<open>
  What the relay's signer signs, its own public key verifies, under the builder domain of its
  fork data; the proposer-domain variant verifies under the proposer domain.
\<close>

theorem signer_roundtrip:
  assumes "blst_correct X"
  shows "BlsSignature_verify X (BlsSigner_sign X sg root) (BlsSigner_public_key X sg)
      (signing_root X root (compute_builder_domain X (sg_fork_data sg))) \<and>
    BlsSignature_verify X (BlsSigner_proposer_sign X sg root) (BlsSigner_public_key X sg)
      (signing_root X root (compute_proposer_domain X (sg_fork_data sg)))"
  unfolding BlsSigner_proposer_sign_def
  using BlsSigner_sign_verify [OF assms, of sg root]
    BlsSecretKey_sign_verify [OF assms, of "sg_secret_key sg"]
  by (simp add: BlsSigner_public_key_def)

text \<open>
  Deserializing a public key accepts exactly the 48-byte strings other than the point at
  infinity that \<open>key_validate\<close> accepts, and the key serializes back to the bytes it was read
  from; every other input is an error and none panics (for a \<open>key_validate\<close> that does not).
\<close>

theorem public_key_deserialize_spec:
  assumes "blst_encodings X" and "\<And>m. blst_pk_key_validate X bs \<noteq> Panic m"
  shows "(case BlsPublicKey_deserialize X bs of
       Ok k \<Rightarrow> pk_serialize k = bs \<and> length bs = 48 \<and> bs \<noteq> INFINITY_PUBLIC_KEY
     | Err e \<Rightarrow> (e = InvalidInfinityPublicKey \<longleftrightarrow> bs = INFINITY_PUBLIC_KEY) \<and>
         (length bs \<noteq> 48 \<longleftrightarrow> e = InvalidByteLength (length bs) 48)
     | Panic m \<Rightarrow> False)"
proof (cases "BlsPublicKey_deserialize X bs")
  case (Ok k)
  then obtain p where "blst_pk_key_validate X bs = Ok p" "k = BlsPublicKey p" "length bs = 48"
    "bs \<noteq> INFINITY_PUBLIC_KEY"
    by (auto simp: BlsPublicKey_deserialize_eq_Ok)
  with blst_encodingsD(3) [OF assms(1)] Ok show ?thesis by simp
next
  case (Err e)
  then show ?thesis
    by (auto simp: BlsPublicKey_deserialize_def PublicKey_deserialize_def PUBLIC_KEY_BYTES_LEN_def
        INFINITY_PUBLIC_KEY_def res_simps split: if_splits)
next
  case (Panic m)
  with assms(2) show ?thesis
    by (auto simp: BlsPublicKey_deserialize_def PublicKey_deserialize_def res_simps
        split: if_splits)
qed

text \<open>
  A secret key is only read from 32 bytes that are not all zero, and it serializes back to
  them.
\<close>

theorem secret_key_deserialize_spec:
  assumes "blst_encodings X" and "BlsSecretKey_deserialize X bs = Ok sk"
  shows "sk_serialize sk = bs \<and> length bs = 32 \<and> (\<exists>b\<in>set bs. b \<noteq> 0)"
  using assms by (auto simp: BlsSecretKey_deserialize_def SECRET_KEY_BYTES_LEN_def res_simps
      list_all_iff dest: blst_encodingsD split: if_splits)

text \<open>
  A signature read from 96 bytes writes the same 96 bytes; the all-zero string is the empty
  signature, the only one that has no point, and the empty signature verifies nothing.
\<close>

theorem signature_roundtrip:
  assumes "blst_encodings X" and "length bs = 96" and "BlsSignature_deserialize X bs = Ok s"
  shows "BlsSignature_serialize s = bs \<and>
    (BlsSignature_is_empty s \<longleftrightarrow> bs = NONE_SIGNATURE) \<and>
    (sig_is_infinity s \<longleftrightarrow> bs = INFINITY_SIGNATURE) \<and>
    (BlsSignature_is_empty s \<longrightarrow> \<not> BlsSignature_verify X s k msg)"
proof -
  from assms(3) have "BlsSignature_is_empty s \<longleftrightarrow> bs = NONE_SIGNATURE"
    and "sig_is_infinity s \<longleftrightarrow> bs = INFINITY_SIGNATURE"
    by (auto simp: BlsSignature_deserialize_eq_Ok BlsSignature_is_empty_def split: if_splits)
  moreover have "BlsSignature_is_empty s \<Longrightarrow> \<not> BlsSignature_verify X s k msg"
    by (simp add: BlsSignature_is_empty_def BlsSignature_verify_def)
  ultimately show ?thesis
    using BlsSignature_deserialize_serialize [OF assms] by blast
qed

text \<open>
  A fork version is read from the hexadecimal digits of exactly four bytes, with any number of
  leading \<open>0x\<close>; the genesis version of each supported chain is the four bytes of its table entry,
  and an unsupported chain is an error.
\<close>

theorem fork_version_spec:
  assumes "hex_documented X"
  shows "ForkVersion_of_str X (''0x'' @ hex_encode X bs) =
      (if length bs = 4 then Ok (ForkVersion bs) else Err ''Invalid fork version length'') \<and>
    ForkVersion_of_str X (''0x0x'' @ hex_encode X bs) = ForkVersion_of_str X (hex_encode X bs) \<and>
    try_from_chain X Mainnet = Ok (ForkVersion [0, 0, 0, 0]) \<and>
    try_from_chain X Goerli = Ok (ForkVersion [0, 0, 0x10, 0x20]) \<and>
    try_from_chain X Holesky = Ok (ForkVersion [0x01, 0x01, 0x70, 0]) \<and>
    try_from_chain X Sepolia = Ok (ForkVersion [0x90, 0, 0, 0x69]) \<and>
    try_from_chain X Dev = Ok (ForkVersion [0x20, 0, 0, 0x89]) \<and>
    try_from_chain X (OtherChain c) = Err (''Unsupported chain: '' @ c)"
proof -
  from assms have dec: "hex_decode X (hex_encode X bs) = Ok bs" for bs
    unfolding hex_documented_def by blast
  from assms have enc: "hex_encode X bs = concat (map hex_byte bs)" for bs
    unfolding hex_documented_def by blast
  have *: "ForkVersion_of_str X (''0x'' @ hex_encode X bs) =
      (if length bs = 4 then Ok (ForkVersion bs) else Err ''Invalid fork version length'')" for bs
    using hex_encode_no_0x [OF assms, of bs] by (simp add: ForkVersion_of_str_def dec)
  have "ForkVersion_of_str X (''0x0x'' @ hex_encode X bs) = ForkVersion_of_str X (hex_encode X bs)"
    using hex_encode_no_0x [OF assms, of bs] by (simp add: ForkVersion_of_str_def)
  moreover have "try_from_chain X Mainnet = Ok (ForkVersion [0, 0, 0, 0])"
    using * [of "[0, 0, 0, 0]"] by (simp add: try_from_chain_def enc hex_byte_def hex_digit_def)
  moreover have "try_from_chain X Goerli = Ok (ForkVersion [0, 0, 0x10, 0x20])"
    using * [of "[0, 0, 0x10, 0x20]"]
    by (simp add: try_from_chain_def enc hex_byte_def hex_digit_def)
  moreover have "try_from_chain X Holesky = Ok (ForkVersion [0x01, 0x01, 0x70, 0])"
    using * [of "[0x01, 0x01, 0x70, 0]"]
    by (simp add: try_from_chain_def enc hex_byte_def hex_digit_def)
  moreover have "try_from_chain X Sepolia = Ok (ForkVersion [0x90, 0, 0, 0x69])"
    using * [of "[0x90, 0, 0, 0x69]"]
    by (simp add: try_from_chain_def enc hex_byte_def hex_digit_def)
  moreover have "try_from_chain X Dev = Ok (ForkVersion [0x20, 0, 0, 0x89])"
    using * [of "[0x20, 0, 0, 0x89]"]
    by (simp add: try_from_chain_def enc hex_byte_def hex_digit_def)
  ultimately show ?thesis
    using * [of bs] by (simp add: try_from_chain_def)
qed

end
