(* ===== verification/Beacon_Types.thy ===== *)
theory Beacon_Types
  imports Bls
begin

text \<open>
  \<open>crates/primitives/src/beacon\<close>: the consensus-layer types. Blinded and unblinded beacon blocks
  (\<open>blinded_block.rs\<close>, \<open>beacon_block.rs\<close>) with the unblinding constructors and the roots under
  which blinded blocks are signed, fork names, versioned responses, validator registrations,
  proposer duties and known validators. The \<open>Arc\<close> around shared values is left out, since no
  code mutates through it.
\<close>

section \<open>Fork names and versioned data\<close>

datatype ForkName = Base | Altair | Merge | Capella | Deneb

definition ForkName_of_str :: "string \<Rightarrow> (ForkName, string) res" where
  "ForkName_of_str fork_name =
     (let s = to_lowercase fork_name in
      if s = ''phase0'' \<or> s = ''base'' then Ok Base
      else if s = ''altair'' then Ok Altair
      else if s = ''bellatrix'' \<or> s = ''merge'' then Ok Merge
      else if s = ''capella'' then Ok Capella
      else if s = ''deneb'' then Ok Deneb
      else Err (''unknown fork name: '' @ fork_name))"

fun ForkName_to_string :: "ForkName \<Rightarrow> string" where
  "ForkName_to_string Base = ''phase0''"
| "ForkName_to_string Altair = ''altair''"
| "ForkName_to_string Merge = ''bellatrix''"
| "ForkName_to_string Capella = ''capella''"
| "ForkName_to_string Deneb = ''deneb''"

record CurrentFork =
  cf_current_version :: string

record ForkDataResp =
  fdr_genesis_time :: string
  fdr_genesis_validators_root :: string
  fdr_fork :: CurrentFork

record GetForkResponse =
  gfr_data :: ForkDataResp

record 'a Versioned =
  ver_version :: ForkName
  ver_data :: 'a

definition Versioned_new :: "ForkName \<Rightarrow> 'a \<Rightarrow> 'a Versioned" where
  "Versioned_new version data = \<lparr>ver_version = version, ver_data = data\<rparr>"

record BlindedBlockResponse =
  bbr_execution_payload :: ExecutionPayload
  bbr_blobs_bundle :: BlobsBundle

section \<open>Registrations, duties and known validators\<close>

record ValidatorRegistrationMessage =
  vrm_fee_recipient :: Address
  vrm_gas_limit :: u64
  vrm_timestamp :: u64
  vrm_pubkey :: BlsPublicKey

record ValidatorRegistration =
  vr_message :: ValidatorRegistrationMessage
  vr_signature :: BlsSignature

definition ValidatorRegistrationMessage_tree_hash_root ::
    "externs \<Rightarrow> ValidatorRegistrationMessage \<Rightarrow> Hash256" where
  "ValidatorRegistrationMessage_tree_hash_root X m = th_container X
     [Address_tree_hash_root (vrm_fee_recipient m), th_u64 X (vrm_gas_limit m),
      th_u64 X (vrm_timestamp m), BlsPublicKey_tree_hash_root X (vrm_pubkey m)]"

definition ValidatorRegistration_verify_signature ::
    "externs \<Rightarrow> ValidatorRegistration \<Rightarrow> ForkData \<Rightarrow> bool" where
  "ValidatorRegistration_verify_signature X r fork_data =
     BlsSignature_verify X (vr_signature r) (vrm_pubkey (vr_message r))
       (signing_root X (ValidatorRegistrationMessage_tree_hash_root X (vr_message r))
         (ForkData_compute_builder_domain X fork_data))"

text \<open>\<open>pubkey\<close> of a duty is the raw 48-byte key of the beacon API.\<close>

record ProposerDutiesData =
  pdd_slot :: u64
  pdd_pubkey :: bytes
  pdd_validator_index :: u64

record ProposerDutiesResponse =
  pdr_data :: "ProposerDutiesData list"

definition merge_with ::
    "ProposerDutiesResponse \<Rightarrow> ProposerDutiesResponse \<Rightarrow> ProposerDutiesData list" where
  "merge_with self other = pdr_data self @ pdr_data other"

record KnownValidator =
  kv_pubkey :: BlsPublicKey
  kv_withdrawal_credentials :: string
  kv_effective_balance :: string
  kv_slashed :: bool
  kv_activation_eligibility_epoch :: u64
  kv_activation_epoch :: u64
  kv_exit_epoch :: u64
  kv_withdrawable_epoch :: u64

record ValidatorEntry =
  ven_index :: u64
  ven_balance :: string
  ven_status :: string
  ven_validator :: KnownValidator

record KnownValidatorResponse =
  kvr_execution_optimistic :: bool
  kvr_finalized :: bool
  kvr_data :: ValidatorEntry

definition is_active :: "KnownValidatorResponse \<Rightarrow> bool" where
  "is_active r = str_contains (ven_status (kvr_data r)) ''active''"

section \<open>Parts of a beacon block body\<close>

record Eth1Data =
  e1_deposit_root :: B256
  e1_deposit_count :: u64
  e1_block_hash :: B256

record BeaconBlockHeader =
  bbh_slot :: u64
  bbh_proposer_index :: u64
  bbh_parent_root :: B256
  bbh_state_root :: B256
  bbh_body_root :: B256

record SignedBeaconBlockHeader =
  sbh_message :: BeaconBlockHeader
  sbh_signature :: BlsSignature

record ProposerSlashing =
  ps_signed_header_1 :: SignedBeaconBlockHeader
  ps_signed_header_2 :: SignedBeaconBlockHeader

record Checkpoint =
  cp_epoch :: u64
  cp_root :: B256

record AttestationData =
  ad_slot :: u64
  ad_index :: u64
  ad_beacon_block_root :: B256
  ad_source :: Checkpoint
  ad_target :: Checkpoint

record IndexedAttestation =
  ia_attesting_indices :: "u64 list"
  ia_data :: AttestationData
  ia_signature :: BlsSignature

record AttesterSlashing =
  as_attestation_1 :: IndexedAttestation
  as_attestation_2 :: IndexedAttestation

record Attestation =
  at_aggregation_bits :: "bool list"
  at_data :: AttestationData
  at_signature :: BlsSignature

record DepositData =
  dd_pubkey :: BlsPublicKey
  dd_withdrawal_credentials :: B256
  dd_amount :: u64
  dd_signature :: BlsSignature

record Deposit =
  dp_proof :: "B256 list"
  dp_data :: DepositData

record VoluntaryExit =
  vx_epoch :: u64
  vx_validator_index :: u64

record SignedVoluntaryExit =
  svx_message :: VoluntaryExit
  svx_signature :: BlsSignature

record SyncAggregate =
  sa_sync_committee_bits :: "bool list"
  sa_sync_committee_signature :: BlsSignature

record BlsToExecutionChange =
  bec_validator_index :: u64
  bec_from_bls_pubkey :: BlsPublicKey
  bec_to_execution_address :: Address

record SignedBlsToExecutionChange =
  sbec_message :: BlsToExecutionChange
  sbec_signature :: BlsSignature

section \<open>Blinded and unblinded blocks\<close>

record BlindedBlockBody =
  blbb_randao_reveal :: BlsSignature
  blbb_eth1_data :: Eth1Data
  blbb_graffiti :: B256
  blbb_proposer_slashings :: "ProposerSlashing list"
  blbb_attester_slashings :: "AttesterSlashing list"
  blbb_attestations :: "Attestation list"
  blbb_deposits :: "Deposit list"
  blbb_voluntary_exits :: "SignedVoluntaryExit list"
  blbb_sync_aggregate :: SyncAggregate
  blbb_execution_payload_header :: ExecutionPayloadHeader
  blbb_bls_to_execution_changes :: "SignedBlsToExecutionChange list"
  blbb_blob_kzg_commitments :: "KzgCommitment list"

record BlindedBlock =
  blb_slot :: u64
  blb_proposer_index :: u64
  blb_parent_root :: B256
  blb_state_root :: B256
  blb_body :: BlindedBlockBody

record SignedBlindedBlock =
  sbl_message :: BlindedBlock
  sbl_signature :: BlsSignature

definition SignedBlindedBlock_slot :: "SignedBlindedBlock \<Rightarrow> u64" where
  "SignedBlindedBlock_slot b = blb_slot (sbl_message b)"

definition SignedBlindedBlock_proposer_index :: "SignedBlindedBlock \<Rightarrow> u64" where
  "SignedBlindedBlock_proposer_index b = blb_proposer_index (sbl_message b)"

definition SignedBlindedBlock_block_hash :: "SignedBlindedBlock \<Rightarrow> B256" where
  "SignedBlindedBlock_block_hash b =
     eph_block_hash (blbb_execution_payload_header (blb_body (sbl_message b)))"

record BeaconBlockBody =
  bcb_randao_reveal :: BlsSignature
  bcb_eth1_data :: Eth1Data
  bcb_graffiti :: B256
  bcb_proposer_slashings :: "ProposerSlashing list"
  bcb_attester_slashings :: "AttesterSlashing list"
  bcb_attestations :: "Attestation list"
  bcb_deposits :: "Deposit list"
  bcb_voluntary_exits :: "SignedVoluntaryExit list"
  bcb_sync_aggregate :: SyncAggregate
  bcb_execution_payload :: ExecutionPayload
  bcb_bls_to_execution_changes :: "SignedBlsToExecutionChange list"
  bcb_blob_kzg_commitments :: "KzgCommitment list"

record BeaconBlock =
  bc_slot :: u64
  bc_proposer_index :: u64
  bc_parent_root :: B256
  bc_state_root :: B256
  bc_body :: BeaconBlockBody

record SignedBeaconBlock =
  sbb_message :: BeaconBlock
  sbb_signature :: BlsSignature

record SignedBeaconBlockContent =
  sbc_signed_block :: SignedBeaconBlock
  sbc_kzg_proofs :: "KzgCommitment list"
  sbc_blobs :: "bytes list"

definition BeaconBlockBody_new :: "ExecutionPayload \<Rightarrow> BlindedBlockBody \<Rightarrow> BeaconBlockBody" where
  "BeaconBlockBody_new execution_payload b =
    \<lparr>bcb_randao_reveal = blbb_randao_reveal b,
     bcb_eth1_data = blbb_eth1_data b,
     bcb_graffiti = blbb_graffiti b,
     bcb_proposer_slashings = blbb_proposer_slashings b,
     bcb_attester_slashings = blbb_attester_slashings b,
     bcb_attestations = blbb_attestations b,
     bcb_deposits = blbb_deposits b,
     bcb_voluntary_exits = blbb_voluntary_exits b,
     bcb_sync_aggregate = blbb_sync_aggregate b,
     bcb_execution_payload = execution_payload,
     bcb_bls_to_execution_changes = blbb_bls_to_execution_changes b,
     bcb_blob_kzg_commitments = blbb_blob_kzg_commitments b\<rparr>"

definition BeaconBlock_new :: "ExecutionPayload \<Rightarrow> BlindedBlock \<Rightarrow> BeaconBlock" where
  "BeaconBlock_new execution_payload b =
    \<lparr>bc_slot = blb_slot b,
     bc_proposer_index = blb_proposer_index b,
     bc_parent_root = blb_parent_root b,
     bc_state_root = blb_state_root b,
     bc_body = BeaconBlockBody_new execution_payload (blb_body b)\<rparr>"

definition SignedBeaconBlock_new ::
    "ExecutionPayload \<Rightarrow> BlindedBlock \<Rightarrow> BlsSignature \<Rightarrow> SignedBeaconBlock" where
  "SignedBeaconBlock_new execution_payload blinded_block blinded_block_sig =
    \<lparr>sbb_message = BeaconBlock_new execution_payload blinded_block,
     sbb_signature = blinded_block_sig\<rparr>"

definition SignedBeaconBlockContent_new ::
    "ExecutionPayload \<Rightarrow> BlindedBlock \<Rightarrow> BlsSignature \<Rightarrow> BlobsBundle \<Rightarrow> SignedBeaconBlockContent" where
  "SignedBeaconBlockContent_new execution_payload blinded_block blinded_block_sig blobs_data =
    \<lparr>sbc_signed_block = SignedBeaconBlock_new execution_payload blinded_block blinded_block_sig,
     sbc_kzg_proofs = bb_proofs blobs_data,
     sbc_blobs = bb_blobs blobs_data\<rparr>"

definition content_execution_payload :: "SignedBeaconBlockContent \<Rightarrow> ExecutionPayload" where
  "content_execution_payload c = bcb_execution_payload (bc_body (sbb_message (sbc_signed_block c)))"

definition content_block_hash :: "SignedBeaconBlockContent \<Rightarrow> B256" where
  "content_block_hash c =
     ep_block_hash (bcb_execution_payload (bc_body (sbb_message (sbc_signed_block c))))"

definition content_extra_data :: "SignedBeaconBlockContent \<Rightarrow> bytes" where
  "content_extra_data c =
     ep_extra_data (bcb_execution_payload (bc_body (sbb_message (sbc_signed_block c))))"

definition content_slot :: "SignedBeaconBlockContent \<Rightarrow> u64" where
  "content_slot c = bc_slot (sbb_message (sbc_signed_block c))"

definition content_block_number :: "SignedBeaconBlockContent \<Rightarrow> u64" where
  "content_block_number c =
     ep_block_number (bcb_execution_payload (bc_body (sbb_message (sbc_signed_block c))))"

definition content_num_txs :: "SignedBeaconBlockContent \<Rightarrow> nat" where
  "content_num_txs c =
     length (ep_transactions (bcb_execution_payload (bc_body (sbb_message (sbc_signed_block c)))))"

section \<open>Roots\<close>

text \<open>
  \<open>derive(TreeHash)\<close> of the parts of a blinded block: the roots of the fields in the order of the
  declaration. A proposer signs the root of the blinded block.
\<close>

definition Eth1Data_root :: "externs \<Rightarrow> Eth1Data \<Rightarrow> Hash256" where
  "Eth1Data_root X d = th_container X
     [B256_tree_hash_root (e1_deposit_root d), th_u64 X (e1_deposit_count d),
      B256_tree_hash_root (e1_block_hash d)]"

definition BeaconBlockHeader_root :: "externs \<Rightarrow> BeaconBlockHeader \<Rightarrow> Hash256" where
  "BeaconBlockHeader_root X h = th_container X
     [th_u64 X (bbh_slot h), th_u64 X (bbh_proposer_index h),
      B256_tree_hash_root (bbh_parent_root h), B256_tree_hash_root (bbh_state_root h),
      B256_tree_hash_root (bbh_body_root h)]"

definition SignedBeaconBlockHeader_root :: "externs \<Rightarrow> SignedBeaconBlockHeader \<Rightarrow> Hash256" where
  "SignedBeaconBlockHeader_root X h = th_container X
     [BeaconBlockHeader_root X (sbh_message h), BlsSignature_tree_hash_root X (sbh_signature h)]"

definition ProposerSlashing_root :: "externs \<Rightarrow> ProposerSlashing \<Rightarrow> Hash256" where
  "ProposerSlashing_root X p = th_container X
     [SignedBeaconBlockHeader_root X (ps_signed_header_1 p),
      SignedBeaconBlockHeader_root X (ps_signed_header_2 p)]"

definition Checkpoint_root :: "externs \<Rightarrow> Checkpoint \<Rightarrow> Hash256" where
  "Checkpoint_root X c = th_container X
     [th_u64 X (cp_epoch c), B256_tree_hash_root (cp_root c)]"

definition AttestationData_root :: "externs \<Rightarrow> AttestationData \<Rightarrow> Hash256" where
  "AttestationData_root X d = th_container X
     [th_u64 X (ad_slot d), th_u64 X (ad_index d),
      B256_tree_hash_root (ad_beacon_block_root d), Checkpoint_root X (ad_source d),
      Checkpoint_root X (ad_target d)]"

definition IndexedAttestation_root :: "externs \<Rightarrow> IndexedAttestation \<Rightarrow> Hash256" where
  "IndexedAttestation_root X a = th_container X
     [th_variable_list_u64 X 2048 (ia_attesting_indices a), AttestationData_root X (ia_data a),
      BlsSignature_tree_hash_root X (ia_signature a)]"

definition AttesterSlashing_root :: "externs \<Rightarrow> AttesterSlashing \<Rightarrow> Hash256" where
  "AttesterSlashing_root X s = th_container X
     [IndexedAttestation_root X (as_attestation_1 s),
      IndexedAttestation_root X (as_attestation_2 s)]"

definition Attestation_root :: "externs \<Rightarrow> Attestation \<Rightarrow> Hash256" where
  "Attestation_root X a = th_container X
     [th_bitlist X 2048 (at_aggregation_bits a), AttestationData_root X (at_data a),
      BlsSignature_tree_hash_root X (at_signature a)]"

definition DepositData_root :: "externs \<Rightarrow> DepositData \<Rightarrow> Hash256" where
  "DepositData_root X d = th_container X
     [BlsPublicKey_tree_hash_root X (dd_pubkey d),
      B256_tree_hash_root (dd_withdrawal_credentials d), th_u64 X (dd_amount d),
      BlsSignature_tree_hash_root X (dd_signature d)]"

definition Deposit_root :: "externs \<Rightarrow> Deposit \<Rightarrow> Hash256" where
  "Deposit_root X d = th_container X
     [th_fixed_vector X 33 (map B256_tree_hash_root (dp_proof d)), DepositData_root X (dp_data d)]"

definition VoluntaryExit_root :: "externs \<Rightarrow> VoluntaryExit \<Rightarrow> Hash256" where
  "VoluntaryExit_root X v = th_container X
     [th_u64 X (vx_epoch v), th_u64 X (vx_validator_index v)]"

definition SignedVoluntaryExit_root :: "externs \<Rightarrow> SignedVoluntaryExit \<Rightarrow> Hash256" where
  "SignedVoluntaryExit_root X v = th_container X
     [VoluntaryExit_root X (svx_message v), BlsSignature_tree_hash_root X (svx_signature v)]"

definition SyncAggregate_root :: "externs \<Rightarrow> SyncAggregate \<Rightarrow> Hash256" where
  "SyncAggregate_root X s = th_container X
     [th_bitvector X 512 (sa_sync_committee_bits s),
      BlsSignature_tree_hash_root X (sa_sync_committee_signature s)]"

definition BlsToExecutionChange_root :: "externs \<Rightarrow> BlsToExecutionChange \<Rightarrow> Hash256" where
  "BlsToExecutionChange_root X c = th_container X
     [th_u64 X (bec_validator_index c), BlsPublicKey_tree_hash_root X (bec_from_bls_pubkey c),
      Address_tree_hash_root (bec_to_execution_address c)]"

definition SignedBlsToExecutionChange_root ::
    "externs \<Rightarrow> SignedBlsToExecutionChange \<Rightarrow> Hash256" where
  "SignedBlsToExecutionChange_root X c = th_container X
     [BlsToExecutionChange_root X (sbec_message c),
      BlsSignature_tree_hash_root X (sbec_signature c)]"

definition BlindedBlockBody_tree_hash_root :: "externs \<Rightarrow> BlindedBlockBody \<Rightarrow> Hash256" where
  "BlindedBlockBody_tree_hash_root X b = th_container X
     [BlsSignature_tree_hash_root X (blbb_randao_reveal b),
      Eth1Data_root X (blbb_eth1_data b),
      B256_tree_hash_root (blbb_graffiti b),
      th_variable_list X 16 (map (ProposerSlashing_root X) (blbb_proposer_slashings b)),
      th_variable_list X 2 (map (AttesterSlashing_root X) (blbb_attester_slashings b)),
      th_variable_list X 128 (map (Attestation_root X) (blbb_attestations b)),
      th_variable_list X 16 (map (Deposit_root X) (blbb_deposits b)),
      th_variable_list X 16 (map (SignedVoluntaryExit_root X) (blbb_voluntary_exits b)),
      SyncAggregate_root X (blbb_sync_aggregate b),
      ExecutionPayloadHeader_tree_hash_root X (blbb_execution_payload_header b),
      th_variable_list X 16
        (map (SignedBlsToExecutionChange_root X) (blbb_bls_to_execution_changes b)),
      th_variable_list X 4096 (map (KzgCommitment_tree_hash_root X) (blbb_blob_kzg_commitments b))]"

definition BlindedBlock_tree_hash_root :: "externs \<Rightarrow> BlindedBlock \<Rightarrow> Hash256" where
  "BlindedBlock_tree_hash_root X b = th_container X
     [th_u64 X (blb_slot b), th_u64 X (blb_proposer_index b),
      B256_tree_hash_root (blb_parent_root b), B256_tree_hash_root (blb_state_root b),
      BlindedBlockBody_tree_hash_root X (blb_body b)]"

section \<open>Lemmas\<close>

lemmas content_defs =
  content_execution_payload_def content_block_hash_def content_extra_data_def content_slot_def
  content_block_number_def content_num_txs_def SignedBeaconBlockContent_new_def
  SignedBeaconBlock_new_def BeaconBlock_new_def BeaconBlockBody_new_def

lemma content_new [simp]:
  "content_execution_payload (SignedBeaconBlockContent_new p b sig bundle) = p"
  "content_block_hash (SignedBeaconBlockContent_new p b sig bundle) = ep_block_hash p"
  "content_extra_data (SignedBeaconBlockContent_new p b sig bundle) = ep_extra_data p"
  "content_slot (SignedBeaconBlockContent_new p b sig bundle) = blb_slot b"
  "content_block_number (SignedBeaconBlockContent_new p b sig bundle) = ep_block_number p"
  "content_num_txs (SignedBeaconBlockContent_new p b sig bundle) = length (ep_transactions p)"
  "sbb_signature (sbc_signed_block (SignedBeaconBlockContent_new p b sig bundle)) = sig"
  "sbc_kzg_proofs (SignedBeaconBlockContent_new p b sig bundle) = bb_proofs bundle"
  "sbc_blobs (SignedBeaconBlockContent_new p b sig bundle) = bb_blobs bundle"
  by (simp_all add: content_defs)

text \<open>
  The block that results from unblinding, blinded again: its payload replaced by a header.
  Unblinding loses nothing of the blinded block but the header.
\<close>

definition reblind :: "ExecutionPayloadHeader \<Rightarrow> BeaconBlock \<Rightarrow> BlindedBlock" where
  "reblind h b =
    \<lparr>blb_slot = bc_slot b,
     blb_proposer_index = bc_proposer_index b,
     blb_parent_root = bc_parent_root b,
     blb_state_root = bc_state_root b,
     blb_body =
       (let d = bc_body b in
        \<lparr>blbb_randao_reveal = bcb_randao_reveal d,
         blbb_eth1_data = bcb_eth1_data d,
         blbb_graffiti = bcb_graffiti d,
         blbb_proposer_slashings = bcb_proposer_slashings d,
         blbb_attester_slashings = bcb_attester_slashings d,
         blbb_attestations = bcb_attestations d,
         blbb_deposits = bcb_deposits d,
         blbb_voluntary_exits = bcb_voluntary_exits d,
         blbb_sync_aggregate = bcb_sync_aggregate d,
         blbb_execution_payload_header = h,
         blbb_bls_to_execution_changes = bcb_bls_to_execution_changes d,
         blbb_blob_kzg_commitments = bcb_blob_kzg_commitments d\<rparr>)\<rparr>"

lemma reblind_new:
  "reblind (blbb_execution_payload_header (blb_body b)) (BeaconBlock_new p b) = b"
  by (simp add: reblind_def BeaconBlock_new_def BeaconBlockBody_new_def Let_def)

text \<open>
  The header commits to the payload: two payloads with the same header agree on every field other
  than the two lists, and on the roots of the lists.
\<close>

lemma eph_block_hash_from_payload [simp]:
  "eph_block_hash (header_from_payload X p) = ep_block_hash p"
  by (simp add: header_from_payload_def)

section \<open>Properties\<close>

text \<open>
  C37. Unblinding a block keeps all of the blinded block: reading the header back into the
  unblinded block gives the block the proposer signed, hence its signing root; the signature, the
  proofs and the blobs are those given, and the payload is the one passed in, unchanged.
\<close>

theorem unblinding_keeps_block:
  "let c = SignedBeaconBlockContent_new p b sig bundle;
       h = blbb_execution_payload_header (blb_body b) in
     reblind h (sbb_message (sbc_signed_block c)) = b \<and>
     BlindedBlock_tree_hash_root X (reblind h (sbb_message (sbc_signed_block c)))
       = BlindedBlock_tree_hash_root X b \<and>
     sbb_signature (sbc_signed_block c) = sig \<and>
     content_execution_payload c = p \<and> content_slot c = blb_slot b \<and>
     sbc_kzg_proofs c = bb_proofs bundle \<and> sbc_blobs c = bb_blobs bundle"
  using reblind_new [of b p]
  by (simp add: Let_def SignedBeaconBlockContent_new_def SignedBeaconBlock_new_def content_defs)

text \<open>
  Every fork name reads back from the name it is written as, and the two aliases of the first
  and third fork read as them, whatever the case of the letters.
\<close>

theorem fork_name_roundtrip:
  "ForkName_of_str (ForkName_to_string f) = Ok f \<and>
   ForkName_of_str ''base'' = Ok Base \<and> ForkName_of_str ''merge'' = Ok Merge \<and>
   is_ok (ForkName_of_str (to_lowercase s)) = is_ok (ForkName_of_str s)"
proof -
  have "ForkName_of_str (ForkName_to_string f) = Ok f"
    by (cases f) (simp_all add: ForkName_of_str_def to_lowercase_def ascii_lower_def Let_def)
  moreover have "ForkName_of_str ''base'' = Ok Base" "ForkName_of_str ''merge'' = Ok Merge"
    by (simp_all add: ForkName_of_str_def to_lowercase_def ascii_lower_def Let_def)
  moreover have "is_ok (ForkName_of_str (to_lowercase s)) = is_ok (ForkName_of_str s)"
    unfolding ForkName_of_str_def Let_def to_lowercase_idem
    by (simp only: if_distrib [of is_ok] is_ok.simps)
  ultimately show ?thesis by blast
qed

end
