(* ===== verification/Bids.thy ===== *)
theory Bids
  imports Beacon_Types
begin

text \<open>
  \<open>crates/primitives/src/storage\<close> and \<open>beacon/header.rs\<close>: bid traces with their order and their
  signature, bid submissions, the head slot, the payload attributes with the validation of a bid
  against them, proposer-duty entries, and the signed header that is made from a submission.
\<close>

section \<open>Bid traces\<close>

record BidTrace =
  bt_slot :: u64
  bt_parent_hash :: B256
  bt_block_hash :: B256
  bt_builder_pubkey :: BlsPublicKey
  bt_proposer_pubkey :: BlsPublicKey
  bt_proposer_fee_recipient :: Address
  bt_gas_limit :: u64
  bt_gas_used :: u64
  bt_value :: U256

definition BidTrace_tree_hash_root :: "externs \<Rightarrow> BidTrace \<Rightarrow> Hash256" where
  "BidTrace_tree_hash_root X b = th_container X
     [th_u64 X (bt_slot b), B256_tree_hash_root (bt_parent_hash b),
      B256_tree_hash_root (bt_block_hash b), BlsPublicKey_tree_hash_root X (bt_builder_pubkey b),
      BlsPublicKey_tree_hash_root X (bt_proposer_pubkey b),
      Address_tree_hash_root (bt_proposer_fee_recipient b), th_u64 X (bt_gas_limit b),
      th_u64 X (bt_gas_used b), U256_tree_hash_root X (bt_value b)]"

definition BidTrace_verify_signature ::
    "externs \<Rightarrow> BidTrace \<Rightarrow> BlsSignature \<Rightarrow> Domain \<Rightarrow> bool" where
  "BidTrace_verify_signature X b sig domain =
     BlsSignature_verify X sig (bt_builder_pubkey b)
       (signing_root X (BidTrace_tree_hash_root X b) domain)"

text \<open>\<open>Ord\<close> compares the values only; the operators are those that \<open>PartialOrd\<close> derives from it.\<close>

datatype Ordering = Less | Equal | Greater

definition U256_cmp :: "U256 \<Rightarrow> U256 \<Rightarrow> Ordering" where
  "U256_cmp a b = (if a < b then Less else if a = b then Equal else Greater)"

definition BidTrace_cmp :: "BidTrace \<Rightarrow> BidTrace \<Rightarrow> Ordering" where
  "BidTrace_cmp a b = U256_cmp (bt_value a) (bt_value b)"

definition BidTrace_gt :: "BidTrace \<Rightarrow> BidTrace \<Rightarrow> bool" where
  "BidTrace_gt a b \<longleftrightarrow> BidTrace_cmp a b = Greater"

section \<open>Bid submissions\<close>

record BidSubmission =
  bs_message :: BidTrace
  bs_execution_payload :: ExecutionPayload
  bs_blobs_bundle :: BlobsBundle
  bs_signature :: BlsSignature

definition BidSubmission_new ::
    "BidTrace \<Rightarrow> ExecutionPayload \<Rightarrow> BlobsBundle \<Rightarrow> BlsSignature \<Rightarrow> BidSubmission" where
  "BidSubmission_new bid payload bundle sig =
     \<lparr>bs_message = bid, bs_execution_payload = payload, bs_blobs_bundle = bundle,
      bs_signature = sig\<rparr>"

definition bid_trace :: "BidSubmission \<Rightarrow> BidTrace" where
  "bid_trace s = bs_message s"

definition to_blinded_block_response :: "BidSubmission \<Rightarrow> BlindedBlockResponse" where
  "to_blinded_block_response s =
     \<lparr>bbr_execution_payload = bs_execution_payload s, bbr_blobs_bundle = bs_blobs_bundle s\<rparr>"

section \<open>The head slot\<close>

datatype HeadSlot = HeadSlot (head_slot: u64)

text \<open>
  \<open>self.0 + 1\<close> is 64-bit addition; a release build wraps at the largest slot, as \<open>+\<close> on words does.
\<close>

definition is_next_slot :: "HeadSlot \<Rightarrow> u64 \<Rightarrow> bool" where
  "is_next_slot h proposal_slot \<longleftrightarrow> head_slot h + 1 = proposal_slot"

text \<open>Division and remainder by zero panic.\<close>

definition is_first_slot_of_new_epoch :: "HeadSlot \<Rightarrow> u64 \<Rightarrow> (bool, 'e) res" where
  "is_first_slot_of_new_epoch h slots_per_epoch =
     (if slots_per_epoch = 0 then Panic ''attempt to calculate the remainder with a divisor of zero''
      else Ok (head_slot h mod slots_per_epoch = 1))"

definition HeadSlot_epoch :: "HeadSlot \<Rightarrow> u64 \<Rightarrow> (u64, 'e) res" where
  "HeadSlot_epoch h slots_per_epoch =
     (if slots_per_epoch = 0 then Panic ''attempt to divide by zero''
      else Ok (head_slot h div slots_per_epoch))"

section \<open>Payload attributes\<close>

text \<open>The payload attributes event of the consensus client.\<close>

record PayloadAttributes =
  pa_proposal_slot :: u64
  pa_parent_block_root :: Hash256
  pa_parent_block_number :: u64
  pa_parent_block_hash :: Hash256
  pa_proposer_index :: u64
  pa_timestamp :: u64
  pa_prev_randao :: Hash256
  pa_suggested_fee_recipient :: bytes
  pa_withdrawals :: "Withdrawal list option"
  pa_parent_beacon_block_root :: "Hash256 option"

definition parent_hash :: "PayloadAttributes \<Rightarrow> B256" where
  "parent_hash a = B256_from_hash256 (pa_parent_block_hash a)"

definition suggested_fee_recipient :: "PayloadAttributes \<Rightarrow> Address" where
  "suggested_fee_recipient a = Address (pa_suggested_fee_recipient a)"

definition prev_randao :: "PayloadAttributes \<Rightarrow> B256" where
  "prev_randao a = B256_from_hash256 (pa_prev_randao a)"

datatype ValidationErrors = InvalidAttrSlot | InvalidPrevRandao

fun ValidationErrors_to_string :: "ValidationErrors \<Rightarrow> string" where
  "ValidationErrors_to_string InvalidAttrSlot = ''Payload attributes: Invalid slot.''"
| "ValidationErrors_to_string InvalidPrevRandao = ''Payload attributes: Invalid prev_randao.''"

definition validate_bid :: "PayloadAttributes \<Rightarrow> u64 \<Rightarrow> B256 \<Rightarrow> (unit, ValidationErrors) res" where
  "validate_bid a slot randao =
     (if pa_proposal_slot a \<noteq> slot then Err InvalidAttrSlot
      else if prev_randao a \<noteq> randao then Err InvalidPrevRandao
      else Ok ())"

section \<open>Duties\<close>

record Validator =
  val_slot :: u64
  val_validator_index :: u64
  val_entry :: ValidatorRegistration

definition invalid_fee_recipient :: "Validator \<Rightarrow> Address \<Rightarrow> bool" where
  "invalid_fee_recipient v fee_recipient \<longleftrightarrow>
     vrm_fee_recipient (vr_message (val_entry v)) \<noteq> fee_recipient"

definition duty_pubkey :: "Validator \<Rightarrow> BlsPublicKey" where
  "duty_pubkey v = vrm_pubkey (vr_message (val_entry v))"

section \<open>Signed headers\<close>

record Header =
  hd_header :: ExecutionPayloadHeader
  hd_blob_kzg_commitments :: "KzgCommitment list"
  hd_value :: U256
  hd_pubkey :: BlsPublicKey

record SignedHeader =
  sh_message :: Header
  sh_signature :: BlsSignature

definition Header_tree_hash_root :: "externs \<Rightarrow> Header \<Rightarrow> Hash256" where
  "Header_tree_hash_root X h = th_container X
     [ExecutionPayloadHeader_tree_hash_root X (hd_header h),
      th_variable_list X 4096 (map (KzgCommitment_tree_hash_root X) (hd_blob_kzg_commitments h)),
      U256_tree_hash_root X (hd_value h), BlsPublicKey_tree_hash_root X (hd_pubkey h)]"

definition MAX_COMMITMENTS :: nat where "MAX_COMMITMENTS = 4096"

definition SignedHeader_try_from ::
    "externs \<Rightarrow> BidSubmission \<Rightarrow> BlsSigner \<Rightarrow> (SignedHeader, ConversionError) res" where
  "SignedHeader_try_from X submission signer =
     (let value = bt_value (bid_trace submission);
          header = header_from_payload X (bs_execution_payload submission);
          kzg_commitments =
            map as_kzg_commitment (bb_commitments (bs_blobs_bundle submission))
      in if \<not> variable_list_new_ok X MAX_COMMITMENTS (length kzg_commitments) then Err SszTypes
      else let pubkey = BlsSigner_public_key X signer;
               msg = \<lparr>hd_header = header, hd_blob_kzg_commitments = kzg_commitments,
                      hd_value = value, hd_pubkey = pubkey\<rparr>;
               signature = BlsSigner_sign X signer (Header_tree_hash_root X msg)
           in Ok \<lparr>sh_message = msg, sh_signature = signature\<rparr>)"

section \<open>Lemmas\<close>

lemma BidTrace_gt_iff: "BidTrace_gt a b \<longleftrightarrow> bt_value b < bt_value a"
  by (auto simp: BidTrace_gt_def BidTrace_cmp_def U256_cmp_def)

lemma to_blinded_block_response_new [simp]:
  "to_blinded_block_response (BidSubmission_new b p bundle sig) =
     \<lparr>bbr_execution_payload = p, bbr_blobs_bundle = bundle\<rparr>"
  by (simp add: to_blinded_block_response_def BidSubmission_new_def)

lemma BidSubmission_new_sel [simp]:
  "bid_trace (BidSubmission_new b p bundle sig) = b"
  "bs_message (BidSubmission_new b p bundle sig) = b"
  "bs_execution_payload (BidSubmission_new b p bundle sig) = p"
  "bs_blobs_bundle (BidSubmission_new b p bundle sig) = bundle"
  "bs_signature (BidSubmission_new b p bundle sig) = sig"
  by (simp_all add: BidSubmission_new_def bid_trace_def)

lemma BidSubmission_new_eta:
  "BidSubmission_new (bid_trace s) (bs_execution_payload s) (bs_blobs_bundle s) (bs_signature s) = s"
  by (simp add: BidSubmission_new_def bid_trace_def)

lemma validate_bid_Ok [res_simps]:
  "validate_bid a slot randao = Ok u \<longleftrightarrow> pa_proposal_slot a = slot \<and> prev_randao a = randao"
  by (simp add: validate_bid_def)

lemma validate_bid_no_Panic [simp]: "validate_bid a slot randao \<noteq> Panic m"
  by (simp add: validate_bid_def)

lemma SignedHeader_try_from_eq_Ok:
  assumes "SignedHeader_try_from X s sg = Ok h"
  shows "hd_header (sh_message h) = header_from_payload X (bs_execution_payload s)"
    and "hd_value (sh_message h) = bt_value (bid_trace s)"
    and "hd_blob_kzg_commitments (sh_message h)
         = map as_kzg_commitment (bb_commitments (bs_blobs_bundle s))"
    and "hd_pubkey (sh_message h) = BlsSigner_public_key X sg"
    and "sh_signature h = BlsSigner_sign X sg (Header_tree_hash_root X (sh_message h))"
    and "variable_list_new_ok X 4096 (length (bb_commitments (bs_blobs_bundle s)))"
  using assms by (auto simp: SignedHeader_try_from_def Let_def MAX_COMMITMENTS_def split: if_splits)

lemma SignedHeader_try_from_is_Ok:
  "(\<exists>h. SignedHeader_try_from X s sg = Ok h) \<longleftrightarrow>
     variable_list_new_ok X 4096 (length (bb_commitments (bs_blobs_bundle s)))"
  by (auto simp: SignedHeader_try_from_def Let_def MAX_COMMITMENTS_def)

lemma SignedHeader_try_from_cases:
  "SignedHeader_try_from X s sg = Err e \<Longrightarrow> e = SszTypes"
  "SignedHeader_try_from X s sg \<noteq> Panic m"
  by (auto simp: SignedHeader_try_from_def Let_def split: if_splits)

section \<open>Properties\<close>

text \<open>
  The arithmetic of slots: the next slot is one more than the head, modulo \<open>2^64\<close>, so that only a head
  at the largest slot wraps to slot 0; the epoch of a slot is its integer quotient, and a slot is the
  second one of its epoch when the remainder is one; a length of zero panics in both.
\<close>

theorem slot_arithmetic:
  "(is_next_slot (HeadSlot h) s \<longleftrightarrow> unat s = (unat h + 1) mod 2 ^ 64) \<and>
   (case (HeadSlot_epoch (HeadSlot h) n :: (u64, string) res) of
      Ok e \<Rightarrow> unat e = unat h div unat n \<and> n \<noteq> 0
    | Err e \<Rightarrow> False
    | Panic m \<Rightarrow> n = 0) \<and>
   (case (is_first_slot_of_new_epoch (HeadSlot h) n :: (bool, string) res) of
      Ok b \<Rightarrow> (b \<longleftrightarrow> unat h mod unat n = 1) \<and> n \<noteq> 0
    | Err e \<Rightarrow> False
    | Panic m \<Rightarrow> n = 0)"
proof -
  have "h + 1 = s \<longleftrightarrow> unat s = (unat h + 1) mod 2 ^ 64"
    by (auto simp: word_unat_eq_iff unat_word_ariths)
  moreover have "h mod n = 1 \<longleftrightarrow> unat h mod unat n = 1"
    by (simp add: word_unat_eq_iff unat_mod_distrib)
  ultimately show ?thesis
    by (simp add: is_next_slot_def HeadSlot_epoch_def is_first_slot_of_new_epoch_def unat_div_distrib)
qed

end
