(* ===== verification/World.thy ===== *)
theory World
  imports Bids
begin

text \<open>
  \<open>crates/primitives/src/metrics/mod.rs\<close> and the state the handlers share: the metrics recorder,
  the storage and the tasks that a handler spawns. Every \<open>RelayMetrics::default()\<close> addresses the
  same recorder by the metric names, so the recorder is one component of the world. A gauge keeps
  the integer that the source converts to \<open>f64\<close>; a counter is a natural number.
\<close>

section \<open>Metrics\<close>

record Chain =
  ch_proposal_slot :: u64
  ch_block :: u64

definition set_proposal_slot :: "u64 \<Rightarrow> Chain \<Rightarrow> Chain" where
  "set_proposal_slot slot c = c\<lparr>ch_proposal_slot := slot\<rparr>"

definition set_block :: "u64 \<Rightarrow> Chain \<Rightarrow> Chain" where
  "set_block block c = c\<lparr>ch_block := block\<rparr>"

record Relay =
  rl_registered_validators :: nat
  rl_known_validators :: u64
  rl_headers :: nat
  rl_blinded_blocks :: nat
  rl_header_values :: u64
  rl_relayed_blocks :: nat
  rl_non_relayed_blocks :: nat
  rl_tx_count :: nat
  rl_blinded_block_latency :: u64
  rl_header_latency :: u64

definition set_blinded_block_latency :: "u64 \<Rightarrow> Relay \<Rightarrow> Relay" where
  "set_blinded_block_latency latency r = r\<lparr>rl_blinded_block_latency := latency\<rparr>"

definition set_header_latency :: "u64 \<Rightarrow> Relay \<Rightarrow> Relay" where
  "set_header_latency latency r = r\<lparr>rl_header_latency := latency\<rparr>"

definition set_registered_validators :: "nat \<Rightarrow> Relay \<Rightarrow> Relay" where
  "set_registered_validators count r = r\<lparr>rl_registered_validators := count\<rparr>"

definition set_known_validators :: "u64 \<Rightarrow> Relay \<Rightarrow> Relay" where
  "set_known_validators count r = r\<lparr>rl_known_validators := count\<rparr>"

definition inc_headers :: "Relay \<Rightarrow> Relay" where
  "inc_headers r = r\<lparr>rl_headers := rl_headers r + 1\<rparr>"

definition set_header_values :: "u64 \<Rightarrow> Relay \<Rightarrow> Relay" where
  "set_header_values v r = r\<lparr>rl_header_values := v\<rparr>"

definition set_tx_count :: "nat \<Rightarrow> Relay \<Rightarrow> Relay" where
  "set_tx_count count r = r\<lparr>rl_tx_count := count\<rparr>"

definition inc_blinded_blocks :: "Relay \<Rightarrow> Relay" where
  "inc_blinded_blocks r = r\<lparr>rl_blinded_blocks := rl_blinded_blocks r + 1\<rparr>"

definition inc_relayed_blocks :: "Relay \<Rightarrow> Relay" where
  "inc_relayed_blocks r = r\<lparr>rl_relayed_blocks := rl_relayed_blocks r + 1\<rparr>"

definition inc_non_relayed_blocks :: "Relay \<Rightarrow> Relay" where
  "inc_non_relayed_blocks r = r\<lparr>rl_non_relayed_blocks := rl_non_relayed_blocks r + 1\<rparr>"

record RelayMetrics =
  rm_chain :: Chain
  rm_relay :: Relay

text \<open>The recorder before the first metric is touched: every gauge and counter is zero.\<close>

definition RelayMetrics_zero :: RelayMetrics where
  "RelayMetrics_zero =
    \<lparr>rm_chain = \<lparr>ch_proposal_slot = 0, ch_block = 0\<rparr>,
     rm_relay =
       \<lparr>rl_registered_validators = 0, rl_known_validators = 0, rl_headers = 0,
        rl_blinded_blocks = 0, rl_header_values = 0, rl_relayed_blocks = 0,
        rl_non_relayed_blocks = 0, rl_tx_count = 0, rl_blinded_block_latency = 0,
        rl_header_latency = 0\<rparr>\<rparr>"

section \<open>The world\<close>

text \<open>\<open>SubmissionType\<close> of \<open>crates/beacon/src/api/mod.rs\<close>.\<close>

datatype SubmissionType = Json | Ssz

text \<open>What the sources hand to \<open>tokio::task::spawn\<close> while the relay runs.\<close>

datatype SpawnedTask =
    PublishTask SignedBeaconBlockContent SubmissionType
  | RefreshDutiesTask HeadSlot

record 's world =
  w_store :: 's
  w_recorder :: RelayMetrics
  w_tasks :: "SpawnedTask list"

definition spawn :: "SpawnedTask \<Rightarrow> 's world \<Rightarrow> 's world" where
  "spawn t w = w\<lparr>w_tasks := w_tasks w @ [t]\<rparr>"

definition on_chain :: "(Chain \<Rightarrow> Chain) \<Rightarrow> 's world \<Rightarrow> 's world" where
  "on_chain f w = w\<lparr>w_recorder := (w_recorder w)\<lparr>rm_chain := f (rm_chain (w_recorder w))\<rparr>\<rparr>"

definition on_relay :: "(Relay \<Rightarrow> Relay) \<Rightarrow> 's world \<Rightarrow> 's world" where
  "on_relay f w = w\<lparr>w_recorder := (w_recorder w)\<lparr>rm_relay := f (rm_relay (w_recorder w))\<rparr>\<rparr>"

definition on_store :: "('s \<Rightarrow> 's) \<Rightarrow> 's world \<Rightarrow> 's world" where
  "on_store f w = w\<lparr>w_store := f (w_store w)\<rparr>"

lemma world_frames [simp]:
  "w_store (spawn t w) = w_store w" "w_recorder (spawn t w) = w_recorder w"
  "w_tasks (spawn t w) = w_tasks w @ [t]"
  "w_store (on_chain f w) = w_store w" "w_tasks (on_chain f w) = w_tasks w"
  "w_store (on_relay g w) = w_store w" "w_tasks (on_relay g w) = w_tasks w"
  "w_store (on_store h w) = h (w_store w)" "w_tasks (on_store h w) = w_tasks w"
  "w_recorder (on_store h w) = w_recorder w"
  "rm_chain (w_recorder (on_chain f w)) = f (rm_chain (w_recorder w))"
  "rm_relay (w_recorder (on_chain f w)) = rm_relay (w_recorder w)"
  "rm_relay (w_recorder (on_relay g w)) = g (rm_relay (w_recorder w))"
  "rm_chain (w_recorder (on_relay g w)) = rm_chain (w_recorder w)"
  by (simp_all add: spawn_def on_chain_def on_relay_def on_store_def)

lemmas metrics_defs =
  set_proposal_slot_def set_block_def set_blinded_block_latency_def set_header_latency_def
  set_registered_validators_def set_known_validators_def inc_headers_def set_header_values_def
  set_tx_count_def inc_blinded_blocks_def inc_relayed_blocks_def inc_non_relayed_blocks_def

end
