(* ===== verification/Storage.thy ===== *)
theory Storage
  imports World
begin

text \<open>
  \<open>crates/storage\<close>: the trait \<open>Storage\<close> as a dictionary of its functions, the in-memory
  implementation, and the contract between them. \<open>StorageSpec\<close> is the abstract state that the
  trait documents (maps and sets instead of hash tables and vectors); the locale
  \<open>storage_contract\<close> says what each function does to it, and the in-memory storage is shown to
  satisfy the contract, so that the handlers are verified once against the contract.
\<close>

section \<open>The trait\<close>

type_synonym ValidatorRegistrations = "(BlsPublicKey, ValidatorRegistration) mapping"

record 's Storage =
  fork_data :: "'s \<Rightarrow> ForkDatas"
  set_head_slot :: "HeadSlot \<Rightarrow> 's world \<Rightarrow> 's world"
  read_head_slot :: "'s \<Rightarrow> HeadSlot"
  set_payload_attributes :: "PayloadAttributes \<Rightarrow> 's world \<Rightarrow> 's world"
  read_payload_attributes :: "'s \<Rightarrow> PayloadAttributes"
  set_validator_registration ::
    "BlsPublicKey \<Rightarrow> ValidatorRegistration \<Rightarrow> 's world \<Rightarrow> 's world"
  set_validator_registrations :: "ValidatorRegistrations \<Rightarrow> 's world \<Rightarrow> 's world"
  empty_validator_regs :: "'s \<Rightarrow> bool"
  read_validator_registration :: "'s \<Rightarrow> BlsPublicKey \<Rightarrow> ValidatorRegistration option"
  set_proposer_duties :: "Validator list \<Rightarrow> 's world \<Rightarrow> 's world"
  read_proposer_duties :: "'s \<Rightarrow> Validator list"
  is_whitelisted_builder :: "'s \<Rightarrow> BlsPublicKey \<Rightarrow> bool"
  find_duty_by_slot :: "'s \<Rightarrow> u64 \<Rightarrow> Validator option"
  set_best_bid :: "u64 \<Rightarrow> BidSubmission \<Rightarrow> 's world \<Rightarrow> 's world"
  read_best_bid :: "'s \<Rightarrow> u64 \<Rightarrow> B256 \<Rightarrow> BlsPublicKey \<Rightarrow> BidSubmission option"
  read_best_bid_by_block_number :: "'s \<Rightarrow> u64 \<Rightarrow> BidSubmission option"
  read_best_bid_by_slot :: "'s \<Rightarrow> u64 \<Rightarrow> BidSubmission option"
  set_blinded_block_response ::
    "BlsPublicKey \<Rightarrow> BlindedBlockResponse \<Rightarrow> 's world \<Rightarrow> 's world"
  read_blinded_block_response :: "'s \<Rightarrow> BlsPublicKey \<Rightarrow> BlindedBlockResponse option"
  set_delivered_blocks :: "B256 \<Rightarrow> 's world \<Rightarrow> 's world"
  record_relayed_block :: "B256 \<Rightarrow> 's world \<Rightarrow> 's world"

section \<open>The in-memory storage\<close>

record SlotHashKey =
  shk_slot :: u64
  shk_hash :: B256
  shk_validator :: BlsPublicKey

record InMemoryStorageInner =
  im_slot :: HeadSlot
  im_payload_attributes :: PayloadAttributes
  im_proposer_duties :: "Validator list"
  im_validator_registrations :: ValidatorRegistrations
  im_wlist_builders :: "BlsPublicKey list"
  im_best_bid_per_slot :: "(SlotHashKey, BidSubmission) mapping"
  im_best_bid_by_slot :: "(u64, BidSubmission) mapping"
  im_best_bid_by_block_number :: "(u64, BidSubmission) mapping"
  im_fork_data :: ForkDatas
  im_blinded_block_resp :: "(BlsPublicKey, BlindedBlockResponse) mapping"
  im_delivered_blocks :: "B256 list"

type_synonym relay_world = "InMemoryStorageInner world"

definition InMemoryStorage_new ::
    "HeadSlot \<Rightarrow> PayloadAttributes \<Rightarrow> BlsPublicKey list \<Rightarrow> ForkDatas \<Rightarrow> ValidatorRegistrations
     \<Rightarrow> Validator list \<Rightarrow> RelayMetrics \<Rightarrow> relay_world" where
  "InMemoryStorage_new slot payload_attributes wlist_builders fork_datas
      validator_registrations proposer_duties recorder =
     (let w = \<lparr>w_store =
                \<lparr>im_slot = slot,
                 im_payload_attributes = payload_attributes,
                 im_proposer_duties = proposer_duties,
                 im_validator_registrations = validator_registrations,
                 im_wlist_builders = wlist_builders,
                 im_best_bid_per_slot = Mapping.empty,
                 im_best_bid_by_slot = Mapping.empty,
                 im_best_bid_by_block_number = Mapping.empty,
                 im_fork_data = fork_datas,
                 im_blinded_block_resp = Mapping.empty,
                 im_delivered_blocks = []\<rparr>,
               w_recorder = recorder, w_tasks = []\<rparr>;
          w = on_chain (set_proposal_slot (pa_proposal_slot payload_attributes)) w
      in on_chain (set_block (pa_parent_block_number payload_attributes)) w)"

definition ims_record_relayed_block :: "B256 \<Rightarrow> relay_world \<Rightarrow> relay_world" where
  "ims_record_relayed_block block_hash w =
     (if block_hash \<in> set (im_delivered_blocks (w_store w))
      then on_relay inc_relayed_blocks w
      else on_relay inc_non_relayed_blocks w)"

definition ims_set_delivered_blocks :: "B256 \<Rightarrow> relay_world \<Rightarrow> relay_world" where
  "ims_set_delivered_blocks block_hash w =
     on_store (\<lambda>s. s\<lparr>im_delivered_blocks := im_delivered_blocks s @ [block_hash]\<rparr>)
       (on_relay inc_blinded_blocks w)"

definition ims_fork_data :: "InMemoryStorageInner \<Rightarrow> ForkDatas" where
  "ims_fork_data s = im_fork_data s"

definition ims_set_head_slot :: "HeadSlot \<Rightarrow> relay_world \<Rightarrow> relay_world" where
  "ims_set_head_slot slot w = on_store (\<lambda>s. s\<lparr>im_slot := slot\<rparr>) w"

definition ims_read_head_slot :: "InMemoryStorageInner \<Rightarrow> HeadSlot" where
  "ims_read_head_slot s = im_slot s"

definition ims_set_payload_attributes :: "PayloadAttributes \<Rightarrow> relay_world \<Rightarrow> relay_world" where
  "ims_set_payload_attributes payload_attr w =
     (let block_hash = parent_hash payload_attr;
          parent_block_number = pa_parent_block_number payload_attr;
          proposal_slot = pa_proposal_slot payload_attr;
          w = on_chain (set_block parent_block_number) w;
          w = on_chain (set_proposal_slot proposal_slot) w;
          w = ims_record_relayed_block block_hash w
      in on_store (\<lambda>s. s\<lparr>im_payload_attributes := payload_attr\<rparr>) w)"

definition ims_read_payload_attributes :: "InMemoryStorageInner \<Rightarrow> PayloadAttributes" where
  "ims_read_payload_attributes s = im_payload_attributes s"

definition ims_empty_validator_regs :: "InMemoryStorageInner \<Rightarrow> bool" where
  "ims_empty_validator_regs s = Mapping.is_empty (im_validator_registrations s)"

definition ims_set_validator_registration ::
    "BlsPublicKey \<Rightarrow> ValidatorRegistration \<Rightarrow> relay_world \<Rightarrow> relay_world" where
  "ims_set_validator_registration key registration w =
     on_store (\<lambda>s. s\<lparr>im_validator_registrations :=
       Mapping.update key registration (im_validator_registrations s)\<rparr>) w"

definition ims_set_validator_registrations ::
    "ValidatorRegistrations \<Rightarrow> relay_world \<Rightarrow> relay_world" where
  "ims_set_validator_registrations registrations w =
     (let count = Mapping.size registrations;
          w = on_store (\<lambda>s. s\<lparr>im_validator_registrations := registrations\<rparr>) w
      in on_relay (set_registered_validators count) w)"

definition ims_read_validator_registration ::
    "InMemoryStorageInner \<Rightarrow> BlsPublicKey \<Rightarrow> ValidatorRegistration option" where
  "ims_read_validator_registration s key = Mapping.lookup (im_validator_registrations s) key"

definition ims_set_proposer_duties :: "Validator list \<Rightarrow> relay_world \<Rightarrow> relay_world" where
  "ims_set_proposer_duties duties w = on_store (\<lambda>s. s\<lparr>im_proposer_duties := duties\<rparr>) w"

definition ims_find_duty_by_slot :: "InMemoryStorageInner \<Rightarrow> u64 \<Rightarrow> Validator option" where
  "ims_find_duty_by_slot s slot = List.find (\<lambda>duty. val_slot duty = slot) (im_proposer_duties s)"

definition ims_read_proposer_duties :: "InMemoryStorageInner \<Rightarrow> Validator list" where
  "ims_read_proposer_duties s = im_proposer_duties s"

definition ims_is_whitelisted_builder :: "InMemoryStorageInner \<Rightarrow> BlsPublicKey \<Rightarrow> bool" where
  "ims_is_whitelisted_builder s key \<longleftrightarrow> key \<in> set (im_wlist_builders s)"

definition ims_set_best_bid :: "u64 \<Rightarrow> BidSubmission \<Rightarrow> relay_world \<Rightarrow> relay_world" where
  "ims_set_best_bid slot bid w =
     (let trace = bid_trace bid;
          execution_payload = bs_execution_payload bid;
          key = \<lparr>shk_slot = slot, shk_hash = bt_parent_hash trace,
                 shk_validator = bt_proposer_pubkey trace\<rparr>
      in on_store (\<lambda>s. s\<lparr>
           im_best_bid_per_slot := Mapping.update key bid (im_best_bid_per_slot s),
           im_best_bid_by_block_number :=
             Mapping.update (ep_block_number execution_payload) bid
               (im_best_bid_by_block_number s)\<rparr>) w)"

definition ims_read_best_bid_by_block_number ::
    "InMemoryStorageInner \<Rightarrow> u64 \<Rightarrow> BidSubmission option" where
  "ims_read_best_bid_by_block_number s block_number =
     Mapping.lookup (im_best_bid_by_block_number s) block_number"

definition ims_read_best_bid_by_slot :: "InMemoryStorageInner \<Rightarrow> u64 \<Rightarrow> BidSubmission option" where
  "ims_read_best_bid_by_slot s slot = Mapping.lookup (im_best_bid_by_slot s) slot"

definition ims_set_blinded_block_response ::
    "BlsPublicKey \<Rightarrow> BlindedBlockResponse \<Rightarrow> relay_world \<Rightarrow> relay_world" where
  "ims_set_blinded_block_response proposer resp w =
     on_store (\<lambda>s. s\<lparr>im_blinded_block_resp :=
       Mapping.update proposer resp (im_blinded_block_resp s)\<rparr>) w"

definition ims_read_blinded_block_response ::
    "InMemoryStorageInner \<Rightarrow> BlsPublicKey \<Rightarrow> BlindedBlockResponse option" where
  "ims_read_blinded_block_response s proposer = Mapping.lookup (im_blinded_block_resp s) proposer"

definition ims_read_best_bid ::
    "InMemoryStorageInner \<Rightarrow> u64 \<Rightarrow> B256 \<Rightarrow> BlsPublicKey \<Rightarrow> BidSubmission option" where
  "ims_read_best_bid s slot phash validator =
     Mapping.lookup (im_best_bid_per_slot s)
       \<lparr>shk_slot = slot, shk_hash = phash, shk_validator = validator\<rparr>"

text \<open>\<open>impl Storage for InMemoryStorage\<close>.\<close>

definition in_memory_storage :: "InMemoryStorageInner Storage" where
  "in_memory_storage =
    \<lparr>fork_data = ims_fork_data,
     set_head_slot = ims_set_head_slot,
     read_head_slot = ims_read_head_slot,
     set_payload_attributes = ims_set_payload_attributes,
     read_payload_attributes = ims_read_payload_attributes,
     set_validator_registration = ims_set_validator_registration,
     set_validator_registrations = ims_set_validator_registrations,
     empty_validator_regs = ims_empty_validator_regs,
     read_validator_registration = ims_read_validator_registration,
     set_proposer_duties = ims_set_proposer_duties,
     read_proposer_duties = ims_read_proposer_duties,
     is_whitelisted_builder = ims_is_whitelisted_builder,
     find_duty_by_slot = ims_find_duty_by_slot,
     set_best_bid = ims_set_best_bid,
     read_best_bid = ims_read_best_bid,
     read_best_bid_by_block_number = ims_read_best_bid_by_block_number,
     read_best_bid_by_slot = ims_read_best_bid_by_slot,
     set_blinded_block_response = ims_set_blinded_block_response,
     read_blinded_block_response = ims_read_blinded_block_response,
     set_delivered_blocks = ims_set_delivered_blocks,
     record_relayed_block = ims_record_relayed_block\<rparr>"

section \<open>The abstract storage\<close>

text \<open>
  What the documentation of the trait promises, over maps and sets. No function of the trait writes
  the bids by slot, so the abstract state only reads them.
\<close>

record StorageSpec =
  ss_head_slot :: HeadSlot
  ss_payload_attributes :: PayloadAttributes
  ss_proposer_duties :: "Validator list"
  ss_registrations :: "BlsPublicKey \<rightharpoonup> ValidatorRegistration"
  ss_builders :: "BlsPublicKey set"
  ss_best_bid :: "u64 \<times> B256 \<times> BlsPublicKey \<rightharpoonup> BidSubmission"
  ss_bid_by_slot :: "u64 \<rightharpoonup> BidSubmission"
  ss_bid_by_block_number :: "u64 \<rightharpoonup> BidSubmission"
  ss_fork_data :: ForkDatas
  ss_responses :: "BlsPublicKey \<rightharpoonup> BlindedBlockResponse"
  ss_delivered :: "B256 set"

definition spec_record_relayed_block ::
    "B256 \<Rightarrow> StorageSpec world \<Rightarrow> StorageSpec world" where
  "spec_record_relayed_block h w =
     on_relay (if h \<in> ss_delivered (w_store w) then inc_relayed_blocks else inc_non_relayed_blocks) w"

definition spec_set_payload_attributes ::
    "PayloadAttributes \<Rightarrow> StorageSpec world \<Rightarrow> StorageSpec world" where
  "spec_set_payload_attributes a w =
     on_store (\<lambda>s. s\<lparr>ss_payload_attributes := a\<rparr>)
       (spec_record_relayed_block (parent_hash a)
         (on_chain (\<lambda>c. c\<lparr>ch_block := pa_parent_block_number a,
                           ch_proposal_slot := pa_proposal_slot a\<rparr>) w))"

definition spec_storage :: "StorageSpec Storage" where
  "spec_storage =
    \<lparr>fork_data = ss_fork_data,
     set_head_slot = (\<lambda>h. on_store (\<lambda>s. s\<lparr>ss_head_slot := h\<rparr>)),
     read_head_slot = ss_head_slot,
     set_payload_attributes = spec_set_payload_attributes,
     read_payload_attributes = ss_payload_attributes,
     set_validator_registration = (\<lambda>k r. on_store (\<lambda>s.
       s\<lparr>ss_registrations := (ss_registrations s)(k \<mapsto> r)\<rparr>)),
     set_validator_registrations = (\<lambda>m w. on_relay (set_registered_validators (Mapping.size m))
       (on_store (\<lambda>s. s\<lparr>ss_registrations := Mapping.lookup m\<rparr>) w)),
     empty_validator_regs = (\<lambda>s. dom (ss_registrations s) = {}),
     read_validator_registration = ss_registrations,
     set_proposer_duties = (\<lambda>ds. on_store (\<lambda>s. s\<lparr>ss_proposer_duties := ds\<rparr>)),
     read_proposer_duties = ss_proposer_duties,
     is_whitelisted_builder = (\<lambda>s k. k \<in> ss_builders s),
     find_duty_by_slot = (\<lambda>s slot. List.find (\<lambda>d. val_slot d = slot) (ss_proposer_duties s)),
     set_best_bid = (\<lambda>slot b. on_store (\<lambda>s.
       s\<lparr>ss_best_bid := (ss_best_bid s)
           ((slot, bt_parent_hash (bid_trace b), bt_proposer_pubkey (bid_trace b)) \<mapsto> b),
         ss_bid_by_block_number := (ss_bid_by_block_number s)
           (ep_block_number (bs_execution_payload b) \<mapsto> b)\<rparr>)),
     read_best_bid = (\<lambda>s slot h v. ss_best_bid s (slot, h, v)),
     read_best_bid_by_block_number = ss_bid_by_block_number,
     read_best_bid_by_slot = ss_bid_by_slot,
     set_blinded_block_response = (\<lambda>k r. on_store (\<lambda>s.
       s\<lparr>ss_responses := (ss_responses s)(k \<mapsto> r)\<rparr>)),
     read_blinded_block_response = ss_responses,
     set_delivered_blocks = (\<lambda>h w. on_store (\<lambda>s. s\<lparr>ss_delivered := insert h (ss_delivered s)\<rparr>)
       (on_relay inc_blinded_blocks w)),
     record_relayed_block = spec_record_relayed_block\<rparr>"

definition abs_world :: "('s \<Rightarrow> StorageSpec) \<Rightarrow> 's world \<Rightarrow> StorageSpec world" where
  "abs_world alpha w = \<lparr>w_store = alpha (w_store w), w_recorder = w_recorder w, w_tasks = w_tasks w\<rparr>"

lemma abs_world_sel [simp]:
  "w_store (abs_world alpha w) = alpha (w_store w)"
  "w_recorder (abs_world alpha w) = w_recorder w"
  "w_tasks (abs_world alpha w) = w_tasks w"
  by (simp_all add: abs_world_def)

lemma abs_world_commute [simp]:
  "abs_world alpha (spawn t w) = spawn t (abs_world alpha w)"
  "abs_world alpha (on_chain f w) = on_chain f (abs_world alpha w)"
  "abs_world alpha (on_relay g w) = on_relay g (abs_world alpha w)"
  by (simp_all add: abs_world_def spawn_def on_chain_def on_relay_def)

lemma abs_world_on_store:
  assumes "\<And>s. alpha (f s) = g (alpha s)"
  shows "abs_world alpha (on_store f w) = on_store g (abs_world alpha w)"
  using assms by (simp add: abs_world_def on_store_def)

section \<open>The contract\<close>

locale storage_contract =
  fixes S :: "'s Storage" and alpha :: "'s \<Rightarrow> StorageSpec"
  assumes fork_data: "fork_data S s = ss_fork_data (alpha s)"
    and read_head_slot: "read_head_slot S s = ss_head_slot (alpha s)"
    and read_payload_attributes: "read_payload_attributes S s = ss_payload_attributes (alpha s)"
    and empty_validator_regs: "empty_validator_regs S s \<longleftrightarrow> dom (ss_registrations (alpha s)) = {}"
    and read_validator_registration:
      "read_validator_registration S s k = ss_registrations (alpha s) k"
    and read_proposer_duties: "read_proposer_duties S s = ss_proposer_duties (alpha s)"
    and is_whitelisted_builder: "is_whitelisted_builder S s k \<longleftrightarrow> k \<in> ss_builders (alpha s)"
    and find_duty_by_slot:
      "find_duty_by_slot S s slot = List.find (\<lambda>d. val_slot d = slot) (ss_proposer_duties (alpha s))"
    and read_best_bid: "read_best_bid S s slot h v = ss_best_bid (alpha s) (slot, h, v)"
    and read_best_bid_by_block_number:
      "read_best_bid_by_block_number S s n = ss_bid_by_block_number (alpha s) n"
    and read_best_bid_by_slot: "read_best_bid_by_slot S s slot = ss_bid_by_slot (alpha s) slot"
    and read_blinded_block_response: "read_blinded_block_response S s k = ss_responses (alpha s) k"
    and set_head_slot:
      "abs_world alpha (set_head_slot S hs w) = set_head_slot spec_storage hs (abs_world alpha w)"
    and set_payload_attributes:
      "abs_world alpha (set_payload_attributes S a w)
       = set_payload_attributes spec_storage a (abs_world alpha w)"
    and set_validator_registration:
      "abs_world alpha (set_validator_registration S k r w)
       = set_validator_registration spec_storage k r (abs_world alpha w)"
    and set_validator_registrations:
      "abs_world alpha (set_validator_registrations S m w)
       = set_validator_registrations spec_storage m (abs_world alpha w)"
    and set_proposer_duties:
      "abs_world alpha (set_proposer_duties S ds w)
       = set_proposer_duties spec_storage ds (abs_world alpha w)"
    and set_best_bid:
      "abs_world alpha (set_best_bid S slot b w)
       = set_best_bid spec_storage slot b (abs_world alpha w)"
    and set_blinded_block_response:
      "abs_world alpha (set_blinded_block_response S k resp w)
       = set_blinded_block_response spec_storage k resp (abs_world alpha w)"
    and set_delivered_blocks:
      "abs_world alpha (set_delivered_blocks S bh w)
       = set_delivered_blocks spec_storage bh (abs_world alpha w)"
    and record_relayed_block:
      "abs_world alpha (record_relayed_block S bh w)
       = record_relayed_block spec_storage bh (abs_world alpha w)"
begin

lemmas readers =
  fork_data read_head_slot read_payload_attributes empty_validator_regs
  read_validator_registration read_proposer_duties is_whitelisted_builder find_duty_by_slot
  read_best_bid read_best_bid_by_block_number read_best_bid_by_slot read_blinded_block_response

lemmas setters =
  set_head_slot set_payload_attributes set_validator_registration set_validator_registrations
  set_proposer_duties set_best_bid set_blinded_block_response set_delivered_blocks
  record_relayed_block

text \<open>The setters seen through one component of the world.\<close>

lemma setters_store:
  "alpha (w_store (set_head_slot S hs w)) = (alpha (w_store w))\<lparr>ss_head_slot := hs\<rparr>"
  "alpha (w_store (set_payload_attributes S a w)) = (alpha (w_store w))\<lparr>ss_payload_attributes := a\<rparr>"
  "alpha (w_store (set_validator_registrations S m w))
   = (alpha (w_store w))\<lparr>ss_registrations := Mapping.lookup m\<rparr>"
  "alpha (w_store (set_proposer_duties S ds w)) = (alpha (w_store w))\<lparr>ss_proposer_duties := ds\<rparr>"
  "alpha (w_store (set_best_bid S slot b w)) = (alpha (w_store w))
     \<lparr>ss_best_bid := (ss_best_bid (alpha (w_store w)))
        ((slot, bt_parent_hash (bid_trace b), bt_proposer_pubkey (bid_trace b)) \<mapsto> b),
      ss_bid_by_block_number := (ss_bid_by_block_number (alpha (w_store w)))
        (ep_block_number (bs_execution_payload b) \<mapsto> b)\<rparr>"
  "alpha (w_store (set_blinded_block_response S k resp w)) = (alpha (w_store w))
     \<lparr>ss_responses := (ss_responses (alpha (w_store w)))(k \<mapsto> resp)\<rparr>"
  "alpha (w_store (set_delivered_blocks S bh w)) = (alpha (w_store w))
     \<lparr>ss_delivered := insert bh (ss_delivered (alpha (w_store w)))\<rparr>"
  using setters [THEN arg_cong [where f = w_store]]
  by (simp_all add: spec_storage_def spec_set_payload_attributes_def spec_record_relayed_block_def)

lemma setters_recorder:
  "w_recorder (set_head_slot S hs w) = w_recorder w"
  "w_recorder (set_proposer_duties S ds w) = w_recorder w"
  "w_recorder (set_best_bid S slot b w) = w_recorder w"
  "w_recorder (set_blinded_block_response S k resp w) = w_recorder w"
  using setters [THEN arg_cong [where f = w_recorder]] by (simp_all add: spec_storage_def)

lemma setters_tasks:
  "w_tasks (set_head_slot S hs w) = w_tasks w"
  "w_tasks (set_payload_attributes S a w) = w_tasks w"
  "w_tasks (set_validator_registrations S m w) = w_tasks w"
  "w_tasks (set_proposer_duties S ds w) = w_tasks w"
  "w_tasks (set_best_bid S slot b w) = w_tasks w"
  "w_tasks (set_blinded_block_response S k resp w) = w_tasks w"
  "w_tasks (set_delivered_blocks S bh w) = w_tasks w"
  using setters [THEN arg_cong [where f = w_tasks]]
  by (simp_all add: spec_storage_def spec_set_payload_attributes_def spec_record_relayed_block_def)

end

section \<open>The in-memory storage satisfies the contract\<close>

definition abs_in_memory :: "InMemoryStorageInner \<Rightarrow> StorageSpec" where
  "abs_in_memory s =
    \<lparr>ss_head_slot = im_slot s,
     ss_payload_attributes = im_payload_attributes s,
     ss_proposer_duties = im_proposer_duties s,
     ss_registrations = Mapping.lookup (im_validator_registrations s),
     ss_builders = set (im_wlist_builders s),
     ss_best_bid = (\<lambda>(slot, h, v). Mapping.lookup (im_best_bid_per_slot s)
       \<lparr>shk_slot = slot, shk_hash = h, shk_validator = v\<rparr>),
     ss_bid_by_slot = Mapping.lookup (im_best_bid_by_slot s),
     ss_bid_by_block_number = Mapping.lookup (im_best_bid_by_block_number s),
     ss_fork_data = im_fork_data s,
     ss_responses = Mapping.lookup (im_blinded_block_resp s),
     ss_delivered = set (im_delivered_blocks s)\<rparr>"

lemma abs_in_memory_sel [simp]:
  "ss_head_slot (abs_in_memory s) = im_slot s"
  "ss_payload_attributes (abs_in_memory s) = im_payload_attributes s"
  "ss_proposer_duties (abs_in_memory s) = im_proposer_duties s"
  "ss_registrations (abs_in_memory s) = Mapping.lookup (im_validator_registrations s)"
  "ss_builders (abs_in_memory s) = set (im_wlist_builders s)"
  "ss_best_bid (abs_in_memory s) (slot, h, v) = Mapping.lookup (im_best_bid_per_slot s)
     \<lparr>shk_slot = slot, shk_hash = h, shk_validator = v\<rparr>"
  "ss_bid_by_slot (abs_in_memory s) = Mapping.lookup (im_best_bid_by_slot s)"
  "ss_bid_by_block_number (abs_in_memory s) = Mapping.lookup (im_best_bid_by_block_number s)"
  "ss_fork_data (abs_in_memory s) = im_fork_data s"
  "ss_responses (abs_in_memory s) = Mapping.lookup (im_blinded_block_resp s)"
  "ss_delivered (abs_in_memory s) = set (im_delivered_blocks s)"
  by (simp_all add: abs_in_memory_def)

lemma in_memory_readers [simp]:
  "fork_data in_memory_storage = ims_fork_data"
  "read_head_slot in_memory_storage = ims_read_head_slot"
  "read_payload_attributes in_memory_storage = ims_read_payload_attributes"
  "empty_validator_regs in_memory_storage = ims_empty_validator_regs"
  "read_validator_registration in_memory_storage = ims_read_validator_registration"
  "read_proposer_duties in_memory_storage = ims_read_proposer_duties"
  "is_whitelisted_builder in_memory_storage = ims_is_whitelisted_builder"
  "find_duty_by_slot in_memory_storage = ims_find_duty_by_slot"
  "read_best_bid in_memory_storage = ims_read_best_bid"
  "read_best_bid_by_block_number in_memory_storage = ims_read_best_bid_by_block_number"
  "read_best_bid_by_slot in_memory_storage = ims_read_best_bid_by_slot"
  "read_blinded_block_response in_memory_storage = ims_read_blinded_block_response"
  by (simp_all add: in_memory_storage_def)

lemma in_memory_setters [simp]:
  "set_head_slot in_memory_storage = ims_set_head_slot"
  "set_payload_attributes in_memory_storage = ims_set_payload_attributes"
  "set_validator_registration in_memory_storage = ims_set_validator_registration"
  "set_validator_registrations in_memory_storage = ims_set_validator_registrations"
  "set_proposer_duties in_memory_storage = ims_set_proposer_duties"
  "set_best_bid in_memory_storage = ims_set_best_bid"
  "set_blinded_block_response in_memory_storage = ims_set_blinded_block_response"
  "set_delivered_blocks in_memory_storage = ims_set_delivered_blocks"
  "record_relayed_block in_memory_storage = ims_record_relayed_block"
  by (simp_all add: in_memory_storage_def)

lemmas ims_reader_defs =
  ims_fork_data_def ims_read_head_slot_def ims_read_payload_attributes_def
  ims_empty_validator_regs_def ims_read_validator_registration_def ims_read_proposer_duties_def
  ims_is_whitelisted_builder_def ims_find_duty_by_slot_def ims_read_best_bid_def
  ims_read_best_bid_by_block_number_def ims_read_best_bid_by_slot_def
  ims_read_blinded_block_response_def

lemmas ims_setter_defs =
  ims_set_head_slot_def ims_set_payload_attributes_def ims_set_validator_registration_def
  ims_set_validator_registrations_def ims_set_proposer_duties_def ims_set_best_bid_def
  ims_set_blinded_block_response_def ims_set_delivered_blocks_def ims_record_relayed_block_def

lemma mapping_is_empty_dom: "Mapping.is_empty m \<longleftrightarrow> dom (Mapping.lookup m) = {}"
  by (simp add: Mapping.is_empty_def keys_dom_lookup)

interpretation ims: storage_contract in_memory_storage abs_in_memory
proof unfold_locales
  fix w :: relay_world and slot b
  show "abs_world abs_in_memory (set_best_bid in_memory_storage slot b w) =
      set_best_bid spec_storage slot b (abs_world abs_in_memory w)"
    by (simp add: ims_set_best_bid_def spec_storage_def Let_def,
        rule abs_world_on_store)
      (auto simp: abs_in_memory_def lookup_update_fun fun_eq_iff)
qed (auto simp: ims_reader_defs ims_setter_defs spec_storage_def spec_set_payload_attributes_def
    spec_record_relayed_block_def mapping_is_empty_dom Let_def
    abs_in_memory_def lookup_update_fun on_chain_def on_relay_def on_store_def abs_world_def
    metrics_defs)

text \<open>The abstract storage satisfies the contract with itself.\<close>

lemma abs_world_id [simp]: "abs_world (\<lambda>s. s) w = w"
  by (simp add: abs_world_def)

interpretation spec: storage_contract spec_storage "\<lambda>s. s"
  by unfold_locales (simp_all add: spec_storage_def)

section \<open>Runs\<close>

text \<open>Any sequence of calls of the functions that change the storage.\<close>

datatype storage_op =
    SetHeadSlot HeadSlot
  | SetPayloadAttributes PayloadAttributes
  | SetValidatorRegistration BlsPublicKey ValidatorRegistration
  | SetValidatorRegistrations ValidatorRegistrations
  | SetProposerDuties "Validator list"
  | SetBestBid u64 BidSubmission
  | SetBlindedBlockResponse BlsPublicKey BlindedBlockResponse
  | SetDeliveredBlocks B256
  | RecordRelayedBlock B256

fun run_op :: "'s Storage \<Rightarrow> storage_op \<Rightarrow> 's world \<Rightarrow> 's world" where
  "run_op S (SetHeadSlot h) w = set_head_slot S h w"
| "run_op S (SetPayloadAttributes a) w = set_payload_attributes S a w"
| "run_op S (SetValidatorRegistration k r) w = set_validator_registration S k r w"
| "run_op S (SetValidatorRegistrations m) w = set_validator_registrations S m w"
| "run_op S (SetProposerDuties ds) w = set_proposer_duties S ds w"
| "run_op S (SetBestBid slot b) w = set_best_bid S slot b w"
| "run_op S (SetBlindedBlockResponse k r) w = set_blinded_block_response S k r w"
| "run_op S (SetDeliveredBlocks h) w = set_delivered_blocks S h w"
| "run_op S (RecordRelayedBlock h) w = record_relayed_block S h w"

definition run_ops :: "'s Storage \<Rightarrow> storage_op list \<Rightarrow> 's world \<Rightarrow> 's world" where
  "run_ops S ops w = fold (run_op S) ops w"

context storage_contract
begin

lemma run_op_abs: "abs_world alpha (run_op S op w) = run_op spec_storage op (abs_world alpha w)"
  by (cases op) (simp_all add: setters)

lemma run_ops_abs: "abs_world alpha (run_ops S ops w) = run_ops spec_storage ops (abs_world alpha w)"
  by (induction ops arbitrary: w) (simp_all add: run_ops_def run_op_abs)

end

text \<open>No function of the trait writes the bids by slot.\<close>

lemma run_ops_bid_by_slot:
  "im_best_bid_by_slot (w_store (run_ops in_memory_storage ops w)) = im_best_bid_by_slot (w_store w)"
proof (induction ops arbitrary: w)
  case (Cons op ops)
  have "im_best_bid_by_slot (w_store (run_op in_memory_storage op w))
      = im_best_bid_by_slot (w_store w)"
    by (cases op) (simp_all add: ims_setter_defs Let_def)
  with Cons show ?case by (simp add: run_ops_def)
qed (simp add: run_ops_def)

section \<open>Properties\<close>

text \<open>
  C1. The in-memory storage refines the abstract storage: after any sequence of calls from any
  state, what its hash tables and vectors stand for, and the metrics, are what the same calls make
  of the maps and sets of the specification.
\<close>

theorem storage_refines_spec:
  "abs_world abs_in_memory (run_ops in_memory_storage ops w) =
     run_ops spec_storage ops (abs_world abs_in_memory w)"
  by (rule ims.run_ops_abs)

text \<open>
  A best bid is found under the slot it was stored for, its parent hash and its proposer key,
  and storing it changes no other entry: not the best bid of any other key, not the response of any
  proposer, not the registrations, duties, head slot or attributes.
\<close>

theorem best_bid_frame:
  "let w' = set_best_bid in_memory_storage slot b w; s = w_store w; s' = w_store w' in
     read_best_bid in_memory_storage s' slot' h v =
       (if slot' = slot \<and> h = bt_parent_hash (bid_trace b) \<and> v = bt_proposer_pubkey (bid_trace b)
        then Some b else read_best_bid in_memory_storage s slot' h v) \<and>
     read_best_bid_by_block_number in_memory_storage s' n =
       (if n = ep_block_number (bs_execution_payload b)
        then Some b else read_best_bid_by_block_number in_memory_storage s n) \<and>
     read_blinded_block_response in_memory_storage s' k =
       read_blinded_block_response in_memory_storage s k \<and>
     read_validator_registration in_memory_storage s' k =
       read_validator_registration in_memory_storage s k \<and>
     find_duty_by_slot in_memory_storage s' slot' = find_duty_by_slot in_memory_storage s slot' \<and>
     read_head_slot in_memory_storage s' = read_head_slot in_memory_storage s \<and>
     read_payload_attributes in_memory_storage s' = read_payload_attributes in_memory_storage s \<and>
     w_recorder w' = w_recorder w \<and> w_tasks w' = w_tasks w"
  by (auto simp: Let_def ims_set_best_bid_def ims_reader_defs)

text \<open>
  The bids by slot stay empty for the whole life of the storage: from the initial state no
  sequence of storage calls, storing bids included, lets \<open>read_best_bid_by_slot\<close> find one.
\<close>

theorem bid_by_slot_never_found:
  "read_best_bid_by_slot in_memory_storage
     (w_store (run_ops in_memory_storage ops
        (InMemoryStorage_new slot attrs builders fork regs duties recorder))) n = None"
  by (simp add: ims_read_best_bid_by_slot_def run_ops_bid_by_slot InMemoryStorage_new_def Let_def)

text \<open>
  The metrics of the payload attributes: \<open>set_payload_attributes\<close> counts the parent block as
  relayed exactly when the relay delivered a block with its hash, counts it once, and sets the two
  chain gauges to the slot and the parent block of the event.
\<close>

theorem payload_attributes_metrics:
  "let w' = set_payload_attributes in_memory_storage a w;
       r = rm_relay (w_recorder w); r' = rm_relay (w_recorder w') in
     read_payload_attributes in_memory_storage (w_store w') = a \<and>
     rl_relayed_blocks r' = rl_relayed_blocks r +
       (if parent_hash a \<in> set (im_delivered_blocks (w_store w)) then 1 else 0) \<and>
     rl_relayed_blocks r' + rl_non_relayed_blocks r'
       = rl_relayed_blocks r + rl_non_relayed_blocks r + 1 \<and>
     ch_block (rm_chain (w_recorder w')) = pa_parent_block_number a \<and>
     ch_proposal_slot (rm_chain (w_recorder w')) = pa_proposal_slot a \<and>
     im_delivered_blocks (w_store w') = im_delivered_blocks (w_store w)"
  by (simp add: Let_def ims_set_payload_attributes_def ims_record_relayed_block_def
      ims_reader_defs metrics_defs)

end
