(* ===== verification/Http_Errors.thy ===== *)
theory Http_Errors
  imports Storage
begin

text \<open>
  \<open>crates/http/src/server/errors.rs\<close> with the error enumerations of the routes, and the replies of
  the HTTP server. A warp rejection is the list of its causes, in the order \<open>find\<close> looks through
  them; JSON serialization is left to \<open>serde\<close>, so a reply carries the value that is serialized.
\<close>

section \<open>Errors of the routes\<close>

datatype GetHeaderError = InvalidSlot | NoBidFound | UnauthorizedGetHeader

fun GetHeaderError_to_string :: "GetHeaderError \<Rightarrow> string" where
  "GetHeaderError_to_string InvalidSlot = ''slot is too old''"
| "GetHeaderError_to_string NoBidFound = ''No bid found''"
| "GetHeaderError_to_string UnauthorizedGetHeader = ''Not authorized to get the header.''"

datatype PostBlindedBlockErr =
    NoDutyFound
  | ProposerIndexMismatch u64 u64 \<comment> \<open>expected, actual\<close>
  | InvalidBlindedSignature
  | NoBlockFromBlockHash
  | PublishBlock
  | UnauthorizedSubmission

fun PostBlindedBlockErr_to_string :: "PostBlindedBlockErr \<Rightarrow> string" where
  "PostBlindedBlockErr_to_string NoDutyFound = ''No duty found from slot.''"
| "PostBlindedBlockErr_to_string (ProposerIndexMismatch expected actual) =
     ''Proposer index mismatch: expected '' @ nat_to_string (unat expected) @ '', got ''
       @ nat_to_string (unat actual) @ ''.''"
| "PostBlindedBlockErr_to_string InvalidBlindedSignature = ''Invalid signature.''"
| "PostBlindedBlockErr_to_string NoBlockFromBlockHash =
     ''Could not find blinded block response for block hash.''"
| "PostBlindedBlockErr_to_string PublishBlock = ''Could not publish block.''"
| "PostBlindedBlockErr_to_string UnauthorizedSubmission =
     ''Not authorized to submit the blinded block.''"

datatype PostBidsError =
    BelowFloor
  | ZeroBid
  | UnauthorizedBuilder
  | PastSlotSubmission
  | DutyNotFound
  | InvalidSignature
  | InvalidPayloadAttrs string

fun PostBidsError_to_string :: "PostBidsError \<Rightarrow> string" where
  "PostBidsError_to_string BelowFloor = ''Bid value is below floor.''"
| "PostBidsError_to_string ZeroBid = ''Bid value 0.''"
| "PostBidsError_to_string UnauthorizedBuilder = ''Builder is not allowed to submit bids.''"
| "PostBidsError_to_string PastSlotSubmission = ''Submission is for past slot.''"
| "PostBidsError_to_string DutyNotFound = ''No duty found from slot.''"
| "PostBidsError_to_string InvalidSignature = ''Invalid signature.''"
| "PostBidsError_to_string (InvalidPayloadAttrs m) = ''Invalid payload attributes: '' @ m @ ''.''"

datatype GetBidsError = MissingQueryParam

fun GetBidsError_to_string :: "GetBidsError \<Rightarrow> string" where
  "GetBidsError_to_string MissingQueryParam = ''One of slot or block_number must be provided.''"

datatype ApiError =
    ApiGetHeader GetHeaderError
  | ApiPostBlindedBlock PostBlindedBlockErr
  | ApiPostBids PostBidsError
  | ApiGetBids GetBidsError

fun ApiError_to_string :: "ApiError \<Rightarrow> string" where
  "ApiError_to_string (ApiGetHeader e) = GetHeaderError_to_string e"
| "ApiError_to_string (ApiPostBlindedBlock e) = PostBlindedBlockErr_to_string e"
| "ApiError_to_string (ApiPostBids e) = PostBidsError_to_string e"
| "ApiError_to_string (ApiGetBids e) = GetBidsError_to_string e"

section \<open>Rejections\<close>

text \<open>
  The causes: the four custom errors of the routes, a conversion error (\<open>?\<close> in \<open>get_header\<close>), and
  every rejection that warp makes itself (no route, body too large, malformed body or query, or
  the plain \<open>reject()\<close> of a failed authentication), which the sources never look into.
\<close>

datatype Cause =
    CauseGetHeader GetHeaderError
  | CausePostBlindedBlock PostBlindedBlockErr
  | CausePostBids PostBidsError
  | CauseGetBids GetBidsError
  | CauseConversion ConversionError
  | CauseWarp string

type_synonym Rejection = "Cause list"

definition custom :: "Cause \<Rightarrow> Rejection" where
  "custom c = [c]"

fun as_get_header :: "Cause \<Rightarrow> GetHeaderError option" where
  "as_get_header (CauseGetHeader e) = Some e"
| "as_get_header _ = None"

fun as_post_blinded_block :: "Cause \<Rightarrow> PostBlindedBlockErr option" where
  "as_post_blinded_block (CausePostBlindedBlock e) = Some e"
| "as_post_blinded_block _ = None"

fun as_post_bids :: "Cause \<Rightarrow> PostBidsError option" where
  "as_post_bids (CausePostBids e) = Some e"
| "as_post_bids _ = None"

fun as_get_bids :: "Cause \<Rightarrow> GetBidsError option" where
  "as_get_bids (CauseGetBids e) = Some e"
| "as_get_bids _ = None"

text \<open>\<open>Rejection::find::<T>()\<close>: the first cause of the type.\<close>

definition find_cause :: "(Cause \<Rightarrow> 'e option) \<Rightarrow> Rejection \<Rightarrow> 'e option" where
  "find_cause as_type err =
     (case List.map_filter as_type err of [] \<Rightarrow> None | e # _ \<Rightarrow> Some e)"

section \<open>Replies\<close>

datatype ReplyBody =
    Text string
  | JsonString string
  | JsonHeader "SignedHeader Versioned"
  | JsonBlindedBlock "BlindedBlockResponse Versioned"
  | JsonDuties "Validator list"
  | JsonBids "BidSubmission list"

record Reply =
  rp_status :: u16
  rp_body :: ReplyBody

definition StatusOK :: u16 where "StatusOK = 200"
definition BAD_REQUEST :: u16 where "BAD_REQUEST = 400"
definition INTERNAL_SERVER_ERROR :: u16 where "INTERNAL_SERVER_ERROR = 500"

definition with_status :: "ReplyBody \<Rightarrow> u16 \<Rightarrow> Reply" where
  "with_status body status = \<lparr>rp_status = status, rp_body = body\<rparr>"

definition reply_json :: "ReplyBody \<Rightarrow> Reply" where
  "reply_json body = \<lparr>rp_status = StatusOK, rp_body = body\<rparr>"

type_synonym WarpResult = "(Reply, Rejection) res"

text \<open>\<open>debug\<close> is the \<open>Debug\<close> rendering of a rejection, which belongs to warp.\<close>

definition handle_rejection :: "(Rejection \<Rightarrow> string) \<Rightarrow> Rejection \<Rightarrow> Reply" where
  "handle_rejection debug err =
     (case find_cause as_get_header err of
        Some e \<Rightarrow> with_status (JsonString (ApiError_to_string (ApiGetHeader e))) BAD_REQUEST
      | None \<Rightarrow>
     (case find_cause as_post_blinded_block err of
        Some e \<Rightarrow> with_status (JsonString (ApiError_to_string (ApiPostBlindedBlock e))) BAD_REQUEST
      | None \<Rightarrow>
     (case find_cause as_post_bids err of
        Some e \<Rightarrow> with_status (JsonString (ApiError_to_string (ApiPostBids e))) BAD_REQUEST
      | None \<Rightarrow>
     (case find_cause as_get_bids err of
        Some e \<Rightarrow> with_status (JsonString (ApiError_to_string (ApiGetBids e))) BAD_REQUEST
      | None \<Rightarrow> with_status (JsonString (''Error: '' @ debug err)) INTERNAL_SERVER_ERROR))))"

section \<open>Lemmas\<close>

lemma find_cause_custom [simp]: "find_cause as_type (custom c) = as_type c"
  by (simp add: find_cause_def custom_def List.map_filter_def split: option.splits)

lemma find_cause_None_iff: "find_cause as_type err = None \<longleftrightarrow> (\<forall>c\<in>set err. as_type c = None)"
  unfolding map_filter_Nil_iff [symmetric] find_cause_def by (simp split: list.splits)

text \<open>The causes that are answered with a client error.\<close>

definition is_api_cause :: "Cause \<Rightarrow> bool" where
  "is_api_cause c = (as_get_header c \<noteq> None \<or> as_post_blinded_block c \<noteq> None \<or>
     as_post_bids c \<noteq> None \<or> as_get_bids c \<noteq> None)"

lemma handle_rejection_status_cases:
  "rp_status (handle_rejection dbg err) = 400 \<or> rp_status (handle_rejection dbg err) = 500"
  by (simp add: handle_rejection_def with_status_def BAD_REQUEST_def INTERNAL_SERVER_ERROR_def
      split: option.split)

lemma rejection_status:
  "rp_status (handle_rejection dbg err) = (if \<exists>c\<in>set err. is_api_cause c then 400 else 500)"
proof -
  have "(\<exists>c\<in>set err. is_api_cause c) \<longleftrightarrow>
      find_cause as_get_header err \<noteq> None \<or> find_cause as_post_blinded_block err \<noteq> None \<or>
      find_cause as_post_bids err \<noteq> None \<or> find_cause as_get_bids err \<noteq> None"
    unfolding find_cause_None_iff is_api_cause_def by auto
  then show ?thesis
    by (auto simp: handle_rejection_def with_status_def BAD_REQUEST_def INTERNAL_SERVER_ERROR_def
        split: option.splits)
qed

section \<open>Properties\<close>

text \<open>
  A rejection is answered with 400 exactly when one of its causes is an error of a route, and
  with 500 otherwise, never with another status; a rejection with one route error carries the
  message of this error, and a conversion error or a failed authentication is an internal error.
\<close>

theorem handle_rejection_status:
  "rp_status (handle_rejection dbg err) =
     (if \<exists>c\<in>set err. is_api_cause c then 400 else 500) \<and>
   handle_rejection dbg (custom (CausePostBids e)) =
     \<lparr>rp_status = 400, rp_body = JsonString (PostBidsError_to_string e)\<rparr> \<and>
   handle_rejection dbg (custom (CauseGetHeader g)) =
     \<lparr>rp_status = 400, rp_body = JsonString (GetHeaderError_to_string g)\<rparr> \<and>
   handle_rejection dbg (custom (CausePostBlindedBlock b)) =
     \<lparr>rp_status = 400, rp_body = JsonString (PostBlindedBlockErr_to_string b)\<rparr> \<and>
   rp_status (handle_rejection dbg (custom (CauseConversion ce))) = 500 \<and>
   rp_status (handle_rejection dbg (custom (CauseWarp m))) = 500"
  using rejection_status by (auto simp: is_api_cause_def handle_rejection_def with_status_def BAD_REQUEST_def
      INTERNAL_SERVER_ERROR_def custom_def find_cause_def map_filter_simps)

end
