(* ===== verification/Post_Bids.thy ===== *)
theory Post_Bids
  imports Http_Errors
begin

text \<open>
  \<open>crates/http/src/server/builder_api/post_bids.rs\<close>: the route on which builders submit bids. The
  handler is the sequence of its checks, which read the storage, and of the two writes; both are
  definitions of their own because other tasks can run between them.
\<close>

section \<open>The handler\<close>

definition is_bid_higher :: "'s Storage \<Rightarrow> 's \<Rightarrow> BidTrace \<Rightarrow> bool" where
  "is_bid_higher S s bid =
     (case read_best_bid S s (bt_slot bid) (bt_parent_hash bid) (bt_proposer_pubkey bid) of
        Some current_best \<Rightarrow> BidTrace_gt bid (bid_trace current_best)
      | None \<Rightarrow> True)"

definition post_bids_checks ::
    "externs \<Rightarrow> 's Storage \<Rightarrow> 's \<Rightarrow> BidSubmission \<Rightarrow> (Validator, Rejection) res" where
  "post_bids_checks X S s submission =
     (let bid = bid_trace submission in
      if \<not> is_bid_higher S s bid then Err (custom (CausePostBids BelowFloor))
      else if U256_is_zero (bt_value bid) then Err (custom (CausePostBids ZeroBid))
      else if \<not> is_whitelisted_builder S s (bt_builder_pubkey bid)
      then Err (custom (CausePostBids UnauthorizedBuilder))
      else if \<not> is_next_slot (read_head_slot S s) (bt_slot bid)
      then Err (custom (CausePostBids PastSlotSubmission))
      else let execution_payload = bs_execution_payload submission in
      case validate_bid (read_payload_attributes S s) (bt_slot bid)
             (ep_prev_randao execution_payload) of
        Err error_message \<Rightarrow>
          Err (custom (CausePostBids (InvalidPayloadAttrs (ValidationErrors_to_string error_message))))
      | Panic m \<Rightarrow> Panic m
      | Ok _ \<Rightarrow>
     (case find_duty_by_slot S s (bt_slot bid) of
        None \<Rightarrow> Err (custom (CausePostBids DutyNotFound))
      | Some duty \<Rightarrow>
          if \<not> BidTrace_verify_signature X bid (bs_signature submission)
                 (compute_builder_domain X (fork_data S s))
          then Err (custom (CausePostBids InvalidSignature))
          else Ok duty))"

definition post_bids_commit ::
    "'s Storage \<Rightarrow> BidSubmission \<Rightarrow> Validator \<Rightarrow> 's world \<Rightarrow> 's world" where
  "post_bids_commit S submission duty w =
     (let bid = bid_trace submission;
          slot = bt_slot bid;
          submission = BidSubmission_new bid (bs_execution_payload submission)
            (bs_blobs_bundle submission) (bs_signature submission);
          blinded_block_response = to_blinded_block_response submission;
          w = set_best_bid S slot submission w
      in set_blinded_block_response S (duty_pubkey duty) blinded_block_response w)"

definition post_bids_handler ::
    "externs \<Rightarrow> 's Storage \<Rightarrow> BidSubmission \<Rightarrow> 's world \<Rightarrow> 's world \<times> WarpResult" where
  "post_bids_handler X S submission w =
     (case post_bids_checks X S (w_store w) submission of
        Err e \<Rightarrow> (w, Err e)
      | Panic m \<Rightarrow> (w, Panic m)
      | Ok duty \<Rightarrow> (post_bids_commit S submission duty w, Ok (with_status (Text ''OK'') StatusOK)))"

section \<open>Admissible bids\<close>

text \<open>
  What the checks establish, over the abstract storage: the conditions that do not depend on the
  other bids, and being higher than the best bid of the key.
\<close>

type_synonym bid_key = "u64 \<times> B256 \<times> BlsPublicKey"

definition bid_key :: "BidSubmission \<Rightarrow> bid_key" where
  "bid_key b = (bt_slot (bid_trace b), bt_parent_hash (bid_trace b), bt_proposer_pubkey (bid_trace b))"

abbreviation bid_value :: "BidSubmission \<Rightarrow> U256" where
  "bid_value b \<equiv> bt_value (bid_trace b)"

definition admissible_static :: "externs \<Rightarrow> StorageSpec \<Rightarrow> BidSubmission \<Rightarrow> bool" where
  "admissible_static X \<sigma> b =
     (let t = bid_trace b; a = ss_payload_attributes \<sigma> in
      \<not> U256_is_zero (bt_value t) \<and>
      bt_builder_pubkey t \<in> ss_builders \<sigma> \<and>
      bt_slot t = head_slot (ss_head_slot \<sigma>) + 1 \<and>
      pa_proposal_slot a = bt_slot t \<and>
      prev_randao a = ep_prev_randao (bs_execution_payload b) \<and>
      BidTrace_verify_signature X t (bs_signature b) (compute_builder_domain X (ss_fork_data \<sigma>)))"

definition duty_of :: "StorageSpec \<Rightarrow> u64 \<Rightarrow> Validator option" where
  "duty_of \<sigma> slot = List.find (\<lambda>d. val_slot d = slot) (ss_proposer_duties \<sigma>)"

definition outbids :: "StorageSpec \<Rightarrow> BidSubmission \<Rightarrow> bool" where
  "outbids \<sigma> b =
     (case ss_best_bid \<sigma> (bid_key b) of None \<Rightarrow> True | Some c \<Rightarrow> bid_value c < bid_value b)"

text \<open>The effect of an accepted bid.\<close>

definition record_bid :: "BidSubmission \<Rightarrow> Validator \<Rightarrow> StorageSpec \<Rightarrow> StorageSpec" where
  "record_bid b duty \<sigma> = \<sigma>
     \<lparr>ss_best_bid := (ss_best_bid \<sigma>)(bid_key b \<mapsto> b),
      ss_bid_by_block_number := (ss_bid_by_block_number \<sigma>)
        (ep_block_number (bs_execution_payload b) \<mapsto> b),
      ss_responses := (ss_responses \<sigma>)(duty_pubkey duty \<mapsto> to_blinded_block_response b)\<rparr>"

lemma duty_of_slot: "duty_of \<sigma> slot = Some d \<Longrightarrow> val_slot d = slot \<and> d \<in> set (ss_proposer_duties \<sigma>)"
  unfolding duty_of_def by (drule find_Some_mem) simp

lemma admissible_static_cong:
  assumes "ss_payload_attributes \<sigma> = ss_payload_attributes \<tau>" "ss_builders \<sigma> = ss_builders \<tau>"
    "ss_head_slot \<sigma> = ss_head_slot \<tau>" "ss_fork_data \<sigma> = ss_fork_data \<tau>"
  shows "admissible_static X \<sigma> b = admissible_static X \<tau> b"
  using assms by (simp add: admissible_static_def Let_def)

lemma record_bid_sel [simp]:
  "ss_head_slot (record_bid b d \<sigma>) = ss_head_slot \<sigma>"
  "ss_payload_attributes (record_bid b d \<sigma>) = ss_payload_attributes \<sigma>"
  "ss_proposer_duties (record_bid b d \<sigma>) = ss_proposer_duties \<sigma>"
  "ss_registrations (record_bid b d \<sigma>) = ss_registrations \<sigma>"
  "ss_builders (record_bid b d \<sigma>) = ss_builders \<sigma>"
  "ss_fork_data (record_bid b d \<sigma>) = ss_fork_data \<sigma>"
  "ss_delivered (record_bid b d \<sigma>) = ss_delivered \<sigma>"
  "ss_best_bid (record_bid b d \<sigma>) = (ss_best_bid \<sigma>)(bid_key b \<mapsto> b)"
  "ss_responses (record_bid b d \<sigma>)
   = (ss_responses \<sigma>)(duty_pubkey d \<mapsto> to_blinded_block_response b)"
  "ss_bid_by_block_number (record_bid b d \<sigma>) = (ss_bid_by_block_number \<sigma>)
     (ep_block_number (bs_execution_payload b) \<mapsto> b)"
  by (simp_all add: record_bid_def)

lemma admissible_record_bid [simp]:
  "admissible_static X (record_bid b d \<sigma>) c = admissible_static X \<sigma> c"
  "duty_of (record_bid b d \<sigma>) slot = duty_of \<sigma> slot"
  by (rule admissible_static_cong; simp) (simp add: duty_of_def)

context storage_contract
begin

lemma is_bid_higher_iff: "is_bid_higher S s (bid_trace b) \<longleftrightarrow> outbids (alpha s) b"
  by (simp add: is_bid_higher_def outbids_def bid_key_def readers BidTrace_gt_iff
      split: option.splits)

lemma post_bids_checks_Ok:
  "post_bids_checks X S s b = Ok duty \<longleftrightarrow>
     outbids (alpha s) b \<and> admissible_static X (alpha s) b \<and>
     duty_of (alpha s) (bt_slot (bid_trace b)) = Some duty"
  by (auto simp: post_bids_checks_def Let_def is_bid_higher_iff readers admissible_static_def
      duty_of_def is_next_slot_def validate_bid_def split: option.splits if_splits)

lemma post_bids_checks_no_Panic: "post_bids_checks X S s b \<noteq> Panic m"
  by (auto simp: post_bids_checks_def Let_def split: option.splits if_splits res.splits)

lemma post_bids_commit_store:
  "alpha (w_store (post_bids_commit S b duty w)) = record_bid b duty (alpha (w_store w))"
  by (simp add: post_bids_commit_def Let_def setters_store record_bid_def bid_key_def
      BidSubmission_new_eta to_blinded_block_response_def)

lemma post_bids_commit_frame:
  "w_tasks (post_bids_commit S b duty w) = w_tasks w"
  "w_recorder (post_bids_commit S b duty w) = w_recorder w"
  by (simp_all add: post_bids_commit_def Let_def setters_tasks setters_recorder)

lemma post_bids_handler_cases:
  obtains (accepted) duty where "outbids (alpha (w_store w)) b"
      "admissible_static X (alpha (w_store w)) b"
      "duty_of (alpha (w_store w)) (bt_slot (bid_trace b)) = Some duty"
      "post_bids_handler X S b w
       = (post_bids_commit S b duty w, Ok (with_status (Text ''OK'') StatusOK))"
  | (rejected) e where "post_bids_handler X S b w = (w, Err e)"
      "\<not> (outbids (alpha (w_store w)) b \<and> admissible_static X (alpha (w_store w)) b \<and>
          duty_of (alpha (w_store w)) (bt_slot (bid_trace b)) \<noteq> None)"
proof (cases "post_bids_checks X S (w_store w) b")
  case (Ok duty)
  then have "post_bids_handler X S b w
      = (post_bids_commit S b duty w, Ok (with_status (Text ''OK'') StatusOK))"
    by (simp add: post_bids_handler_def)
  with Ok show thesis by (intro accepted [of duty]) (simp_all add: post_bids_checks_Ok)
next
  case (Err e)
  then have "\<nexists>duty. outbids (alpha (w_store w)) b \<and> admissible_static X (alpha (w_store w)) b \<and>
      duty_of (alpha (w_store w)) (bt_slot (bid_trace b)) = Some duty"
    by (simp flip: post_bids_checks_Ok)
  moreover have "post_bids_handler X S b w = (w, Err e)" by (simp add: post_bids_handler_def Err)
  ultimately show thesis by (intro rejected [of e]) blast+
qed (simp add: post_bids_checks_no_Panic)

lemma post_bids_is_ok:
  "is_ok (snd (post_bids_handler X S b w)) \<longleftrightarrow>
     outbids (alpha (w_store w)) b \<and> admissible_static X (alpha (w_store w)) b \<and>
     duty_of (alpha (w_store w)) (bt_slot (bid_trace b)) \<noteq> None"
proof -
  have "is_ok (snd (post_bids_handler X S b w)) \<longleftrightarrow>
      (\<exists>duty. post_bids_checks X S (w_store w) b = Ok duty)"
    by (simp add: post_bids_handler_def is_ok_iff split: res.split)
  then show ?thesis by (auto simp: post_bids_checks_Ok)
qed

lemma post_bids_refines:
  "abs_world alpha (fst (post_bids_handler X S b w))
     = fst (post_bids_handler X spec_storage b (abs_world alpha w)) \<and>
   snd (post_bids_handler X S b w) = snd (post_bids_handler X spec_storage b (abs_world alpha w))"
proof -
  have "post_bids_checks X S (w_store w) b = post_bids_checks X spec_storage (alpha (w_store w)) b"
    unfolding post_bids_checks_def is_bid_higher_def readers spec.readers ..
  moreover have "abs_world alpha (post_bids_commit S b d w)
      = post_bids_commit spec_storage b d (abs_world alpha w)" for d
    by (simp add: post_bids_commit_def Let_def setters)
  ultimately show ?thesis by (simp add: post_bids_handler_def split: res.splits)
qed

end

section \<open>Properties\<close>

text \<open>
  C2. A bid is accepted exactly when it is higher than the best bid of its slot, parent hash and
  proposer, not zero, from a whitelisted builder, for the slot after the head, for the slot and the
  randomness of the payload attributes, for a slot with a known duty, and signed by its builder
  under the builder domain.
\<close>

theorem post_bids_accept_iff:
  "let s = w_store w; t = bid_trace b; S = in_memory_storage in
     is_ok (snd (post_bids_handler X S b w)) \<longleftrightarrow>
       (case read_best_bid S s (bt_slot t) (bt_parent_hash t) (bt_proposer_pubkey t) of
          None \<Rightarrow> True | Some c \<Rightarrow> u256_val (bid_value c) < u256_val (bt_value t)) \<and>
       u256_val (bt_value t) \<noteq> 0 \<and>
       bt_builder_pubkey t \<in> set (im_wlist_builders s) \<and>
       bt_slot t = head_slot (im_slot s) + 1 \<and>
       pa_proposal_slot (im_payload_attributes s) = bt_slot t \<and>
       prev_randao (im_payload_attributes s) = ep_prev_randao (bs_execution_payload b) \<and>
       find_duty_by_slot S s (bt_slot t) \<noteq> None \<and>
       BidTrace_verify_signature X t (bs_signature b) (compute_builder_domain X (im_fork_data s))"
  unfolding Let_def ims.post_bids_is_ok
  by (auto simp: outbids_def bid_key_def admissible_static_def duty_of_def ims_reader_defs
      Let_def U256_is_zero_def U256_less_iff split: option.splits)

text \<open>
  C4. An accepted bid becomes the best bid of its key and of its block number, and its payload and
  blobs become the response for the proposer that the duties name; nothing else of the storage, the
  metrics or the tasks changes. A rejected bid changes nothing, and the handler never panics.
\<close>

theorem post_bids_effect:
  "case post_bids_handler X in_memory_storage b w of (w', r) \<Rightarrow>
     (case r of
        Ok reply \<Rightarrow> reply = \<lparr>rp_status = 200, rp_body = Text ''OK''\<rparr> \<and>
          (case find_duty_by_slot in_memory_storage (w_store w) (bt_slot (bid_trace b)) of
             Some duty \<Rightarrow> abs_in_memory (w_store w') = record_bid b duty (abs_in_memory (w_store w))
           | None \<Rightarrow> False) \<and>
          w_recorder w' = w_recorder w \<and> w_tasks w' = w_tasks w
      | Err e \<Rightarrow> w' = w
      | Panic m \<Rightarrow> False)"
  by (rule ims.post_bids_handler_cases [where w = w and X = X and b = b])
    (simp_all add: ims.post_bids_commit_store ims.post_bids_commit_frame duty_of_def
      ims_reader_defs with_status_def StatusOK_def)

text \<open>
  The error of a rejected bid names the first check that fails, in the order: not higher than
  the best bid, zero, builder not whitelisted, slot not after the head, payload attributes, duty,
  signature; in particular the signature is verified only for a bid that passed all other checks.
\<close>

theorem post_bids_first_error:
  "let s = w_store w; \<sigma> = abs_in_memory s; t = bid_trace b;
       r = snd (post_bids_handler X in_memory_storage b w);
       err = (\<lambda>e. r = Err (custom (CausePostBids e)));
       attrs_ok = is_ok (validate_bid (im_payload_attributes s) (bt_slot t)
                          (ep_prev_randao (bs_execution_payload b)));
       c1 = outbids \<sigma> b; c2 = (c1 \<and> \<not> U256_is_zero (bt_value t));
       c3 = (c2 \<and> bt_builder_pubkey t \<in> set (im_wlist_builders s));
       c4 = (c3 \<and> is_next_slot (im_slot s) (bt_slot t)); c5 = (c4 \<and> attrs_ok);
       c6 = (c5 \<and> duty_of \<sigma> (bt_slot t) \<noteq> None)
   in (err BelowFloor \<longleftrightarrow> \<not> c1) \<and> (err ZeroBid \<longleftrightarrow> c1 \<and> \<not> c2) \<and>
      (err UnauthorizedBuilder \<longleftrightarrow> c2 \<and> \<not> c3) \<and> (err PastSlotSubmission \<longleftrightarrow> c3 \<and> \<not> c4) \<and>
      ((\<exists>m. err (InvalidPayloadAttrs m)) \<longleftrightarrow> c4 \<and> \<not> c5) \<and> (err DutyNotFound \<longleftrightarrow> c5 \<and> \<not> c6) \<and>
      (err InvalidSignature \<longleftrightarrow> c6 \<and> \<not> is_ok r)"
proof -
  have r: "snd (post_bids_handler X in_memory_storage b w) = Err e \<longleftrightarrow>
      post_bids_checks X in_memory_storage (w_store w) b = Err e" for e
    by (simp add: post_bids_handler_def split: res.split)
  have ok: "is_ok (snd (post_bids_handler X in_memory_storage b w)) \<longleftrightarrow>
      is_ok (post_bids_checks X in_memory_storage (w_store w) b)"
    by (simp add: post_bids_handler_def split: res.split)
  show ?thesis
    unfolding Let_def r ok
    by (auto simp: post_bids_checks_def Let_def ims.is_bid_higher_iff ims_reader_defs custom_def
        duty_of_def validate_bid_def split: option.splits)
qed

text \<open>
  The handler on the in-memory storage refines the handler on the abstract storage: the same
  reply, and the same abstract state after it.
\<close>

theorem post_bids_refines_spec:
  "abs_world abs_in_memory (fst (post_bids_handler X in_memory_storage b w))
     = fst (post_bids_handler X spec_storage b (abs_world abs_in_memory w)) \<and>
   snd (post_bids_handler X in_memory_storage b w)
     = snd (post_bids_handler X spec_storage b (abs_world abs_in_memory w))"
  by (rule ims.post_bids_refines)

end
