(* ===== verification/Auction.thy ===== *)
theory Auction
  imports Post_Bids
begin

text \<open>
  The auction: what a sequence of bid submissions, handled one after the other, makes of the best
  bids. The result is compared with a declarative one: the first of the admissible candidates whose
  value is maximal.
\<close>

section \<open>The first maximum\<close>

definition first_max :: "('a \<Rightarrow> 'v::linorder) \<Rightarrow> 'a list \<Rightarrow> 'a option" where
  "first_max f xs = List.find (\<lambda>x. list_all (\<lambda>y. f y \<le> f x) xs) xs"

lemma first_max_Some:
  "first_max f xs = Some x \<Longrightarrow> x \<in> set xs \<and> list_all (\<lambda>y. f y \<le> f x) xs"
  unfolding first_max_def by (rule find_Some_mem)

lemma first_max_None_iff: "first_max f xs = None \<longleftrightarrow> xs = []"
proof (cases "xs = []")
  case False
  then have "finite (f ` set xs)" "f ` set xs \<noteq> {}" by simp_all
  then have "Max (f ` set xs) \<in> f ` set xs" by (rule Max_in)
  then obtain x where x: "x \<in> set xs" "f x = Max (f ` set xs)" by auto
  then have "\<forall>y\<in>set xs. f y \<le> f x" by simp
  with x(1) have "first_max f xs \<noteq> None"
    by (auto simp: first_max_def find_None_iff list_all_iff)
  with False show ?thesis by simp
qed (simp add: first_max_def)

lemma find_snoc:
  "List.find P (xs @ [x]) =
     (case List.find P xs of Some y \<Rightarrow> Some y | None \<Rightarrow> if P x then Some x else None)"
  by (induction xs) simp_all

lemma first_max_snoc:
  "first_max f (xs @ [b]) =
     (case first_max f xs of None \<Rightarrow> Some b | Some c \<Rightarrow> if f c < f b then Some b else Some c)"
proof (cases "first_max f xs")
  case None
  then show ?thesis by (simp add: first_max_None_iff) (simp add: first_max_def)
next
  case (Some c)
  then have c: "c \<in> set xs" "\<forall>y\<in>set xs. f y \<le> f c"
    using first_max_Some [OF Some] by (simp_all add: list_all_iff)
  let ?P = "\<lambda>x. list_all (\<lambda>y. f y \<le> f x) xs" and ?Q = "\<lambda>x. list_all (\<lambda>y. f y \<le> f x) (xs @ [b])"
  show ?thesis
  proof (cases "f c < f b")
    case True
    with c have "List.find ?Q xs = None" by (force simp: find_None_iff list_all_iff)
    moreover from True c have "?Q b" by (force simp: list_all_iff)
    ultimately show ?thesis using True Some by (simp add: first_max_def find_snoc)
  next
    case False
    with c(1) have "?Q x = ?P x" for x by (force simp: list_all_iff)
    then have "List.find ?Q xs = Some c" using Some by (simp add: first_max_def)
    with False Some show ?thesis by (simp add: first_max_def find_snoc)
  qed
qed

section \<open>Runs of the route\<close>

definition post_all :: "externs \<Rightarrow> 's Storage \<Rightarrow> BidSubmission list \<Rightarrow> 's world \<Rightarrow> 's world" where
  "post_all X S bs w = fold (\<lambda>b w. fst (post_bids_handler X S b w)) bs w"

definition admissible :: "externs \<Rightarrow> StorageSpec \<Rightarrow> BidSubmission \<Rightarrow> bool" where
  "admissible X \<sigma> b \<longleftrightarrow>
     admissible_static X \<sigma> b \<and> duty_of \<sigma> (bt_slot (bid_trace b)) \<noteq> None"

definition candidates ::
    "externs \<Rightarrow> StorageSpec \<Rightarrow> bid_key \<Rightarrow> BidSubmission list \<Rightarrow> BidSubmission list" where
  "candidates X \<sigma> k bs =
     (case ss_best_bid \<sigma> k of None \<Rightarrow> [] | Some c \<Rightarrow> [c]) @
     filter (\<lambda>b. bid_key b = k \<and> admissible X \<sigma> b) bs"

lemma candidates_snoc:
  "candidates X \<sigma> k (bs @ [b]) =
     candidates X \<sigma> k bs @ (if bid_key b = k \<and> admissible X \<sigma> b then [b] else [])"
  by (simp add: candidates_def)

lemma candidates_Nil: "first_max bid_value (candidates X \<sigma> k []) = ss_best_bid \<sigma> k"
  by (simp add: candidates_def first_max_def split: option.split)

definition same_static :: "StorageSpec \<Rightarrow> StorageSpec \<Rightarrow> bool" where
  "same_static \<sigma> \<tau> \<longleftrightarrow>
     ss_head_slot \<sigma> = ss_head_slot \<tau> \<and> ss_payload_attributes \<sigma> = ss_payload_attributes \<tau> \<and>
     ss_proposer_duties \<sigma> = ss_proposer_duties \<tau> \<and> ss_registrations \<sigma> = ss_registrations \<tau> \<and>
     ss_builders \<sigma> = ss_builders \<tau> \<and> ss_fork_data \<sigma> = ss_fork_data \<tau> \<and>
     ss_delivered \<sigma> = ss_delivered \<tau>"

lemma same_static_admissible:
  "same_static \<sigma> \<tau> \<Longrightarrow> admissible X \<sigma> b = admissible X \<tau> b"
  using admissible_static_cong [of \<sigma> \<tau> X b] by (simp add: same_static_def admissible_def duty_of_def)

lemma same_static_record [simp]: "same_static (record_bid b d \<sigma>) \<tau> = same_static \<sigma> \<tau>"
  by (simp add: same_static_def)

lemma same_static_refl [simp]: "same_static \<sigma> \<sigma>"
  by (simp add: same_static_def)

context storage_contract
begin

lemma post_step:
  fixes w b X
  defines "\<sigma> \<equiv> alpha (w_store w)" and "w' \<equiv> fst (post_bids_handler X S b w)"
  shows "same_static (alpha (w_store w')) \<tau> = same_static \<sigma> \<tau>"
    and "ss_best_bid (alpha (w_store w')) k =
      (if bid_key b = k \<and> admissible X \<sigma> b
       then (case ss_best_bid \<sigma> k of None \<Rightarrow> Some b
             | Some c \<Rightarrow> if bid_value c < bid_value b then Some b else Some c)
       else ss_best_bid \<sigma> k)"
  unfolding \<sigma>_def w'_def
  by (rule post_bids_handler_cases [where w = w and X = X and b = b];
      auto simp: post_bids_commit_store admissible_def outbids_def split: option.splits)+

lemma post_all_static: "same_static (alpha (w_store (post_all X S bs w))) (alpha (w_store w))"
  by (induction bs rule: rev_induct) (simp_all add: post_all_def post_step)

lemma post_all_best:
  "ss_best_bid (alpha (w_store (post_all X S bs w))) k =
     first_max bid_value (candidates X (alpha (w_store w)) k bs)"
proof (induction bs rule: rev_induct)
  case Nil
  then show ?case by (simp add: candidates_Nil) (simp add: post_all_def)
next
  case (snoc b bs)
  have split: "post_all X S (bs @ [b]) w = fst (post_bids_handler X S b (post_all X S bs w))"
    by (simp add: post_all_def)
  have adm: "admissible X (alpha (w_store (post_all X S bs w))) b = admissible X (alpha (w_store w)) b"
    by (rule same_static_admissible [OF post_all_static])
  show ?case
    unfolding split post_step snoc.IH adm candidates_snoc by (simp add: first_max_snoc)
qed

end

section \<open>Properties\<close>

text \<open>
  The auction: whatever bids are submitted one after the other, the best bid of a key is the
  first one of maximal value among the best bid there was and the admissible bids for the key. A
  later bid of the same value does not replace an earlier one, and bids for other keys play no part.
\<close>

theorem auction_first_max:
  "let s = w_store w; s' = w_store (post_all X in_memory_storage bs w) in
     read_best_bid in_memory_storage s' slot h v =
       first_max bid_value (candidates X (abs_in_memory s) (slot, h, v) bs)"
  using ims.post_all_best [of X bs w "(slot, h, v)"] by (simp add: ims_reader_defs Let_def)

text \<open>
  The value of a best bid never falls while bids are submitted one after the other, and a best
  bid never disappears.
\<close>

theorem auction_monotone:
  assumes "read_best_bid in_memory_storage (w_store w) slot h v = Some c"
  shows "\<exists>d. read_best_bid in_memory_storage (w_store (post_all X in_memory_storage bs w)) slot h v
      = Some d \<and> bid_value c \<le> bid_value d"
proof -
  let ?cs = "candidates X (abs_in_memory (w_store w)) (slot, h, v) bs"
  from assms have c: "c \<in> set ?cs"
    by (simp add: candidates_def ims_reader_defs)
  then have "?cs \<noteq> []" by auto
  then obtain d where d: "first_max bid_value ?cs = Some d"
    using first_max_None_iff [of bid_value ?cs] by auto
  from first_max_Some [OF d] c have "bid_value c \<le> bid_value d" by (simp add: list_all_iff)
  with d show ?thesis using ims.post_all_best [of X bs w "(slot, h, v)"] by (simp add: ims_reader_defs)
qed

end
