(* ===== verification/Get_Header.thy ===== *)
theory Get_Header
  imports Auction
begin

text \<open>
  \<open>crates/http/src/server/proposer_api/get_header.rs\<close>: the route on which a proposer asks for the
  header of the best bid, signed by the relay. The handler reads the storage and only writes
  metrics; \<open>elapsed\<close> is the time it measures, in milliseconds.
\<close>

section \<open>The handler\<close>

definition get_header_response ::
    "externs \<Rightarrow> 's Storage \<Rightarrow> BlsSigner \<Rightarrow> u64 \<Rightarrow> B256 \<Rightarrow> BlsPublicKey \<Rightarrow> 's
     \<Rightarrow> (BidSubmission \<times> SignedHeader Versioned, Rejection) res" where
  "get_header_response X S signer slot phash pubkey s =
     (if read_validator_registration S s pubkey = None
      then Err (custom (CauseGetHeader UnauthorizedGetHeader))
      else let current_slot = read_head_slot S s in
      if \<not> is_next_slot current_slot slot then Err (custom (CauseGetHeader InvalidSlot))
      else res_bind (ok_or (read_best_bid S s slot phash pubkey) (custom (CauseGetHeader NoBidFound)))
        (\<lambda>bid.
      res_bind (res_map_err (\<lambda>e. custom (CauseConversion e)) (SignedHeader_try_from X bid signer))
        (\<lambda>header. Ok (bid, Versioned_new Deneb header))))"

definition get_header_handler ::
    "externs \<Rightarrow> 's Storage \<Rightarrow> BlsSigner \<Rightarrow> u64 \<Rightarrow> B256 \<Rightarrow> BlsPublicKey \<Rightarrow> nat \<Rightarrow> 's world
     \<Rightarrow> 's world \<times> WarpResult" where
  "get_header_handler X S signer slot phash pubkey elapsed w =
     (case get_header_response X S signer slot phash pubkey (w_store w) of
        Err e \<Rightarrow> (w, Err e)
      | Panic m \<Rightarrow> (w, Panic m)
      | Ok (bid, versioned_header) \<Rightarrow>
          let v = bt_value (bid_trace bid);
              tx_count = length (ep_transactions (bs_execution_payload bid));
              w = on_relay inc_headers w;
              w = (case u256_try_into_u64 X (u256_val v) of
                     Some n \<Rightarrow> on_relay (set_header_values n) w | None \<Rightarrow> w);
              w = on_relay (set_tx_count tx_count) w;
              w = on_relay (set_header_latency (of_nat elapsed)) w
          in (w, Ok (reply_json (JsonHeader versioned_header))))"

section \<open>Lemmas\<close>

lemma get_header_response_Ok:
  "get_header_response X S signer slot phash pubkey s = Ok (bid, vh) \<longleftrightarrow>
     read_validator_registration S s pubkey \<noteq> None \<and>
     is_next_slot (read_head_slot S s) slot \<and>
     read_best_bid S s slot phash pubkey = Some bid \<and>
     (\<exists>h. SignedHeader_try_from X bid signer = Ok h \<and> vh = \<lparr>ver_version = Deneb, ver_data = h\<rparr>)"
  by (auto simp: get_header_response_def Let_def res_simps Versioned_new_def)

lemma get_header_response_no_Panic:
  "get_header_response X S signer slot phash pubkey s \<noteq> Panic m"
  by (auto simp: get_header_response_def Let_def res_simps SignedHeader_try_from_cases)

lemma get_header_store [simp]:
  "w_store (fst (get_header_handler X S signer slot phash pubkey elapsed w)) = w_store w"
  "w_tasks (fst (get_header_handler X S signer slot phash pubkey elapsed w)) = w_tasks w"
  by (auto simp: get_header_handler_def Let_def split: res.split option.split)

lemma get_header_snd:
  "snd (get_header_handler X S signer slot phash pubkey elapsed w) = Ok r \<longleftrightarrow>
     (\<exists>bid vh. get_header_response X S signer slot phash pubkey (w_store w) = Ok (bid, vh) \<and>
        r = \<lparr>rp_status = 200, rp_body = JsonHeader vh\<rparr>)"
  by (auto simp: get_header_handler_def Let_def reply_json_def StatusOK_def split: res.splits)

text \<open>The header that a successful call returns.\<close>

lemma get_header_Ok_iff:
  "snd (get_header_handler X in_memory_storage signer slot phash pubkey elapsed w) = Ok r \<longleftrightarrow>
     (\<exists>bid h. Mapping.lookup (im_validator_registrations (w_store w)) pubkey \<noteq> None \<and>
        slot = head_slot (im_slot (w_store w)) + 1 \<and>
        read_best_bid in_memory_storage (w_store w) slot phash pubkey = Some bid \<and>
        SignedHeader_try_from X bid signer = Ok h \<and>
        r = \<lparr>rp_status = 200, rp_body = JsonHeader \<lparr>ver_version = Deneb, ver_data = h\<rparr>\<rparr>)"
  by (auto simp: get_header_snd get_header_response_Ok ims_reader_defs is_next_slot_def)

section \<open>Properties\<close>

text \<open>
  C16. A header is returned exactly when the key is registered, the slot follows the head slot, there
  is a best bid for the slot, parent hash and key, and its commitments fit the limit of the header.
\<close>

theorem get_header_iff:
  "is_ok (snd (get_header_handler X in_memory_storage signer slot phash pubkey elapsed w)) \<longleftrightarrow>
     Mapping.lookup (im_validator_registrations (w_store w)) pubkey \<noteq> None \<and>
     slot = head_slot (im_slot (w_store w)) + 1 \<and>
     (case read_best_bid in_memory_storage (w_store w) slot phash pubkey of
        None \<Rightarrow> False
      | Some b \<Rightarrow> variable_list_new_ok X 4096 (length (bb_commitments (bs_blobs_bundle b))))"
  unfolding is_ok_iff get_header_Ok_iff
  using SignedHeader_try_from_is_Ok [of X _ signer] by (auto split: option.splits)

text \<open>
  C17. The header that is returned is the one of the best bid: the header of its payload, its value
  and its commitments in order, with the key of the relay, and the signature of the relay on exactly
  this message, which its key verifies under the builder domain of the signer.
\<close>

theorem get_header_signed:
  assumes "blst_correct X"
    and "snd (get_header_handler X in_memory_storage signer slot phash pubkey elapsed w)
         = Ok \<lparr>rp_status = 200, rp_body = JsonHeader vh\<rparr>"
    and "read_best_bid in_memory_storage (w_store w) slot phash pubkey = Some b"
  shows "let m = sh_message (ver_data vh) in
     ver_version vh = Deneb \<and>
     hd_header m = header_from_payload X (bs_execution_payload b) \<and>
     hd_value m = bid_value b \<and>
     hd_blob_kzg_commitments m = map as_kzg_commitment (bb_commitments (bs_blobs_bundle b)) \<and>
     hd_pubkey m = BlsSigner_public_key X signer \<and>
     BlsSignature_verify X (sh_signature (ver_data vh)) (hd_pubkey m)
       (signing_root X (Header_tree_hash_root X m)
         (compute_builder_domain X (sg_fork_data signer)))"
proof -
  from assms(2,3) obtain h where h: "SignedHeader_try_from X b signer = Ok h"
    "vh = \<lparr>ver_version = Deneb, ver_data = h\<rparr>"
    by (auto simp: get_header_Ok_iff)
  note c = SignedHeader_try_from_eq_Ok [OF h(1)]
  show ?thesis
    using c BlsSigner_sign_verify [OF assms(1), of signer "Header_tree_hash_root X (sh_message h)"]
    by (simp add: h(2) Let_def)
qed

text \<open>
  Asking for a header never changes the storage or spawns a task. A refused call changes
  nothing at all; a successful one counts one header, and sets the transaction count and the value
  gauge from the bid it returned, the latter only when the value fits 64 bits.
\<close>

theorem get_header_effect:
  "case get_header_handler X in_memory_storage signer slot phash pubkey elapsed w of (w', r) \<Rightarrow>
     w_store w' = w_store w \<and> w_tasks w' = w_tasks w \<and>
     (case r of
        Ok _ \<Rightarrow>
          (case read_best_bid in_memory_storage (w_store w) slot phash pubkey of
             None \<Rightarrow> False
           | Some b \<Rightarrow>
               rl_headers (rm_relay (w_recorder w')) = rl_headers (rm_relay (w_recorder w)) + 1 \<and>
               rl_tx_count (rm_relay (w_recorder w'))
                 = length (ep_transactions (bs_execution_payload b)) \<and>
               rl_header_values (rm_relay (w_recorder w')) =
                 (case u256_try_into_u64 X (u256_val (bid_value b)) of
                    Some n \<Rightarrow> n | None \<Rightarrow> rl_header_values (rm_relay (w_recorder w))))
      | Err e \<Rightarrow> w' = w \<and> e \<in> {[CauseGetHeader UnauthorizedGetHeader], [CauseGetHeader InvalidSlot],
                                [CauseGetHeader NoBidFound], [CauseConversion SszTypes]}
      | Panic m \<Rightarrow> False)"
proof (cases "get_header_response X in_memory_storage signer slot phash pubkey (w_store w)")
  case (Ok r)
  then obtain bid vh where r: "get_header_response X in_memory_storage signer slot phash pubkey (w_store w)
      = Ok (bid, vh)" by (cases r) auto
  then have "read_best_bid in_memory_storage (w_store w) slot phash pubkey = Some bid"
    by (simp add: get_header_response_Ok)
  with r show ?thesis
    by (simp add: get_header_handler_def Let_def metrics_defs reply_json_def split: option.split)
next
  case (Err e)
  then have "e \<in> {[CauseGetHeader UnauthorizedGetHeader], [CauseGetHeader InvalidSlot],
      [CauseGetHeader NoBidFound], [CauseConversion SszTypes]}"
    by (auto simp: get_header_response_def Let_def custom_def res_simps split: if_splits
        dest: SignedHeader_try_from_cases(1))
  with Err show ?thesis by (simp add: get_header_handler_def)
qed (simp add: get_header_response_no_Panic)

end
