(* ===== verification/Blinded_Blocks.thy ===== *)
theory Blinded_Blocks
  imports Get_Header
begin

text \<open>
  \<open>crates/http/src/server/proposer_api/blinded_blocks.rs\<close>: the route on which a proposer hands in
  the signed blinded block. The relay unblinds it with the payload it has stored for the proposer,
  spawns the publication of the block, and returns the payload.
\<close>

section \<open>The handler\<close>

definition blinded_blocks_checks ::
    "externs \<Rightarrow> 's Storage \<Rightarrow> 's \<Rightarrow> SignedBlindedBlock \<Rightarrow> (BlindedBlockResponse, Rejection) res" where
  "blinded_blocks_checks X S s sb =
     (let slot = SignedBlindedBlock_slot sb in
      case find_duty_by_slot S s slot of
        None \<Rightarrow> Err (custom (CausePostBlindedBlock NoDutyFound))
      | Some duty \<Rightarrow>
      let proposer_index = SignedBlindedBlock_proposer_index sb in
      if val_validator_index duty \<noteq> proposer_index
      then Err (custom (CausePostBlindedBlock
             (ProposerIndexMismatch (val_validator_index duty) proposer_index)))
      else
      let domain = compute_proposer_domain X (fork_data S s);
          signature = sbl_signature sb;
          proposer_pubkey = duty_pubkey duty;
          blinded_block = sbl_message sb in
      if read_validator_registration S s proposer_pubkey = None
      then Err (custom (CausePostBlindedBlock UnauthorizedSubmission))
      else if \<not> BlsSignature_verify X signature proposer_pubkey
                (signing_root X (BlindedBlock_tree_hash_root X blinded_block) domain)
      then Err (custom (CausePostBlindedBlock InvalidBlindedSignature))
      else ok_or (read_blinded_block_response S s proposer_pubkey)
             (custom (CausePostBlindedBlock NoBlockFromBlockHash)))"

definition signed_beacon_block :: "SignedBlindedBlock \<Rightarrow> BlindedBlockResponse \<Rightarrow> SignedBeaconBlockContent" where
  "signed_beacon_block sb resp =
     SignedBeaconBlockContent_new (bbr_execution_payload resp) (sbl_message sb)
       (sbl_signature sb) (bbr_blobs_bundle resp)"

definition blinded_blocks_handler ::
    "externs \<Rightarrow> 's Storage \<Rightarrow> SignedBlindedBlock \<Rightarrow> nat \<Rightarrow> 's world \<Rightarrow> 's world \<times> WarpResult" where
  "blinded_blocks_handler X S sb elapsed w =
     (case blinded_blocks_checks X S (w_store w) sb of
        Err e \<Rightarrow> (w, Err e)
      | Panic m \<Rightarrow> (w, Panic m)
      | Ok resp \<Rightarrow>
          let content = signed_beacon_block sb resp;
              block_hash = content_block_hash content;
              w = spawn (PublishTask content Ssz) w;
              w = on_relay (set_blinded_block_latency (of_nat elapsed)) w;
              versioned_resp = Versioned_new Deneb resp;
              w = set_delivered_blocks S block_hash w
          in (w, Ok (reply_json (JsonBlindedBlock versioned_resp))))"

section \<open>Lemmas\<close>

text \<open>What authorizes a blinded block, over the abstract storage.\<close>

definition authorized_block :: "externs \<Rightarrow> StorageSpec \<Rightarrow> SignedBlindedBlock \<Rightarrow> Validator \<Rightarrow> bool" where
  "authorized_block X \<sigma> sb duty \<longleftrightarrow>
     duty_of \<sigma> (blb_slot (sbl_message sb)) = Some duty \<and>
     val_validator_index duty = blb_proposer_index (sbl_message sb) \<and>
     ss_registrations \<sigma> (duty_pubkey duty) \<noteq> None \<and>
     BlsSignature_verify X (sbl_signature sb) (duty_pubkey duty)
       (signing_root X (BlindedBlock_tree_hash_root X (sbl_message sb))
         (compute_proposer_domain X (ss_fork_data \<sigma>)))"

context storage_contract
begin

lemma blinded_blocks_checks_Ok:
  "blinded_blocks_checks X S s sb = Ok resp \<longleftrightarrow>
     (\<exists>duty. authorized_block X (alpha s) sb duty \<and>
             ss_responses (alpha s) (duty_pubkey duty) = Some resp)"
  by (auto simp: blinded_blocks_checks_def Let_def readers authorized_block_def duty_of_def
      SignedBlindedBlock_slot_def SignedBlindedBlock_proposer_index_def res_simps
      split: option.splits if_splits)

lemma blinded_blocks_is_ok:
  "is_ok (snd (blinded_blocks_handler X S sb elapsed w)) \<longleftrightarrow>
     (\<exists>duty. authorized_block X (alpha (w_store w)) sb duty \<and>
             ss_responses (alpha (w_store w)) (duty_pubkey duty) \<noteq> None)"
proof -
  have "is_ok (snd (blinded_blocks_handler X S sb elapsed w)) \<longleftrightarrow>
      (\<exists>resp. blinded_blocks_checks X S (w_store w) sb = Ok resp)"
    by (simp add: blinded_blocks_handler_def Let_def is_ok_iff reply_json_def split: res.split)
  then show ?thesis by (auto simp: blinded_blocks_checks_Ok)
qed

lemma blinded_blocks_checks_no_Panic: "blinded_blocks_checks X S s sb \<noteq> Panic m"
  by (auto simp: blinded_blocks_checks_def Let_def split: option.splits if_splits)

lemma blinded_blocks_Ok_store:
  assumes "blinded_blocks_checks X S (w_store w) sb = Ok resp"
  shows "alpha (w_store (fst (blinded_blocks_handler X S sb elapsed w))) =
      (alpha (w_store w))
        \<lparr>ss_delivered := insert (ep_block_hash (bbr_execution_payload resp)) (ss_delivered (alpha (w_store w)))\<rparr>"
    and "w_tasks (fst (blinded_blocks_handler X S sb elapsed w)) =
      w_tasks w @ [PublishTask (signed_beacon_block sb resp) Ssz]"
    and "snd (blinded_blocks_handler X S sb elapsed w) =
      Ok \<lparr>rp_status = 200, rp_body = JsonBlindedBlock \<lparr>ver_version = Deneb, ver_data = resp\<rparr>\<rparr>"
  using assms
  by (simp_all add: blinded_blocks_handler_def Let_def setters_store setters_tasks
      signed_beacon_block_def reply_json_def StatusOK_def Versioned_new_def)

end

section \<open>Properties\<close>

text \<open>
  C14. A blinded block is accepted exactly when a duty is known for its slot, the proposer index is
  that of the duty, the proposer of the duty is registered and has signed the block under the
  proposer domain of the storage, and a response is stored for the proposer. The block hash that the
  proposer signed plays no part.
\<close>

theorem blinded_blocks_accept_iff:
  "is_ok (snd (blinded_blocks_handler X in_memory_storage sb elapsed w)) \<longleftrightarrow>
     (case find_duty_by_slot in_memory_storage (w_store w) (blb_slot (sbl_message sb)) of
        None \<Rightarrow> False
      | Some duty \<Rightarrow>
          val_validator_index duty = blb_proposer_index (sbl_message sb) \<and>
          Mapping.lookup (im_validator_registrations (w_store w)) (duty_pubkey duty) \<noteq> None \<and>
          BlsSignature_verify X (sbl_signature sb) (duty_pubkey duty)
            (signing_root X (BlindedBlock_tree_hash_root X (sbl_message sb))
              (compute_proposer_domain X (im_fork_data (w_store w)))) \<and>
          read_blinded_block_response in_memory_storage (w_store w) (duty_pubkey duty) \<noteq> None)"
  unfolding ims.blinded_blocks_is_ok
  by (auto simp: authorized_block_def duty_of_def ims_reader_defs split: option.splits)

text \<open>
  C15. An accepted blinded block publishes, in one task, the block that the proposer signed with the
  stored payload put in place of the header, returns this same payload and its blobs, and marks its
  block hash as delivered; no other part of the storage changes. A rejected one changes nothing,
  publishes nothing and returns no payload.
\<close>

theorem blinded_blocks_effect:
  "case blinded_blocks_handler X in_memory_storage sb elapsed w of (w', r) \<Rightarrow>
     (case r of
        Ok reply \<Rightarrow>
          (case find_duty_by_slot in_memory_storage (w_store w) (blb_slot (sbl_message sb)) of
             None \<Rightarrow> False
           | Some duty \<Rightarrow>
          (case read_blinded_block_response in_memory_storage (w_store w) (duty_pubkey duty) of
             None \<Rightarrow> False
           | Some resp \<Rightarrow>
               reply = \<lparr>rp_status = 200,
                 rp_body = JsonBlindedBlock \<lparr>ver_version = Deneb, ver_data = resp\<rparr>\<rparr> \<and>
               w_tasks w' = w_tasks w @ [PublishTask
                 (SignedBeaconBlockContent_new (bbr_execution_payload resp) (sbl_message sb)
                   (sbl_signature sb) (bbr_blobs_bundle resp)) Ssz] \<and>
               w_store w' = (w_store w)\<lparr>im_delivered_blocks := im_delivered_blocks (w_store w)
                 @ [ep_block_hash (bbr_execution_payload resp)]\<rparr> \<and>
               rl_blinded_blocks (rm_relay (w_recorder w'))
                 = rl_blinded_blocks (rm_relay (w_recorder w)) + 1))
      | Err e \<Rightarrow> w' = w
      | Panic m \<Rightarrow> False)"
proof (cases "blinded_blocks_checks X in_memory_storage (w_store w) sb")
  case (Ok resp)
  then obtain duty where "authorized_block X (abs_in_memory (w_store w)) sb duty"
    "ss_responses (abs_in_memory (w_store w)) (duty_pubkey duty) = Some resp"
    unfolding ims.blinded_blocks_checks_Ok by blast
  with Ok show ?thesis
    by (simp add: blinded_blocks_handler_def Let_def authorized_block_def duty_of_def ims_reader_defs
        signed_beacon_block_def ims_set_delivered_blocks_def metrics_defs reply_json_def StatusOK_def
        Versioned_new_def)
next
  case (Err e)
  then show ?thesis by (simp add: blinded_blocks_handler_def)
qed (simp add: ims.blinded_blocks_checks_no_Panic)

end
