(* ===== verification/Delivery.thy ===== *)
theory Delivery
  imports Blinded_Blocks
begin

text \<open>
  From the bid to the block: the properties that span \<open>post_bids\<close>, \<open>get_header\<close> and
  \<open>blinded_blocks\<close>. A header that a proposer was given is matched by the payload delivered for it
  as long as no other bid is accepted in between; a bid that is accepted in between replaces the
  payload, because the response is stored per proposer and is not compared with the signed header.
\<close>

section \<open>Lemmas\<close>

text \<open>The state after an accepted bid.\<close>

lemma post_bids_accepted:
  assumes "is_ok (snd (post_bids_handler X in_memory_storage b w))"
  obtains duty where
    "duty_of (abs_in_memory (w_store w)) (bt_slot (bid_trace b)) = Some duty"
    "abs_in_memory (w_store (fst (post_bids_handler X in_memory_storage b w)))
       = record_bid b duty (abs_in_memory (w_store w))"
    "w_tasks (fst (post_bids_handler X in_memory_storage b w)) = w_tasks w"
  using assms
  by (rule_tac ims.post_bids_handler_cases [where w = w and X = X and b = b])
    (simp_all add: ims.post_bids_commit_store ims.post_bids_commit_frame)

text \<open>What an authorized block is answered with, over the abstract storage.\<close>

lemma blinded_blocks_answer:
  assumes "is_ok (snd (blinded_blocks_handler X in_memory_storage sb elapsed w))"
    and "duty_of (abs_in_memory (w_store w)) (blb_slot (sbl_message sb)) = Some duty"
    and "ss_responses (abs_in_memory (w_store w)) (duty_pubkey duty) = Some resp"
  shows "snd (blinded_blocks_handler X in_memory_storage sb elapsed w) =
      Ok \<lparr>rp_status = 200, rp_body = JsonBlindedBlock \<lparr>ver_version = Deneb, ver_data = resp\<rparr>\<rparr>"
    and "w_tasks (fst (blinded_blocks_handler X in_memory_storage sb elapsed w)) =
      w_tasks w @ [PublishTask (signed_beacon_block sb resp) Ssz]"
proof -
  from assms(1) obtain resp' where r: "blinded_blocks_checks X in_memory_storage (w_store w) sb = Ok resp'"
    by (auto simp: blinded_blocks_handler_def Let_def is_ok_iff split: res.splits)
  with assms(2,3) have "resp' = resp"
    by (auto simp: ims.blinded_blocks_checks_Ok authorized_block_def)
  with ims.blinded_blocks_Ok_store(2,3) [OF r, of elapsed]
  show "snd (blinded_blocks_handler X in_memory_storage sb elapsed w) =
      Ok \<lparr>rp_status = 200, rp_body = JsonBlindedBlock \<lparr>ver_version = Deneb, ver_data = resp\<rparr>\<rparr>"
    and "w_tasks (fst (blinded_blocks_handler X in_memory_storage sb elapsed w)) =
      w_tasks w @ [PublishTask (signed_beacon_block sb resp) Ssz]"
    by simp_all
qed

lemma signed_beacon_block_hash [simp]:
  "content_block_hash (signed_beacon_block sb resp) = ep_block_hash (bbr_execution_payload resp)"
  "content_execution_payload (signed_beacon_block sb resp) = bbr_execution_payload resp"
  by (simp_all add: signed_beacon_block_def)

lemma find_duty_abs:
  "find_duty_by_slot in_memory_storage s slot = duty_of (abs_in_memory s) slot"
  by (simp add: duty_of_def ims_reader_defs)

section \<open>Properties\<close>

text \<open>
  The acceptance of a bid depends on its payload through the randomness only: with any other
  payload of the same randomness, and any blobs, the same bid is accepted or rejected alike. In
  particular the block hash, parent hash and value that the builder signs are never compared with
  the payload it delivers.
\<close>

theorem acceptance_ignores_payload:
  "is_ok (snd (post_bids_handler X in_memory_storage
       (b\<lparr>bs_execution_payload := p\<lparr>ep_prev_randao := ep_prev_randao (bs_execution_payload b)\<rparr>,
          bs_blobs_bundle := bundle\<rparr>) w))
   = is_ok (snd (post_bids_handler X in_memory_storage b w))"
proof -
  let ?b = "b\<lparr>bs_execution_payload := p\<lparr>ep_prev_randao := ep_prev_randao (bs_execution_payload b)\<rparr>,
          bs_blobs_bundle := bundle\<rparr>"
  have "post_bids_checks X in_memory_storage (w_store w) ?b
      = post_bids_checks X in_memory_storage (w_store w) b"
    by (simp add: post_bids_checks_def Let_def bid_trace_def split: res.split option.split)
  then show ?thesis by (simp add: post_bids_handler_def split: res.split)
qed

text \<open>
  C5. Header and payload match: when a bid is accepted for the proposer that the duties name, its
  header is fetched, and the proposer hands in a block with this header, then the payload that is
  returned and published is the payload of the bid, its header is the one that was signed, and the
  published block has the hash that was signed.
\<close>

theorem delivered_payload_matches_header:
  assumes "is_ok (snd (post_bids_handler X in_memory_storage b w))"
    and "w1 = fst (post_bids_handler X in_memory_storage b w)"
    and "find_duty_by_slot in_memory_storage (w_store w) (bt_slot (bid_trace b)) = Some duty"
    and "bt_proposer_pubkey (bid_trace b) = duty_pubkey duty"
    and "get_header_handler X in_memory_storage signer (bt_slot (bid_trace b))
           (bt_parent_hash (bid_trace b)) (duty_pubkey duty) t1 w1
         = (w2, Ok \<lparr>rp_status = 200, rp_body = JsonHeader vh\<rparr>)"
    and "blbb_execution_payload_header (blb_body (sbl_message sb)) = hd_header (sh_message (ver_data vh))"
    and "blb_slot (sbl_message sb) = bt_slot (bid_trace b)"
    and "is_ok (snd (blinded_blocks_handler X in_memory_storage sb t2 w2))"
  shows "snd (blinded_blocks_handler X in_memory_storage sb t2 w2) =
      Ok \<lparr>rp_status = 200, rp_body = JsonBlindedBlock
            \<lparr>ver_version = Deneb, ver_data = to_blinded_block_response b\<rparr>\<rparr> \<and>
    w_tasks (fst (blinded_blocks_handler X in_memory_storage sb t2 w2)) =
      w_tasks w @ [PublishTask (signed_beacon_block sb (to_blinded_block_response b)) Ssz] \<and>
    header_from_payload X (bs_execution_payload b)
      = blbb_execution_payload_header (blb_body (sbl_message sb)) \<and>
    content_block_hash (signed_beacon_block sb (to_blinded_block_response b))
      = SignedBlindedBlock_block_hash sb"
proof -
  from assms(1) obtain duty' where "duty_of (abs_in_memory (w_store w)) (bt_slot (bid_trace b)) = Some duty'"
    and s1': "abs_in_memory (w_store w1) = record_bid b duty' (abs_in_memory (w_store w))"
    and tasks: "w_tasks w1 = w_tasks w"
    unfolding assms(2) by (rule post_bids_accepted)
  with assms(3) have s1: "abs_in_memory (w_store w1) = record_bid b duty (abs_in_memory (w_store w))"
    by (simp add: find_duty_abs del: in_memory_readers)
  have w2: "w_store w2 = w_store w1" "w_tasks w2 = w_tasks w1"
    using assms(5) by (metis fst_conv get_header_store)+
  have "ss_best_bid (abs_in_memory (w_store w1)) (bid_key b) = Some b"
    unfolding s1 by simp
  then have best: "read_best_bid in_memory_storage (w_store w1) (bt_slot (bid_trace b))
      (bt_parent_hash (bid_trace b)) (duty_pubkey duty) = Some b"
    using assms(4) by (simp add: bid_key_def ims_reader_defs)
  have "snd (get_header_handler X in_memory_storage signer (bt_slot (bid_trace b))
      (bt_parent_hash (bid_trace b)) (duty_pubkey duty) t1 w1)
      = Ok \<lparr>rp_status = 200, rp_body = JsonHeader vh\<rparr>"
    using assms(5) by simp
  then obtain h where "SignedHeader_try_from X b signer = Ok h" "vh = \<lparr>ver_version = Deneb, ver_data = h\<rparr>"
    unfolding get_header_Ok_iff using best by auto
  then have hdr: "header_from_payload X (bs_execution_payload b)
      = blbb_execution_payload_header (blb_body (sbl_message sb))"
    using assms(6) by (simp add: SignedHeader_try_from_eq_Ok(1))
  have d: "duty_of (abs_in_memory (w_store w2)) (blb_slot (sbl_message sb)) = Some duty"
    "ss_responses (abs_in_memory (w_store w2)) (duty_pubkey duty) = Some (to_blinded_block_response b)"
    using assms(3,7) unfolding w2 s1 by (simp_all add: find_duty_abs del: in_memory_readers)
  show ?thesis
    using blinded_blocks_answer [OF assms(8) d] hdr
    by (simp add: w2 tasks to_blinded_block_response_def SignedBlindedBlock_block_hash_def
        flip: hdr)
qed

text \<open>
  C6. A later bid changes what is delivered: whatever header a proposer has signed, once another bid
  for the slot is accepted, the block that is published and the payload that is returned are those
  of the later bid; if its block hash is not the one that was signed, the published block is not the
  block that the proposer signed.
\<close>

theorem late_bid_replaces_payload:
  assumes "is_ok (snd (post_bids_handler X in_memory_storage b w))"
    and "w1 = fst (post_bids_handler X in_memory_storage b w)"
    and "blb_slot (sbl_message sb) = bt_slot (bid_trace b)"
    and "is_ok (snd (blinded_blocks_handler X in_memory_storage sb t w1))"
    and "SignedBlindedBlock_block_hash sb \<noteq> ep_block_hash (bs_execution_payload b)"
  shows "\<exists>content.
    w_tasks (fst (blinded_blocks_handler X in_memory_storage sb t w1)) =
      w_tasks w @ [PublishTask content Ssz] \<and>
    content_execution_payload content = bs_execution_payload b \<and>
    sbb_signature (sbc_signed_block content) = sbl_signature sb \<and>
    content_block_hash content \<noteq> SignedBlindedBlock_block_hash sb \<and>
    snd (blinded_blocks_handler X in_memory_storage sb t w1) =
      Ok \<lparr>rp_status = 200, rp_body = JsonBlindedBlock
            \<lparr>ver_version = Deneb, ver_data = to_blinded_block_response b\<rparr>\<rparr>"
proof -
  from assms(1) obtain duty where d0: "duty_of (abs_in_memory (w_store w)) (bt_slot (bid_trace b)) = Some duty"
    and s1: "abs_in_memory (w_store w1) = record_bid b duty (abs_in_memory (w_store w))"
    and tasks: "w_tasks w1 = w_tasks w"
    unfolding assms(2) by (rule post_bids_accepted)
  have d: "duty_of (abs_in_memory (w_store w1)) (blb_slot (sbl_message sb)) = Some duty"
    "ss_responses (abs_in_memory (w_store w1)) (duty_pubkey duty) = Some (to_blinded_block_response b)"
    using d0 assms(3) unfolding s1 by simp_all
  have "sbb_signature (sbc_signed_block (signed_beacon_block sb (to_blinded_block_response b)))
      = sbl_signature sb"
    by (simp add: signed_beacon_block_def)
  then show ?thesis
    using blinded_blocks_answer [OF assms(4) d] assms(5)
    by (intro exI [of _ "signed_beacon_block sb (to_blinded_block_response b)"])
      (simp add: tasks to_blinded_block_response_def)
qed

end
