(* ===== verification/Post_Validators.thy ===== *)
theory Post_Validators
  imports Http_Errors
begin

text \<open>
  \<open>crates/http/src/server/proposer_api/post_validators.rs\<close> and \<open>crates/auth/src/lib.rs\<close>: the route
  on which validators register, behind an API key that an external service validates. The answers
  of the beacon node are an argument: \<open>known i k\<close> is what the \<open>i\<close>-th call of the handler with key
  \<open>k\<close> gets, so that the node may answer differently each time.
\<close>

section \<open>Authentication\<close>

record MbsUser =
  mu_team_id :: bytes
  mu_id :: bytes

datatype AuthError = RequestError string | InvalidSecret

text \<open>A response of the HTTP client: its status, and what reading its body as JSON or text gives.\<close>

record HttpResponse =
  hr_status :: u16
  hr_json :: "(MbsUser, string) res"
  hr_text :: "(string, string) res"

text \<open>\<open>send url secret\<close> is the POST of the secret; the URL of the service ends in a slash.\<close>

definition MbsAuth_validate ::
    "string \<Rightarrow> (string \<Rightarrow> string \<Rightarrow> (HttpResponse, string) res) \<Rightarrow> string \<Rightarrow> (MbsUser, AuthError) res" where
  "MbsAuth_validate url send secret =
     (let full_url = url @ ''get-key'' in
      res_bind (res_map_err RequestError (send full_url secret)) (\<lambda>resp.
      if hr_status resp = 200
      then res_bind (res_map_err RequestError (hr_json resp)) (\<lambda>data. Ok data)
      else res_bind (res_map_err RequestError (hr_text resp)) (\<lambda>_. Err InvalidSecret)))"

definition validate_api_key ::
    "(string \<Rightarrow> (MbsUser, AuthError) res) \<Rightarrow> string \<Rightarrow> (string, Rejection) res" where
  "validate_api_key auth api_key =
     res_bind (res_map_err (\<lambda>_. custom (CauseWarp ''reject'')) (auth api_key)) (\<lambda>_. Ok api_key)"

section \<open>The handler\<close>

type_synonym known_validators = "nat \<Rightarrow> BlsPublicKey \<Rightarrow> string + KnownValidatorResponse"

text \<open>The two checks of one registration: an active known validator, and its signature.\<close>

definition accepts_registration ::
    "externs \<Rightarrow> Domain \<Rightarrow> string + KnownValidatorResponse \<Rightarrow> ValidatorRegistration \<Rightarrow> bool" where
  "accepts_registration X domain answer reg =
     (case answer of
        Inl err \<Rightarrow> False
      | Inr validator \<Rightarrow>
          if \<not> is_active validator then False
          else BlsSignature_verify X (vr_signature reg) (vrm_pubkey (vr_message reg))
                 (signing_root X (ValidatorRegistrationMessage_tree_hash_root X (vr_message reg)) domain))"

text \<open>The loop over the registrations, with the map and the count that it builds.\<close>

fun register_loop ::
    "externs \<Rightarrow> Domain \<Rightarrow> known_validators \<Rightarrow> nat \<Rightarrow> ValidatorRegistration list
     \<Rightarrow> ValidatorRegistrations \<times> nat \<Rightarrow> ValidatorRegistrations \<times> nat" where
  "register_loop X domain known i [] (to_register, registered) = (to_register, registered)"
| "register_loop X domain known i (reg # regs) (to_register, registered) =
     (let pubkey = vrm_pubkey (vr_message reg) in
      if \<not> accepts_registration X domain (known i pubkey) reg
      then register_loop X domain known (i + 1) regs (to_register, registered)
      else register_loop X domain known (i + 1) regs
             (Mapping.update pubkey reg to_register, registered + 1))"

definition post_validators_handler ::
    "externs \<Rightarrow> 's Storage \<Rightarrow> known_validators \<Rightarrow> ValidatorRegistration list \<Rightarrow> 's world
     \<Rightarrow> 's world \<times> WarpResult" where
  "post_validators_handler X S known registrations w =
     (let domain = compute_builder_domain X (fork_data S (w_store w));
          (to_register, registered) =
            register_loop X domain known 0 registrations (Mapping.empty, 0)
      in (set_validator_registrations S to_register w, Ok (with_status (Text ''OK'') StatusOK)))"

definition post_validators ::
    "externs \<Rightarrow> (string \<Rightarrow> (MbsUser, AuthError) res) \<Rightarrow> 's Storage \<Rightarrow> known_validators \<Rightarrow> string
     \<Rightarrow> ValidatorRegistration list \<Rightarrow> 's world \<Rightarrow> 's world \<times> WarpResult" where
  "post_validators X auth S known api_key registrations w =
     (case validate_api_key auth api_key of
        Ok _ \<Rightarrow> post_validators_handler X S known registrations w
      | Err e \<Rightarrow> (w, Err e)
      | Panic m \<Rightarrow> (w, Panic m))"

section \<open>Lemmas\<close>

text \<open>The registrations that pass, each with the position at which it was checked.\<close>

definition accepted_registrations ::
    "externs \<Rightarrow> Domain \<Rightarrow> known_validators \<Rightarrow> nat \<Rightarrow> ValidatorRegistration list
     \<Rightarrow> ValidatorRegistration list" where
  "accepted_registrations X domain known i regs =
     map snd (filter (\<lambda>(j, reg). accepts_registration X domain
       (known j (vrm_pubkey (vr_message reg))) reg) (enumerate i regs))"

lemma accepted_registrations_simps [simp]:
  "accepted_registrations X domain known i [] = []"
  "accepted_registrations X domain known i (reg # regs) =
     (if accepts_registration X domain (known i (vrm_pubkey (vr_message reg))) reg
      then [reg] else []) @ accepted_registrations X domain known (i + 1) regs"
  by (simp_all add: accepted_registrations_def)

definition reg_key :: "ValidatorRegistration \<Rightarrow> BlsPublicKey" where
  "reg_key r = vrm_pubkey (vr_message r)"

lemma register_loop_eq:
  "register_loop X domain known i regs (m, n) =
     (fold (\<lambda>r m. Mapping.update (reg_key r) r m) (accepted_registrations X domain known i regs) m,
      n + length (accepted_registrations X domain known i regs))"
  by (induction regs arbitrary: i m n) (simp_all add: Let_def reg_key_def)

lemma lookup_fold_update:
  "Mapping.lookup (fold (\<lambda>r m. Mapping.update (reg_key r) r m) rs m) k =
     (case List.find (\<lambda>r. reg_key r = k) (rev rs) of Some r \<Rightarrow> Some r | None \<Rightarrow> Mapping.lookup m k)"
proof (induction rs rule: rev_induct)
  case (snoc r rs)
  then show ?case by simp
qed simp

lemma accepted_registrations_sub:
  "r \<in> set (accepted_registrations X domain known i regs) \<Longrightarrow>
     r \<in> set regs \<and> BlsSignature_verify X (vr_signature r) (reg_key r)
       (signing_root X (ValidatorRegistrationMessage_tree_hash_root X (vr_message r)) domain)"
  by (induction regs arbitrary: i)
    (auto simp: accepts_registration_def reg_key_def split: if_splits sum.splits)

definition registered_map ::
    "externs \<Rightarrow> Domain \<Rightarrow> known_validators \<Rightarrow> ValidatorRegistration list \<Rightarrow> ValidatorRegistrations" where
  "registered_map X domain known regs = fst (register_loop X domain known 0 regs (Mapping.empty, 0))"

lemma registered_map_lookup:
  "Mapping.lookup (registered_map X domain known regs) k =
     List.find (\<lambda>r. reg_key r = k) (rev (accepted_registrations X domain known 0 regs))"
  by (simp add: registered_map_def register_loop_eq lookup_fold_update split: option.split)

lemma registered_map_sound:
  assumes "Mapping.lookup (registered_map X domain known regs) k = Some r"
  shows "reg_key r = k \<and> r \<in> set regs \<and> BlsSignature_verify X (vr_signature r) k
    (signing_root X (ValidatorRegistrationMessage_tree_hash_root X (vr_message r)) domain)"
proof -
  from assms have "r \<in> set (accepted_registrations X domain known 0 regs) \<and> reg_key r = k"
    by (auto simp: registered_map_lookup dest: find_Some_mem)
  then show ?thesis using accepted_registrations_sub by blast
qed

lemma post_validators_handler_eq:
  "post_validators_handler X S known regs w =
     (set_validator_registrations S
        (registered_map X (compute_builder_domain X (fork_data S (w_store w))) known regs) w,
      Ok \<lparr>rp_status = 200, rp_body = Text ''OK''\<rparr>)"
  by (simp add: post_validators_handler_def registered_map_def Let_def with_status_def StatusOK_def
      split: prod.split)

lemma post_validators_store:
  "w_store (fst (post_validators_handler X in_memory_storage known regs w)) =
     (w_store w)\<lparr>im_validator_registrations :=
       registered_map X (compute_builder_domain X (im_fork_data (w_store w))) known regs\<rparr>"
  by (simp add: post_validators_handler_eq ims_set_validator_registrations_def ims_reader_defs Let_def)

section \<open>Properties\<close>


text \<open>
  Every registration that is stored after a call is stored under its own key, came with the call
  and carries a signature of this key under the builder domain of the storage.
\<close>

theorem post_validators_verified:
  assumes "read_validator_registration in_memory_storage
      (w_store (fst (post_validators_handler X in_memory_storage known regs w))) k = Some r"
  shows "vrm_pubkey (vr_message r) = k \<and> r \<in> set regs \<and>
    ValidatorRegistration_verify_signature X r (fds_builder (im_fork_data (w_store w)))"
  using registered_map_sound [of X _ known regs k r] assms
  by (simp add: post_validators_store ims_reader_defs reg_key_def compute_builder_domain_def
      ValidatorRegistration_verify_signature_def)

text \<open>
  No registration without a valid key: when the authentication service does not answer 200 with
  a user, or cannot be reached, the call changes nothing and is answered with an internal error (500,
  not 401); the API key is the only credential of the route.
\<close>

theorem post_validators_auth:
  assumes "\<And>u k m. send u k \<noteq> Panic m"
    and "\<And>u k r. send u k = Ok r \<Longrightarrow> hr_status r \<noteq> 200 \<and> (\<forall>m. hr_text r \<noteq> Panic m)"
  shows "\<exists>e. post_validators X (MbsAuth_validate url send) in_memory_storage known key regs w = (w, Err e) \<and>
    rp_status (handle_rejection dbg e) = 500"
proof -
  have "\<exists>e. MbsAuth_validate url send key = Err e"
    using assms by (cases "send (url @ ''get-key'') key"; cases "MbsAuth_validate url send key")
      (force simp: MbsAuth_validate_def Let_def res_simps)+
  then obtain e where "MbsAuth_validate url send key = Err e" ..
  then show ?thesis
    by (simp add: post_validators_def validate_api_key_def handle_rejection_def with_status_def
        INTERNAL_SERVER_ERROR_def)
qed

end
