(* ===== verification/Http_Server.thy ===== *)
theory Http_Server
  imports Delivery Post_Validators
begin

text \<open>
  \<open>crates/http/src/server/mod.rs\<close> with the remaining routes: \<open>proposer_api/status.rs\<close>,
  \<open>builder_api/get_validators.rs\<close> and \<open>data_api/get_bids.rs\<close>. A request is what warp's filters have
  made of it when a route matches: the route with its typed path, query and body; matching paths and
  deserializing is warp's and serde's. \<open>serve\<close> is the server with its body limits and its recovery
  of rejections.
\<close>

section \<open>The simple routes\<close>

definition status_handler :: "'s world \<Rightarrow> 's world \<times> WarpResult" where
  "status_handler w = (w, Ok (with_status (Text ''OK'') StatusOK))"

definition get_validators_handler :: "'s Storage \<Rightarrow> 's world \<Rightarrow> 's world \<times> WarpResult" where
  "get_validators_handler S w =
     (let duties = read_proposer_duties S (w_store w) in (w, Ok (reply_json (JsonDuties duties))))"

record QueryParams =
  qp_slot :: "u64 option"
  qp_block_number :: "u64 option"

definition get_bids_handler :: "'s Storage \<Rightarrow> QueryParams \<Rightarrow> 's world \<Rightarrow> 's world \<times> WarpResult" where
  "get_bids_handler S params w =
     (let by_slot = (case qp_slot params of None \<Rightarrow> None
                     | Some slot \<Rightarrow> read_best_bid_by_slot S (w_store w) slot);
          by_number = (case qp_block_number params of None \<Rightarrow> None
                       | Some n \<Rightarrow> read_best_bid_by_block_number S (w_store w) n)
      in case by_slot of
           Some bid \<Rightarrow> (w, Ok (reply_json (JsonBids [bid])))
         | None \<Rightarrow>
             (case by_number of
                Some bid \<Rightarrow> (w, Ok (reply_json (JsonBids [bid])))
              | None \<Rightarrow> (w, Ok (reply_json (JsonBids [])))))"

section \<open>The server\<close>

text \<open>
  A body as it arrives: the length that its header announces, if any, and its value, if the bytes
  deserialize.
\<close>

record 'a Body =
  bd_content_length :: "nat option"
  bd_json :: "'a option"

definition with_json_body :: "nat \<Rightarrow> 'a Body \<Rightarrow> ('a, Rejection) res" where
  "with_json_body size_limit body =
     (case bd_content_length body of
        None \<Rightarrow> Err (custom (CauseWarp ''LengthRequired''))
      | Some len \<Rightarrow>
          if len > size_limit then Err (custom (CauseWarp ''PayloadTooLarge''))
          else ok_or (bd_json body) (custom (CauseWarp ''BodyDeserializeError'')))"

datatype ApiRequest =
    GetStatus
  | PostBlindedBlock "SignedBlindedBlock Body"
  | GetHeader u64 B256 BlsPublicKey
  | PostValidators string "ValidatorRegistration list Body"
  | GetValidators
  | PostBid "BidSubmission Body"
  | GetBids QueryParams

text \<open>What a request meets besides the storage: the answers of the other services and the clock.\<close>

record Surroundings =
  su_auth :: "string \<Rightarrow> (MbsUser, AuthError) res"
  su_known :: known_validators
  su_signer :: BlsSigner
  su_elapsed :: nat
  su_debug :: "Rejection \<Rightarrow> string"

definition bids_limit :: nat where "bids_limit = 1024 * 1024 * 8"
definition blinded_blocks_limit :: nat where "blinded_blocks_limit = 1024 * 1024 * 8"
definition validators_limit :: nat where "validators_limit = 1024 * 1024 * 80"

text \<open>A rejection of a filter ends the request before the handler runs.\<close>

definition filtered ::
    "('a, Rejection) res \<Rightarrow> ('a \<Rightarrow> 's world \<times> WarpResult) \<Rightarrow> 's world \<Rightarrow> 's world \<times> WarpResult" where
  "filtered r handler w =
     (case r of Ok a \<Rightarrow> handler a | Err e \<Rightarrow> (w, Err e) | Panic m \<Rightarrow> (w, Panic m))"

fun dispatch ::
    "externs \<Rightarrow> 's Storage \<Rightarrow> Surroundings \<Rightarrow> ApiRequest \<Rightarrow> 's world \<Rightarrow> 's world \<times> WarpResult" where
  "dispatch X S env GetStatus w = status_handler w"
| "dispatch X S env (PostBlindedBlock body) w =
     filtered (with_json_body blinded_blocks_limit body)
       (\<lambda>sb. blinded_blocks_handler X S sb (su_elapsed env) w) w"
| "dispatch X S env (GetHeader slot phash pubkey) w =
     get_header_handler X S (su_signer env) slot phash pubkey (su_elapsed env) w"
| "dispatch X S env (PostValidators api_key body) w =
     filtered (validate_api_key (su_auth env) api_key) (\<lambda>_.
       filtered (with_json_body validators_limit body) (\<lambda>regs.
         post_validators_handler X S (su_known env) regs w) w) w"
| "dispatch X S env GetValidators w = get_validators_handler S w"
| "dispatch X S env (PostBid body) w =
     filtered (with_json_body bids_limit body) (\<lambda>b. post_bids_handler X S b w) w"
| "dispatch X S env (GetBids params) w = get_bids_handler S params w"

text \<open>\<open>recover(handle_rejection)\<close>; a panic ends the connection without a reply.\<close>

definition serve ::
    "externs \<Rightarrow> 's Storage \<Rightarrow> Surroundings \<Rightarrow> ApiRequest \<Rightarrow> 's world \<Rightarrow> 's world \<times> Reply option" where
  "serve X S env req w =
     (case dispatch X S env req w of
        (w', Ok reply) \<Rightarrow> (w', Some reply)
      | (w', Err e) \<Rightarrow> (w', Some (handle_rejection (su_debug env) e))
      | (w', Panic m) \<Rightarrow> (w', None))"

section \<open>Lemmas\<close>

lemma get_bids_world [simp]: "fst (get_bids_handler S params w) = w"
  by (simp add: get_bids_handler_def Let_def split: option.split)

lemma serve_fst [simp]: "fst (serve X S env req w) = fst (dispatch X S env req w)"
  by (simp add: serve_def split: prod.split res.split)

lemma filtered_cases:
  "fst (filtered r h w) = w \<or> (\<exists>a. r = Ok a \<and> filtered r h w = h a)"
  by (cases r) (simp_all add: filtered_def)

lemma blinded_blocks_in_memory:
  "w_store (fst (blinded_blocks_handler X in_memory_storage sb t w)) = w_store w \<or>
   (\<exists>h. w_store (fst (blinded_blocks_handler X in_memory_storage sb t w)) =
      (w_store w)\<lparr>im_delivered_blocks := im_delivered_blocks (w_store w) @ [h]\<rparr>)"
  by (cases "blinded_blocks_checks X in_memory_storage (w_store w) sb")
    (auto simp: blinded_blocks_handler_def Let_def ims_set_delivered_blocks_def)

lemma post_bids_in_memory:
  "fst (post_bids_handler X in_memory_storage b w) = w \<or>
   (\<exists>duty. post_bids_checks X in_memory_storage (w_store w) b = Ok duty \<and>
      fst (post_bids_handler X in_memory_storage b w) = post_bids_commit in_memory_storage b duty w)"
  by (cases "post_bids_checks X in_memory_storage (w_store w) b") (simp_all add: post_bids_handler_def)

lemma post_bids_commit_frame_in_memory:
  "im_validator_registrations (w_store (post_bids_commit in_memory_storage b duty w))
     = im_validator_registrations (w_store w)"
  "im_delivered_blocks (w_store (post_bids_commit in_memory_storage b duty w))
     = im_delivered_blocks (w_store w)"
  "im_slot (w_store (post_bids_commit in_memory_storage b duty w)) = im_slot (w_store w)"
  "im_payload_attributes (w_store (post_bids_commit in_memory_storage b duty w))
     = im_payload_attributes (w_store w)"
  "im_proposer_duties (w_store (post_bids_commit in_memory_storage b duty w))
     = im_proposer_duties (w_store w)"
  "im_wlist_builders (w_store (post_bids_commit in_memory_storage b duty w))
     = im_wlist_builders (w_store w)"
  "im_fork_data (w_store (post_bids_commit in_memory_storage b duty w)) = im_fork_data (w_store w)"
  "im_best_bid_by_slot (w_store (post_bids_commit in_memory_storage b duty w))
     = im_best_bid_by_slot (w_store w)"
  by (simp_all add: post_bids_commit_def Let_def ims_set_best_bid_def
      ims_set_blinded_block_response_def)

text \<open>The four ways in which a request leaves the storage.\<close>

lemma dispatch_store_cases:
  obtains (same) "w_store (fst (dispatch X in_memory_storage env req w)) = w_store w"
  | (delivered) body h where "req = PostBlindedBlock body"
      "w_store (fst (dispatch X in_memory_storage env req w)) =
        (w_store w)\<lparr>im_delivered_blocks := im_delivered_blocks (w_store w) @ [h]\<rparr>"
  | (registered) key body regs where "req = PostValidators key body" "is_ok (su_auth env key)"
      "w_store (fst (dispatch X in_memory_storage env req w)) =
        (w_store w)\<lparr>im_validator_registrations := registered_map X
           (compute_builder_domain X (im_fork_data (w_store w))) (su_known env) regs\<rparr>"
  | (bid) body b duty where "req = PostBid body"
      "post_bids_checks X in_memory_storage (w_store w) b = Ok duty"
      "fst (dispatch X in_memory_storage env req w) = post_bids_commit in_memory_storage b duty w"
proof (cases req)
  case GetStatus
  then show thesis by (intro same) (simp add: status_handler_def)
next
  case (PostBlindedBlock body)
  show thesis
  proof (cases "with_json_body blinded_blocks_limit body")
    case (Ok sb)
    then show thesis
      using blinded_blocks_in_memory [of X sb "su_elapsed env" w] PostBlindedBlock same delivered
      by (auto simp: filtered_def)
  qed (use same PostBlindedBlock in \<open>simp_all add: filtered_def\<close>)
next
  case GetHeader
  then show thesis by (intro same) simp
next
  case (PostValidators key body)
  show thesis
  proof (cases "validate_api_key (su_auth env) key")
    case (Ok k)
    then have auth: "is_ok (su_auth env key)"
      by (auto simp: validate_api_key_def res_simps is_ok_iff)
    show thesis
    proof (cases "with_json_body validators_limit body")
      case (Ok regs)
      then show thesis
        using \<open>validate_api_key (su_auth env) key = res.Ok k\<close> PostValidators auth
        by (intro registered [of key body regs]) (simp_all add: filtered_def post_validators_store)
    qed (use same PostValidators \<open>validate_api_key (su_auth env) key = res.Ok k\<close> in
        \<open>simp_all add: filtered_def\<close>)
  qed (use same PostValidators in \<open>simp_all add: filtered_def\<close>)
next
  case GetValidators
  then show thesis by (intro same) (simp add: get_validators_handler_def)
next
  case (PostBid body)
  show thesis
  proof (cases "with_json_body bids_limit body")
    case (Ok b)
    then show thesis
      using post_bids_in_memory [of X b w] PostBid same bid by (auto simp: filtered_def)
  qed (use same PostBid in \<open>simp_all add: filtered_def\<close>)
next
  case GetBids
  then show thesis by (intro same) simp
qed

lemma filtered_Ok: "snd (filtered r h w) = Ok x \<longleftrightarrow> (\<exists>a. r = Ok a \<and> snd (h a) = Ok x)"
  by (cases r) (simp_all add: filtered_def)

lemma handlers_status:
  "snd (post_bids_handler X S b w) = Ok r \<Longrightarrow> rp_status r = 200"
  "snd (post_validators_handler X S known regs w) = Ok r \<Longrightarrow> rp_status r = 200"
  "snd (blinded_blocks_handler X S sb t w) = Ok r \<Longrightarrow> rp_status r = 200"
  "snd (get_header_handler X S signer slot phash pubkey t w) = Ok r \<Longrightarrow> rp_status r = 200"
  "snd (get_bids_handler S params w) = Ok r \<Longrightarrow> rp_status r = 200"
  by (auto simp: post_bids_handler_def post_validators_handler_eq blinded_blocks_handler_def Let_def
      get_header_snd get_bids_handler_def reply_json_def with_status_def StatusOK_def
      split: res.splits option.splits)

lemma dispatch_status: "snd (dispatch X S env req w) = Ok r \<Longrightarrow> rp_status r = 200"
  by (cases req) (auto simp: status_handler_def get_validators_handler_def reply_json_def
      with_status_def StatusOK_def filtered_Ok dest: handlers_status)

lemma serve_status:
  "snd (serve X S env req w) = Some r \<Longrightarrow> rp_status r \<in> {200, 400, 500}"
  using dispatch_status [of X S env req w] handle_rejection_status_cases [of "su_debug env"]
  by (auto simp: serve_def split: prod.splits res.splits)

section \<open>Properties\<close>

text \<open>
  Asking for received bids: a bid that is found by slot comes before one found by block number;
  otherwise the reply is an empty list with status 200, also when neither parameter is given, for
  which the documented error is never raised. The storage is not changed.
\<close>

theorem get_bids_reply:
  "let s = w_store w;
       by_slot = Option.bind (qp_slot params) (read_best_bid_by_slot in_memory_storage s);
       by_number = Option.bind (qp_block_number params)
         (read_best_bid_by_block_number in_memory_storage s)
   in get_bids_handler in_memory_storage params w =
        (w, Ok \<lparr>rp_status = 200, rp_body = JsonBids
          (case (by_slot, by_number) of
             (Some b, _) \<Rightarrow> [b] | (None, Some b) \<Rightarrow> [b] | (None, None) \<Rightarrow> [])\<rparr>)"
  by (cases "qp_slot params"; cases "qp_block_number params")
    (simp_all add: get_bids_handler_def Let_def reply_json_def StatusOK_def split: option.split)

text \<open>
  What one HTTP request can change: it never touches the head slot, the payload attributes, the
  duties, the whitelist or the fork data; the registrations only change with a POST of validators
  whose API key is valid; the best bids and responses only with a POST of a bid; the delivered blocks
  only grow; and every request that is answered gets status 200, 400 or 500.
\<close>

theorem serve_frame:
  "case serve X in_memory_storage env req w of (w', reply) \<Rightarrow>
     im_slot (w_store w') = im_slot (w_store w) \<and>
     im_payload_attributes (w_store w') = im_payload_attributes (w_store w) \<and>
     im_proposer_duties (w_store w') = im_proposer_duties (w_store w) \<and>
     im_wlist_builders (w_store w') = im_wlist_builders (w_store w) \<and>
     im_fork_data (w_store w') = im_fork_data (w_store w) \<and>
     (im_validator_registrations (w_store w') = im_validator_registrations (w_store w) \<or>
        (\<exists>key body. req = PostValidators key body \<and> is_ok (su_auth env key))) \<and>
     ((im_best_bid_per_slot (w_store w') = im_best_bid_per_slot (w_store w) \<and>
       im_blinded_block_resp (w_store w') = im_blinded_block_resp (w_store w)) \<or>
        (\<exists>body. req = PostBid body)) \<and>
     (\<exists>ds. im_delivered_blocks (w_store w') = im_delivered_blocks (w_store w) @ ds) \<and>
     (case reply of Some r \<Rightarrow> rp_status r \<in> {200, 400, 500} | None \<Rightarrow> True)"
proof -
  have status: "case snd (serve X in_memory_storage env req w) of
      Some r \<Rightarrow> rp_status r \<in> {200, 400, 500} | None \<Rightarrow> True"
    using serve_status [of X in_memory_storage env req w] by (auto split: option.split)
  have store: "let s = w_store w; s' = w_store (fst (serve X in_memory_storage env req w)) in
      im_slot s' = im_slot s \<and> im_payload_attributes s' = im_payload_attributes s \<and>
      im_proposer_duties s' = im_proposer_duties s \<and> im_wlist_builders s' = im_wlist_builders s \<and>
      im_fork_data s' = im_fork_data s \<and>
      (im_validator_registrations s' = im_validator_registrations s \<or>
        (\<exists>key body. req = PostValidators key body \<and> is_ok (su_auth env key))) \<and>
      ((im_best_bid_per_slot s' = im_best_bid_per_slot s \<and>
        im_blinded_block_resp s' = im_blinded_block_resp s) \<or> (\<exists>body. req = PostBid body)) \<and>
      (\<exists>ds. im_delivered_blocks s' = im_delivered_blocks s @ ds)"
    unfolding serve_fst Let_def
    by (rule dispatch_store_cases [where X = X and env = env and req = req and w = w])
      (simp_all add: post_bids_commit_frame_in_memory)
  from store status show ?thesis by (simp add: Let_def case_prod_beta)
qed

end
