(* ===== verification/Http_Routing.thy ===== *)
theory Http_Routing
  imports Http_Server
begin

text \<open>
  The routes of \<open>crates/http/src/server\<close> with their paths, methods, queries and bodies, in the order in
  which the server tries them, and the metrics server. A route is a warp filter: it gives a reply or a
  rejection, and \<open>or\<close> tries the next route after any rejection, also after one that a handler has made.
  The filters of warp are written out as documented: \<open>path!\<close> matches all segments of a path and rejects
  as not found otherwise, also when a parameter does not parse; a rejection as not found has no causes,
  and \<open>or\<close> joins the causes of both sides. Requests are without an \<open>Origin\<close> header, for which the CORS
  wrapper does nothing.
\<close>

section \<open>Requests and filters\<close>

datatype Method = GET | POST | OtherMethod string

record HttpRequest =
  hq_method :: Method
  hq_path :: "string list"
  hq_query :: "string option"
  hq_content_type :: "string option"
  hq_content_length :: "nat option"
  hq_body :: bytes

definition not_found :: Rejection where "not_found = []"

definition path_filter :: "string list \<Rightarrow> HttpRequest \<Rightarrow> (unit, Rejection) res" where
  "path_filter segments req = (if hq_path req = segments then Ok () else Err not_found)"

definition warp_post :: "HttpRequest \<Rightarrow> (unit, Rejection) res" where
  "warp_post req =
     (if hq_method req = POST then Ok () else Err (custom (CauseWarp ''MethodNotAllowed'')))"

definition warp_get :: "HttpRequest \<Rightarrow> (unit, Rejection) res" where
  "warp_get req = (if hq_method req = GET then Ok () else Err (custom (CauseWarp ''MethodNotAllowed'')))"

definition warp_query :: "(string \<Rightarrow> 'q option) \<Rightarrow> HttpRequest \<Rightarrow> ('q, Rejection) res" where
  "warp_query from_query req =
     ok_or (from_query (case hq_query req of Some q \<Rightarrow> q | None \<Rightarrow> [])) (custom (CauseWarp ''InvalidQuery''))"

text \<open>\<open>content_length_limit(limit).and(body::json())\<close>; a missing content type is taken for JSON.\<close>

definition json_body :: "nat \<Rightarrow> (bytes \<Rightarrow> 'a option) \<Rightarrow> HttpRequest \<Rightarrow> ('a, Rejection) res" where
  "json_body size_limit from_json req =
     (case hq_content_length req of
        None \<Rightarrow> Err (custom (CauseWarp ''LengthRequired''))
      | Some len \<Rightarrow>
          if len > size_limit then Err (custom (CauseWarp ''PayloadTooLarge''))
          else if hq_content_type req \<notin> {None, Some ''application/json''}
          then Err (custom (CauseWarp ''UnsupportedMediaType''))
          else ok_or (from_json (hq_body req)) (custom (CauseWarp ''BodyDeserializeError'')))"

text \<open>\<open>u64::from_str\<close>: decimal digits after an optional plus sign, within 64 bits.\<close>

definition digits_value :: "string \<Rightarrow> nat" where
  "digits_value = foldl (\<lambda>n c. 10 * n + (of_char c - 48)) 0"

definition u64_from_str :: "string \<Rightarrow> u64 option" where
  "u64_from_str s =
     (let ds = (case s of c # cs \<Rightarrow> if c = CHR ''+'' then cs else s | [] \<Rightarrow> [])
      in if ds \<noteq> [] \<and> set ds \<subseteq> set ''0123456789'' \<and> digits_value ds < 2 ^ 64
         then Some (of_nat (digits_value ds)) else None)"

text \<open>The path of \<open>get_header\<close> with its three parameters.\<close>

fun header_path :: "externs \<Rightarrow> string list \<Rightarrow> (u64 \<times> B256 \<times> BlsPublicKey, Rejection) res" where
  "header_path X [a, b, c, d, slot, phash, pubkey] =
     (if [a, b, c, d] = [''eth'', ''v1'', ''builder'', ''header''] then
        (case (u64_from_str slot, B256_of_str X phash, BlsPublicKey_of_str X pubkey) of
           (Some n, Ok h, Ok k) \<Rightarrow> Ok (n, h, k)
         | _ \<Rightarrow> Err not_found)
      else Err not_found)"
| "header_path X _ = Err not_found"

text \<open>The deserializers of \<open>serde\<close> for the bodies and queries.\<close>

record Decoders =
  de_blinded_block :: "bytes \<Rightarrow> SignedBlindedBlock option"
  de_registrations :: "bytes \<Rightarrow> ValidatorRegistration list option"
  de_submission :: "bytes \<Rightarrow> BidSubmission option"
  de_api_key :: "string \<Rightarrow> string option"
  de_params :: "string \<Rightarrow> QueryParams option"

section \<open>Routes\<close>

type_synonym 's route = "HttpRequest \<Rightarrow> 's world \<Rightarrow> 's world \<times> WarpResult"

definition or_else :: "'s route \<Rightarrow> 's route \<Rightarrow> 's route" where
  "or_else first second req w =
     (case first req w of
        (w', Ok reply) \<Rightarrow> (w', Ok reply)
      | (w', Panic m) \<Rightarrow> (w', Panic m)
      | (w', Err e) \<Rightarrow>
          (case second req w' of
             (w'', Err e') \<Rightarrow> (w'', Err (e @ e'))
           | answer \<Rightarrow> answer))"

definition status_route :: "'s route" where
  "status_route req w =
     filtered (path_filter [''eth'', ''v1'', ''builder'', ''status''] req) (\<lambda>_. status_handler w) w"

definition post_blinded_blocks_route ::
    "externs \<Rightarrow> 's Storage \<Rightarrow> Surroundings \<Rightarrow> Decoders \<Rightarrow> 's route" where
  "post_blinded_blocks_route X S env D req w =
     filtered (path_filter [''eth'', ''v1'', ''builder'', ''blinded_blocks''] req) (\<lambda>_.
     filtered (warp_post req) (\<lambda>_.
     filtered (json_body blinded_blocks_limit (de_blinded_block D) req) (\<lambda>sb.
       blinded_blocks_handler X S sb (su_elapsed env) w) w) w) w"

definition get_header_route :: "externs \<Rightarrow> 's Storage \<Rightarrow> Surroundings \<Rightarrow> 's route" where
  "get_header_route X S env req w =
     filtered (header_path X (hq_path req)) (\<lambda>(slot, phash, pubkey).
       get_header_handler X S (su_signer env) slot phash pubkey (su_elapsed env) w) w"

definition post_validators_route ::
    "externs \<Rightarrow> 's Storage \<Rightarrow> Surroundings \<Rightarrow> Decoders \<Rightarrow> 's route" where
  "post_validators_route X S env D req w =
     filtered (path_filter [''eth'', ''v1'', ''builder'', ''validators''] req) (\<lambda>_.
     filtered (warp_post req) (\<lambda>_.
     filtered (warp_query (de_api_key D) req) (\<lambda>api_key.
     filtered (validate_api_key (su_auth env) api_key) (\<lambda>_.
     filtered (json_body validators_limit (de_registrations D) req) (\<lambda>regs.
       post_validators_handler X S (su_known env) regs w) w) w) w) w) w"

definition get_validators_route :: "'s Storage \<Rightarrow> 's route" where
  "get_validators_route S req w =
     filtered (path_filter [''relay'', ''v1'', ''builder'', ''validators''] req) (\<lambda>_.
       get_validators_handler S w) w"

definition post_bids_route :: "externs \<Rightarrow> 's Storage \<Rightarrow> Decoders \<Rightarrow> 's route" where
  "post_bids_route X S D req w =
     filtered (path_filter [''relay'', ''v1'', ''builder'', ''blocks''] req) (\<lambda>_.
     filtered (warp_post req) (\<lambda>_.
     filtered (json_body bids_limit (de_submission D) req) (\<lambda>b. post_bids_handler X S b w) w) w) w"

definition get_bids_route :: "'s Storage \<Rightarrow> Decoders \<Rightarrow> 's route" where
  "get_bids_route S D req w =
     filtered (path_filter [''relay'', ''v1'', ''data'', ''bidtraces'', ''builder_blocks_received''] req) (\<lambda>_.
     filtered (warp_query (de_params D) req) (\<lambda>params. get_bids_handler S params w) w) w"

section \<open>The server\<close>

text \<open>The routes, nested as the source nests them.\<close>

definition RelayHttpServer_routes ::
    "externs \<Rightarrow> 's Storage \<Rightarrow> Surroundings \<Rightarrow> Decoders \<Rightarrow> 's route" where
  "RelayHttpServer_routes X S env D =
     (let proposer_api =
            or_else (or_else (or_else status_route (post_blinded_blocks_route X S env D))
              (get_header_route X S env)) (post_validators_route X S env D);
          builder_api = or_else (get_validators_route S) (post_bids_route X S D);
          data_api = get_bids_route S D
      in or_else (or_else proposer_api builder_api) data_api)"

text \<open>\<open>recover(handle_rejection)\<close>.\<close>

definition recover :: "Surroundings \<Rightarrow> 's route \<Rightarrow> HttpRequest \<Rightarrow> 's world \<Rightarrow> 's world \<times> Reply option" where
  "recover env route req w =
     (case route req w of
        (w', Ok reply) \<Rightarrow> (w', Some reply)
      | (w', Err e) \<Rightarrow> (w', Some (handle_rejection (su_debug env) e))
      | (w', Panic m) \<Rightarrow> (w', None))"

definition RelayHttpServer_start ::
    "externs \<Rightarrow> 's Storage \<Rightarrow> Surroundings \<Rightarrow> Decoders \<Rightarrow> HttpRequest \<Rightarrow> 's world
     \<Rightarrow> 's world \<times> Reply option" where
  "RelayHttpServer_start X S env D = recover env (RelayHttpServer_routes X S env D)"

section \<open>The metrics server\<close>

record MetricsReply =
  mr_content_type :: string
  mr_body :: string

definition get_metrics :: "(unit \<Rightarrow> string) \<Rightarrow> MetricsReply" where
  "get_metrics render = \<lparr>mr_content_type = ''text/plain; charset=UTF-8'', mr_body = render ()\<rparr>"

definition metrics_route :: "(unit \<Rightarrow> string) \<Rightarrow> HttpRequest \<Rightarrow> (MetricsReply, Rejection) res" where
  "metrics_route render req =
     res_bind (path_filter [''metrics''] req) (\<lambda>_.
     res_bind (warp_get req) (\<lambda>_. Ok (get_metrics render)))"

text \<open>
  \<open>install\<close> is \<open>PrometheusBuilder::install_recorder\<close>, which gives the function that renders the metrics;
  \<open>run\<close> serves a route until the server stops.
\<close>

definition MetricsServer_spawn ::
    "(unit \<Rightarrow> string, 'e) res \<Rightarrow> ((HttpRequest \<Rightarrow> (MetricsReply, Rejection) res) \<Rightarrow> 'a \<Rightarrow> unit)
     \<Rightarrow> 'a \<Rightarrow> (unit, 'e) res" where
  "MetricsServer_spawn install run addr =
     res_bind install (\<lambda>handle. let stopped = run (metrics_route handle) addr in Ok ())"

section \<open>What a request asks for\<close>

text \<open>
  The reading of a request that the routes implement: a path stands for one operation, whatever the
  other routes do. \<open>None\<close> are the requests that no handler sees.
\<close>

definition read_body :: "(bytes \<Rightarrow> 'a option) \<Rightarrow> HttpRequest \<Rightarrow> 'a Body" where
  "read_body from_json req =
     \<lparr>bd_content_length = hq_content_length req,
      bd_json = (if hq_content_type req \<in> {None, Some ''application/json''}
                 then from_json (hq_body req) else None)\<rparr>"

definition read_query :: "(string \<Rightarrow> 'q option) \<Rightarrow> HttpRequest \<Rightarrow> 'q option" where
  "read_query from_query req = from_query (case hq_query req of Some q \<Rightarrow> q | None \<Rightarrow> [])"

definition api_request :: "externs \<Rightarrow> Decoders \<Rightarrow> HttpRequest \<Rightarrow> ApiRequest option" where
  "api_request X D req =
     (if hq_path req = [''eth'', ''v1'', ''builder'', ''status''] then Some GetStatus
      else if hq_path req = [''eth'', ''v1'', ''builder'', ''blinded_blocks''] then
        (if hq_method req = POST then Some (PostBlindedBlock (read_body (de_blinded_block D) req)) else None)
      else if hq_path req = [''eth'', ''v1'', ''builder'', ''validators''] then
        (if hq_method req = POST
         then map_option (\<lambda>key. PostValidators key (read_body (de_registrations D) req))
                (read_query (de_api_key D) req)
         else None)
      else if hq_path req = [''relay'', ''v1'', ''builder'', ''validators''] then Some GetValidators
      else if hq_path req = [''relay'', ''v1'', ''builder'', ''blocks''] then
        (if hq_method req = POST then Some (PostBid (read_body (de_submission D) req)) else None)
      else if hq_path req = [''relay'', ''v1'', ''data'', ''bidtraces'', ''builder_blocks_received''] then
        map_option GetBids (read_query (de_params D) req)
      else (case header_path X (hq_path req) of
              Ok (slot, phash, pubkey) \<Rightarrow> Some (GetHeader slot phash pubkey)
            | _ \<Rightarrow> None))"

section \<open>Lemmas\<close>

lemma filtered_simps [simp]:
  "filtered (Ok a) h w = h a" "filtered (Err e) h w = (w, Err e)" "filtered (Panic m) h w = (w, Panic m)"
  by (simp_all add: filtered_def)

lemma path_filter_simps [simp]:
  "hq_path req = segments \<Longrightarrow> path_filter segments req = Ok ()"
  "hq_path req \<noteq> segments \<Longrightarrow> path_filter segments req = Err not_found"
  by (simp_all add: path_filter_def)

lemma header_path_Ok:
  "header_path X p = Ok r \<Longrightarrow> \<exists>s h k. p = [''eth'', ''v1'', ''builder'', ''header'', s, h, k]"
  by (cases "(X, p)" rule: header_path.cases) (auto split: if_splits)

lemma header_path_no_Panic [simp]: "header_path X p \<noteq> Panic m"
  by (cases "(X, p)" rule: header_path.cases) (auto split: option.split res.split)

lemma header_path_cases: "header_path X p = Err not_found \<or> (\<exists>r. header_path X p = Ok r)"
  by (cases "(X, p)" rule: header_path.cases) (auto split: option.split res.split)

text \<open>A route whose path does not match is the unit of \<open>or\<close>.\<close>

lemma or_else_not_found:
  "first req w = (w, Err not_found) \<Longrightarrow> or_else first second req w = second req w"
  "(\<And>w. second req w = (w, Err not_found)) \<Longrightarrow> or_else first second req w = first req w"
  by (auto simp: or_else_def not_found_def split: prod.split res.split)

lemma other_paths:
  "hq_path req \<noteq> [''eth'', ''v1'', ''builder'', ''status''] \<Longrightarrow> status_route req w = (w, Err not_found)"
  "hq_path req \<noteq> [''eth'', ''v1'', ''builder'', ''blinded_blocks''] \<Longrightarrow>
     post_blinded_blocks_route X S env D req w = (w, Err not_found)"
  "header_path X (hq_path req) = Err not_found \<Longrightarrow> get_header_route X S env req w = (w, Err not_found)"
  "hq_path req \<noteq> [''eth'', ''v1'', ''builder'', ''validators''] \<Longrightarrow>
     post_validators_route X S env D req w = (w, Err not_found)"
  "hq_path req \<noteq> [''relay'', ''v1'', ''builder'', ''validators''] \<Longrightarrow>
     get_validators_route S req w = (w, Err not_found)"
  "hq_path req \<noteq> [''relay'', ''v1'', ''builder'', ''blocks''] \<Longrightarrow>
     post_bids_route X S D req w = (w, Err not_found)"
  "hq_path req \<noteq> [''relay'', ''v1'', ''data'', ''bidtraces'', ''builder_blocks_received''] \<Longrightarrow>
     get_bids_route S D req w = (w, Err not_found)"
  by (simp_all add: status_route_def post_blinded_blocks_route_def get_header_route_def
      post_validators_route_def get_validators_route_def post_bids_route_def get_bids_route_def)

lemma header_path_other [simp]:
  "header_path X [''eth'', ''v1'', ''builder'', s] = Err not_found"
  "header_path X [''relay'', ''v1'', ''builder'', s] = Err not_found"
  "header_path X [''relay'', ''v1'', ''data'', ''bidtraces'', s] = Err not_found"
  by simp_all

text \<open>The two readings of a body agree but for the cause of a refusal.\<close>

lemma json_body_cases:
  "json_body limit from_json req = with_json_body limit (read_body from_json req) \<or>
   (\<exists>c d. json_body limit from_json req = Err (custom (CauseWarp c)) \<and>
      with_json_body limit (read_body from_json req) = Err (custom (CauseWarp d)))"
  by (auto simp: json_body_def with_json_body_def read_body_def split: option.split)

text \<open>Two results that differ at most in the cause that warp gives for a refusal.\<close>

definition same_answer :: "'s world \<times> WarpResult \<Rightarrow> 's world \<times> WarpResult \<Rightarrow> bool" where
  "same_answer a b \<longleftrightarrow> a = b \<or>
     (\<exists>w c d. a = (w, Err (custom (CauseWarp c))) \<and> b = (w, Err (custom (CauseWarp d))))"

lemma same_answer_refl [simp]: "same_answer a a"
  by (simp add: same_answer_def)

lemma same_answer_body:
  "same_answer (filtered (json_body limit from_json req) h w)
     (filtered (with_json_body limit (read_body from_json req)) h w)"
  using json_body_cases [of limit from_json req] by (auto simp: same_answer_def)

text \<open>The server is the one route whose path the request has.\<close>

lemma routes_by_path:
  "hq_path req = [''eth'', ''v1'', ''builder'', ''status''] \<Longrightarrow>
     RelayHttpServer_routes X S env D req w = status_route req w"
  "hq_path req = [''eth'', ''v1'', ''builder'', ''blinded_blocks''] \<Longrightarrow>
     RelayHttpServer_routes X S env D req w = post_blinded_blocks_route X S env D req w"
  "header_path X (hq_path req) = Ok r \<Longrightarrow>
     RelayHttpServer_routes X S env D req w = get_header_route X S env req w"
  "hq_path req = [''eth'', ''v1'', ''builder'', ''validators''] \<Longrightarrow>
     RelayHttpServer_routes X S env D req w = post_validators_route X S env D req w"
  "hq_path req = [''relay'', ''v1'', ''builder'', ''validators''] \<Longrightarrow>
     RelayHttpServer_routes X S env D req w = get_validators_route S req w"
  "hq_path req = [''relay'', ''v1'', ''builder'', ''blocks''] \<Longrightarrow>
     RelayHttpServer_routes X S env D req w = post_bids_route X S D req w"
  "hq_path req = [''relay'', ''v1'', ''data'', ''bidtraces'', ''builder_blocks_received''] \<Longrightarrow>
     RelayHttpServer_routes X S env D req w = get_bids_route S D req w"
  by (auto dest!: header_path_Ok
      simp: RelayHttpServer_routes_def Let_def or_else_not_found other_paths)

lemma routes_no_path:
  assumes "hq_path req \<notin> {[''eth'', ''v1'', ''builder'', ''status''],
      [''eth'', ''v1'', ''builder'', ''blinded_blocks''], [''eth'', ''v1'', ''builder'', ''validators''],
      [''relay'', ''v1'', ''builder'', ''validators''], [''relay'', ''v1'', ''builder'', ''blocks''],
      [''relay'', ''v1'', ''data'', ''bidtraces'', ''builder_blocks_received'']}"
    and "header_path X (hq_path req) = Err not_found"
  shows "RelayHttpServer_routes X S env D req w = (w, Err not_found)"
  using assms by (simp add: RelayHttpServer_routes_def Let_def or_else_not_found other_paths)

lemma routes_dispatch:
  "case api_request X D req of
     Some a \<Rightarrow> same_answer (RelayHttpServer_routes X S env D req w) (dispatch X S env a w)
   | None \<Rightarrow> \<exists>c. RelayHttpServer_routes X S env D req w = (w, Err c) \<and> (\<forall>x\<in>set c. \<not> is_api_cause x)"
proof -
  have warp: "\<not> is_api_cause (CauseWarp m)" for m by (simp add: is_api_cause_def)
  consider (status) "hq_path req = [''eth'', ''v1'', ''builder'', ''status'']"
    | (blinded) "hq_path req = [''eth'', ''v1'', ''builder'', ''blinded_blocks'']"
    | (validators) "hq_path req = [''eth'', ''v1'', ''builder'', ''validators'']"
    | (duties) "hq_path req = [''relay'', ''v1'', ''builder'', ''validators'']"
    | (bids) "hq_path req = [''relay'', ''v1'', ''builder'', ''blocks'']"
    | (data) "hq_path req = [''relay'', ''v1'', ''data'', ''bidtraces'', ''builder_blocks_received'']"
    | (header) r where "header_path X (hq_path req) = Ok r"
    | (none) "hq_path req \<notin> {[''eth'', ''v1'', ''builder'', ''status''],
        [''eth'', ''v1'', ''builder'', ''blinded_blocks''], [''eth'', ''v1'', ''builder'', ''validators''],
        [''relay'', ''v1'', ''builder'', ''validators''], [''relay'', ''v1'', ''builder'', ''blocks''],
        [''relay'', ''v1'', ''data'', ''bidtraces'', ''builder_blocks_received'']}"
      "header_path X (hq_path req) = Err not_found"
    using header_path_cases by blast
  then show ?thesis
  proof cases
    case status
    then show ?thesis by (simp add: api_request_def routes_by_path(1) status_route_def)
  next
    case blinded
    then show ?thesis
      by (simp add: api_request_def routes_by_path(2) post_blinded_blocks_route_def warp_post_def
          same_answer_body custom_def warp)
  next
    case validators
    then show ?thesis
      by (cases "validate_api_key (su_auth env) (the (read_query (de_api_key D) req))")
        (auto simp: api_request_def routes_by_path(4) post_validators_route_def warp_post_def
          warp_query_def read_query_def same_answer_body custom_def warp split: option.split)
  next
    case duties
    then show ?thesis by (simp add: api_request_def routes_by_path(5) get_validators_route_def)
  next
    case bids
    then show ?thesis
      by (simp add: api_request_def routes_by_path(6) post_bids_route_def warp_post_def same_answer_body
          custom_def warp)
  next
    case data
    then show ?thesis
      by (auto simp: api_request_def routes_by_path(7) get_bids_route_def warp_query_def read_query_def
          custom_def warp split: option.split)
  next
    case header
    from header_path_Ok [OF header] obtain s h k where
      "hq_path req = [''eth'', ''v1'', ''builder'', ''header'', s, h, k]" by blast
    with header show ?thesis
      by (cases r) (simp add: api_request_def routes_by_path(3) get_header_route_def)
  next
    case none
    then show ?thesis by (simp add: api_request_def routes_no_path not_found_def)
  qed
qed

section \<open>Properties\<close>



text \<open>
  The metrics server answers only \<open>GET /metrics\<close>, with what the recorder renders, and it does not start
  when the recorder cannot be installed.
\<close>

theorem metrics_server_spec:
  "(metrics_route render req = Ok reply \<longleftrightarrow>
      hq_path req = [''metrics''] \<and> hq_method req = GET \<and>
      reply = \<lparr>mr_content_type = ''text/plain; charset=UTF-8'', mr_body = render ()\<rparr>) \<and>
   MetricsServer_spawn (Err e) run addr = Err e \<and> MetricsServer_spawn (Ok render) run addr = Ok ()"
  by (auto simp: metrics_route_def path_filter_def warp_get_def get_metrics_def MetricsServer_spawn_def)

end
