(* ===== verification/Codecs.thy ===== *)
theory Codecs
  imports Bids
begin

text \<open>
  The encodings that \<open>crates/primitives\<close> writes by hand: texts and JSON of the byte types and keys
  (\<open>types.rs\<close>, \<open>blst/macros.rs\<close>, \<open>beacon/kzg_commitments.rs\<close>), the SSZ and tree-hash trait
  implementations (\<open>blst/mod.rs\<close>), the random and default values, and the debugging output of
  \<open>beacon/blinded_block.rs\<close>. The locale \<open>fixed_width\<close> has what a fixed-width SSZ codec promises; keys
  and signatures are instances of it.
\<close>

section \<open>Newtypes\<close>

text \<open>\<open>From\<close> and \<open>AsRef\<close> between a newtype and the value inside; a random value is the bytes drawn.\<close>

definition B256_from :: "bytes \<Rightarrow> B256" where "B256_from alloy = B256 alloy"
definition B256_as_ref :: "B256 \<Rightarrow> bytes" where "B256_as_ref h = b256_bytes h"
definition B256_random :: "bytes \<Rightarrow> B256" where "B256_random drawn = B256 drawn"
definition U256_as_ref :: "U256 \<Rightarrow> u256" where "U256_as_ref v = u256_val v"
definition Address_from :: "bytes \<Rightarrow> Address" where "Address_from address = Address address"
definition Address_as_ref :: "Address \<Rightarrow> bytes" where "Address_as_ref a = address_bytes a"
definition Address_random :: "bytes \<Rightarrow> Address" where "Address_random drawn = Address drawn"
definition Bloom_as_ref :: "Bloom \<Rightarrow> bytes" where "Bloom_as_ref b = bloom_bytes b"
definition Bytes_as_ref :: "Bytes \<Rightarrow> bytes" where "Bytes_as_ref b = bytes_of b"
definition Bytes48_as_ref :: "Bytes48 \<Rightarrow> bytes" where "Bytes48_as_ref b = bytes48_bytes b"
definition Blob_as_ref :: "Blob \<Rightarrow> bytes" where "Blob_as_ref b = blob_bytes b"

text \<open>\<open>decode\<close> is that of alloy's signed transactions.\<close>

definition Bytes_try_into_signed_tx :: "(bytes \<Rightarrow> ('t, 'e) res) \<Rightarrow> Bytes \<Rightarrow> ('t, 'e) res" where
  "Bytes_try_into_signed_tx decode b = decode (bytes_of b)"

definition ForkVersion_new :: "bytes \<Rightarrow> ForkVersion" where "ForkVersion_new bs = ForkVersion bs"
definition ForkVersion_into :: "ForkVersion \<Rightarrow> bytes" where "ForkVersion_into v = fork_version_bytes v"

definition ForkName_try_from :: "string \<Rightarrow> (ForkName, string) res" where
  "ForkName_try_from s = ForkName_of_str s"
definition ForkName_into :: "ForkName \<Rightarrow> string" where "ForkName_into fork = ForkName_to_string fork"

record SlotEvent =
  se_slot :: u64

definition HeadSlot_from_event :: "SlotEvent \<Rightarrow> HeadSlot" where
  "HeadSlot_from_event event = HeadSlot (se_slot event)"
definition HeadSlot_from :: "u64 \<Rightarrow> HeadSlot" where "HeadSlot_from slot = HeadSlot slot"
definition HeadSlot_as_ref :: "HeadSlot \<Rightarrow> u64" where "HeadSlot_as_ref h = head_slot h"

section \<open>Texts\<close>

definition B256_to_string :: "externs \<Rightarrow> B256 \<Rightarrow> string" where
  "B256_to_string X h = hex_encode X (b256_bytes h)"

definition U256_to_string :: "externs \<Rightarrow> U256 \<Rightarrow> string" where
  "U256_to_string X v = u256_to_string X (u256_val v)"

definition Address_to_string :: "externs \<Rightarrow> Address \<Rightarrow> string" where
  "Address_to_string X a = hex_encode X (address_bytes a)"

text \<open>The first and the last two bytes; the ellipsis is one character in the source, three bytes here.\<close>

definition KzgCommitment_to_string :: "KzgCommitment \<Rightarrow> string" where
  "KzgCommitment_to_string c =
     ''0x'' @ concat (map hex_byte (take 2 (kzg_bytes c)))
       @ map char_of [0xE2::nat, 0x80, 0xA6]
       @ concat (map hex_byte (drop (BYTES_PER_COMMITMENT - 2) (kzg_bytes c)))"

definition KzgCommitment_debug :: "externs \<Rightarrow> KzgCommitment \<Rightarrow> string" where
  "KzgCommitment_debug X c = serde_hex_encode X (kzg_bytes c)"

definition BlsPublicKey_debug :: "externs \<Rightarrow> BlsPublicKey \<Rightarrow> string" where
  "BlsPublicKey_debug X k = serde_hex_encode X (pk_serialize k)"

definition BlsPublicKey_as_hex_string :: "externs \<Rightarrow> BlsPublicKey \<Rightarrow> string" where
  "BlsPublicKey_as_hex_string X k = BlsPublicKey_debug X k"

definition BlsSignature_to_string :: "externs \<Rightarrow> BlsSignature \<Rightarrow> string" where
  "BlsSignature_to_string X s = serde_hex_encode X (BlsSignature_serialize s)"

definition BlsSignature_to_vec :: "BlsSignature \<Rightarrow> bytes" where
  "BlsSignature_to_vec s = BlsSignature_serialize s"

definition BlsSignature_default :: BlsSignature where
  "BlsSignature_default = BlsSignature_empty"

definition BlsSecretKey_to_string :: "externs \<Rightarrow> BlsSecretKey \<Rightarrow> string" where
  "BlsSecretKey_to_string X k = serde_hex_encode X (sk_serialize k)"

section \<open>Random and default keys\<close>

text \<open>\<open>ikm\<close> are the 32 bytes that the random number generator gives.\<close>

definition unwrap :: "('a, 'f) res \<Rightarrow> ('a, 'e) res" where
  "unwrap r = expect ''called `Result::unwrap()` on an `Err` value'' r"

definition BlsSecretKey_random :: "externs \<Rightarrow> bytes \<Rightarrow> (BlsSecretKey, 'e) res" where
  "BlsSecretKey_random X ikm =
     res_bind (unwrap (blst_sk_key_gen X ikm [])) (\<lambda>point. Ok (BlsSecretKey point))"

definition BlsPublicKey_random :: "externs \<Rightarrow> bytes \<Rightarrow> (BlsPublicKey, 'e) res" where
  "BlsPublicKey_random X ikm =
     res_bind (BlsSecretKey_random X ikm) (\<lambda>secret_key. Ok (BlsSecretKey_public_key X secret_key))"

definition BlsPublicKey_default :: "externs \<Rightarrow> BlsPublicKey" where
  "BlsPublicKey_default X = BlsPublicKey (blst_pk_default X)"

definition ForkData_default :: ForkData where
  "ForkData_default = \<lparr>fd_current_version = replicate 4 0, fd_genesis_validators_root = replicate 32 0\<rparr>"

definition ForkDatas_default :: "externs \<Rightarrow> (ForkDatas, 'e) res" where
  "ForkDatas_default X =
     res_bind (unwrap (hash256_from_str X
       ''0x0000000000000000000000000000000000000000000000000000000000000001'')) (\<lambda>root.
     res_bind (unwrap (ForkVersion_of_str X ''0x20000093'')) (\<lambda>version.
       Ok \<lparr>fds_builder = ForkData_default,
           fds_proposer = \<lparr>fd_current_version = ForkVersion_into version,
                           fd_genesis_validators_root = root\<rparr>\<rparr>))"

definition BlsSigner_default :: "externs \<Rightarrow> bytes \<Rightarrow> (BlsSigner, 'e) res" where
  "BlsSigner_default X ikm =
     res_bind (BlsSecretKey_random X ikm) (\<lambda>secret_key.
     res_bind (ForkDatas_default X) (\<lambda>fork_data.
       Ok \<lparr>sg_secret_key = secret_key, sg_fork_data = fork_data\<rparr>))"

definition BlsSigner_fork_data_builder :: "BlsSigner \<Rightarrow> ForkData" where
  "BlsSigner_fork_data_builder sg = fds_builder (sg_fork_data sg)"

definition BlsSigner_fork_data_proposer :: "BlsSigner \<Rightarrow> ForkData" where
  "BlsSigner_fork_data_proposer sg = fds_proposer (sg_fork_data sg)"

section \<open>SSZ\<close>

text \<open>The traits \<open>ssz::Encode\<close> and \<open>ssz::Decode\<close> as records of their functions.\<close>

record 'a SszEncode =
  enc_is_fixed_len :: bool
  enc_fixed_len :: nat
  enc_bytes_len :: "'a \<Rightarrow> nat"
  enc_append :: "'a \<Rightarrow> bytes \<Rightarrow> bytes"

record 'a SszDecode =
  dec_is_fixed_len :: bool
  dec_fixed_len :: nat
  dec_from_ssz_bytes :: "bytes \<Rightarrow> ('a, DecodeError) res"

text \<open>\<open>as_ssz_bytes\<close>, the provided method.\<close>

definition as_ssz_bytes :: "'a SszEncode \<Rightarrow> 'a \<Rightarrow> bytes" where
  "as_ssz_bytes e a = enc_append e a []"

text \<open>\<open>B256\<close> hands on to the \<open>Encode\<close> of \<open>Hash256\<close> and of alloy's hash.\<close>

definition B256_Encode :: "bytes SszEncode \<Rightarrow> bytes SszEncode \<Rightarrow> B256 SszEncode" where
  "B256_Encode hash256 alloy =
     \<lparr>enc_is_fixed_len = enc_is_fixed_len hash256, enc_fixed_len = enc_fixed_len hash256,
      enc_bytes_len = (\<lambda>h. enc_bytes_len alloy (b256_bytes h)),
      enc_append = (\<lambda>h buf. enc_append alloy (b256_bytes h) buf)\<rparr>"

definition U256_Encode :: "externs \<Rightarrow> U256 SszEncode" where
  "U256_Encode X = \<lparr>enc_is_fixed_len = True, enc_fixed_len = 32, enc_bytes_len = U256_ssz_bytes_len,
     enc_append = U256_ssz_append X\<rparr>"

definition Address_Encode :: "Address SszEncode" where
  "Address_Encode = \<lparr>enc_is_fixed_len = True, enc_fixed_len = 20,
     enc_bytes_len = Address_ssz_bytes_len, enc_append = Address_ssz_append\<rparr>"

definition BlsPublicKey_Encode :: "BlsPublicKey SszEncode" where
  "BlsPublicKey_Encode = \<lparr>enc_is_fixed_len = True, enc_fixed_len = PUBLIC_KEY_BYTES_LEN,
     enc_bytes_len = (\<lambda>_. PUBLIC_KEY_BYTES_LEN), enc_append = BlsPublicKey_ssz_append\<rparr>"

definition BlsSignature_Encode :: "BlsSignature SszEncode" where
  "BlsSignature_Encode = \<lparr>enc_is_fixed_len = True, enc_fixed_len = SIGNATURE_BYTES_LEN,
     enc_bytes_len = (\<lambda>_. SIGNATURE_BYTES_LEN), enc_append = BlsSignature_ssz_append\<rparr>"

definition BlsPublicKey_Decode :: "externs \<Rightarrow> BlsPublicKey SszDecode" where
  "BlsPublicKey_Decode X = \<lparr>dec_is_fixed_len = True, dec_fixed_len = PUBLIC_KEY_BYTES_LEN,
     dec_from_ssz_bytes = BlsPublicKey_from_ssz_bytes X\<rparr>"

definition BlsSignature_Decode :: "externs \<Rightarrow> BlsSignature SszDecode" where
  "BlsSignature_Decode X = \<lparr>dec_is_fixed_len = True, dec_fixed_len = SIGNATURE_BYTES_LEN,
     dec_from_ssz_bytes = BlsSignature_from_ssz_bytes X\<rparr>"

section \<open>Tree hashing\<close>

datatype TreeHashType = Basic | Container | ListType | Vector

text \<open>
  The trait \<open>TreeHash\<close>; the packed encoding and the packing factor of a type that is never packed
  panic.
\<close>

record 'a TreeHash =
  tht_type :: TreeHashType
  tht_packed_encoding :: "'a \<Rightarrow> (bytes, string) res"
  tht_packing_factor :: "(nat, string) res"
  tht_root :: "'a \<Rightarrow> Hash256"

definition never_packed :: "('a, string) res" where
  "never_packed = Panic ''internal error: entered unreachable code: Vector should never be packed.''"

definition B256_TreeHash :: "B256 TreeHash" where
  "B256_TreeHash = \<lparr>tht_type = Vector, tht_packed_encoding = (\<lambda>h. Ok (b256_bytes h)),
     tht_packing_factor = Ok 1, tht_root = B256_tree_hash_root\<rparr>"

definition Bloom_TreeHash :: "externs \<Rightarrow> Bloom TreeHash" where
  "Bloom_TreeHash X = \<lparr>tht_type = Vector, tht_packed_encoding = (\<lambda>b. Ok (bloom_bytes b)),
     tht_packing_factor = Ok 1, tht_root = Bloom_tree_hash_root X\<rparr>"

definition Bytes_TreeHash :: "externs \<Rightarrow> Bytes TreeHash" where
  "Bytes_TreeHash X = \<lparr>tht_type = Vector, tht_packed_encoding = (\<lambda>b. Ok (bytes_of b)),
     tht_packing_factor = Ok 1, tht_root = Bytes_tree_hash_root X\<rparr>"

definition U256_TreeHash :: "externs \<Rightarrow> U256 TreeHash" where
  "U256_TreeHash X = \<lparr>tht_type = Basic,
     tht_packed_encoding = (\<lambda>v. Ok (u256_as_le_slice X (u256_val v))),
     tht_packing_factor = Ok 1, tht_root = U256_tree_hash_root X\<rparr>"

definition Address_TreeHash :: "Address TreeHash" where
  "Address_TreeHash = \<lparr>tht_type = Vector,
     tht_packed_encoding = (\<lambda>a. Ok (address_bytes a @ replicate (HASHSIZE - 20) 0)),
     tht_packing_factor = Ok 1, tht_root = Address_tree_hash_root\<rparr>"

text \<open>A commitment hands on to the array of 48 bytes inside.\<close>

definition KzgCommitment_TreeHash :: "bytes TreeHash \<Rightarrow> KzgCommitment TreeHash" where
  "KzgCommitment_TreeHash array =
     \<lparr>tht_type = tht_type array, tht_packed_encoding = (\<lambda>c. tht_packed_encoding array (kzg_bytes c)),
      tht_packing_factor = tht_packing_factor array, tht_root = (\<lambda>c. tht_root array (kzg_bytes c))\<rparr>"

definition BlsPublicKey_TreeHash :: "externs \<Rightarrow> BlsPublicKey TreeHash" where
  "BlsPublicKey_TreeHash X = \<lparr>tht_type = Vector, tht_packed_encoding = (\<lambda>_. never_packed),
     tht_packing_factor = never_packed, tht_root = BlsPublicKey_tree_hash_root X\<rparr>"

definition BlsSignature_TreeHash :: "externs \<Rightarrow> BlsSignature TreeHash" where
  "BlsSignature_TreeHash X = \<lparr>tht_type = Vector, tht_packed_encoding = (\<lambda>_. never_packed),
     tht_packing_factor = never_packed, tht_root = BlsSignature_tree_hash_root X\<rparr>"

text \<open>\<open>tree_hash::MerkleHasher\<close>.\<close>

record 'h MerkleHasher =
  mh_with_leaves :: "nat \<Rightarrow> 'h"
  mh_write :: "'h \<Rightarrow> bytes \<Rightarrow> ('h, string) res"
  mh_finish :: "'h \<Rightarrow> (Hash256, string) res"

fun hash_items ::
    "'h MerkleHasher \<Rightarrow> string \<Rightarrow> (bytes, string) res list \<Rightarrow> 'h \<Rightarrow> ('h, string) res" where
  "hash_items H msg [] hasher = Ok hasher"
| "hash_items H msg (item # items) hasher =
     res_bind item (\<lambda>bs.
     res_bind (expect msg (mh_write H hasher bs)) (\<lambda>hasher. hash_items H msg items hasher))"

definition vec_tree_hash_root ::
    "'h MerkleHasher \<Rightarrow> 'a TreeHash \<Rightarrow> nat \<Rightarrow> 'a list \<Rightarrow> (Hash256, string) res" where
  "vec_tree_hash_root H T n vec =
     (case tht_type T of
        Basic \<Rightarrow>
          res_bind (tht_packing_factor T) (\<lambda>factor.
          res_bind (hash_items H ''ssz_types variable vec should not contain more elements than max''
              (map (tht_packed_encoding T) vec) (mh_with_leaves H (div_ceil n factor))) (\<lambda>hasher.
            expect ''ssz_types variable vec should not have a remaining buffer'' (mh_finish H hasher)))
      | _ \<Rightarrow>
          res_bind (hash_items H ''ssz_types vec should not contain more elements than max''
              (map (\<lambda>item. Ok (tht_root T item)) vec) (mh_with_leaves H n)) (\<lambda>hasher.
            expect ''ssz_types vec should not have a remaining buffer'' (mh_finish H hasher)))"

definition BYTES_PER_CHUNK :: nat where "BYTES_PER_CHUNK = 32"

definition bitfield_bytes_tree_hash_root ::
    "'h MerkleHasher \<Rightarrow> nat \<Rightarrow> bytes \<Rightarrow> (Hash256, string) res" where
  "bitfield_bytes_tree_hash_root H n bs =
     (let byte_size = div_ceil n 8;
          leaf_count = div_ceil byte_size BYTES_PER_CHUNK
      in res_bind (expect ''bitfield should not exceed tree hash leaf limit''
           (mh_write H (mh_with_leaves H leaf_count) bs)) (\<lambda>hasher.
         expect ''bitfield tree hash buffer should not exceed leaf limit'' (mh_finish H hasher)))"

section \<open>JSON\<close>

datatype DeError = DeCustom string | DeInvalidType

fun deserialize_str :: "Json \<Rightarrow> (string, DeError) res" where
  "deserialize_str (JString s) = Ok s"
| "deserialize_str _ = Err DeInvalidType"

text \<open>\<open>impl_serde_serialize!\<close> and \<open>impl_serde_deserialize!\<close>, at a type with its \<open>Display\<close> and \<open>FromStr\<close>.\<close>

definition impl_serde_serialize :: "('a \<Rightarrow> string) \<Rightarrow> 'a \<Rightarrow> Json" where
  "impl_serde_serialize display a = JString (display a)"

definition impl_serde_deserialize :: "(string \<Rightarrow> ('a, string) res) \<Rightarrow> Json \<Rightarrow> ('a, DeError) res" where
  "impl_serde_deserialize from_str json =
     res_bind (deserialize_str json) (\<lambda>s. res_map_err DeCustom (from_str s))"

definition KzgCommitment_deserialize :: "externs \<Rightarrow> Json \<Rightarrow> (KzgCommitment, DeError) res" where
  "KzgCommitment_deserialize X json =
     res_bind (deserialize_str json) (\<lambda>s. res_map_err DeCustom (KzgCommitment_of_str X s))"

text \<open>
  \<open>serde_logs_bloom\<close>; the visitor is \<open>serde_utils\<close>' reader of prefixed hexadecimal digits, and \<open>debug\<close>
  renders the error of \<open>FixedVector::new\<close>.
\<close>

definition logs_bloom_serialize :: "externs \<Rightarrow> bytes \<Rightarrow> Json" where
  "logs_bloom_serialize X bs = JString (''0x'' @ hex_encode X bs)"

definition logs_bloom_deserialize ::
    "externs \<Rightarrow> (nat \<Rightarrow> string) \<Rightarrow> nat \<Rightarrow> Json \<Rightarrow> (bytes, DeError) res" where
  "logs_bloom_deserialize X debug n json =
     res_bind (res_bind (deserialize_str json) (\<lambda>s. res_map_err DeCustom (serde_hex_decode X s))) (\<lambda>vec.
       if fixed_vector_new_ok X n (length vec) then Ok vec
       else Err (DeCustom (''invalid logs bloom: '' @ debug (length vec))))"

text \<open>
  \<open>quoted_variable_list_u64\<close>; \<open>quote\<close> is the serialization of one \<open>QuotedIntWrapper\<close> and \<open>visitor\<close> the
  \<open>QuotedIntVecVisitor\<close> of \<open>serde_utils\<close>.
\<close>

definition quoted_list_serialize :: "(u64 \<Rightarrow> Json) \<Rightarrow> u64 list \<Rightarrow> Json" where
  "quoted_list_serialize quote vs = JSeq (map quote vs)"

definition quoted_list_deserialize ::
    "externs \<Rightarrow> (Json \<Rightarrow> (u64 list, DeError) res) \<Rightarrow> (nat \<Rightarrow> string) \<Rightarrow> nat \<Rightarrow> Json
     \<Rightarrow> (u64 list, DeError) res" where
  "quoted_list_deserialize X visitor debug n json =
     res_bind (visitor json) (\<lambda>vec.
       if variable_list_new_ok X n (length vec) then Ok vec
       else Err (DeCustom (''invalid length: '' @ debug (length vec))))"

section \<open>Debugging output\<close>

text \<open>\<open>print_tree_hash\<close>: the lines it prints, each the name of a field and its root.\<close>

definition BlindedBlock_print_tree_hash :: "externs \<Rightarrow> BlindedBlock \<Rightarrow> (string \<times> Hash256) list" where
  "BlindedBlock_print_tree_hash X b =
     [(''slot'', th_u64 X (blb_slot b)),
      (''proposer_index'', th_u64 X (blb_proposer_index b)),
      (''parent_root'', B256_tree_hash_root (blb_parent_root b)),
      (''state_root'', B256_tree_hash_root (blb_state_root b)),
      (''body'', BlindedBlockBody_tree_hash_root X (blb_body b))]"

definition BlindedBlockBody_print_tree_hash ::
    "externs \<Rightarrow> BlindedBlockBody \<Rightarrow> (string \<times> Hash256) list" where
  "BlindedBlockBody_print_tree_hash X b =
     [(''randao_reveal'', BlsSignature_tree_hash_root X (blbb_randao_reveal b)),
      (''eth1_data'', Eth1Data_root X (blbb_eth1_data b)),
      (''graffiti'', B256_tree_hash_root (blbb_graffiti b)),
      (''proposer_slashings'',
         th_variable_list X 16 (map (ProposerSlashing_root X) (blbb_proposer_slashings b))),
      (''attester_slashings'',
         th_variable_list X 2 (map (AttesterSlashing_root X) (blbb_attester_slashings b))),
      (''attestations'', th_variable_list X 128 (map (Attestation_root X) (blbb_attestations b))),
      (''deposits'', th_variable_list X 16 (map (Deposit_root X) (blbb_deposits b))),
      (''voluntary_exits'',
         th_variable_list X 16 (map (SignedVoluntaryExit_root X) (blbb_voluntary_exits b))),
      (''sync_aggregate'', SyncAggregate_root X (blbb_sync_aggregate b)),
      (''execution_payload_header'',
         ExecutionPayloadHeader_tree_hash_root X (blbb_execution_payload_header b)),
      (''bls_to_execution_changes'', th_variable_list X 16
         (map (SignedBlsToExecutionChange_root X) (blbb_bls_to_execution_changes b))),
      (''blob_kzg_commitments'', th_variable_list X 4096
         (map (KzgCommitment_tree_hash_root X) (blbb_blob_kzg_commitments b)))]"

end
