(* ===== verification/Codec_Laws.thy ===== *)
theory Codec_Laws
  imports Codecs
begin

text \<open>
  What the hand-written encodings promise: the contract of a fixed-width SSZ codec as the locale
  \<open>fixed_width\<close> with keys and signatures as its instances, round trips of texts, JSON and bytes for
  generated keys and what they sign, and the roots of vectors.
\<close>

section \<open>Fixed-width codecs\<close>

locale fixed_width =
  fixes enc :: "'a SszEncode" and dec :: "'a SszDecode" and valid :: "'a \<Rightarrow> bool"
  assumes fixed: "enc_is_fixed_len enc" "dec_is_fixed_len dec"
    and widths: "dec_fixed_len dec = enc_fixed_len enc" "enc_bytes_len enc a = enc_fixed_len enc"
    and positive: "0 < enc_fixed_len enc"
    and appends: "enc_append enc a buf = buf @ as_ssz_bytes enc a"
    and encoded_length: "valid a \<Longrightarrow> length (as_ssz_bytes enc a) = enc_fixed_len enc"
    and decodes: "valid a \<Longrightarrow> dec_from_ssz_bytes dec (as_ssz_bytes enc a) = Ok a"
begin

lemma encoding_injective:
  assumes "valid a" and "valid b" and "as_ssz_bytes enc a = as_ssz_bytes enc b"
  shows "a = b"
  using decodes [OF assms(1)] decodes [OF assms(2)] unfolding assms(3) by (metis res.inject(1))

text \<open>Values of fixed width one after the other, as in an SSZ list.\<close>

lemma append_all: "fold (enc_append enc) vs buf = buf @ concat (map (as_ssz_bytes enc) vs)"
  by (induction vs arbitrary: buf) (simp_all add: appends)

lemma append_all_length:
  "\<forall>a\<in>set vs. valid a \<Longrightarrow> length (fold (enc_append enc) vs []) = length vs * enc_fixed_len enc"
  unfolding append_all by (induction vs) (simp_all add: encoded_length)

lemma append_all_nth:
  assumes "\<forall>a\<in>set vs. valid a" and "i < length vs"
  shows "dec_from_ssz_bytes dec
     (take (enc_fixed_len enc) (drop (i * enc_fixed_len enc) (fold (enc_append enc) vs []))) = Ok (vs ! i)"
proof -
  have "take (enc_fixed_len enc) (drop (i * enc_fixed_len enc) (concat (map (as_ssz_bytes enc) vs)))
      = as_ssz_bytes enc (vs ! i)"
    using assms
  proof (induction vs arbitrary: i)
    case (Cons v vs)
    then show ?case by (cases i) (simp_all add: encoded_length)
  qed simp
  then show ?thesis using assms by (simp add: append_all decodes)
qed

end

text \<open>A key that \<open>deserialize\<close> accepts, and a signature that it gives.\<close>

definition valid_key :: "externs \<Rightarrow> BlsPublicKey \<Rightarrow> bool" where
  "valid_key X k \<longleftrightarrow> length (pk_serialize k) = 48 \<and> pk_serialize k \<noteq> INFINITY_PUBLIC_KEY \<and>
     blst_pk_key_validate X (pk_serialize k) = Ok (pk_serialize k)"

definition valid_signature :: "externs \<Rightarrow> BlsSignature \<Rightarrow> bool" where
  "valid_signature X s \<longleftrightarrow>
     (case sig_point s of
        None \<Rightarrow> \<not> sig_is_infinity s
      | Some p \<Rightarrow> length p = 96 \<and> p \<noteq> NONE_SIGNATURE \<and> blst_sig_from_bytes X p = Ok p \<and>
          sig_is_infinity s = (p = INFINITY_SIGNATURE))"

lemma none_not_infinity [simp]: "NONE_SIGNATURE \<noteq> INFINITY_SIGNATURE"
  by (auto simp: NONE_SIGNATURE_def INFINITY_SIGNATURE_def SIGNATURE_BYTES_LEN_def
      dest!: arg_cong [of _ _ hd])

lemma valid_key_deserializes: "valid_key X k \<Longrightarrow> BlsPublicKey_deserialize X (pk_serialize k) = Ok k"
  by (simp add: valid_key_def BlsPublicKey_deserialize_def PublicKey_deserialize_def
      PUBLIC_KEY_BYTES_LEN_def)

lemma valid_signature_length: "valid_signature X s \<Longrightarrow> length (BlsSignature_serialize s) = 96"
  by (simp add: valid_signature_def BlsSignature_serialize_def split: option.splits)

lemma valid_signature_deserializes:
  "valid_signature X s \<Longrightarrow> BlsSignature_deserialize X (BlsSignature_serialize s) = Ok s"
  by (cases s) (auto simp: valid_signature_def BlsSignature_serialize_def BlsSignature_deserialize_def
      split: option.splits)

interpretation key_codec: fixed_width BlsPublicKey_Encode "BlsPublicKey_Decode X" "valid_key X" for X
  by unfold_locales
    (auto simp: BlsPublicKey_Encode_def BlsPublicKey_Decode_def as_ssz_bytes_def PUBLIC_KEY_BYTES_LEN_def
      BlsPublicKey_ssz_append_def BlsPublicKey_from_ssz_bytes_def valid_key_deserializes valid_key_def)

interpretation signature_codec:
    fixed_width BlsSignature_Encode "BlsSignature_Decode X" "valid_signature X" for X
  by unfold_locales
    (auto simp: BlsSignature_Encode_def BlsSignature_Decode_def as_ssz_bytes_def SIGNATURE_BYTES_LEN_def
      BlsSignature_ssz_append_def BlsSignature_from_ssz_bytes_def valid_signature_deserializes
      valid_signature_length)

section \<open>Generated keys\<close>

definition generated :: "externs \<Rightarrow> BlsSecretKey \<Rightarrow> bool" where
  "generated X sk \<longleftrightarrow> (\<exists>ikm. (BlsSecretKey_random X ikm :: (BlsSecretKey, string) res) = Ok sk)"

lemma unwrap_eq_Ok [res_simps]: "unwrap r = Ok a \<longleftrightarrow> r = Ok a"
  by (simp add: unwrap_def res_simps)

lemma BlsSecretKey_random_eq_Ok [res_simps]:
  "BlsSecretKey_random X ikm = Ok sk \<longleftrightarrow> (\<exists>k. blst_sk_key_gen X ikm [] = Ok k \<and> sk = BlsSecretKey k)"
  by (auto simp: BlsSecretKey_random_def res_simps)

lemma BlsPublicKey_random_eq_Ok [res_simps]:
  "BlsPublicKey_random X ikm = Ok k \<longleftrightarrow>
     (\<exists>sk. blst_sk_key_gen X ikm [] = Ok sk \<and> k = BlsSecretKey_public_key X (BlsSecretKey sk))"
  by (auto simp: BlsPublicKey_random_def res_simps)

lemma random_key_exists:
  assumes "blst_keys X" and "length ikm = 32"
  shows "\<exists>sk. (BlsSecretKey_random X ikm :: (BlsSecretKey, 'e) res) = Ok sk \<and> generated X sk"
proof -
  obtain k where "blst_sk_key_gen X ikm [] = Ok k"
    using assms unfolding blst_keys_def by blast
  then show ?thesis by (auto simp: generated_def BlsSecretKey_random_eq_Ok)
qed

lemma generated_keys:
  assumes "blst_keys X" and "generated X sk"
  shows "valid_key X (BlsSecretKey_public_key X sk)"
    and "blst_pk_from_bytes X (pk_serialize (BlsSecretKey_public_key X sk))
      = Ok (pk_serialize (BlsSecretKey_public_key X sk))"
    and "BlsSecretKey_deserialize X (sk_serialize sk) = Ok sk"
proof -
  from assms(2) obtain ikm k where k: "blst_sk_key_gen X ikm [] = Ok k" "sk = BlsSecretKey k"
    by (auto simp: generated_def BlsSecretKey_random_eq_Ok)
  with assms(1) have "length k = 32" "k \<noteq> replicate 32 0" "blst_sk_from_bytes X k = Ok k"
    "length (blst_sk_to_pk X k) = 48" "blst_sk_to_pk X k \<noteq> INFINITY_PUBLIC_KEY"
    "blst_pk_from_bytes X (blst_sk_to_pk X k) = Ok (blst_sk_to_pk X k)"
    "blst_pk_key_validate X (blst_sk_to_pk X k) = Ok (blst_sk_to_pk X k)"
    unfolding blst_keys_def INFINITY_PUBLIC_KEY_def by blast+
  moreover from this(1,2) have "\<not> list_all (\<lambda>b. b = 0) k"
    by (auto simp: list_all_iff intro: replicate_eqI)
  ultimately show "valid_key X (BlsSecretKey_public_key X sk)"
    "blst_pk_from_bytes X (pk_serialize (BlsSecretKey_public_key X sk))
      = Ok (pk_serialize (BlsSecretKey_public_key X sk))"
    "BlsSecretKey_deserialize X (sk_serialize sk) = Ok sk"
    using k by (auto simp: valid_key_def BlsSecretKey_public_key_def BlsSecretKey_deserialize_def
        SECRET_KEY_BYTES_LEN_def)
qed

lemma made_signature_valid:
  assumes "blst_signatures X"
    and "blst_sk_sign X (sk_serialize sk) msg DST [] \<noteq> INFINITY_SIGNATURE"
  shows "valid_signature X (BlsSecretKey_sign X sk msg)"
  using assms unfolding blst_signatures_def
  by (simp add: valid_signature_def BlsSecretKey_sign_def BlsSignature_from_point_def NONE_SIGNATURE_def
      SIGNATURE_BYTES_LEN_def)

text \<open>The texts of keys and signatures read back.\<close>

lemma text_roundtrips:
  assumes "hex_documented X"
  shows "valid_key X k \<Longrightarrow> BlsPublicKey_of_str X (BlsPublicKey_to_string X k) = Ok k"
    and "valid_signature X s \<Longrightarrow> BlsSignature_of_str X (BlsSignature_to_string X s) = Ok s"
    and "BlsSecretKey_deserialize X (sk_serialize sk) = Ok sk \<Longrightarrow>
      BlsSecretKey_of_str X (BlsSecretKey_to_string X sk) = Ok sk"
  using assms
  by (simp_all add: hex_documented_def BlsPublicKey_of_str_def BlsPublicKey_to_string_def
      BlsSignature_of_str_def BlsSignature_to_string_def BlsSecretKey_of_str_def
      BlsSecretKey_to_string_def valid_key_deserializes valid_signature_deserializes)

lemma serde_roundtrip:
  "from_str (display a) = Ok a \<Longrightarrow>
     impl_serde_deserialize from_str (impl_serde_serialize display a) = Ok a"
  by (simp add: impl_serde_deserialize_def impl_serde_serialize_def)

section \<open>Vectors\<close>

text \<open>
  A hasher keeps its number of leaves and the bytes it has taken; it takes at least the bytes of its
  leaves, and then finishes with the Merkle root of what it took.
\<close>

definition hasher_documented ::
    "'h MerkleHasher \<Rightarrow> ('h \<Rightarrow> nat \<times> bytes) \<Rightarrow> (nat \<Rightarrow> bytes \<Rightarrow> Hash256) \<Rightarrow> bool" where
  "hasher_documented H taken merkle \<longleftrightarrow>
     (\<forall>n. taken (mh_with_leaves H n) = (n, [])) \<and>
     (\<forall>h n bs new. taken h = (n, bs) \<and> length bs + length new \<le> 32 * n \<longrightarrow>
        (\<exists>h'. mh_write H h new = Ok h' \<and> taken h' = (n, bs @ new))) \<and>
     (\<forall>h n bs. taken h = (n, bs) \<and> length bs \<le> 32 * n \<longrightarrow> mh_finish H h = Ok (merkle n bs))"

lemma hash_items_takes:
  assumes "hasher_documented H taken merkle" and "taken h = (n, bs)"
    and "length bs + length (concat items) \<le> 32 * n"
  shows "\<exists>h'. hash_items H msg (map Ok items) h = Ok h' \<and> taken h' = (n, bs @ concat items)"
  using assms(2,3)
proof (induction items arbitrary: h bs)
  case (Cons item items)
  then have "length bs + length item \<le> 32 * n" by simp
  with assms(1) Cons.prems(1) obtain h' where h': "mh_write H h item = Ok h'" "taken h' = (n, bs @ item)"
    unfolding hasher_documented_def by blast
  from Cons.IH [OF h'(2)] Cons.prems(2) h'(1) show ?case by simp
qed simp

lemma hash_finish:
  assumes "hasher_documented H taken merkle" and "length (concat items) \<le> 32 * n"
  shows "\<exists>h. hash_items H msg (map Ok items) (mh_with_leaves H n) = Ok h \<and>
    mh_finish H h = Ok (merkle n (concat items))"
proof -
  have "taken (mh_with_leaves H n) = (n, [])" using assms(1) by (simp add: hasher_documented_def)
  with hash_items_takes [OF assms(1) this, of items msg] assms(2) obtain h where
    "hash_items H msg (map Ok items) (mh_with_leaves H n) = Ok h" "taken h = (n, concat items)" by auto
  with assms show ?thesis unfolding hasher_documented_def by blast
qed

lemma concat_length_const: "\<forall>x\<in>set xs. length x = k \<Longrightarrow> length (concat xs) = k * length xs"
  by (induction xs) simp_all

section \<open>Properties\<close>

text \<open>
  C40. Every generated key reads back from each of its forms: the secret key from its bytes, its text and its
  JSON; the public key from its text, its JSON, its SSZ encoding and, as the gRPC service reads it, from
  its bytes; and so does every signature but the one at infinity. The text of the empty signature reads
  back to a signature that verifies nothing.
\<close>

theorem keys_roundtrip:
  assumes "blst_keys X" and "blst_signatures X" and "hex_documented X" and "generated X sk"
    and "blst_sk_sign X (sk_serialize sk) msg DST [] \<noteq> INFINITY_SIGNATURE"
  defines "pk \<equiv> BlsSecretKey_public_key X sk" and "s \<equiv> BlsSecretKey_sign X sk msg"
  shows "BlsSecretKey_of_str X (BlsSecretKey_to_string X sk) = Ok sk \<and>
    BlsPublicKey_of_str X (BlsPublicKey_to_string X pk) = Ok pk \<and>
    BlsPublicKey_from_ssz_bytes X (BlsPublicKey_ssz_append pk []) = Ok pk \<and>
    BlsPublicKey_from_vec X (pk_serialize pk) = (Ok pk :: (BlsPublicKey, string) res) \<and>
    impl_serde_deserialize (BlsPublicKey_of_str X) (impl_serde_serialize (BlsPublicKey_to_string X) pk) = Ok pk \<and>
    BlsSignature_of_str X (BlsSignature_to_string X s) = Ok s \<and>
    BlsSignature_from_ssz_bytes X (BlsSignature_ssz_append s []) = Ok s \<and>
    BlsSignature_from_vec X (BlsSignature_to_vec s) = (Ok s :: (BlsSignature, string) res) \<and>
    impl_serde_deserialize (BlsSignature_of_str X) (impl_serde_serialize (BlsSignature_to_string X) s) = Ok s \<and>
    BlsSignature_of_str X (BlsSignature_to_string X BlsSignature_default) = Ok BlsSignature_empty"
proof -
  have pk: "valid_key X pk" "blst_pk_from_bytes X (pk_serialize pk) = Ok (pk_serialize pk)"
    and sk: "BlsSecretKey_deserialize X (sk_serialize sk) = Ok sk"
    unfolding pk_def using generated_keys [OF assms(1,4)] by blast+
  have s: "valid_signature X s" unfolding s_def by (rule made_signature_valid [OF assms(2,5)])
  have vec: "blst_sig_from_bytes X (BlsSignature_to_vec s) = Ok (BlsSignature_to_vec s)"
    "BlsSignature_from_point (BlsSignature_to_vec s) False = s"
    using assms(2) unfolding blst_signatures_def s_def
    by (simp_all add: BlsSignature_to_vec_def BlsSignature_serialize_def BlsSecretKey_sign_def
        BlsSignature_from_point_def)
  have ssz: "BlsPublicKey_from_ssz_bytes X (BlsPublicKey_ssz_append pk []) = Ok pk"
    "BlsSignature_from_ssz_bytes X (BlsSignature_ssz_append s []) = Ok s"
    using key_codec.decodes [OF pk(1)] signature_codec.decodes [OF s]
    by (simp_all add: BlsPublicKey_Encode_def BlsPublicKey_Decode_def BlsSignature_Encode_def
        BlsSignature_Decode_def as_ssz_bytes_def)
  have "valid_signature X BlsSignature_empty" by (simp add: valid_signature_def BlsSignature_empty_def)
  note texts = text_roundtrips(1) [OF assms(3) pk(1)] text_roundtrips(2) [OF assms(3) s]
    text_roundtrips(3) [OF assms(3) sk] text_roundtrips(2) [OF assms(3) this]
  then show ?thesis
    using ssz pk(2) vec
    by (simp add: serde_roundtrip BlsPublicKey_from_vec_def BlsSignature_from_vec_def
        BlsSignature_default_def)
qed

text \<open>
  Keys and signatures one after the other, as in an SSZ list, take 48 and 96 bytes each, and each of
  them is read back from its place.
\<close>

theorem key_lists_decode:
  assumes "\<forall>k\<in>set ks. valid_key X k" and "\<forall>s\<in>set ss. valid_signature X s"
    and "i < length ks" and "j < length ss"
  shows "length (fold BlsPublicKey_ssz_append ks []) = length ks * 48 \<and>
    BlsPublicKey_from_ssz_bytes X (take 48 (drop (i * 48) (fold BlsPublicKey_ssz_append ks []))) = Ok (ks ! i) \<and>
    length (fold BlsSignature_ssz_append ss []) = length ss * 96 \<and>
    BlsSignature_from_ssz_bytes X (take 96 (drop (j * 96) (fold BlsSignature_ssz_append ss []))) = Ok (ss ! j)"
  using key_codec.append_all_length [OF assms(1)] key_codec.append_all_nth [OF assms(1,3)]
    signature_codec.append_all_length [OF assms(2)] signature_codec.append_all_nth [OF assms(2,4)]
  by (simp add: BlsPublicKey_Encode_def BlsPublicKey_Decode_def BlsSignature_Encode_def
      BlsSignature_Decode_def PUBLIC_KEY_BYTES_LEN_def SIGNATURE_BYTES_LEN_def)

text \<open>
  \<open>vec_tree_hash_root\<close> does not panic as long as there are no more elements than the limit: integers,
  addresses, hashes, keys and signatures give the Merkle root of their roots, and a bitfield that of its
  bytes. Keys and signatures are never packed.
\<close>

theorem vec_tree_hash_root_total:
  assumes "hasher_documented H taken merkle" and "length vs \<le> n" and "length ks \<le> n"
    and "length bits \<le> div_ceil n 8" and "u256_slices X" and "\<forall>k\<in>set ks. length (BlsPublicKey_tree_hash_root X k) = 32"
  shows "vec_tree_hash_root H (U256_TreeHash X) n vs = Ok (merkle n (concat (map (U256_tree_hash_root X) vs))) \<and>
    vec_tree_hash_root H (BlsPublicKey_TreeHash X) n ks
      = Ok (merkle n (concat (map (BlsPublicKey_tree_hash_root X) ks))) \<and>
    bitfield_bytes_tree_hash_root H n bits = Ok (merkle (div_ceil (div_ceil n 8) 32) bits)"
proof -
  have "\<forall>r\<in>set (map (U256_tree_hash_root X) vs). length r = 32"
    using assms(5) by (simp add: u256_slices_def U256_tree_hash_root_def)
  from concat_length_const [OF this] assms(2)
  have vs: "length (concat (map (U256_tree_hash_root X) vs)) \<le> 32 * n" by simp
  have "\<forall>r\<in>set (map (BlsPublicKey_tree_hash_root X) ks). length r = 32" using assms(6) by simp
  from concat_length_const [OF this] assms(3)
  have ks: "length (concat (map (BlsPublicKey_tree_hash_root X) ks)) \<le> 32 * n" by simp
  have "n \<le> 32 * div_ceil n 32" for n by (simp add: div_ceil_def) 
  then have bits: "length (concat [bits]) \<le> 32 * div_ceil (div_ceil n 8) 32"
    using assms(4) by (metis concat.simps(1,2) append_Nil2 le_trans)
  show ?thesis
    using hash_finish [OF assms(1) vs, of "''ssz_types variable vec should not contain more elements than max''"]
      hash_finish [OF assms(1) ks, of "''ssz_types vec should not contain more elements than max''"]
      hash_finish [OF assms(1) bits, of "''bitfield should not exceed tree hash leaf limit''"]
    by (auto simp: vec_tree_hash_root_def U256_TreeHash_def BlsPublicKey_TreeHash_def
        bitfield_bytes_tree_hash_root_def BYTES_PER_CHUNK_def Let_def U256_tree_hash_root_def div_ceil_def
        res_simps comp_def)
qed

text \<open>
  The JSON of a bloom filter and of a list of quoted integers reads back, at its width or within its
  limit, and is refused with a message about the length otherwise; a value that is not a string is no
  bloom filter and no commitment.
\<close>

theorem json_lists_roundtrip:
  assumes "hex_documented X" and "ssz_containers X"
    and "\<forall>bs. serde_hex_encode X bs = ''0x'' @ hex_encode X bs"
    and "\<forall>vs. visitor (JSeq (map quote vs)) = Ok vs"
  shows "logs_bloom_deserialize X debug n (logs_bloom_serialize X bs) =
      (if length bs = n then Ok bs else Err (DeCustom (''invalid logs bloom: '' @ debug (length bs)))) \<and>
    quoted_list_deserialize X visitor debug n (quoted_list_serialize quote vs) =
      (if length vs \<le> n then Ok vs else Err (DeCustom (''invalid length: '' @ debug (length vs)))) \<and>
    (length (kzg_bytes c) = 48 \<longrightarrow>
      KzgCommitment_deserialize X (JString (KzgCommitment_serialize X c)) = Ok c) \<and>
    logs_bloom_deserialize X debug n JOther = Err DeInvalidType \<and>
    KzgCommitment_deserialize X JOther = Err DeInvalidType"
proof -
  have "serde_hex_decode X (''0x'' @ hex_encode X bs) = Ok bs" for bs
    using assms(1,3) unfolding hex_documented_def by metis
  then have "serde_hex_decode X (CHR ''0'' # CHR ''x'' # hex_encode X bs) = Ok bs" for bs by simp
  moreover have "serde_hex_decode X (serde_hex_encode X bs) = Ok bs" for bs
    using assms(1) by (simp add: hex_documented_def)
  ultimately show ?thesis
    using assms(2,4)
    by (cases c) (simp add: logs_bloom_deserialize_def logs_bloom_serialize_def quoted_list_deserialize_def
        quoted_list_serialize_def KzgCommitment_deserialize_def KzgCommitment_serialize_def
        KzgCommitment_of_str_def BYTES_PER_COMMITMENT_def)
qed

text \<open>
  The lines that \<open>print_tree_hash\<close> prints are the leaves of the root that the proposer signs: hashed
  together they are the root of the block and of its body.
\<close>

theorem printed_roots_are_leaves:
  "th_container X (map snd (BlindedBlock_print_tree_hash X b)) = BlindedBlock_tree_hash_root X b \<and>
   th_container X (map snd (BlindedBlockBody_print_tree_hash X body)) = BlindedBlockBody_tree_hash_root X body"
  by (simp add: BlindedBlock_print_tree_hash_def BlindedBlockBody_print_tree_hash_def
      BlindedBlock_tree_hash_root_def BlindedBlockBody_tree_hash_root_def)

end
