(* ===== verification/Grpc_Gen.thy ===== *)
theory Grpc_Gen
  imports Post_Bids
begin

text \<open>
  \<open>crates/grpc/src/gen\<close>: the protobuf messages of the gRPC interface (\<open>mevrelay.rs\<close>) and the
  conversions from them to the types of the relay (\<open>gen/mod.rs\<close>). A \<open>vec\<close> of the wire is a byte
  list of any length; the conversions are the only place where lengths are checked.
\<close>

section \<open>Messages\<close>

record GBidTrace =
  gbt_slot :: u64
  gbt_parent_hash :: bytes
  gbt_block_hash :: bytes
  gbt_builder_pubkey :: bytes
  gbt_proposer_pubkey :: bytes
  gbt_proposer_fee_recipient :: bytes
  gbt_gas_limit :: u64
  gbt_gas_used :: u64
  gbt_value :: string

record GWithdrawal =
  gw_index :: u64
  gw_validator_index :: u64
  gw_address :: bytes
  gw_amount :: u64

record GBlobsBundle =
  gbb_commitments :: "bytes list"
  gbb_proofs :: "bytes list"
  gbb_blobs :: "bytes list"

record CompressTx =
  ctx_raw_data :: bytes

record GExecutionPayload =
  gep_parent_hash :: bytes
  gep_state_root :: bytes
  gep_receipts_root :: bytes
  gep_logs_bloom :: bytes
  gep_prev_randao :: bytes
  gep_extra_data :: bytes
  gep_base_fee_per_gas :: bytes
  gep_fee_recipient :: bytes
  gep_block_hash :: bytes
  gep_transactions :: "CompressTx list"
  gep_withdrawals :: "GWithdrawal list"
  gep_block_number :: u64
  gep_gas_limit :: u64
  gep_timestamp :: u64
  gep_gas_used :: u64
  gep_blob_gas_used :: u64
  gep_excess_blob_gas :: u64

record SubmitBlockRequest =
  req_bid_trace :: "GBidTrace option"
  req_execution_payload :: "GExecutionPayload option"
  req_signature :: bytes
  req_blobs_bundle :: "GBlobsBundle option"

type_synonym i64 = "64 word"

record SubmitBlockResponse =
  resp_code :: i64
  resp_message :: string

section \<open>Conversions\<close>

definition BidTrace_try_from :: "externs \<Rightarrow> GBidTrace \<Rightarrow> (BidTrace, ConversionError) res" where
  "BidTrace_try_from X b =
     res_bind (res_map_err (\<lambda>_. ParseError ''U256'' (gbt_value b)) (U256_of_str X (gbt_value b)))
       (\<lambda>v.
     res_bind (B256_try_from (gbt_parent_hash b)) (\<lambda>phash.
     res_bind (B256_try_from (gbt_block_hash b)) (\<lambda>bhash.
     res_bind (BlsPublicKey_from_vec X (gbt_builder_pubkey b)) (\<lambda>builder.
     res_bind (BlsPublicKey_from_vec X (gbt_proposer_pubkey b)) (\<lambda>proposer.
     res_bind (Address_try_from (gbt_proposer_fee_recipient b)) (\<lambda>fee_recipient.
       Ok \<lparr>bt_slot = gbt_slot b, bt_parent_hash = phash, bt_block_hash = bhash,
           bt_builder_pubkey = builder, bt_proposer_pubkey = proposer,
           bt_proposer_fee_recipient = fee_recipient, bt_gas_limit = gbt_gas_limit b,
           bt_gas_used = gbt_gas_used b, bt_value = v\<rparr>))))))"

text \<open>The validator index is set from the amount, as the source has it.\<close>

definition Withdrawal_try_from :: "GWithdrawal \<Rightarrow> (Withdrawal, ConversionError) res" where
  "Withdrawal_try_from w =
     res_bind (Address_try_from (gw_address w)) (\<lambda>a.
       Ok \<lparr>wd_index = gw_index w, wd_validator_index = gw_amount w, wd_address = a,
           wd_amount = gw_amount w\<rparr>)"

definition proof_try_from :: "bytes \<Rightarrow> (KzgCommitment, ConversionError) res" where
  "proof_try_from p =
     (if length p \<noteq> BYTES_PER_COMMITMENT then Err SszTypes else Ok (KzgCommitment_from p))"

definition blob_try_from :: "externs \<Rightarrow> bytes \<Rightarrow> (bytes, ConversionError) res" where
  "blob_try_from X v =
     (if fixed_vector_new_ok X BYTES_PER_BLOB (length v) then Ok v else Err SszTypes)"

text \<open>\<open>VariableList::new(..).map_err(|_| ConversionError::SszTypes)?\<close>.\<close>

definition variable_list_new :: "externs \<Rightarrow> nat \<Rightarrow> 'a list \<Rightarrow> ('a list, ConversionError) res" where
  "variable_list_new X n xs = (if variable_list_new_ok X n (length xs) then Ok xs else Err SszTypes)"

definition BlobsBundle_try_from ::
    "externs \<Rightarrow> GBlobsBundle \<Rightarrow> (BlobsBundle, ConversionError) res" where
  "BlobsBundle_try_from X b =
     res_bind (res_mapM Bytes48_try_from (gbb_commitments b)) (\<lambda>commitments.
     res_bind (res_mapM proof_try_from (gbb_proofs b)) (\<lambda>proofs.
     res_bind (res_mapM (blob_try_from X) (gbb_blobs b)) (\<lambda>blobs.
     res_bind (variable_list_new X 4096 proofs) (\<lambda>proofs.
     res_bind (variable_list_new X 4096 blobs) (\<lambda>blobs.
       Ok \<lparr>bb_commitments = commitments, bb_proofs = proofs, bb_blobs = blobs\<rparr>)))))"

definition ExecutionPayload_try_from ::
    "externs \<Rightarrow> GExecutionPayload \<Rightarrow> (ExecutionPayload, ConversionError) res" where
  "ExecutionPayload_try_from X p =
     res_bind (res_mapM Withdrawal_try_from (gep_withdrawals p)) (\<lambda>withdrawals.
     res_bind (B256_try_from (gep_parent_hash p)) (\<lambda>phash.
     res_bind (res_map_err
        (\<lambda>_. IncorrectLength ''Address'' 20 (length (gep_fee_recipient p)))
        (Address_try_from (gep_fee_recipient p))) (\<lambda>fee_recipient.
     res_bind (B256_try_from (gep_state_root p)) (\<lambda>state_root.
     res_bind (B256_try_from (gep_receipts_root p)) (\<lambda>receipts_root.
     res_bind (B256_try_from (gep_prev_randao p)) (\<lambda>randao.
     res_bind (U256_try_from X (gep_base_fee_per_gas p)) (\<lambda>base_fee_per_gas.
     res_bind (B256_try_from (gep_block_hash p)) (\<lambda>bhash.
     res_bind (variable_list_new X 1048576
        (map (\<lambda>t. variable_list_from X 1073741824 (ctx_raw_data t)) (gep_transactions p)))
        (\<lambda>transactions.
     res_bind (variable_list_new X 16 withdrawals) (\<lambda>withdrawals.
       Ok \<lparr>ep_parent_hash = phash,
           ep_fee_recipient = fee_recipient,
           ep_state_root = state_root,
           ep_receipts_root = receipts_root,
           ep_logs_bloom = fixed_vector_from X 256 (gep_logs_bloom p),
           ep_prev_randao = randao,
           ep_block_number = gep_block_number p,
           ep_gas_limit = gep_gas_limit p,
           ep_gas_used = gep_gas_used p,
           ep_timestamp = gep_timestamp p,
           ep_extra_data = variable_list_from X 32 (gep_extra_data p),
           ep_base_fee_per_gas = base_fee_per_gas,
           ep_block_hash = bhash,
           ep_transactions = transactions,
           ep_withdrawals = withdrawals,
           ep_blob_gas_used = gep_blob_gas_used p,
           ep_excess_blob_gas = gep_excess_blob_gas p\<rparr>))))))))))"

section \<open>Lemmas\<close>

lemma variable_list_new_eq_Ok [res_simps]:
  "variable_list_new X n xs = Ok ys \<longleftrightarrow> ys = xs \<and> variable_list_new_ok X n (length xs)"
  by (auto simp: variable_list_new_def)

lemma variable_list_new_neq_Panic [simp]: "variable_list_new X n xs \<noteq> Panic m"
  by (simp add: variable_list_new_def)

lemma proof_blob_neq_Panic [simp]:
  "proof_try_from p \<noteq> Panic m" "blob_try_from X v \<noteq> Panic m"
  by (simp_all add: proof_try_from_def blob_try_from_def)

lemma Withdrawal_try_from_eq_Ok [res_simps]:
  "Withdrawal_try_from w = Ok v \<longleftrightarrow>
     length (gw_address w) = 20 \<and>
     v = \<lparr>wd_index = gw_index w, wd_validator_index = gw_amount w,
          wd_address = Address (gw_address w), wd_amount = gw_amount w\<rparr>"
  by (auto simp: Withdrawal_try_from_def res_simps)

lemma Withdrawal_try_from_neq_Panic [simp]: "Withdrawal_try_from w \<noteq> Panic m"
  by (simp add: Withdrawal_try_from_def res_simps)

lemma ExecutionPayload_try_from_neq_Panic [simp]: "ExecutionPayload_try_from X p \<noteq> Panic m"
  by (auto simp: ExecutionPayload_try_from_def res_simps dest: res_mapM_no_Panic [THEN notE, rotated])

lemma BlobsBundle_try_from_neq_Panic [simp]: "BlobsBundle_try_from X b \<noteq> Panic m"
  by (auto simp: BlobsBundle_try_from_def res_simps dest: res_mapM_no_Panic [THEN notE, rotated])

lemma withdrawals_wf:
  assumes "res_mapM Withdrawal_try_from ws = Ok vs"
  shows "list_all wf_Withdrawal vs"
  using assms by (auto simp: res_mapM_eq_Ok list_all_iff wf_Withdrawal_def wf_Address_def res_simps
      list_all2_conv_all_nth in_set_conv_nth)

section \<open>Properties\<close>

text \<open>
  C38. An execution payload that comes through the conversion satisfies every length limit of its
  type, and keeps the numbers, the hashes and the transactions of the message; in particular no
  message makes the conversion panic.
\<close>

theorem payload_conversion_wf:
  assumes "ssz_containers X" and "ExecutionPayload_try_from X p = Ok q"
  shows "wf_ExecutionPayload q \<and>
    ep_parent_hash q = B256 (gep_parent_hash p) \<and> ep_block_hash q = B256 (gep_block_hash p) \<and>
    ep_state_root q = B256 (gep_state_root p) \<and> ep_receipts_root q = B256 (gep_receipts_root p) \<and>
    ep_prev_randao q = B256 (gep_prev_randao p) \<and>
    ep_fee_recipient q = Address (gep_fee_recipient p) \<and>
    ep_block_number q = gep_block_number p \<and> ep_gas_limit q = gep_gas_limit p \<and>
    ep_gas_used q = gep_gas_used p \<and> ep_timestamp q = gep_timestamp p \<and>
    ep_transactions q = map (take 1073741824 \<circ> ctx_raw_data) (gep_transactions p) \<and>
    length (ep_withdrawals q) = length (gep_withdrawals p)"
  using assms by (auto simp: ExecutionPayload_try_from_def wf_ExecutionPayload_def res_simps
      wf_B256_def wf_Address_def withdrawals_wf res_mapM_length)

text \<open>
  A withdrawal of a gRPC submission keeps its index, address and amount, but its validator index
  is the amount: it comes through unchanged only when the two numbers are the same.
\<close>

theorem withdrawal_conversion:
  assumes "Withdrawal_try_from w = Ok v"
  shows "wd_index v = gw_index w \<and> wd_address v = Address (gw_address w) \<and>
    wd_amount v = gw_amount w \<and> wd_validator_index v = gw_amount w \<and>
    (wd_validator_index v = gw_validator_index w \<longleftrightarrow> gw_validator_index w = gw_amount w)"
  using assms by (auto simp: Withdrawal_try_from_eq_Ok)

end
