(* ===== verification/Grpc_Service.thy ===== *)
theory Grpc_Service
  imports Grpc_Gen
begin

text \<open>
  \<open>crates/grpc/src/service/mod.rs\<close>: the gRPC service on which builders submit blocks. It runs the
  same checks as the HTTP route on the converted message, in another order, and it reports a bid
  that is too low as a reply with code 400 instead of as an error.
\<close>

section \<open>The service\<close>

text \<open>\<open>tonic::Status\<close>: the sources only make \<open>invalid_argument\<close>.\<close>

datatype Status = InvalidArgument string

text \<open>The service keeps its own copy of the fork data, given to it at start-up.\<close>

record 's RelayGrpcService =
  gs_storage :: "'s Storage"
  gs_fork_data :: ForkDatas

definition RelayGrpcService_new :: "'s Storage \<Rightarrow> ForkDatas \<Rightarrow> 's RelayGrpcService" where
  "RelayGrpcService_new storage fork_datas = \<lparr>gs_storage = storage, gs_fork_data = fork_datas\<rparr>"

definition validate_bid_and_payload ::
    "'s RelayGrpcService \<Rightarrow> 's \<Rightarrow> BidTrace \<Rightarrow> ExecutionPayload \<Rightarrow> (Validator, Status) res" where
  "validate_bid_and_payload self s bid execution_payload =
     (let S = gs_storage self in
      if U256_is_zero (bt_value bid) then Err (InvalidArgument ''Block value 0.'')
      else if \<not> is_whitelisted_builder S s (bt_builder_pubkey bid)
      then Err (InvalidArgument ''Invalid builder address.'')
      else if \<not> is_next_slot (read_head_slot S s) (bt_slot bid)
      then Err (InvalidArgument ''Submission for past slot.'')
      else case validate_bid (read_payload_attributes S s) (bt_slot bid)
                  (ep_prev_randao execution_payload) of
        Err error_message \<Rightarrow> Err (InvalidArgument (ValidationErrors_to_string error_message))
      | Panic m \<Rightarrow> Panic m
      | Ok _ \<Rightarrow> ok_or (find_duty_by_slot S s (bt_slot bid)) (InvalidArgument ''No duty found.''))"

definition verify_signature ::
    "externs \<Rightarrow> 's RelayGrpcService \<Rightarrow> BidTrace \<Rightarrow> BlsSignature \<Rightarrow> (unit, Status) res" where
  "verify_signature X self bid signature =
     (if \<not> BidTrace_verify_signature X bid signature (compute_builder_domain X (gs_fork_data self))
      then Err (InvalidArgument ''Invalid signature'') else Ok ())"

definition grpc_is_bid_higher :: "'s RelayGrpcService \<Rightarrow> 's \<Rightarrow> BidTrace \<Rightarrow> bool" where
  "grpc_is_bid_higher self s bid =
     (case read_best_bid (gs_storage self) s (bt_slot bid) (bt_parent_hash bid)
             (bt_proposer_pubkey bid) of
        Some current_best \<Rightarrow> BidTrace_gt bid (bid_trace current_best)
      | None \<Rightarrow> True)"

definition update_best ::
    "'s RelayGrpcService \<Rightarrow> BidTrace \<Rightarrow> ExecutionPayload \<Rightarrow> BlobsBundle \<Rightarrow> BlsSignature
     \<Rightarrow> BlsPublicKey \<Rightarrow> 's world \<Rightarrow> 's world" where
  "update_best self bid exec_payload blobs_bundle signature proposer_key w =
     (let slot = bt_slot bid;
          submission = BidSubmission_new bid exec_payload blobs_bundle signature;
          blinded_block_response = to_blinded_block_response submission;
          w = set_best_bid (gs_storage self) slot submission w
      in set_blinded_block_response (gs_storage self) proposer_key blinded_block_response w)"

text \<open>
  \<open>submit_block\<close> up to the update: a reply that ends the call, or what the update is given. The
  order of the conversions and checks is that of the source: a bid that is too low is answered
  before the payload is looked at, and the blobs are converted last.
\<close>

datatype submit_outcome =
    Replied SubmitBlockResponse
  | Accepted BidTrace ExecutionPayload BlobsBundle BlsSignature BlsPublicKey

definition submit_block_checks ::
    "externs \<Rightarrow> 's RelayGrpcService \<Rightarrow> 's \<Rightarrow> SubmitBlockRequest \<Rightarrow> (submit_outcome, Status) res" where
  "submit_block_checks X self s req =
     res_bind (ok_or (req_bid_trace req) (InvalidArgument ''Missing bid'')) (\<lambda>bid.
     res_bind (ok_or (req_execution_payload req) (InvalidArgument ''Missing Execution Payload''))
       (\<lambda>exec_payload.
     res_bind (ok_or (req_blobs_bundle req) (InvalidArgument ''Missing Blobs Bundle'')) (\<lambda>blobs.
     res_bind (res_map_err (\<lambda>e. InvalidArgument (ConversionError_to_string e))
       (BidTrace_try_from X bid)) (\<lambda>bid.
     if \<not> grpc_is_bid_higher self s bid
     then Ok (Replied \<lparr>resp_code = 400, resp_message = ''Bid below best.''\<rparr>)
     else
     res_bind (res_map_err (\<lambda>e. InvalidArgument (ConversionError_to_string e))
       (ExecutionPayload_try_from X exec_payload)) (\<lambda>exec_payload.
     res_bind (validate_bid_and_payload self s bid exec_payload) (\<lambda>duty.
     res_bind (BlsSignature_from_vec X (req_signature req)) (\<lambda>signature.
     res_bind (verify_signature X self bid signature) (\<lambda>_.
     res_bind (res_map_err (\<lambda>e. InvalidArgument (ConversionError_to_string e))
       (BlobsBundle_try_from X blobs)) (\<lambda>blobs.
       Ok (Accepted bid exec_payload blobs signature (duty_pubkey duty)))))))))))"

definition submit_block ::
    "externs \<Rightarrow> 's RelayGrpcService \<Rightarrow> SubmitBlockRequest \<Rightarrow> 's world
     \<Rightarrow> 's world \<times> (SubmitBlockResponse, Status) res" where
  "submit_block X self req w =
     (case submit_block_checks X self (w_store w) req of
        Err e \<Rightarrow> (w, Err e)
      | Panic m \<Rightarrow> (w, Panic m)
      | Ok (Replied reply) \<Rightarrow> (w, Ok reply)
      | Ok (Accepted bid exec_payload blobs signature proposer_key) \<Rightarrow>
          (update_best self bid exec_payload blobs signature proposer_key w,
           Ok \<lparr>resp_code = 200, resp_message = ''Success''\<rparr>))"

section \<open>Decoded requests\<close>

text \<open>The submission that a request stands for, when all of it converts.\<close>

definition decode_request :: "externs \<Rightarrow> SubmitBlockRequest \<Rightarrow> BidSubmission option" where
  "decode_request X req =
     (case (req_bid_trace req, req_execution_payload req, req_blobs_bundle req) of
        (Some bid, Some payload, Some blobs) \<Rightarrow>
          (case (BidTrace_try_from X bid, ExecutionPayload_try_from X payload,
                 BlsSignature_from_vec X (req_signature req) :: (BlsSignature, unit) res,
                 BlobsBundle_try_from X blobs) of
             (Ok t, Ok p, Ok sig, Ok bb) \<Rightarrow> Some (BidSubmission_new t p bb sig)
           | _ \<Rightarrow> None)
      | _ \<Rightarrow> None)"

lemma decode_request_eq_Some:
  "decode_request X req = Some b \<longleftrightarrow>
     (\<exists>gb gp gbb t p bb sig.
        req_bid_trace req = Some gb \<and> req_execution_payload req = Some gp \<and>
        req_blobs_bundle req = Some gbb \<and> BidTrace_try_from X gb = Ok t \<and>
        ExecutionPayload_try_from X gp = Ok p \<and> BlobsBundle_try_from X gbb = Ok bb \<and>
        (BlsSignature_from_vec X (req_signature req) :: (BlsSignature, unit) res) = Ok sig \<and>
        b = BidSubmission_new t p bb sig)"
  unfolding decode_request_def by (auto split: option.splits res.splits)

lemma validate_bid_and_payload_Ok:
  "validate_bid_and_payload self s bid p = Ok duty \<longleftrightarrow>
     \<not> U256_is_zero (bt_value bid) \<and> is_whitelisted_builder (gs_storage self) s (bt_builder_pubkey bid) \<and>
     is_next_slot (read_head_slot (gs_storage self) s) (bt_slot bid) \<and>
     is_ok (validate_bid (read_payload_attributes (gs_storage self) s) (bt_slot bid)
       (ep_prev_randao p)) \<and>
     find_duty_by_slot (gs_storage self) s (bt_slot bid) = Some duty"
  by (auto simp: validate_bid_and_payload_def Let_def validate_bid_def res_simps)

lemma validate_bid_and_payload_no_Panic [simp]: "validate_bid_and_payload self s bid p \<noteq> Panic m"
  by (auto simp: validate_bid_and_payload_def Let_def split: res.splits)

lemma verify_signature_Ok [res_simps]:
  "verify_signature X self bid sig = Ok u \<longleftrightarrow>
     BidTrace_verify_signature X bid sig (compute_builder_domain X (gs_fork_data self))"
  by (simp add: verify_signature_def)

lemma verify_signature_no_Panic [simp]: "verify_signature X self bid sig \<noteq> Panic m"
  by (simp add: verify_signature_def)

lemma grpc_is_bid_higher_eq: "grpc_is_bid_higher self s bid = is_bid_higher (gs_storage self) s bid"
  by (simp add: grpc_is_bid_higher_def is_bid_higher_def)

lemma submit_block_checks_Accepted:
  assumes "submit_block_checks X self s req = Ok (Accepted t p bb sig key)"
  shows "\<exists>duty. key = duty_pubkey duty \<and>
    decode_request X req = Some (BidSubmission_new t p bb sig) \<and>
    is_bid_higher (gs_storage self) s t \<and>
    validate_bid_and_payload self s t p = Ok duty \<and> verify_signature X self t sig = Ok ()"
  using assms unfolding submit_block_checks_def
  by (auto simp: res_simps decode_request_eq_Some grpc_is_bid_higher_eq split: if_splits)

lemma update_best_commit:
  "update_best self t p bb sig (duty_pubkey d) w =
     post_bids_commit (gs_storage self) (BidSubmission_new t p bb sig) d w"
  by (simp add: update_best_def post_bids_commit_def Let_def)

text \<open>On a decoded request the checks are those of the HTTP route.\<close>

lemma submit_block_decoded:
  assumes "decode_request X req = Some b" and "gs_fork_data self = fork_data (gs_storage self) (w_store w)"
  shows "(\<exists>duty. post_bids_checks X (gs_storage self) (w_store w) b = Ok duty \<and>
      submit_block X self req w = (post_bids_commit (gs_storage self) b duty w,
        Ok \<lparr>resp_code = 200, resp_message = ''Success''\<rparr>)) \<or>
    (\<exists>e e'. post_bids_checks X (gs_storage self) (w_store w) b = Err e \<and>
      submit_block X self req w =
        (w, if is_bid_higher (gs_storage self) (w_store w) (bid_trace b) then Err e'
            else Ok \<lparr>resp_code = 400, resp_message = ''Bid below best.''\<rparr>))"
proof -
  from assms(1) obtain gb gp gbb t p bb sig where d:
    "req_bid_trace req = Some gb" "req_execution_payload req = Some gp"
    "req_blobs_bundle req = Some gbb" "BidTrace_try_from X gb = Ok t"
    "ExecutionPayload_try_from X gp = Ok p" "BlobsBundle_try_from X gbb = Ok bb"
    "(BlsSignature_from_vec X (req_signature req) :: (BlsSignature, unit) res) = Ok sig"
    "b = BidSubmission_new t p bb sig"
    unfolding decode_request_eq_Some by blast
  then have sig: "(BlsSignature_from_vec X (req_signature req) :: (BlsSignature, Status) res) = Ok sig"
    by (simp add: BlsSignature_from_vec_eq_Ok)
  have "(\<exists>duty. post_bids_checks X (gs_storage self) (w_store w) b = Ok duty \<and>
          submit_block_checks X self (w_store w) req = Ok (Accepted t p bb sig (duty_pubkey duty)))
      \<or> (\<exists>e e'. post_bids_checks X (gs_storage self) (w_store w) b = Err e \<and>
          submit_block_checks X self (w_store w) req = 
            (if is_bid_higher (gs_storage self) (w_store w) (bid_trace b) then Err e'
             else Ok (Replied \<lparr>resp_code = 400, resp_message = ''Bid below best.''\<rparr>)))"
    using d sig assms(2)
    by (auto simp: submit_block_checks_def post_bids_checks_def Let_def grpc_is_bid_higher_eq
        validate_bid_and_payload_def verify_signature_def split: option.split res.split)
  then show ?thesis
    using d(8) by (auto simp: submit_block_def update_best_commit split: if_splits)
qed

context storage_contract
begin

lemma submit_block_Accepted_abs:
  fixes X self s req fds
  assumes "submit_block_checks X self s req = Ok (Accepted t p bb sig key)"
    and "self = RelayGrpcService_new S fds"
  shows "\<exists>duty. key = duty_pubkey duty \<and>
    decode_request X req = Some (BidSubmission_new t p bb sig) \<and>
    outbids (alpha s) (BidSubmission_new t p bb sig) \<and>
    admissible_static X ((alpha s)\<lparr>ss_fork_data := fds\<rparr>) (BidSubmission_new t p bb sig) \<and>
    duty_of (alpha s) (bt_slot t) = Some duty"
proof -
  have S: "gs_storage self = S" and fds: "gs_fork_data self = fds"
    using assms(2) by (simp_all add: RelayGrpcService_new_def)
  from submit_block_checks_Accepted [OF assms(1)] obtain duty where d: "key = duty_pubkey duty"
    "decode_request X req = Some (BidSubmission_new t p bb sig)" "is_bid_higher S s t"
    "validate_bid_and_payload self s t p = Ok duty" "verify_signature X self t sig = Ok ()"
    unfolding S by blast
  have "outbids (alpha s) (BidSubmission_new t p bb sig)"
    using d(3) is_bid_higher_iff [of s "BidSubmission_new t p bb sig"] by simp
  moreover have "admissible_static X ((alpha s)\<lparr>ss_fork_data := fds\<rparr>) (BidSubmission_new t p bb sig)
      \<and> duty_of (alpha s) (bt_slot t) = Some duty"
    using d(4,5) by (auto simp: validate_bid_and_payload_Ok verify_signature_Ok S fds readers
        admissible_static_def Let_def duty_of_def is_next_slot_def is_ok_iff validate_bid_Ok)
  ultimately show ?thesis using d by blast
qed

end

lemma submit_block_cases:
  obtains (accepted) t p bb sig key where
      "submit_block_checks X self (w_store w) req = Ok (Accepted t p bb sig key)"
      "submit_block X self req w
       = (update_best self t p bb sig key w, Ok \<lparr>resp_code = 200, resp_message = ''Success''\<rparr>)"
  | (low) "submit_block X self req w = (w, Ok \<lparr>resp_code = 400, resp_message = ''Bid below best.''\<rparr>)"
  | (error) e where "submit_block X self req w = (w, Err e)"
  | (panic) m where "submit_block X self req w = (w, Panic m)"
proof (cases "submit_block_checks X self (w_store w) req")
  case (Ok out)
  then show thesis
  proof (cases out)
    case (Replied r)
    with Ok have "r = \<lparr>resp_code = 400, resp_message = ''Bid below best.''\<rparr>"
      unfolding submit_block_checks_def by (auto simp: res_simps split: if_splits)
    with Ok Replied show thesis by (intro low) (simp add: submit_block_def)
  next
    case (Accepted t p bb sig key)
    with Ok show thesis by (intro accepted [of t p bb sig key]) (simp_all add: submit_block_def)
  qed
qed (simp_all add: submit_block_def error panic)

section \<open>Properties\<close>

text \<open>
  C21. The gRPC service and the HTTP route are the same auction: on a request that converts, with the
  fork data of the storage, they leave the same storage, metrics and tasks behind; gRPC answers 200
  exactly when HTTP accepts, and 400 exactly when HTTP rejects the bid as not higher than the best.
\<close>

theorem grpc_http_equivalent:
  assumes "decode_request X req = Some b" and "im_fork_data (w_store w) = fds"
  shows "let self = RelayGrpcService_new in_memory_storage fds;
       g = submit_block X self req w; h = post_bids_handler X in_memory_storage b w in
     fst g = fst h \<and>
     (snd g = Ok \<lparr>resp_code = 200, resp_message = ''Success''\<rparr> \<longleftrightarrow> is_ok (snd h)) \<and>
     (snd g = Ok \<lparr>resp_code = 400, resp_message = ''Bid below best.''\<rparr> \<longleftrightarrow>
        snd h = Err (custom (CausePostBids BelowFloor)))"
proof -
  let ?self = "RelayGrpcService_new in_memory_storage fds"
  have S: "gs_storage ?self = in_memory_storage" "gs_fork_data ?self = im_fork_data (w_store w)"
    using assms(2) by (simp_all add: RelayGrpcService_new_def)
  have low: "post_bids_checks X in_memory_storage (w_store w) b = Err e \<Longrightarrow>
      e = custom (CausePostBids BelowFloor) \<longleftrightarrow>
      \<not> is_bid_higher in_memory_storage (w_store w) (bid_trace b)" for e
    by (auto simp: post_bids_checks_def Let_def custom_def split: if_splits res.splits option.splits)
  have "gs_fork_data ?self = fork_data (gs_storage ?self) (w_store w)"
    using S by (simp add: ims_reader_defs)
  from submit_block_decoded [OF assms(1) this] show ?thesis
    unfolding S by (auto simp: post_bids_handler_def low)
qed

text \<open>
  A gRPC call changes the relay only when it answers 200, and then the request converted to a
  submission that is higher than the best bid of its key and admissible under the fork data of the
  service; the effect is that of recording this submission for the proposer that the duties name.
\<close>

theorem submit_block_effect:
  "case submit_block X (RelayGrpcService_new in_memory_storage fds) req w of (w', r) \<Rightarrow>
     if r = Ok \<lparr>resp_code = 200, resp_message = ''Success''\<rparr>
     then (case decode_request X req of
             None \<Rightarrow> False
           | Some b \<Rightarrow>
               outbids (abs_in_memory (w_store w)) b \<and>
               admissible_static X ((abs_in_memory (w_store w))\<lparr>ss_fork_data := fds\<rparr>) b \<and>
               (case duty_of (abs_in_memory (w_store w)) (bt_slot (bid_trace b)) of
                  None \<Rightarrow> False
                | Some duty \<Rightarrow>
                    abs_in_memory (w_store w') = record_bid b duty (abs_in_memory (w_store w))) \<and>
               w_recorder w' = w_recorder w \<and> w_tasks w' = w_tasks w)
     else w' = w"
proof -
  let ?self = "RelayGrpcService_new in_memory_storage fds"
  show ?thesis
  proof (rule submit_block_cases [where X = X and self = ?self and w = w and req = req])
    fix t p bb sig key
    assume "submit_block_checks X ?self (w_store w) req = Ok (Accepted t p bb sig key)"
      and eq: "submit_block X ?self req w
        = (update_best ?self t p bb sig key w, Ok \<lparr>resp_code = 200, resp_message = ''Success''\<rparr>)"
    from ims.submit_block_Accepted_abs [OF this(1) refl] obtain duty where "key = duty_pubkey duty"
      "decode_request X req = Some (BidSubmission_new t p bb sig)"
      "outbids (abs_in_memory (w_store w)) (BidSubmission_new t p bb sig)"
      "admissible_static X ((abs_in_memory (w_store w))\<lparr>ss_fork_data := fds\<rparr>)
        (BidSubmission_new t p bb sig)"
      "duty_of (abs_in_memory (w_store w)) (bt_slot t) = Some duty" by blast
    with eq show ?thesis
      by (simp add: update_best_commit RelayGrpcService_new_def ims.post_bids_commit_store
          ims.post_bids_commit_frame)
  qed simp_all
qed

text \<open>
  C39. A request whose other parts are there and whose numbers and hashes parse, but whose builder key
  or proposer key does not decode, makes the service panic instead of answering with an error; the
  storage is not touched.
\<close>

theorem malformed_key_panics:
  assumes "req_bid_trace req = Some gb" and "req_execution_payload req = Some gp"
    and "req_blobs_bundle req = Some gbb"
    and "U256_of_str X (gbt_value gb) = Ok v"
    and "length (gbt_parent_hash gb) = 32" and "length (gbt_block_hash gb) = 32"
    and "blst_pk_from_bytes X (gbt_builder_pubkey gb) = Err e \<or>
         blst_pk_from_bytes X (gbt_builder_pubkey gb) = Ok k \<and>
         blst_pk_from_bytes X (gbt_proposer_pubkey gb) = Err e"
  shows "submit_block X self req w = (w, Panic ''Failed to parse public key'')"
proof -
  have "BidTrace_try_from X gb = Panic ''Failed to parse public key''"
    using assms(4-7) by (auto simp: BidTrace_try_from_def B256_try_from_def HASHSIZE_def
        BlsPublicKey_from_vec_def)
  with assms(1-3) show ?thesis by (simp add: submit_block_def submit_block_checks_def)
qed

end
