(* ===== verification/Grpc_Wire.thy ===== *)
theory Grpc_Wire
  imports Grpc_Service
begin

text \<open>
  The generated client and server of \<open>crates/grpc/src/gen/mevrelay.rs\<close> and the start of the server in
  \<open>crates/grpc/src/server.rs\<close>. The \<open>tonic\<close> crate is an argument: \<open>unary\<close> is its server-side \<open>Grpc::unary\<close>,
  which decodes the message of an HTTP request, calls the method and encodes what it returns, and a
  channel is its client-side \<open>Grpc\<close>. The generated code fixes the path of the method, the encodings and
  limits that are passed on, and the reply to any other path.
\<close>

section \<open>Types of tonic and http\<close>

text \<open>A status as it travels: the numeric code of gRPC and the message.\<close>

record TonicStatus =
  ts_code :: nat
  ts_message :: string

definition CODE_UNKNOWN :: nat where "CODE_UNKNOWN = 2"
definition CODE_INVALID_ARGUMENT :: nat where "CODE_INVALID_ARGUMENT = 3"

fun wire_status :: "Status \<Rightarrow> TonicStatus" where
  "wire_status (InvalidArgument m) = \<lparr>ts_code = CODE_INVALID_ARGUMENT, ts_message = m\<rparr>"

datatype CompressionEncoding = Gzip | Zstd

text \<open>\<open>EnabledCompressionEncodings\<close>: the encodings that were enabled.\<close>

type_synonym EnabledCompressionEncodings = "CompressionEncoding set"

record 'q GrpcHttpRequest =
  gq_path :: string
  gq_body :: 'q

record 'r GrpcHttpResponse =
  gr_status :: u16
  gr_headers :: "(string \<times> string) list"
  gr_body :: 'r

text \<open>What \<open>apply_compression_config\<close> and \<open>apply_max_message_size_config\<close> set.\<close>

record UnaryConfig =
  uc_accept :: EnabledCompressionEncodings
  uc_send :: EnabledCompressionEncodings
  uc_max_decoding :: "nat option"
  uc_max_encoding :: "nat option"

type_synonym 'w grpc_method = "SubmitBlockRequest \<Rightarrow> 'w \<Rightarrow> 'w \<times> (SubmitBlockResponse, Status) res"

type_synonym ('w, 'q, 'r) unary =
  "UnaryConfig \<Rightarrow> 'w grpc_method \<Rightarrow> 'q GrpcHttpRequest \<Rightarrow> 'w \<Rightarrow> 'w \<times> ('r GrpcHttpResponse, string) res"

section \<open>The generated server\<close>

record 't MevRelayServer =
  ms_inner :: 't
  ms_accept_compression_encodings :: EnabledCompressionEncodings
  ms_send_compression_encodings :: EnabledCompressionEncodings
  ms_max_decoding_message_size :: "nat option"
  ms_max_encoding_message_size :: "nat option"

definition MevRelayServer_from_arc :: "'t \<Rightarrow> 't MevRelayServer" where
  "MevRelayServer_from_arc inner =
     \<lparr>ms_inner = inner, ms_accept_compression_encodings = {}, ms_send_compression_encodings = {},
      ms_max_decoding_message_size = None, ms_max_encoding_message_size = None\<rparr>"

definition MevRelayServer_new :: "'t \<Rightarrow> 't MevRelayServer" where
  "MevRelayServer_new inner = MevRelayServer_from_arc inner"

definition MevRelayServer_accept_compressed ::
    "CompressionEncoding \<Rightarrow> 't MevRelayServer \<Rightarrow> 't MevRelayServer" where
  "MevRelayServer_accept_compressed encoding self =
     self\<lparr>ms_accept_compression_encodings := insert encoding (ms_accept_compression_encodings self)\<rparr>"

definition MevRelayServer_send_compressed ::
    "CompressionEncoding \<Rightarrow> 't MevRelayServer \<Rightarrow> 't MevRelayServer" where
  "MevRelayServer_send_compressed encoding self =
     self\<lparr>ms_send_compression_encodings := insert encoding (ms_send_compression_encodings self)\<rparr>"

definition MevRelayServer_max_decoding_message_size ::
    "nat \<Rightarrow> 't MevRelayServer \<Rightarrow> 't MevRelayServer" where
  "MevRelayServer_max_decoding_message_size limit self =
     self\<lparr>ms_max_decoding_message_size := Some limit\<rparr>"

definition MevRelayServer_max_encoding_message_size ::
    "nat \<Rightarrow> 't MevRelayServer \<Rightarrow> 't MevRelayServer" where
  "MevRelayServer_max_encoding_message_size limit self =
     self\<lparr>ms_max_encoding_message_size := Some limit\<rparr>"

definition MevRelayServer_clone :: "'t MevRelayServer \<Rightarrow> 't MevRelayServer" where
  "MevRelayServer_clone self =
     \<lparr>ms_inner = ms_inner self,
      ms_accept_compression_encodings = ms_accept_compression_encodings self,
      ms_send_compression_encodings = ms_send_compression_encodings self,
      ms_max_decoding_message_size = ms_max_decoding_message_size self,
      ms_max_encoding_message_size = ms_max_encoding_message_size self\<rparr>"

definition MevRelayServer_NAME :: string where
  "MevRelayServer_NAME = ''mevrelay.MevRelay''"

text \<open>
  \<open>Service::call\<close>. \<open>submit inner\<close> is the method \<open>submit_block\<close> of the service inside; a request for
  another path is answered with the gRPC status 12, unimplemented.
\<close>

definition MevRelayServer_call ::
    "('w, 'q, 'r) unary \<Rightarrow> 'r \<Rightarrow> ('t \<Rightarrow> 'w grpc_method) \<Rightarrow> 't MevRelayServer \<Rightarrow> 'q GrpcHttpRequest \<Rightarrow> 'w
     \<Rightarrow> 'w \<times> ('r GrpcHttpResponse, string) res" where
  "MevRelayServer_call unary empty_body submit self req w =
     (if gq_path req = ''/mevrelay.MevRelay/SubmitBlock'' then
        let accept_compression_encodings = ms_accept_compression_encodings self;
            send_compression_encodings = ms_send_compression_encodings self;
            max_decoding_message_size = ms_max_decoding_message_size self;
            max_encoding_message_size = ms_max_encoding_message_size self;
            inner = ms_inner self
        in unary \<lparr>uc_accept = accept_compression_encodings, uc_send = send_compression_encodings,
                  uc_max_decoding = max_decoding_message_size,
                  uc_max_encoding = max_encoding_message_size\<rparr>
             (submit inner) req w
      else (w, Ok \<lparr>gr_status = 200,
              gr_headers = [(''grpc-status'', ''12''), (''content-type'', ''application/grpc'')],
              gr_body = empty_body\<rparr>))"

section \<open>The generated client\<close>

text \<open>
  A channel: whether it is ready, and what a unary call on a path gives; the extension names service
  and method.
\<close>

record ClientRequest =
  cr_message :: SubmitBlockRequest
  cr_extension :: "(string \<times> string) option"

record 'w GrpcChannel =
  gc_ready :: "(unit, string) res"
  gc_unary :: "ClientRequest \<Rightarrow> string \<Rightarrow> 'w \<Rightarrow> 'w \<times> (SubmitBlockResponse, TonicStatus) res"

record 'w MevRelayClient =
  mc_inner :: "'w GrpcChannel"

definition MevRelayClient_new :: "'w GrpcChannel \<Rightarrow> 'w MevRelayClient" where
  "MevRelayClient_new inner = \<lparr>mc_inner = inner\<rparr>"

definition MevRelayClient_connect ::
    "('d \<Rightarrow> ('e, string) res) \<Rightarrow> ('e \<Rightarrow> ('w GrpcChannel, string) res) \<Rightarrow> 'd
     \<Rightarrow> ('w MevRelayClient, string) res" where
  "MevRelayClient_connect endpoint_new connect dst =
     res_bind (endpoint_new dst) (\<lambda>endpoint.
     res_bind (connect endpoint) (\<lambda>conn. Ok (MevRelayClient_new conn)))"

text \<open>
  The options of a client are those of the channel inside; \<open>config\<close> is the function of the same name of
  tonic's \<open>Grpc\<close>.
\<close>

definition MevRelayClient_send_compressed ::
    "(CompressionEncoding \<Rightarrow> 'w GrpcChannel \<Rightarrow> 'w GrpcChannel) \<Rightarrow> CompressionEncoding
     \<Rightarrow> 'w MevRelayClient \<Rightarrow> 'w MevRelayClient" where
  "MevRelayClient_send_compressed config encoding self = self\<lparr>mc_inner := config encoding (mc_inner self)\<rparr>"

definition MevRelayClient_accept_compressed ::
    "(CompressionEncoding \<Rightarrow> 'w GrpcChannel \<Rightarrow> 'w GrpcChannel) \<Rightarrow> CompressionEncoding
     \<Rightarrow> 'w MevRelayClient \<Rightarrow> 'w MevRelayClient" where
  "MevRelayClient_accept_compressed config encoding self = self\<lparr>mc_inner := config encoding (mc_inner self)\<rparr>"

definition MevRelayClient_max_decoding_message_size ::
    "(nat \<Rightarrow> 'w GrpcChannel \<Rightarrow> 'w GrpcChannel) \<Rightarrow> nat \<Rightarrow> 'w MevRelayClient \<Rightarrow> 'w MevRelayClient" where
  "MevRelayClient_max_decoding_message_size config limit self = self\<lparr>mc_inner := config limit (mc_inner self)\<rparr>"

definition MevRelayClient_max_encoding_message_size ::
    "(nat \<Rightarrow> 'w GrpcChannel \<Rightarrow> 'w GrpcChannel) \<Rightarrow> nat \<Rightarrow> 'w MevRelayClient \<Rightarrow> 'w MevRelayClient" where
  "MevRelayClient_max_encoding_message_size config limit self = self\<lparr>mc_inner := config limit (mc_inner self)\<rparr>"

definition MevRelayClient_submit_block ::
    "'w MevRelayClient \<Rightarrow> SubmitBlockRequest \<Rightarrow> 'w \<Rightarrow> 'w \<times> (SubmitBlockResponse, TonicStatus) res" where
  "MevRelayClient_submit_block self request w =
     (case res_map_err (\<lambda>e. \<lparr>ts_code = CODE_UNKNOWN, ts_message = ''Service was not ready: '' @ e\<rparr>)
             (gc_ready (mc_inner self)) of
        Err e \<Rightarrow> (w, Err e)
      | Panic m \<Rightarrow> (w, Panic m)
      | Ok _ \<Rightarrow>
          let path = ''/mevrelay.MevRelay/SubmitBlock'';
              req = \<lparr>cr_message = request, cr_extension = Some (''mevrelay.MevRelay'', ''SubmitBlock'')\<rparr>
          in gc_unary (mc_inner self) req path w)"

section \<open>The start of the server\<close>

text \<open>
  \<open>serve\<close> is \<open>Server::builder().add_service(..).serve(..)\<close>; it only returns when the server stops, and
  its error makes the task panic.
\<close>

definition GrpcServer_start ::
    "('u \<Rightarrow> 's RelayGrpcService MevRelayServer \<Rightarrow> (unit, string) res) \<Rightarrow> 'u \<Rightarrow> 's Storage \<Rightarrow> ForkDatas
     \<Rightarrow> (unit, unit) res" where
  "GrpcServer_start serve url storage fds =
     (let service = MevRelayServer_new (RelayGrpcService_new storage fds)
      in expect ''called `Result::unwrap()` on an `Err` value'' (serve url service))"

section \<open>Documented behaviour of tonic\<close>

text \<open>
  \<open>Grpc::unary\<close> of the server: a message that does not decode is answered with the status of the
  decoder, any other is handed to the method once and what it returns is encoded; a panic of the method
  is a panic of the call.
\<close>

definition unary_documented ::
    "(UnaryConfig \<Rightarrow> 'q \<Rightarrow> (SubmitBlockRequest, TonicStatus) res)
     \<Rightarrow> (UnaryConfig \<Rightarrow> (SubmitBlockResponse, TonicStatus) res \<Rightarrow> 'r GrpcHttpResponse)
     \<Rightarrow> ('w, 'q, 'r) unary \<Rightarrow> bool" where
  "unary_documented decode encode unary \<longleftrightarrow>
     (\<forall>cfg f req w. unary cfg f req w =
        (case decode cfg (gq_body req) of
           Err e \<Rightarrow> (w, Ok (encode cfg (Err e)))
         | Panic m \<Rightarrow> (w, Panic m)
         | Ok msg \<Rightarrow>
             (case f msg w of
                (w', Panic m) \<Rightarrow> (w', Panic m)
              | (w', r) \<Rightarrow> (w', Ok (encode cfg (res_map_err wire_status r))))))"

text \<open>
  A channel that is connected to a server: a unary call is a request for its path with the encoded
  message, the answer is the decoded response, and a connection that breaks off is an error.
\<close>

definition channel_documented ::
    "(SubmitBlockRequest \<Rightarrow> 'q) \<Rightarrow> ('r GrpcHttpResponse \<Rightarrow> (SubmitBlockResponse, TonicStatus) res)
     \<Rightarrow> (string \<Rightarrow> TonicStatus) \<Rightarrow> ('q GrpcHttpRequest \<Rightarrow> 'w \<Rightarrow> 'w \<times> ('r GrpcHttpResponse, string) res)
     \<Rightarrow> 'w GrpcChannel \<Rightarrow> bool" where
  "channel_documented encode_msg decode_reply broken server ch \<longleftrightarrow>
     (\<forall>req path w. gc_unary ch req path w =
        (case server \<lparr>gq_path = path, gq_body = encode_msg (cr_message req)\<rparr> w of
           (w', Ok resp) \<Rightarrow> (w', decode_reply resp)
         | (w', Err e) \<Rightarrow> (w', Err (broken e))
         | (w', Panic m) \<Rightarrow> (w', Err (broken m))))"

text \<open>The codec: a message and a reply come out as they went in.\<close>

definition codec_documented ::
    "(UnaryConfig \<Rightarrow> 'q \<Rightarrow> (SubmitBlockRequest, TonicStatus) res)
     \<Rightarrow> (UnaryConfig \<Rightarrow> (SubmitBlockResponse, TonicStatus) res \<Rightarrow> 'r GrpcHttpResponse)
     \<Rightarrow> (SubmitBlockRequest \<Rightarrow> 'q) \<Rightarrow> ('r GrpcHttpResponse \<Rightarrow> (SubmitBlockResponse, TonicStatus) res)
     \<Rightarrow> UnaryConfig \<Rightarrow> bool" where
  "codec_documented decode encode encode_msg decode_reply cfg \<longleftrightarrow>
     (\<forall>msg. decode cfg (encode_msg msg) = Ok msg) \<and>
     (\<forall>r. (\<forall>m. r \<noteq> Panic m) \<longrightarrow> decode_reply (encode cfg r) = r)"

section \<open>Lemmas\<close>

text \<open>The configuration that a server hands on.\<close>

definition server_config :: "'t MevRelayServer \<Rightarrow> UnaryConfig" where
  "server_config self =
     \<lparr>uc_accept = ms_accept_compression_encodings self, uc_send = ms_send_compression_encodings self,
      uc_max_decoding = ms_max_decoding_message_size self,
      uc_max_encoding = ms_max_encoding_message_size self\<rparr>"

lemma MevRelayServer_call_path:
  "MevRelayServer_call unary eb submit self \<lparr>gq_path = ''/mevrelay.MevRelay/SubmitBlock'', gq_body = q\<rparr> w
     = unary (server_config self) (submit (ms_inner self))
         \<lparr>gq_path = ''/mevrelay.MevRelay/SubmitBlock'', gq_body = q\<rparr> w"
  by (simp add: MevRelayServer_call_def server_config_def Let_def)

lemma MevRelayServer_clone_id [simp]: "MevRelayServer_clone self = self"
  by (simp add: MevRelayServer_clone_def)

text \<open>What the client of a connected channel sees of a call, for any service behind the server.\<close>

lemma client_sees_service:
  assumes "unary_documented decode encode unary"
    and "codec_documented decode encode encode_msg decode_reply (server_config server)"
    and "channel_documented encode_msg decode_reply broken
           (MevRelayServer_call unary eb submit server) ch"
    and "gc_ready ch = Ok ()"
  shows "MevRelayClient_submit_block (MevRelayClient_new ch) msg w =
    (case submit (ms_inner server) msg w of
       (w', Ok reply) \<Rightarrow> (w', Ok reply)
     | (w', Err e) \<Rightarrow> (w', Err (wire_status e))
     | (w', Panic m) \<Rightarrow> (w', Err (broken m)))"
proof -
  have "MevRelayClient_submit_block (MevRelayClient_new ch) msg w =
      gc_unary ch \<lparr>cr_message = msg, cr_extension = Some (''mevrelay.MevRelay'', ''SubmitBlock'')\<rparr>
        ''/mevrelay.MevRelay/SubmitBlock'' w"
    using assms(4) by (simp add: MevRelayClient_submit_block_def MevRelayClient_new_def Let_def)
  also have "\<dots> = (case unary (server_config server) (submit (ms_inner server))
        \<lparr>gq_path = ''/mevrelay.MevRelay/SubmitBlock'', gq_body = encode_msg msg\<rparr> w of
           (w', Ok resp) \<Rightarrow> (w', decode_reply resp)
         | (w', Err e) \<Rightarrow> (w', Err (broken e))
         | (w', Panic m) \<Rightarrow> (w', Err (broken m)))"
    using assms(3) by (simp add: channel_documented_def MevRelayServer_call_path)
  finally show ?thesis
    using assms(1,2)
    by (simp add: unary_documented_def codec_documented_def split: prod.split res.split)
qed

section \<open>Properties\<close>


text \<open>
  A request for any other path touches nothing and is answered with HTTP status 200 and the gRPC status
  12, whatever the service is; a channel that is not ready is reported with the code for an unknown
  error, and nothing is sent.
\<close>

theorem other_paths_unimplemented:
  "(gq_path req \<noteq> ''/'' @ MevRelayServer_NAME @ ''/SubmitBlock'' \<longrightarrow>
      MevRelayServer_call unary eb submit server req w =
        (w, Ok \<lparr>gr_status = 200,
                gr_headers = [(''grpc-status'', ''12''), (''content-type'', ''application/grpc'')],
                gr_body = eb\<rparr>)) \<and>
   (gc_ready ch = Err e \<longrightarrow>
      MevRelayClient_submit_block (MevRelayClient_new ch) msg w =
        (w, Err \<lparr>ts_code = 2, ts_message = ''Service was not ready: '' @ e\<rparr>))"
  by (simp add: MevRelayServer_call_def MevRelayServer_NAME_def MevRelayClient_submit_block_def
      MevRelayClient_new_def CODE_UNKNOWN_def)

end
