(* ===== verification/Test_Support.thy ===== *)
theory Test_Support
  imports Http_Routing Codec_Laws Grpc_Wire
begin

text \<open>
  What the tests of the repository are made of: a test is a sequence of steps over the world, of which an
  assertion that does not hold, or an \<open>unwrap\<close> of an error, ends the test with a panic. The fixtures of
  \<open>crates/primitives/src/test_utils.rs\<close>, requests of \<open>warp::test\<close>, and the random values, which are
  arguments: every call of a generator has a number, and draws the value with this number.
\<close>

section \<open>Steps\<close>

type_synonym ('w, 'a) step = "'w \<Rightarrow> 'w \<times> ('a, string) res"

definition step_bind :: "('w, 'a) step \<Rightarrow> ('a \<Rightarrow> ('w, 'b) step) \<Rightarrow> ('w, 'b) step" where
  "step_bind m f w =
     (case m w of
        (w', Ok a) \<Rightarrow> f a w'
      | (w', Err e) \<Rightarrow> (w', Err e)
      | (w', Panic p) \<Rightarrow> (w', Panic p))"

text \<open>A value, a change of the world, a look at the storage, and a call that answers.\<close>

definition give :: "('a, string) res \<Rightarrow> ('w, 'a) step" where
  "give r w = (w, r)"

definition change :: "('w \<Rightarrow> 'w) \<Rightarrow> ('w, unit) step" where
  "change f w = (f w, Ok ())"

definition look :: "('s \<Rightarrow> 'a) \<Rightarrow> ('s world, 'a) step" where
  "look f w = (w, Ok (f (w_store w)))"

definition invoke :: "('w \<Rightarrow> 'w \<times> ('a, 'e) res) \<Rightarrow> ('w, ('a, 'e) res) step" where
  "invoke f w = (case f w of (w', Panic p) \<Rightarrow> (w', Panic p) | (w', r) \<Rightarrow> (w', Ok r))"

text \<open>\<open>assert!\<close>, \<open>assert_eq!\<close> and the ways to unwrap.\<close>

definition assert_that :: "string \<Rightarrow> bool \<Rightarrow> ('w, unit) step" where
  "assert_that message b = give (if b then Ok () else Panic message)"

definition assert_eq :: "string \<Rightarrow> 'a \<Rightarrow> 'a \<Rightarrow> ('w, unit) step" where
  "assert_eq message left right = assert_that message (left = right)"

definition unwrap_none :: "'a option \<Rightarrow> ('a, 'e) res" where
  "unwrap_none x = (case x of Some a \<Rightarrow> Ok a
     | None \<Rightarrow> Panic ''called `Option::unwrap()` on a `None` value'')"

fun unwrap_err :: "('a, 'f) res \<Rightarrow> ('f, 'e) res" where
  "unwrap_err (Err e) = Ok e"
| "unwrap_err (Ok a) = Panic ''called `Option::unwrap()` on a `None` value''"
| "unwrap_err (Panic p) = Panic p"

definition is_err :: "('a, 'e) res \<Rightarrow> bool" where
  "is_err r \<longleftrightarrow> (\<exists>e. r = Err e)"

text \<open>Tasks that are spawned, run in this order, and joined: each result is unwrapped.\<close>

fun run_tasks :: "('w, 'a) step list \<Rightarrow> 'w \<Rightarrow> 'w \<times> ('a, string) res list" where
  "run_tasks [] w = (w, [])"
| "run_tasks (t # ts) w =
     (let (w', r) = t w; (w'', rs) = run_tasks ts w' in (w'', r # rs))"

definition join_all :: "('w, 'a) step list \<Rightarrow> ('w, 'a list) step" where
  "join_all ts w = (let (w', rs) = run_tasks ts w in (w', res_mapM unwrap rs))"

lemma is_err_simps [simp]: "is_err (Err e)" "\<not> is_err (Ok a)" "\<not> is_err (Panic p)"
  by (simp_all add: is_err_def)

lemma unwrap_simps [simp]: "unwrap (Ok a) = Ok a" "unwrap_none (Some a) = Ok a"
  by (simp_all add: unwrap_def unwrap_none_def)

lemma unwrap_all [simp]: "res_mapM unwrap (map (\<lambda>_. Ok a) xs) = Ok (map (\<lambda>_. a) xs)"
  by (induction xs) simp_all

lemma step_simps [simp]:
  "step_bind (give (Ok a)) f w = f a w"
  "step_bind (change g) h w = h () (g w)"
  "step_bind (look g') f' w' = f' (g' (w_store w')) w'"
  "step_bind (assert_that message True) h w = h () w"
  "step_bind (assert_eq message x x) h w = h () w"
  "assert_that message True w = (w, Ok ())" "assert_eq message x x w = (w, Ok ())"
  "give r w = (w, r)" "change g w = (g w, Ok ())"
  by (simp_all add: step_bind_def give_def change_def look_def assert_that_def assert_eq_def)

lemma step_invoke:
  assumes "f w = (w', r)" and "\<And>p. r \<noteq> Panic p"
  shows "step_bind (invoke f) h w = h r w'"
  using assms by (cases r) (auto simp: step_bind_def invoke_def)

lemma step_Ok: "m w = (w', Ok a) \<Longrightarrow> step_bind m f w = f a w'"
  by (simp add: step_bind_def)

lemma step_assoc: "step_bind (step_bind m f) g w = step_bind m (\<lambda>a. step_bind (f a) g) w"
  by (auto simp: step_bind_def split: prod.split res.split)

section \<open>Random values\<close>

record Randomness =
  rd_address :: "nat \<Rightarrow> bytes"
  rd_b256 :: "nat \<Rightarrow> bytes"
  rd_ikm :: "nat \<Rightarrow> bytes"

text \<open>Values have their width; no hash that is drawn is zero.\<close>

definition drawn_well :: "Randomness \<Rightarrow> bool" where
  "drawn_well rd \<longleftrightarrow>
     (\<forall>i. length (rd_address rd i) = 20) \<and> (\<forall>i. length (rd_ikm rd i) = 32) \<and>
     (\<forall>i. length (rd_b256 rd i) = 32 \<and> rd_b256 rd i \<noteq> replicate 32 0)"

lemma drawn_wellD [simp]:
  assumes "drawn_well rd"
  shows "length (rd_address rd i) = 20" "length (rd_ikm rd i) = 32" "length (rd_b256 rd i) = 32"
    "rd_b256 rd i \<noteq> replicate 32 0"
  using assms by (simp_all add: drawn_well_def)

section \<open>Fixtures\<close>

text \<open>The two keys are drawn once for all tests of a process, by the generators 0 and 1.\<close>

definition test_bls_pubkey :: "externs \<Rightarrow> Randomness \<Rightarrow> (BlsPublicKey, 'e) res" where
  "test_bls_pubkey X rd = BlsPublicKey_random X (rd_ikm rd 0)"

definition test_bls_pubkey_str :: "externs \<Rightarrow> Randomness \<Rightarrow> (string, 'e) res" where
  "test_bls_pubkey_str X rd =
     res_bind (test_bls_pubkey X rd) (\<lambda>key. Ok (BlsPublicKey_to_string X key))"

definition test_builder_pubkey :: "externs \<Rightarrow> Randomness \<Rightarrow> (BlsPublicKey, 'e) res" where
  "test_builder_pubkey X rd = BlsPublicKey_random X (rd_ikm rd 1)"

definition test_builder_pubkey_str :: "externs \<Rightarrow> Randomness \<Rightarrow> (string, 'e) res" where
  "test_builder_pubkey_str X rd =
     res_bind (test_builder_pubkey X rd) (\<lambda>key. Ok (BlsPublicKey_to_string X key))"

definition TEST_BLS_SIGNATURE :: string where
  "TEST_BLS_SIGNATURE =
     ''0xad92d76a40ecc96a5ab46ae0a7e62c50fc895412be3ae3e0cddad60c54be7aa2c4bbe90b40345e3c2d1a6925aa3a9c6e03f4e30e28b9a315cac4d73de4b8f77a77e0a4f63fa7d6e0a73393cb15cfe596d845eaa146fd52cd9f3b80cde3f2b27a''"

definition TEST_BLS_SECRET_KEY :: string where
  "TEST_BLS_SECRET_KEY = ''0x0000000000000000000000000000000000000000000000000000000000000001''"

definition TEST_EXTRA_DATA_HEX :: string where
  "TEST_EXTRA_DATA_HEX = ''0x7465737400000000000000000000000000000000000000000000000000000000''"

definition test_signature :: "externs \<Rightarrow> (BlsSignature, 'e) res" where
  "test_signature X = unwrap (BlsSignature_of_str X TEST_BLS_SIGNATURE)"

section \<open>Hexadecimal literals\<close>

definition hex_value :: "char \<Rightarrow> nat" where
  "hex_value c = (let n = of_char c in if n < 58 then n - 48 else n - 87)"

fun unhex :: "string \<Rightarrow> bytes" where
  "unhex (c # d # cs) = of_nat (16 * hex_value c + hex_value d) # unhex cs"
| "unhex _ = []"

definition hex_literal :: "string \<Rightarrow> bool" where
  "hex_literal s \<longleftrightarrow> list_all (\<lambda>c. c \<in> set ''0123456789abcdef'') s \<and> even (length s)"

lemma hex_digit_value: "c \<in> set ''0123456789abcdef'' \<Longrightarrow> hex_value c < 16 \<and> hex_digit (hex_value c) = c"
proof -
  have "\<forall>c\<in>set ''0123456789abcdef''. hex_value c < 16 \<and> hex_digit (hex_value c) = c" by code_simp
  then show "c \<in> set ''0123456789abcdef'' \<Longrightarrow> ?thesis" by blast
qed

lemma hex_byte_digits:
  assumes "a < 16" and "b < 16"
  shows "hex_byte (of_nat (16 * a + b)) = [hex_digit a, hex_digit b]"
proof -
  have "unat (of_nat n :: u8) = n" if "n < 256" for n
    using that by (simp add: unat_of_nat take_bit_nat_eq_self)
  moreover have "16 * a + b < 256" using assms by simp
  ultimately have "unat (of_nat (16 * a + b) :: u8) = 16 * a + b" .
  moreover have "(16 * a + b) div 16 = a" "(16 * a + b) mod 16 = b" using assms by simp_all
  ultimately show ?thesis by (simp only: hex_byte_def)
qed

lemma unhex_hex: "hex_literal s \<Longrightarrow> concat (map hex_byte (unhex s)) = s"
proof (induction s rule: unhex.induct)
  case (1 c d cs)
  then have "hex_value c < 16 \<and> hex_digit (hex_value c) = c" "hex_value d < 16 \<and> hex_digit (hex_value d) = d"
    by (simp_all only: hex_literal_def list.pred_inject hex_digit_value)
  moreover from 1 have "concat (map hex_byte (unhex cs)) = cs" by (simp add: hex_literal_def)
  ultimately show ?case by (simp only: unhex.simps list.map concat.simps hex_byte_digits append.simps)
qed (simp_all add: hex_literal_def)

lemma hex_literal_decodes:
  assumes "hex_documented X" and "hex_literal s"
  shows "hex_decode X s = Ok (unhex s)"
proof -
  have "hex_encode X (unhex s) = s" using assms by (simp add: hex_documented_def unhex_hex)
  then show ?thesis using assms(1) unfolding hex_documented_def by metis
qed

lemma texts_literal:
  assumes "hex_documented X" and "texts_documented X" and "hex_literal s"
  shows "serde_hex_decode X (''0x'' @ s) = Ok (unhex s)"
    and "length (unhex s) = 32 \<Longrightarrow> b256_from_str X (''0x'' @ s) = Ok (unhex s)"
    and "length (unhex s) = 32 \<Longrightarrow> b256_from_str X s = Ok (unhex s)"
    and "length (unhex s) = 32 \<Longrightarrow> hash256_from_str X (''0x'' @ s) = Ok (unhex s)"
    and "length (unhex s) = 20 \<Longrightarrow> address_from_str X (''0x'' @ s) = Ok (unhex s)"
proof -
  have enc: "hex_encode X (unhex s) = s" using assms by (simp add: hex_documented_def unhex_hex)
  show "serde_hex_decode X (''0x'' @ s) = Ok (unhex s)"
    using assms(1,2) enc unfolding hex_documented_def texts_documented_def by metis
  show "length (unhex s) = 32 \<Longrightarrow> b256_from_str X (''0x'' @ s) = Ok (unhex s)"
    and "length (unhex s) = 32 \<Longrightarrow> b256_from_str X s = Ok (unhex s)"
    and "length (unhex s) = 32 \<Longrightarrow> hash256_from_str X (''0x'' @ s) = Ok (unhex s)"
    and "length (unhex s) = 20 \<Longrightarrow> address_from_str X (''0x'' @ s) = Ok (unhex s)"
    using assms(2) enc unfolding texts_documented_def by metis+
qed

lemma hex_digits_decode: "hex_literal (c # d # s) \<longleftrightarrow>
    c \<in> set ''0123456789abcdef'' \<and> d \<in> set ''0123456789abcdef'' \<and> hex_literal s" "hex_literal []"
  by (auto simp: hex_literal_def)

text \<open>The width of a literal, and literals with their prefix.\<close>

lemma length_unhex: "length (unhex s) = length s div 2"
  by (induction s rule: unhex.induct) simp_all

definition prefixed :: "string \<Rightarrow> bool" where
  "prefixed t \<longleftrightarrow> take 2 t = ''0x'' \<and> hex_literal (drop 2 t)"

definition text_bytes :: "string \<Rightarrow> bytes" where
  "text_bytes t = unhex (drop 2 t)"

lemma prefixed_Cons: "prefixed (CHR ''0'' # CHR ''x'' # s) \<longleftrightarrow> hex_literal s"
  by (simp add: prefixed_def)

lemma prefixed_text:
  assumes "hex_documented X" and "prefixed t"
  shows "t = ''0x'' @ hex_encode X (text_bytes t)" and "length (text_bytes t) = (length t - 2) div 2"
proof -
  have "t = take 2 t @ drop 2 t" by simp
  moreover have "hex_encode X (text_bytes t) = drop 2 t"
    using assms by (simp add: hex_documented_def prefixed_def text_bytes_def unhex_hex)
  ultimately show "t = ''0x'' @ hex_encode X (text_bytes t)"
    using assms(2) by (simp only: prefixed_def)
  show "length (text_bytes t) = (length t - 2) div 2" by (simp add: text_bytes_def length_unhex)
qed

section \<open>Decimal literals\<close>

lemma u64_literal:
  assumes "s \<noteq> []" and "list_all (\<lambda>c. c \<in> set ''0123456789'') s" and "digits_value s < 2 ^ 64"
  shows "u64_from_str s = Some (of_nat (digits_value s))"
proof -
  obtain c cs where s: "s = c # cs" using assms(1) by (cases s) auto
  with assms(2) have "c \<in> set ''0123456789''" by (simp only: list.pred_inject)
  then have "c \<noteq> CHR ''+''" by auto
  moreover have "set s \<subseteq> set ''0123456789''" using assms(2) unfolding list_all_iff by blast
  ultimately show ?thesis using s assms(3) unfolding u64_from_str_def Let_def by simp
qed

section \<open>The environment of the tests\<close>

definition test_signature_bytes :: bytes where
  "test_signature_bytes = unhex (drop 2 TEST_BLS_SIGNATURE)"

text \<open>
  The tests run with the documented code of the other crates, random values of the right width, and a
  fixture that is the encoding of a point.
\<close>

definition test_environment :: "externs \<Rightarrow> Randomness \<Rightarrow> bool" where
  "test_environment X rd \<longleftrightarrow>
     blst_keys X \<and> blst_signatures X \<and> blst_correct X \<and> hex_documented X \<and> texts_documented X \<and>
     ssz_containers X \<and> drawn_well rd \<and>
     blst_sig_from_bytes X test_signature_bytes = Ok test_signature_bytes"

lemma test_environmentD:
  assumes "test_environment X rd"
  shows "blst_keys X" "blst_signatures X" "blst_correct X" "hex_documented X" "texts_documented X"
    "ssz_containers X" "drawn_well rd"
    "blst_sig_from_bytes X test_signature_bytes = Ok test_signature_bytes"
  using assms by (simp_all add: test_environment_def)

text \<open>The key of generator \<open>i\<close>, and the fork data and the signer that the tests start with.\<close>

definition drawn_secret :: "externs \<Rightarrow> Randomness \<Rightarrow> nat \<Rightarrow> BlsSecretKey" where
  "drawn_secret X rd i =
     (case blst_sk_key_gen X (rd_ikm rd i) [] of Ok k \<Rightarrow> BlsSecretKey k | _ \<Rightarrow> BlsSecretKey [])"

definition drawn_key :: "externs \<Rightarrow> Randomness \<Rightarrow> nat \<Rightarrow> BlsPublicKey" where
  "drawn_key X rd i = BlsSecretKey_public_key X (drawn_secret X rd i)"

definition default_forks :: ForkDatas where
  "default_forks =
     \<lparr>fds_builder = ForkData_default,
      fds_proposer = \<lparr>fd_current_version = [0x20, 0, 0, 0x93],
                      fd_genesis_validators_root = replicate 31 0 @ [1]\<rparr>\<rparr>"

definition drawn_signer :: "externs \<Rightarrow> Randomness \<Rightarrow> nat \<Rightarrow> BlsSigner" where
  "drawn_signer X rd i = \<lparr>sg_secret_key = drawn_secret X rd i, sg_fork_data = default_forks\<rparr>"

lemma drawn_secret_random:
  assumes "test_environment X rd"
  shows "BlsSecretKey_random X (rd_ikm rd i) = Ok (drawn_secret X rd i)"
proof -
  note env = test_environmentD [OF assms]
  have "length (rd_ikm rd i) = 32" using env(7) by simp
  with env(1) obtain k where "blst_sk_key_gen X (rd_ikm rd i) [] = Ok k"
    unfolding blst_keys_def by blast
  then show ?thesis by (simp add: BlsSecretKey_random_eq_Ok drawn_secret_def)
qed

lemma drawn_key_random:
  assumes "test_environment X rd"
  shows "BlsPublicKey_random X (rd_ikm rd i) = Ok (drawn_key X rd i)"
    and "test_bls_pubkey X rd = Ok (drawn_key X rd 0)"
    and "test_builder_pubkey X rd = Ok (drawn_key X rd 1)"
  by (simp_all add: drawn_secret_random [OF assms] BlsPublicKey_random_def drawn_key_def
      test_bls_pubkey_def test_builder_pubkey_def)

lemma drawn_keys:
  assumes "test_environment X rd"
  shows "valid_key X (drawn_key X rd i)"
    and "blst_pk_from_bytes X (pk_serialize (drawn_key X rd i)) = Ok (pk_serialize (drawn_key X rd i))"
    and "BlsPublicKey_from_vec X (pk_serialize (drawn_key X rd i)) = Ok (drawn_key X rd i)"
    and "BlsPublicKey_of_str X (BlsPublicKey_to_string X (drawn_key X rd i)) = Ok (drawn_key X rd i)"
proof -
  note env = test_environmentD [OF assms]
  have "generated X (drawn_secret X rd i)"
    unfolding generated_def by (rule exI [of _ "rd_ikm rd i"]) (rule drawn_secret_random [OF assms])
  from generated_keys(1,2) [OF env(1) this]
  show k: "valid_key X (drawn_key X rd i)"
    "blst_pk_from_bytes X (pk_serialize (drawn_key X rd i)) = Ok (pk_serialize (drawn_key X rd i))"
    by (simp_all add: drawn_key_def)
  then show "BlsPublicKey_from_vec X (pk_serialize (drawn_key X rd i)) = Ok (drawn_key X rd i)"
    by (simp add: BlsPublicKey_from_vec_def)
  show "BlsPublicKey_of_str X (BlsPublicKey_to_string X (drawn_key X rd i)) = Ok (drawn_key X rd i)"
    using text_roundtrips(1) [OF env(4) k(1)] .
qed

lemma default_key:
  assumes "blst_keys X"
  shows "BlsPublicKey_from_vec X (pk_serialize (BlsPublicKey_default X)) = Ok (BlsPublicKey_default X)"
proof -
  have "blst_pk_from_bytes X (blst_pk_default X) = Ok (blst_pk_default X)"
    using assms unfolding blst_keys_def by blast
  then show ?thesis by (simp add: BlsPublicKey_from_vec_def BlsPublicKey_default_def)
qed

lemma ForkDatas_default_Ok:
  assumes "hex_documented X" and "texts_documented X"
  shows "ForkDatas_default X = Ok default_forks"
proof -
  let ?root = "''0000000000000000000000000000000000000000000000000000000000000001''"
  have "hex_literal ?root" "hex_literal ''20000093''" by (simp_all add: hex_literal_def)
  moreover have u: "unhex ?root = replicate 31 0 @ [1]" "unhex ''20000093'' = [0x20, 0, 0, 0x93]"
    by (simp_all add: hex_value_def numeral_eq_Suc)
  ultimately have "hash256_from_str X (''0x'' @ ?root) = Ok (replicate 31 0 @ [1])"
    "hex_decode X ''20000093'' = Ok [0x20, 0, 0, 0x93]"
    using texts_literal(4) [OF assms, of ?root] hex_literal_decodes [OF assms(1), of "''20000093''"]
    by (simp_all only:) simp
  then show ?thesis
    by (simp add: ForkDatas_default_def ForkVersion_of_str_def ForkVersion_into_def default_forks_def)
qed

lemma BlsSigner_default_Ok:
  assumes "test_environment X rd"
  shows "BlsSigner_default X (rd_ikm rd i) = Ok (drawn_signer X rd i)"
  by (simp add: drawn_secret_random [OF assms] ForkDatas_default_Ok [OF test_environmentD(4,5) [OF assms]]
      BlsSigner_default_def drawn_signer_def)

lemma test_signature_Ok:
  assumes "test_environment X rd"
  shows "test_signature X = Ok \<lparr>sig_point = Some test_signature_bytes, sig_is_infinity = False\<rparr>"
    and "length test_signature_bytes = 96"
proof -
  note env = test_environmentD [OF assms]
  have lit: "hex_literal (drop 2 TEST_BLS_SIGNATURE)" "take 2 TEST_BLS_SIGNATURE = ''0x''"
    by (simp_all add: hex_literal_def TEST_BLS_SIGNATURE_def)
  have "TEST_BLS_SIGNATURE = ''0x'' @ drop 2 TEST_BLS_SIGNATURE"
    using lit(2) by (metis append_take_drop_id)
  then have "serde_hex_decode X TEST_BLS_SIGNATURE = Ok test_signature_bytes"
    using texts_literal(1) [OF env(4,5) lit(1)] by (simp add: test_signature_bytes_def)
  moreover have "hd test_signature_bytes = 0xad" "length test_signature_bytes = 96"
    by (simp_all add: test_signature_bytes_def TEST_BLS_SIGNATURE_def hex_value_def)
  moreover from this have "test_signature_bytes \<noteq> NONE_SIGNATURE" "test_signature_bytes \<noteq> INFINITY_SIGNATURE"
    by (auto simp: NONE_SIGNATURE_def INFINITY_SIGNATURE_def SIGNATURE_BYTES_LEN_def
        dest!: arg_cong [where f = hd])
  ultimately show "test_signature X = Ok \<lparr>sig_point = Some test_signature_bytes, sig_is_infinity = False\<rparr>"
    "length test_signature_bytes = 96"
    using env(8) by (simp_all add: test_signature_def BlsSignature_of_str_def BlsSignature_deserialize_def)
qed

text \<open>A signature that a signer makes is verified, also after it has been written and read.\<close>

lemma signer_signs:
  assumes "test_environment X rd"
  shows "BlsSignature_verify X (BlsSigner_sign X (drawn_signer X rd i) root) (drawn_key X rd i)
      (signing_root X root (compute_builder_domain X default_forks))"
    and "BlsSignature_verify X (BlsSigner_proposer_sign X (drawn_signer X rd i) root) (drawn_key X rd i)
      (signing_root X root (compute_proposer_domain X default_forks))"
  using test_environmentD(3) [OF assms]
  by (simp_all add: BlsSigner_sign_def BlsSigner_proposer_sign_def drawn_signer_def drawn_key_def
      BlsSecretKey_sign_def BlsSignature_verify_def BlsSignature_from_point_def Signature_verify_def
      BlsSecretKey_public_key_def blst_correct_def)

lemma signer_reads:
  fixes i :: nat and root :: Hash256
  assumes "test_environment X rd"
  defines "s \<equiv> BlsSigner_sign X (drawn_signer X rd i) root"
  shows "\<exists>s'. BlsSignature_of_str X (BlsSignature_to_string X s) = Ok s' \<and> BlsSignature_to_vec s' = BlsSignature_to_vec s"
    and "BlsSignature_from_vec X (BlsSignature_to_vec s) = Ok s"
proof -
  note env = test_environmentD [OF assms(1)]
  obtain p where p: "s = BlsSignature_from_point p False" "blst_sig_from_bytes X p = Ok p"
    "p \<noteq> NONE_SIGNATURE" "length p = 96"
    using env(2) unfolding s_def blst_signatures_def NONE_SIGNATURE_def SIGNATURE_BYTES_LEN_def
    by (simp add: BlsSigner_sign_def BlsSecretKey_sign_def)
  then show "\<exists>s'. BlsSignature_of_str X (BlsSignature_to_string X s) = Ok s' \<and>
      BlsSignature_to_vec s' = BlsSignature_to_vec s"
    and "BlsSignature_from_vec X (BlsSignature_to_vec s) = Ok s"
    using env(4) by (simp_all add: BlsSignature_of_str_def BlsSignature_to_string_def hex_documented_def
        BlsSignature_serialize_def BlsSignature_from_point_def BlsSignature_deserialize_def
        BlsSignature_to_vec_def BlsSignature_from_vec_def)
qed

end
