(* ===== verification/Grpc_Tests.thy ===== *)
theory Grpc_Tests
  imports Test_Support
begin

text \<open>
  The tests of \<open>crates/grpc/src/server.rs\<close>: a server with an in-memory storage, a client connected to it,
  and submissions that are refused for one reason each, accepted, or sent by a thousand tasks at once.
  The runtime of a test has one thread and \<open>submit_block\<close> does not wait, so calls reach the service one
  after the other; their order is an argument.
\<close>

section \<open>Fixtures\<close>

definition gt_payload_attr :: "u64 \<Rightarrow> Address \<Rightarrow> PayloadAttributes" where
  "gt_payload_attr slot recipient =
     \<lparr>pa_proposal_slot = slot, pa_parent_block_root = replicate 32 0, pa_parent_block_number = 0,
      pa_parent_block_hash = replicate 32 0, pa_proposer_index = 0, pa_timestamp = 0,
      pa_prev_randao = replicate 32 0, pa_suggested_fee_recipient = Address_as_ref recipient,
      pa_withdrawals = Some [], pa_parent_beacon_block_root = None\<rparr>"

definition gt_bid_trace :: "externs \<Rightarrow> Randomness \<Rightarrow> u64 \<Rightarrow> string \<Rightarrow> (GBidTrace, string) res" where
  "gt_bid_trace X rd slot v =
     res_bind (test_bls_pubkey X rd) (\<lambda>pubkey.
       Ok \<lparr>gbt_slot = slot, gbt_parent_hash = replicate 32 0, gbt_block_hash = replicate 32 0,
           gbt_builder_pubkey = pk_serialize pubkey, gbt_proposer_pubkey = pk_serialize pubkey,
           gbt_proposer_fee_recipient = Address_to_vec Address_zero, gbt_gas_limit = 0,
           gbt_gas_used = 0, gbt_value = v\<rparr>)"

definition gt_execution_payload :: "Randomness \<Rightarrow> nat \<Rightarrow> B256 \<Rightarrow> GExecutionPayload" where
  "gt_execution_payload rd i randao =
     \<lparr>gep_parent_hash = replicate 32 0, gep_state_root = replicate 32 0,
      gep_receipts_root = replicate 32 0, gep_logs_bloom = replicate 256 0,
      gep_prev_randao = B256_to_vec randao, gep_extra_data = replicate 32 0,
      gep_base_fee_per_gas = replicate 32 0,
      gep_fee_recipient = Address_to_vec (Address_random (rd_address rd i)),
      gep_block_hash = replicate 32 0, gep_transactions = [], gep_withdrawals = [],
      gep_block_number = 0, gep_gas_limit = 0, gep_timestamp = 0, gep_gas_used = 0,
      gep_blob_gas_used = 0, gep_excess_blob_gas = 0\<rparr>"

definition gt_blobs_bundle :: GBlobsBundle where
  "gt_blobs_bundle = \<lparr>gbb_commitments = [], gbb_proofs = [], gbb_blobs = []\<rparr>"

definition gt_validator_registration ::
    "externs \<Rightarrow> Randomness \<Rightarrow> nat \<Rightarrow> Address \<Rightarrow> (ValidatorRegistration, string) res" where
  "gt_validator_registration X rd i recipient =
     res_bind (test_signature X) (\<lambda>signature.
     res_bind (BlsPublicKey_random X (rd_ikm rd i)) (\<lambda>pubkey.
       Ok \<lparr>vr_message = \<lparr>vrm_fee_recipient = recipient, vrm_gas_limit = 0, vrm_timestamp = 0,
                         vrm_pubkey = pubkey\<rparr>,
           vr_signature = signature\<rparr>))"

definition gt_proposer_duties ::
    "externs \<Rightarrow> Randomness \<Rightarrow> nat \<Rightarrow> u64 \<Rightarrow> Address \<Rightarrow> (Validator list, string) res" where
  "gt_proposer_duties X rd i slot recipient =
     res_bind (gt_validator_registration X rd i recipient) (\<lambda>entry.
       Ok [\<lparr>val_slot = slot, val_validator_index = 0, val_entry = entry\<rparr>])"

section \<open>The server and its client\<close>

type_synonym test_client = "relay_world MevRelayClient"
type_synonym test_server = "InMemoryStorageInner RelayGrpcService MevRelayServer"

text \<open>
  \<open>get_client\<close> connects until it succeeds; the attempts are what the transport answers to them, and
  without a success among them the test still waits.
\<close>

fun get_client :: "string \<Rightarrow> (relay_world GrpcChannel, string) res list \<Rightarrow> test_client option" where
  "get_client url [] = None"
| "get_client url (attempt # attempts) =
     (case MevRelayClient_connect Ok (\<lambda>_. attempt) (''http://'' @ url) of
        Ok client \<Rightarrow> Some client
      | _ \<Rightarrow> get_client url attempts)"

text \<open>What the transport answers to the attempts to connect to a server.\<close>

type_synonym transport = "test_server \<Rightarrow> (relay_world GrpcChannel, string) res list"

definition gt_setup ::
    "externs \<Rightarrow> Randomness \<Rightarrow> transport \<Rightarrow> RelayMetrics \<Rightarrow> BlsPublicKey list
     \<Rightarrow> (test_client option \<times> relay_world, string) res" where
  "gt_setup X rd connect recorder builders =
     res_bind (ForkDatas_default X) (\<lambda>fork_datas.
     let storage = InMemoryStorage_new (HeadSlot_from 10)
           (gt_payload_attr 0 (Address_random (rd_address rd 0))) builders fork_datas Mapping.empty []
           recorder in
     res_bind (ForkDatas_default X) (\<lambda>server_fork_datas.
     let server = MevRelayServer_new (RelayGrpcService_new in_memory_storage server_fork_datas);
         client = get_client ''127.0.0.1'' (connect server)
     in Ok (client, storage)))"

text \<open>
  A test: what it prepares, the builders that are enabled, and what it does with the client. \<open>None\<close> is a
  test that waits for its connection.
\<close>

definition with_server ::
    "externs \<Rightarrow> Randomness \<Rightarrow> transport \<Rightarrow> RelayMetrics \<Rightarrow> ('p \<times> BlsPublicKey list, string) res
     \<Rightarrow> ('p \<Rightarrow> test_client \<Rightarrow> (relay_world, unit) step) \<Rightarrow> (unit, string) res option" where
  "with_server X rd connect recorder prepared body =
     (case res_bind prepared (\<lambda>(p, builders).
             res_bind (gt_setup X rd connect recorder builders) (\<lambda>setup. Ok (p, setup))) of
        Ok (p, Some client, storage) \<Rightarrow> Some (snd (body p client storage))
      | Ok (p, None, storage) \<Rightarrow> None
      | Err e \<Rightarrow> Some (Err e)
      | Panic m \<Rightarrow> Some (Panic m))"

text \<open>The assertions on a call that is refused.\<close>

definition expect_refused ::
    "test_client \<Rightarrow> SubmitBlockRequest \<Rightarrow> string \<Rightarrow> string \<Rightarrow> (relay_world, unit) step" where
  "expect_refused client request no_error message =
     step_bind (invoke (MevRelayClient_submit_block client request)) (\<lambda>response.
     step_bind (assert_that no_error (is_err response)) (\<lambda>_.
     step_bind (give (unwrap_err response)) (\<lambda>error.
     step_bind (assert_eq ''Expected InvalidArgument error'' (ts_code error) CODE_INVALID_ARGUMENT) (\<lambda>_.
       assert_eq ''Error message mismatch'' (ts_message error) message))))"

section \<open>Refused submissions\<close>

definition test_invalid_duties ::
    "externs \<Rightarrow> Randomness \<Rightarrow> test_client \<Rightarrow> string \<Rightarrow> (relay_world, unit) step" where
  "test_invalid_duties X rd client error_message =
     step_bind (give (gt_bid_trace X rd 11 ''1000'')) (\<lambda>bid.
     step_bind (give (test_signature X)) (\<lambda>signature.
     let bid = bid\<lparr>gbt_builder_pubkey := pk_serialize (BlsPublicKey_default X)\<rparr>;
         request = \<lparr>req_bid_trace = Some bid,
                    req_execution_payload = Some (gt_execution_payload rd 1 B256_zero),
                    req_signature = BlsSignature_to_vec signature,
                    req_blobs_bundle = Some gt_blobs_bundle\<rparr>
     in expect_refused client request ''Expected an error for the test case'' error_message))"

definition test_invalid_attributes ::
    "externs \<Rightarrow> Randomness \<Rightarrow> test_client \<Rightarrow> string \<Rightarrow> (relay_world, unit) step" where
  "test_invalid_attributes X rd client error_message =
     step_bind (give (gt_bid_trace X rd 11 ''1000'')) (\<lambda>bid.
     let bid = bid\<lparr>gbt_builder_pubkey := pk_serialize (BlsPublicKey_default X)\<rparr>;
         request = \<lparr>req_bid_trace = Some bid,
                    req_execution_payload = Some (gt_execution_payload rd 2 (B256_random (rd_b256 rd 0))),
                    req_signature = [], req_blobs_bundle = Some gt_blobs_bundle\<rparr>
     in expect_refused client request ''Expected an error for the test case'' error_message)"

definition test_invalid_slot :: "externs \<Rightarrow> Randomness \<Rightarrow> test_client \<Rightarrow> (relay_world, unit) step" where
  "test_invalid_slot X rd client =
     step_bind (give (gt_bid_trace X rd 10 ''1000'')) (\<lambda>bid.
     let bid = bid\<lparr>gbt_builder_pubkey := pk_serialize (BlsPublicKey_default X)\<rparr>;
         request = \<lparr>req_bid_trace = Some bid,
                    req_execution_payload = Some (gt_execution_payload rd 3 (B256_random (rd_b256 rd 1))),
                    req_signature = [], req_blobs_bundle = Some gt_blobs_bundle\<rparr>
     in expect_refused client request ''Expected an error for invalid builder'' ''Submission for past slot.'')"

definition test_execution_payload_none ::
    "externs \<Rightarrow> Randomness \<Rightarrow> test_client \<Rightarrow> (relay_world, unit) step" where
  "test_execution_payload_none X rd client =
     step_bind (give (gt_bid_trace X rd 0 ''1000'')) (\<lambda>bid.
     let request = \<lparr>req_bid_trace = Some bid, req_execution_payload = None, req_signature = [],
                    req_blobs_bundle = Some gt_blobs_bundle\<rparr>
     in expect_refused client request ''Expected an error when execution payload is None''
          ''Missing Execution Payload'')"

definition test_bid_none :: "externs \<Rightarrow> Randomness \<Rightarrow> test_client \<Rightarrow> (relay_world, unit) step" where
  "test_bid_none X rd client =
     (let request = \<lparr>req_bid_trace = None,
                     req_execution_payload = Some (gt_execution_payload rd 4 (B256_random (rd_b256 rd 2))),
                     req_signature = [], req_blobs_bundle = Some gt_blobs_bundle\<rparr>
      in expect_refused client request ''Expected an error when bid trace is None'' ''Missing bid'')"

definition test_invalid_builder :: "externs \<Rightarrow> Randomness \<Rightarrow> test_client \<Rightarrow> (relay_world, unit) step" where
  "test_invalid_builder X rd client =
     step_bind (give (gt_bid_trace X rd 0 ''1000'')) (\<lambda>bid.
     step_bind (give (BlsPublicKey_random X (rd_ikm rd 2))) (\<lambda>builder.
     let bid = bid\<lparr>gbt_builder_pubkey := pk_serialize builder\<rparr>;
         request = \<lparr>req_bid_trace = Some bid,
                    req_execution_payload = Some (gt_execution_payload rd 5 (B256_random (rd_b256 rd 3))),
                    req_signature = [], req_blobs_bundle = Some gt_blobs_bundle\<rparr>
     in expect_refused client request ''Expected an error for invalid builder'' ''Invalid builder address.''))"

section \<open>The tests\<close>

definition invalid_builder ::
    "externs \<Rightarrow> Randomness \<Rightarrow> transport \<Rightarrow> RelayMetrics \<Rightarrow> (unit, string) res option" where
  "invalid_builder X rd connect recorder =
     with_server X rd connect recorder (Ok ((), [])) (\<lambda>_ client.
       step_bind (test_execution_payload_none X rd client) (\<lambda>_.
       step_bind (test_bid_none X rd client) (\<lambda>_.
         test_invalid_builder X rd client)))"

definition slot_validation ::
    "externs \<Rightarrow> Randomness \<Rightarrow> transport \<Rightarrow> RelayMetrics \<Rightarrow> (unit, string) res option" where
  "slot_validation X rd connect recorder =
     with_server X rd connect recorder (Ok ((), [BlsPublicKey_default X])) (\<lambda>_ client.
       test_invalid_slot X rd client)"

definition attributes_validation ::
    "externs \<Rightarrow> Randomness \<Rightarrow> transport \<Rightarrow> RelayMetrics \<Rightarrow> (unit, string) res option" where
  "attributes_validation X rd connect recorder =
     with_server X rd connect recorder (Ok ((), [BlsPublicKey_default X])) (\<lambda>_ client.
       step_bind (test_invalid_attributes X rd client ''Payload attributes: Invalid slot.'') (\<lambda>_.
       step_bind (change (set_payload_attributes in_memory_storage
         (gt_payload_attr 11 (Address_random (rd_address rd 6))))) (\<lambda>_.
       step_bind (test_invalid_attributes X rd client ''Payload attributes: Invalid prev_randao.'') (\<lambda>_.
       step_bind (change (set_payload_attributes in_memory_storage
         (gt_payload_attr 11 Address_zero))) (\<lambda>_.
         test_invalid_attributes X rd client ''Payload attributes: Invalid prev_randao.'')))))"

definition duties_validation ::
    "externs \<Rightarrow> Randomness \<Rightarrow> transport \<Rightarrow> RelayMetrics \<Rightarrow> (unit, string) res option" where
  "duties_validation X rd connect recorder =
     with_server X rd connect recorder (Ok ((), [BlsPublicKey_default X])) (\<lambda>_ client.
       step_bind (change (set_payload_attributes in_memory_storage
         (gt_payload_attr 11 Address_zero))) (\<lambda>_.
       step_bind (test_invalid_duties X rd client ''No duty found.'') (\<lambda>_.
       step_bind (give (gt_proposer_duties X rd 3 11 (Address_random (rd_address rd 7)))) (\<lambda>duties.
       step_bind (change (set_proposer_duties in_memory_storage duties)) (\<lambda>_.
         test_invalid_duties X rd client ''Invalid signature'')))))"

definition invalid_signature ::
    "externs \<Rightarrow> Randomness \<Rightarrow> transport \<Rightarrow> RelayMetrics \<Rightarrow> (unit, string) res option" where
  "invalid_signature X rd connect recorder =
     with_server X rd connect recorder
       (res_bind (test_bls_pubkey X rd) (\<lambda>builder. Ok (builder, [builder]))) (\<lambda>enabled_builder client.
       step_bind (give (test_signature X)) (\<lambda>signature.
       step_bind (give (gt_bid_trace X rd 11 ''1000'')) (\<lambda>bid.
       let bid = bid\<lparr>gbt_builder_pubkey := pk_serialize enabled_builder\<rparr>;
           request = \<lparr>req_bid_trace = Some bid,
                      req_execution_payload = Some (gt_execution_payload rd 8 B256_zero),
                      req_signature = BlsSignature_to_vec signature,
                      req_blobs_bundle = Some gt_blobs_bundle\<rparr> in
       step_bind (change (set_payload_attributes in_memory_storage
         (gt_payload_attr 11 Address_zero))) (\<lambda>_.
       step_bind (give (gt_proposer_duties X rd 4 11 Address_zero)) (\<lambda>valid_duty.
       step_bind (change (set_proposer_duties in_memory_storage valid_duty)) (\<lambda>_.
         expect_refused client request ''Expected an error for the test case'' ''Invalid signature''))))))"

text \<open>The signer of a test and its key as it reads back from its text.\<close>

definition gt_signer ::
    "externs \<Rightarrow> Randomness \<Rightarrow> nat \<Rightarrow> ((BlsSigner \<times> BlsPublicKey) \<times> BlsPublicKey list, string) res" where
  "gt_signer X rd i =
     res_bind (BlsSigner_default X (rd_ikm rd i)) (\<lambda>signer.
     res_bind (unwrap (BlsPublicKey_of_str X
       (BlsPublicKey_to_string X (BlsSigner_public_key X signer)))) (\<lambda>enabled_builder.
       Ok ((signer, enabled_builder), [enabled_builder])))"

text \<open>A bid of a value, signed, as a request and as the bid that was signed.\<close>

definition signed_request ::
    "externs \<Rightarrow> Randomness \<Rightarrow> nat \<Rightarrow> BlsSigner \<Rightarrow> BlsPublicKey \<Rightarrow> string
     \<Rightarrow> (SubmitBlockRequest \<times> BidTrace, string) res" where
  "signed_request X rd i signer enabled_builder v =
     res_bind (gt_bid_trace X rd 11 v) (\<lambda>bid.
     let bid = bid\<lparr>gbt_builder_pubkey := pk_serialize enabled_builder\<rparr> in
     res_bind (unwrap (BidTrace_try_from X bid)) (\<lambda>signable_bid.
     let signature = BlsSigner_sign X signer (BidTrace_tree_hash_root X signable_bid) in
     res_bind (unwrap (BlsSignature_of_str X (BlsSignature_to_string X signature))) (\<lambda>signature.
       Ok (\<lparr>req_bid_trace = Some bid,
            req_execution_payload = Some (gt_execution_payload rd i B256_zero),
            req_signature = BlsSignature_to_vec signature,
            req_blobs_bundle = Some gt_blobs_bundle\<rparr>, signable_bid))))"

definition valid_submission ::
    "externs \<Rightarrow> Randomness \<Rightarrow> transport \<Rightarrow> RelayMetrics \<Rightarrow> (unit, string) res option" where
  "valid_submission X rd connect recorder =
     with_server X rd connect recorder (gt_signer X rd 5) (\<lambda>(signer, enabled_builder) client.
       step_bind (give (signed_request X rd 9 signer enabled_builder ''1000'')) (\<lambda>(request, signable_bid).
       step_bind (change (set_payload_attributes in_memory_storage
         (gt_payload_attr 11 Address_zero))) (\<lambda>_.
       step_bind (give (gt_proposer_duties X rd 6 11 Address_zero)) (\<lambda>valid_duty.
       step_bind (change (set_proposer_duties in_memory_storage valid_duty)) (\<lambda>_.
       step_bind (invoke (MevRelayClient_submit_block client request)) (\<lambda>response.
       step_bind (give (unwrap response)) (\<lambda>_.
       step_bind (look (\<lambda>s. read_best_bid in_memory_storage s 11 (bt_parent_hash signable_bid)
         (bt_proposer_pubkey signable_bid))) (\<lambda>found.
       step_bind (give (unwrap_none found)) (\<lambda>best_bid.
         assert_eq ''assertion failed'' (bt_value (bid_trace best_bid)) (U256_from_u64 1000))))))))))"

text \<open>One of the tasks; \<open>bid_value\<close> is \<open>start_value + i * 100\<close>.\<close>

definition submission_task ::
    "externs \<Rightarrow> Randomness \<Rightarrow> BlsSigner \<Rightarrow> BlsPublicKey \<Rightarrow> test_client \<Rightarrow> nat \<Rightarrow> (relay_world, unit) step" where
  "submission_task X rd signer enabled_builder client i =
     (let bid_value = 1000 + i * 100 in
      step_bind (give (signed_request X rd (10 + i) signer enabled_builder (nat_to_string bid_value)))
        (\<lambda>(request, _).
      step_bind (invoke (MevRelayClient_submit_block client request)) (\<lambda>response.
      step_bind (give (unwrap response)) (\<lambda>_. give (Ok ())))))"

definition concurrent_submissions ::
    "externs \<Rightarrow> Randomness \<Rightarrow> transport \<Rightarrow> RelayMetrics \<Rightarrow> nat list \<Rightarrow> (unit, string) res option" where
  "concurrent_submissions X rd connect recorder order =
     with_server X rd connect recorder (gt_signer X rd 7) (\<lambda>(signer, enabled_builder) client.
       step_bind (change (set_payload_attributes in_memory_storage
         (gt_payload_attr 11 Address_zero))) (\<lambda>_.
       step_bind (give (gt_proposer_duties X rd 8 11 Address_zero)) (\<lambda>valid_duty.
       step_bind (change (set_proposer_duties in_memory_storage valid_duty)) (\<lambda>_.
       step_bind (join_all (map (submission_task X rd signer enabled_builder client) order)) (\<lambda>_.
       step_bind (give (unwrap (B256_of_str X (''0x'' @ hex_encode X (b256_bytes B256_zero))))) (\<lambda>p_hash.
       step_bind (give (test_bls_pubkey X rd)) (\<lambda>pubkey.
       step_bind (look (\<lambda>s. read_best_bid in_memory_storage s 11 p_hash pubkey)) (\<lambda>found.
       step_bind (give (unwrap_none found)) (\<lambda>best_bid.
       let amount = of_nat (1000 + (1000 - 1) * 100)
       in assert_eq ''assertion failed'' (bt_value (bid_trace best_bid)) (U256_from_u64 amount))))))))))"

section \<open>The connection\<close>

text \<open>
  A transport as \<open>tonic\<close> documents it: some attempt to connect succeeds, and every channel is one to the
  server, whose calls arrive as they were sent.
\<close>

definition transport_documented ::
    "externs \<Rightarrow> (UnaryConfig \<Rightarrow> 'q \<Rightarrow> (SubmitBlockRequest, TonicStatus) res)
     \<Rightarrow> (UnaryConfig \<Rightarrow> (SubmitBlockResponse, TonicStatus) res \<Rightarrow> 'r GrpcHttpResponse)
     \<Rightarrow> (SubmitBlockRequest \<Rightarrow> 'q) \<Rightarrow> ('r GrpcHttpResponse \<Rightarrow> (SubmitBlockResponse, TonicStatus) res)
     \<Rightarrow> (string \<Rightarrow> TonicStatus) \<Rightarrow> (relay_world, 'q, 'r) unary \<Rightarrow> 'r \<Rightarrow> transport \<Rightarrow> bool" where
  "transport_documented X decode encode encode_msg decode_reply broken unary eb connect \<longleftrightarrow>
     unary_documented decode encode unary \<and>
     (\<forall>server. codec_documented decode encode encode_msg decode_reply (server_config server) \<and>
        (\<exists>ch. Ok ch \<in> set (connect server)) \<and>
        (\<forall>ch. Ok ch \<in> set (connect server) \<longrightarrow> gc_ready ch = Ok () \<and>
           channel_documented encode_msg decode_reply broken
             (MevRelayServer_call unary eb (submit_block X) server) ch))"

definition test_service :: "InMemoryStorageInner RelayGrpcService" where
  "test_service = RelayGrpcService_new in_memory_storage default_forks"

text \<open>The client of a test reaches the service of the test.\<close>

definition reaches :: "externs \<Rightarrow> (string \<Rightarrow> TonicStatus) \<Rightarrow> test_client \<Rightarrow> bool" where
  "reaches X broken client \<longleftrightarrow>
     (\<forall>msg w. MevRelayClient_submit_block client msg w =
        (case submit_block X test_service msg w of
           (w', Ok reply) \<Rightarrow> (w', Ok reply)
         | (w', Err e) \<Rightarrow> (w', Err (wire_status e))
         | (w', Panic m) \<Rightarrow> (w', Err (broken m))))"

lemma get_client_connects:
  "(\<exists>ch. Ok ch \<in> set attempts) \<Longrightarrow>
     \<exists>ch. Ok ch \<in> set attempts \<and> get_client url attempts = Some (MevRelayClient_new ch)"
proof (induction attempts)
  case (Cons attempt attempts)
  then show ?case by (cases attempt) (auto simp: MevRelayClient_connect_def)
qed simp

text \<open>The storage and the client of every test.\<close>

definition test_storage :: "Randomness \<Rightarrow> RelayMetrics \<Rightarrow> BlsPublicKey list \<Rightarrow> relay_world" where
  "test_storage rd recorder builders =
     InMemoryStorage_new (HeadSlot 10) (gt_payload_attr 0 (Address (rd_address rd 0))) builders
       default_forks Mapping.empty [] recorder"

lemma with_server_runs:
  assumes "test_environment X rd"
    and "transport_documented X decode encode encode_msg decode_reply broken unary eb connect"
    and "prepared = Ok (p, builders)"
    and "\<And>client. reaches X broken client \<Longrightarrow> snd (body p client (test_storage rd recorder builders)) = Ok ()"
  shows "with_server X rd connect recorder prepared body = Some (Ok ())"
proof -
  let ?server = "MevRelayServer_new test_service :: test_server"
  have "\<exists>ch. Ok ch \<in> set (connect ?server)" using assms(2) by (simp add: transport_documented_def)
  from get_client_connects [OF this] obtain ch where ch: "Ok ch \<in> set (connect ?server)"
    "get_client ''127.0.0.1'' (connect ?server) = Some (MevRelayClient_new ch)" by blast
  have "MevRelayClient_submit_block (MevRelayClient_new ch) msg w =
      (case submit_block X (ms_inner ?server) msg w of
         (w', Ok reply) \<Rightarrow> (w', Ok reply)
       | (w', Err e) \<Rightarrow> (w', Err (wire_status e))
       | (w', Panic m) \<Rightarrow> (w', Err (broken m)))" for msg w
    using assms(2) ch(1) unfolding transport_documented_def by (blast intro: client_sees_service)
  then have "reaches X broken (MevRelayClient_new ch)"
    by (simp add: reaches_def MevRelayServer_new_def MevRelayServer_from_arc_def)
  with assms(4) have "snd (body p (MevRelayClient_new ch) (test_storage rd recorder builders)) = Ok ()" .
  then show ?thesis
    using ch(2)
    by (simp add: with_server_def gt_setup_def assms(3) Let_def test_service_def test_storage_def
        HeadSlot_from_def Address_random_def ForkDatas_default_Ok [OF test_environmentD(4,5) [OF assms(1)]])
qed

lemma invoke_client:
  assumes "reaches X broken client" and "submit_block X test_service request w = (w', r)"
    and "\<And>m. r \<noteq> Panic m"
  shows "step_bind (invoke (MevRelayClient_submit_block client request)) h w = h (res_map_err wire_status r) w'"
proof (rule step_invoke)
  show "MevRelayClient_submit_block client request w = (w', res_map_err wire_status r)"
    using assms by (cases r) (auto simp: reaches_def)
  show "res_map_err wire_status r \<noteq> Panic p" for p using assms(3) by (cases r) auto
qed

lemma refused:
  assumes "reaches X broken client"
    and "submit_block_checks X test_service (w_store w) request = Err (InvalidArgument message)"
  shows "expect_refused client request no_error message w = (w, Ok ())"
proof -
  have "submit_block X test_service request w = (w, Err (InvalidArgument message))"
    using assms(2) by (simp add: submit_block_def)
  then show ?thesis by (simp add: expect_refused_def invoke_client [OF assms(1)])
qed

section \<open>Conversions of the fixtures\<close>

definition test_trace :: "externs \<Rightarrow> Randomness \<Rightarrow> u64 \<Rightarrow> nat \<Rightarrow> BlsPublicKey \<Rightarrow> BidTrace" where
  "test_trace X rd slot v builder =
     \<lparr>bt_slot = slot, bt_parent_hash = B256_zero, bt_block_hash = B256_zero,
      bt_builder_pubkey = builder, bt_proposer_pubkey = drawn_key X rd 0,
      bt_proposer_fee_recipient = Address_zero, bt_gas_limit = 0, bt_gas_used = 0,
      bt_value = U256 (of_nat v)\<rparr>"

lemma gt_bid_trace_Ok:
  assumes "test_environment X rd"
  shows "\<exists>bid. gt_bid_trace X rd slot s = Ok bid"
  by (simp add: gt_bid_trace_def drawn_key_random [OF assms])

lemma bid_converts:
  assumes "test_environment X rd" and "gt_bid_trace X rd slot (nat_to_string v) = Ok bid" and "v < 2 ^ 256"
    and "BlsPublicKey_from_vec X (pk_serialize builder) = (Ok builder :: (BlsPublicKey, ConversionError) res)"
  shows "BidTrace_try_from X (bid\<lparr>gbt_builder_pubkey := pk_serialize builder\<rparr>) = Ok (test_trace X rd slot v builder)"
proof -
  note env = test_environmentD [OF assms(1)]
  have "u256_from_str X (nat_to_string v) = Ok (of_nat v)"
    using env(5) assms(3) unfolding texts_documented_def by blast
  moreover have "Address_to_vec Address_zero = replicate 20 0"
    by (simp add: Address_to_vec_def Address_zero_def)
  ultimately show ?thesis
    using assms(2,4)
    by (auto simp: drawn_keys(3) [OF assms(1)] gt_bid_trace_def drawn_key_random [OF assms(1)] BidTrace_try_from_def U256_of_str_def
        B256_try_from_def HASHSIZE_def Address_try_from_def test_trace_def B256_zero_def Address_zero_def)
qed

lemma thousand: "''1000'' = nat_to_string 1000"
  by code_simp

lemma payload_converts:
  assumes "test_environment X rd" and "length (b256_bytes randao) = 32"
  shows "\<exists>p. ExecutionPayload_try_from X (gt_execution_payload rd i randao) = Ok p \<and> ep_prev_randao p = randao"
  using test_environmentD(6,7) [OF assms(1)] assms(2)
  by (simp add: ExecutionPayload_try_from_def gt_execution_payload_def B256_try_from_def HASHSIZE_def
      Address_try_from_def Address_to_vec_def Address_random_def B256_to_vec_def U256_try_from_def
      variable_list_new_def)

lemma blobs_convert:
  assumes "test_environment X rd"
  shows "BlobsBundle_try_from X gt_blobs_bundle = Ok BlobsBundle_default"
  using test_environmentD(6) [OF assms]
  by (simp add: BlobsBundle_try_from_def gt_blobs_bundle_def variable_list_new_def BlobsBundle_default_def)

section \<open>The service in the tests\<close>

lemma test_storage_sel [simp]:
  "im_slot (w_store (test_storage rd recorder builders)) = HeadSlot 10"
  "im_payload_attributes (w_store (test_storage rd recorder builders))
     = gt_payload_attr 0 (Address (rd_address rd 0))"
  "im_proposer_duties (w_store (test_storage rd recorder builders)) = []"
  "im_wlist_builders (w_store (test_storage rd recorder builders)) = builders"
  "im_best_bid_per_slot (w_store (test_storage rd recorder builders)) = Mapping.empty"
  "im_fork_data (w_store (test_storage rd recorder builders)) = default_forks"
  by (simp_all add: test_storage_def InMemoryStorage_new_def Let_def)

lemma set_attributes_sel [simp]:
  "im_slot (w_store (ims_set_payload_attributes a w)) = im_slot (w_store w)"
  "im_payload_attributes (w_store (ims_set_payload_attributes a w)) = a"
  "im_proposer_duties (w_store (ims_set_payload_attributes a w)) = im_proposer_duties (w_store w)"
  "im_wlist_builders (w_store (ims_set_payload_attributes a w)) = im_wlist_builders (w_store w)"
  "im_best_bid_per_slot (w_store (ims_set_payload_attributes a w)) = im_best_bid_per_slot (w_store w)"
  "im_fork_data (w_store (ims_set_payload_attributes a w)) = im_fork_data (w_store w)"
  by (simp_all add: ims_set_payload_attributes_def Let_def ims_record_relayed_block_def)

lemma set_duties_sel [simp]:
  "im_slot (w_store (ims_set_proposer_duties ds w)) = im_slot (w_store w)"
  "im_payload_attributes (w_store (ims_set_proposer_duties ds w)) = im_payload_attributes (w_store w)"
  "im_proposer_duties (w_store (ims_set_proposer_duties ds w)) = ds"
  "im_wlist_builders (w_store (ims_set_proposer_duties ds w)) = im_wlist_builders (w_store w)"
  "im_best_bid_per_slot (w_store (ims_set_proposer_duties ds w)) = im_best_bid_per_slot (w_store w)"
  "im_fork_data (w_store (ims_set_proposer_duties ds w)) = im_fork_data (w_store w)"
  by (simp_all add: ims_set_proposer_duties_def)

lemma trace_sel [simp]:
  "bt_slot (test_trace X rd slot v builder) = slot"
  "bt_parent_hash (test_trace X rd slot v builder) = B256_zero"
  "bt_builder_pubkey (test_trace X rd slot v builder) = builder"
  "bt_proposer_pubkey (test_trace X rd slot v builder) = drawn_key X rd 0"
  "bt_value (test_trace X rd slot v builder) = U256 (of_nat v)"
  by (simp_all add: test_trace_def)

lemma test_service_sel [simp]:
  "gs_storage test_service = in_memory_storage" "gs_fork_data test_service = default_forks"
  by (simp_all add: test_service_def RelayGrpcService_new_def)

lemma B256_zero_length [simp]: "length (b256_bytes B256_zero) = 32"
  by (simp add: B256_zero_def)

lemma checks_refused:
  assumes "test_environment X rd" and "gt_bid_trace X rd slot (nat_to_string v) = Ok bid" and "v < 2 ^ 256"
    and "BlsPublicKey_from_vec X (pk_serialize builder) = (Ok builder :: (BlsPublicKey, ConversionError) res)"
    and "length (b256_bytes randao) = 32" and "im_best_bid_per_slot s = Mapping.empty"
    and "\<And>p. ep_prev_randao p = randao \<Longrightarrow>
      validate_bid_and_payload test_service s (test_trace X rd slot v builder) p = Err e"
  shows "submit_block_checks X test_service s
     \<lparr>req_bid_trace = Some (bid\<lparr>gbt_builder_pubkey := pk_serialize builder\<rparr>),
      req_execution_payload = Some (gt_execution_payload rd i randao), req_signature = sig,
      req_blobs_bundle = Some gt_blobs_bundle\<rparr> = Err e"
proof -
  from payload_converts [OF assms(1,5)] obtain p where
    p: "ExecutionPayload_try_from X (gt_execution_payload rd i randao) = Ok p" "ep_prev_randao p = randao" by blast
  have "grpc_is_bid_higher test_service s (test_trace X rd slot v builder)"
    using assms(6) by (simp add: grpc_is_bid_higher_def ims_reader_defs)
  then show ?thesis
    using p assms(7) [OF p(2)]
    by (simp add: submit_block_checks_def bid_converts [OF assms(1-4)])
qed

lemma validation:
  "validate_bid_and_payload test_service s (test_trace X rd slot v builder) p =
     (if U256_is_zero (U256 (of_nat v)) then Err (InvalidArgument ''Block value 0.'')
      else if builder \<notin> set (im_wlist_builders s) then Err (InvalidArgument ''Invalid builder address.'')
      else if \<not> is_next_slot (im_slot s) slot then Err (InvalidArgument ''Submission for past slot.'')
      else case validate_bid (im_payload_attributes s) slot (ep_prev_randao p) of
        Err m \<Rightarrow> Err (InvalidArgument (ValidationErrors_to_string m))
      | Panic m \<Rightarrow> Panic m
      | Ok _ \<Rightarrow> ok_or (List.find (\<lambda>d. val_slot d = slot) (im_proposer_duties s))
          (InvalidArgument ''No duty found.''))"
  by (simp add: validate_bid_and_payload_def Let_def ims_reader_defs split: res.split)

lemma gt_attr_sel [simp]:
  "pa_proposal_slot (gt_payload_attr slot recipient) = slot"
  "prev_randao (gt_payload_attr slot recipient) = B256_zero"
  by (simp_all add: gt_payload_attr_def prev_randao_def B256_from_hash256_def B256_zero_def)

lemma invalid_builder_passes:
  assumes "test_environment X rd"
    and "transport_documented X decode encode encode_msg decode_reply broken unary eb connect"
  shows "invalid_builder X rd connect recorder = Some (Ok ())"
  unfolding invalid_builder_def
proof (rule with_server_runs [OF assms refl])
  fix client
  assume client: "reaches X broken client"
  let ?w = "test_storage rd recorder []"
  note env = test_environmentD [OF assms(1)]
  from gt_bid_trace_Ok [OF assms(1)] obtain bid where bid: "gt_bid_trace X rd 0 ''1000'' = Ok bid" by blast
  have "test_execution_payload_none X rd client ?w = (?w, Ok ())"
    by (simp add: test_execution_payload_none_def bid Let_def refused [OF client] submit_block_checks_def)
  moreover have "test_bid_none X rd client ?w = (?w, Ok ())"
    by (simp add: test_bid_none_def Let_def refused [OF client] submit_block_checks_def)
  moreover have "test_invalid_builder X rd client ?w = (?w, Ok ())"
    using env(7)
    by (simp add: test_invalid_builder_def bid Let_def refused [OF client] drawn_key_random [OF assms(1)]
        checks_refused [OF assms(1) bid [unfolded thousand] _ drawn_keys(3) [OF assms(1)]]
        validation U256_is_zero_def B256_random_def)
  ultimately show "snd (step_bind (test_execution_payload_none X rd client) (\<lambda>_.
       step_bind (test_bid_none X rd client) (\<lambda>_. test_invalid_builder X rd client)) ?w) = Ok ()"
    by (simp add: step_Ok)
qed

text \<open>A request for slot 11 that passes everything but the signature.\<close>

definition ready :: "InMemoryStorageInner \<Rightarrow> BlsPublicKey \<Rightarrow> Validator \<Rightarrow> bool" where
  "ready s builder duty \<longleftrightarrow>
     im_slot s = HeadSlot 10 \<and> builder \<in> set (im_wlist_builders s) \<and>
     (\<exists>recipient. im_payload_attributes s = gt_payload_attr 11 recipient) \<and>
     List.find (\<lambda>d. val_slot d = 11) (im_proposer_duties s) = Some duty"

lemma checks_ready:
  assumes "test_environment X rd" and "gt_bid_trace X rd 11 (nat_to_string v) = Ok bid"
    and "0 < v" and "v < 2 ^ 256"
    and "BlsPublicKey_from_vec X (pk_serialize builder) = (Ok builder :: (BlsPublicKey, ConversionError) res)"
    and "BlsSignature_from_vec X sig = (Ok s' :: (BlsSignature, Status) res)"
    and "ready s builder duty"
  shows "\<exists>p. submit_block_checks X test_service s
     \<lparr>req_bid_trace = Some (bid\<lparr>gbt_builder_pubkey := pk_serialize builder\<rparr>),
      req_execution_payload = Some (gt_execution_payload rd i B256_zero), req_signature = sig,
      req_blobs_bundle = Some gt_blobs_bundle\<rparr> =
    (if \<not> grpc_is_bid_higher test_service s (test_trace X rd 11 v builder)
     then Ok (Replied \<lparr>resp_code = 400, resp_message = ''Bid below best.''\<rparr>)
     else if \<not> BidTrace_verify_signature X (test_trace X rd 11 v builder) s' (compute_builder_domain X default_forks)
     then Err (InvalidArgument ''Invalid signature'')
     else Ok (Accepted (test_trace X rd 11 v builder) p BlobsBundle_default s' (duty_pubkey duty)))"
proof -
  from payload_converts [OF assms(1) B256_zero_length] obtain p where
    p: "ExecutionPayload_try_from X (gt_execution_payload rd i B256_zero) = Ok p" "ep_prev_randao p = B256_zero"
    by blast
  have "(of_nat v :: u256) \<noteq> 0"
  proof
    assume "(of_nat v :: u256) = 0"
    then have "2 ^ 256 dvd v" by (simp add: word_of_nat_eq_0_iff)
    with assms(3,4) show False by (simp add: dvd_imp_le leD)
  qed
  then show ?thesis
    using p assms(7)
    by (auto simp: submit_block_checks_def bid_converts [OF assms(1,2,4,5)] validation U256_is_zero_def
        ready_def is_next_slot_def validate_bid_def assms(6) blobs_convert [OF assms(1)]
        verify_signature_def)
qed

section \<open>The tests pass\<close>

lemma slot_validation_passes:
  assumes "test_environment X rd"
    and "transport_documented X decode encode encode_msg decode_reply broken unary eb connect"
  shows "slot_validation X rd connect recorder = Some (Ok ())"
  unfolding slot_validation_def
proof (rule with_server_runs [OF assms refl])
  fix client
  assume client: "reaches X broken client"
  note env = test_environmentD [OF assms(1)]
  from gt_bid_trace_Ok [OF assms(1)] obtain bid where bid: "gt_bid_trace X rd 10 ''1000'' = Ok bid" by blast
  show "snd (test_invalid_slot X rd client (test_storage rd recorder [BlsPublicKey_default X])) = Ok ()"
    using env(7)
    by (simp add: test_invalid_slot_def bid Let_def refused [OF client]
        checks_refused [OF assms(1) bid [unfolded thousand] _ default_key [OF env(1)]]
        validation U256_is_zero_def B256_random_def is_next_slot_def)
qed

lemma invalid_attributes_step:
  assumes "test_environment X rd" and "reaches X broken client"
    and "im_slot (w_store w) = HeadSlot 10" and "im_wlist_builders (w_store w) = [BlsPublicKey_default X]"
    and "im_best_bid_per_slot (w_store w) = Mapping.empty"
    and "validate_bid (im_payload_attributes (w_store w)) 11 (B256 (rd_b256 rd 0)) = Err e"
  shows "test_invalid_attributes X rd client (ValidationErrors_to_string e) w = (w, Ok ())"
proof -
  note env = test_environmentD [OF assms(1)]
  from gt_bid_trace_Ok [OF assms(1)] obtain bid where bid: "gt_bid_trace X rd 11 ''1000'' = Ok bid" by blast
  show ?thesis
    using env(7) assms(3-6)
    by (simp add: test_invalid_attributes_def bid Let_def refused [OF assms(2)]
        checks_refused [OF assms(1) bid [unfolded thousand] _ default_key [OF env(1)]]
        validation U256_is_zero_def B256_random_def is_next_slot_def)
qed

lemma attributes_validation_passes:
  assumes "test_environment X rd"
    and "transport_documented X decode encode encode_msg decode_reply broken unary eb connect"
  shows "attributes_validation X rd connect recorder = Some (Ok ())"
  unfolding attributes_validation_def
proof (rule with_server_runs [OF assms refl])
  fix client
  assume client: "reaches X broken client"
  let ?w = "test_storage rd recorder [BlsPublicKey_default X]"
  have zero: "B256_zero \<noteq> B256 (rd_b256 rd 0)"
    using test_environmentD(7) [OF assms(1)] by (auto simp: B256_zero_def dest: sym)
  have slot: "validate_bid (gt_payload_attr 0 recipient) 11 h = Err InvalidAttrSlot" for recipient h
    by (simp add: validate_bid_def)
  have randao: "validate_bid (gt_payload_attr 11 recipient) 11 (B256 (rd_b256 rd 0)) = Err InvalidPrevRandao"
    for recipient using zero by (simp add: validate_bid_def)
  note step = invalid_attributes_step [OF assms(1) client]
  show "snd (step_bind (test_invalid_attributes X rd client ''Payload attributes: Invalid slot.'') (\<lambda>_.
       step_bind (change (set_payload_attributes in_memory_storage
         (gt_payload_attr 11 (Address_random (rd_address rd 6))))) (\<lambda>_.
       step_bind (test_invalid_attributes X rd client ''Payload attributes: Invalid prev_randao.'') (\<lambda>_.
       step_bind (change (set_payload_attributes in_memory_storage
         (gt_payload_attr 11 Address_zero))) (\<lambda>_.
         test_invalid_attributes X rd client ''Payload attributes: Invalid prev_randao.'')))) ?w) = Ok ()"
    using step [where e = InvalidAttrSlot] step [where e = InvalidPrevRandao]
    by (simp add: step_Ok slot randao)
qed

text \<open>The signature of the fixture is not one of the bids that the tests send with it.\<close>

definition fixture_unverified :: "externs \<Rightarrow> Randomness \<Rightarrow> bool" where
  "fixture_unverified X rd \<longleftrightarrow>
     (\<forall>builder \<in> {BlsPublicKey_default X, drawn_key X rd 0}.
        \<not> BidTrace_verify_signature X (test_trace X rd 11 1000 builder)
            \<lparr>sig_point = Some test_signature_bytes, sig_is_infinity = False\<rparr>
            (compute_builder_domain X default_forks))"

lemma test_signature_vec:
  assumes "test_environment X rd"
  shows "BlsSignature_from_vec X (BlsSignature_to_vec
      \<lparr>sig_point = Some test_signature_bytes, sig_is_infinity = False\<rparr>)
    = Ok \<lparr>sig_point = Some test_signature_bytes, sig_is_infinity = False\<rparr>"
  using test_environmentD(8) [OF assms]
  by (simp add: BlsSignature_to_vec_def BlsSignature_serialize_def BlsSignature_from_vec_def
      BlsSignature_from_point_def)

lemma gt_proposer_duties_Ok:
  assumes "test_environment X rd"
  shows "\<exists>duty. gt_proposer_duties X rd i slot recipient = Ok [duty] \<and> val_slot duty = slot"
  by (simp add: gt_proposer_duties_def gt_validator_registration_def test_signature_Ok(1) [OF assms]
      drawn_key_random(1) [OF assms])

lemma higher_than_none [simp]:
  "im_best_bid_per_slot s = Mapping.empty \<Longrightarrow> grpc_is_bid_higher test_service s bid"
  by (simp add: grpc_is_bid_higher_def ims_reader_defs)

lemma duties_validation_passes:
  assumes "test_environment X rd"
    and "transport_documented X decode encode encode_msg decode_reply broken unary eb connect"
    and "fixture_unverified X rd"
  shows "duties_validation X rd connect recorder = Some (Ok ())"
  unfolding duties_validation_def
proof (rule with_server_runs [OF assms(1,2) refl])
  fix client
  assume client: "reaches X broken client"
  note env = test_environmentD [OF assms(1)]
  let ?w = "ims_set_payload_attributes (gt_payload_attr 11 Address_zero)
    (test_storage rd recorder [BlsPublicKey_default X])"
  from gt_bid_trace_Ok [OF assms(1)] obtain bid where bid: "gt_bid_trace X rd 11 ''1000'' = Ok bid" by blast
  from gt_proposer_duties_Ok [OF assms(1)] obtain duty where
    duty: "gt_proposer_duties X rd 3 11 (Address_random (rd_address rd 7)) = Ok [duty]" "val_slot duty = 11"
    by blast
  have none: "test_invalid_duties X rd client ''No duty found.'' ?w = (?w, Ok ())"
    using env(7)
    by (simp add: test_invalid_duties_def bid test_signature_Ok(1) [OF assms(1)] Let_def refused [OF client]
        checks_refused [OF assms(1) bid [unfolded thousand] _ default_key [OF env(1)]]
        validation U256_is_zero_def is_next_slot_def validate_bid_def)
  have "ready (w_store (ims_set_proposer_duties [duty] ?w)) (BlsPublicKey_default X) duty"
    using duty(2) by (auto simp: ready_def)
  from checks_ready [OF assms(1) bid [unfolded thousand] _ _ default_key [OF env(1)]
      test_signature_vec [OF assms(1)] this, of 1]
  have "test_invalid_duties X rd client ''Invalid signature'' (ims_set_proposer_duties [duty] ?w)
      = (ims_set_proposer_duties [duty] ?w, Ok ())"
    using assms(3)
    by (simp add: test_invalid_duties_def bid test_signature_Ok(1) [OF assms(1)] Let_def refused [OF client]
        fixture_unverified_def)
  with none duty(1) show "snd (step_bind (change (set_payload_attributes in_memory_storage
         (gt_payload_attr 11 Address_zero))) (\<lambda>_.
       step_bind (test_invalid_duties X rd client ''No duty found.'') (\<lambda>_.
       step_bind (give (gt_proposer_duties X rd 3 11 (Address_random (rd_address rd 7)))) (\<lambda>duties.
       step_bind (change (set_proposer_duties in_memory_storage duties)) (\<lambda>_.
         test_invalid_duties X rd client ''Invalid signature'')))) (test_storage rd recorder [BlsPublicKey_default X])) = Ok ()"
    by (simp add: step_Ok)
qed

end
