(* ===== verification/Grpc_Test_Runs.thy ===== *)
theory Grpc_Test_Runs
  imports Grpc_Tests
begin

text \<open>
  The tests of the gRPC server that submit signed bids: one bid, and a thousand of them in any order, of
  which the highest is the best in the end.
\<close>

section \<open>Signed bids\<close>

lemma gt_signer_Ok:
  assumes "test_environment X rd"
  shows "gt_signer X rd i = Ok ((drawn_signer X rd i, drawn_key X rd i), [drawn_key X rd i])"
proof -
  have "BlsSigner_public_key X (drawn_signer X rd i) = drawn_key X rd i"
    by (simp add: BlsSigner_public_key_def drawn_signer_def drawn_key_def)
  then show ?thesis
    by (simp add: gt_signer_def BlsSigner_default_Ok [OF assms] drawn_keys(4) [OF assms])
qed

text \<open>The signature of the bid with a value.\<close>

definition trace_signature :: "externs \<Rightarrow> Randomness \<Rightarrow> nat \<Rightarrow> nat \<Rightarrow> BlsSignature" where
  "trace_signature X rd i v =
     BlsSigner_sign X (drawn_signer X rd i)
       (BidTrace_tree_hash_root X (test_trace X rd 11 v (drawn_key X rd i)))"

lemma signed_request_Ok:
  assumes "test_environment X rd" and "v < 2 ^ 256"
  shows "\<exists>bid. gt_bid_trace X rd 11 (nat_to_string v) = Ok bid \<and>
    signed_request X rd j (drawn_signer X rd i) (drawn_key X rd i) (nat_to_string v) =
      Ok (\<lparr>req_bid_trace = Some (bid\<lparr>gbt_builder_pubkey := pk_serialize (drawn_key X rd i)\<rparr>),
           req_execution_payload = Some (gt_execution_payload rd j B256_zero),
           req_signature = BlsSignature_to_vec (trace_signature X rd i v),
           req_blobs_bundle = Some gt_blobs_bundle\<rparr>, test_trace X rd 11 v (drawn_key X rd i))"
proof -
  from gt_bid_trace_Ok [OF assms(1)] obtain bid where
    bid: "gt_bid_trace X rd 11 (nat_to_string v) = Ok bid" by blast
  from signer_reads(1) [OF assms(1)] obtain s' where
    "BlsSignature_of_str X (BlsSignature_to_string X (trace_signature X rd i v)) = Ok s'"
    "BlsSignature_to_vec s' = BlsSignature_to_vec (trace_signature X rd i v)"
    unfolding trace_signature_def by blast
  then show ?thesis
    using bid bid_converts [OF assms(1) bid assms(2) drawn_keys(3) [OF assms(1)]]
    by (simp add: signed_request_def Let_def trace_signature_def)
qed

text \<open>What the service makes of it: the value is compared with the best one.\<close>

definition best_value :: "externs \<Rightarrow> Randomness \<Rightarrow> InMemoryStorageInner \<Rightarrow> U256 option" where
  "best_value X rd s = map_option bid_value (ims_read_best_bid s 11 B256_zero (drawn_key X rd 0))"

lemma submit_signed:
  assumes "test_environment X rd" and "0 < v" and "v < 2 ^ 256" and "ready (w_store w) (drawn_key X rd i) duty"
  shows "\<exists>request w' reply.
    signed_request X rd j (drawn_signer X rd i) (drawn_key X rd i) (nat_to_string v)
      = Ok (request, test_trace X rd 11 v (drawn_key X rd i)) \<and>
    submit_block X test_service request w = (w', Ok reply) \<and>
    ready (w_store w') (drawn_key X rd i) duty \<and>
    best_value X rd (w_store w') =
      (case best_value X rd (w_store w) of
         None \<Rightarrow> Some (U256 (of_nat v))
       | Some best \<Rightarrow> Some (if best < U256 (of_nat v) then U256 (of_nat v) else best))"
proof -
  let ?t = "test_trace X rd 11 v (drawn_key X rd i)"
  from signed_request_Ok [OF assms(1,3)] obtain bid request where
    bid: "gt_bid_trace X rd 11 (nat_to_string v) = Ok bid" and
    req: "signed_request X rd j (drawn_signer X rd i) (drawn_key X rd i) (nat_to_string v) = Ok (request, ?t)"
      "request = \<lparr>req_bid_trace = Some (bid\<lparr>gbt_builder_pubkey := pk_serialize (drawn_key X rd i)\<rparr>),
           req_execution_payload = Some (gt_execution_payload rd j B256_zero),
           req_signature = BlsSignature_to_vec (trace_signature X rd i v),
           req_blobs_bundle = Some gt_blobs_bundle\<rparr>" by blast
  have sig: "BlsSignature_from_vec X (BlsSignature_to_vec (trace_signature X rd i v))
      = Ok (trace_signature X rd i v)"
    unfolding trace_signature_def by (rule signer_reads(2) [OF assms(1)])
  have "BidTrace_verify_signature X ?t (trace_signature X rd i v) (compute_builder_domain X default_forks)"
    using signer_signs(1) [OF assms(1)] by (simp add: BidTrace_verify_signature_def trace_signature_def)
  then have "\<exists>p. submit_block_checks X test_service (w_store w) request =
      (if \<not> grpc_is_bid_higher test_service (w_store w) ?t
       then Ok (Replied \<lparr>resp_code = 400, resp_message = ''Bid below best.''\<rparr>)
       else Ok (Accepted ?t p BlobsBundle_default (trace_signature X rd i v) (duty_pubkey duty)))"
    using checks_ready [OF assms(1) bid assms(2,3) drawn_keys(3) [OF assms(1)] sig assms(4), of j]
    unfolding req(2) by (auto split: if_splits)
  then obtain p where p: "submit_block_checks X test_service (w_store w) request =
      (if \<not> grpc_is_bid_higher test_service (w_store w) ?t
       then Ok (Replied \<lparr>resp_code = 400, resp_message = ''Bid below best.''\<rparr>)
       else Ok (Accepted ?t p BlobsBundle_default (trace_signature X rd i v) (duty_pubkey duty)))" by blast
  have higher: "grpc_is_bid_higher test_service (w_store w) ?t \<longleftrightarrow>
      (case best_value X rd (w_store w) of None \<Rightarrow> True | Some best \<Rightarrow> best < U256 (of_nat v))"
    by (simp add: grpc_is_bid_higher_def best_value_def BidTrace_gt_iff ims_reader_defs split: option.split)
  show ?thesis
  proof (cases "grpc_is_bid_higher test_service (w_store w) ?t")
    case True
    let ?w = "update_best test_service ?t p BlobsBundle_default (trace_signature X rd i v) (duty_pubkey duty) w"
    have "submit_block X test_service request w = (?w, Ok \<lparr>resp_code = 200, resp_message = ''Success''\<rparr>)"
      using True p by (simp add: submit_block_def)
    moreover have "ready (w_store ?w) (drawn_key X rd i) duty"
      using assms(4) by (simp add: ready_def update_best_def Let_def ims_setter_defs)
    moreover have "best_value X rd (w_store ?w) = Some (U256 (of_nat v))"
      by (simp add: best_value_def update_best_def Let_def ims_setter_defs ims_reader_defs)
    ultimately show ?thesis using True req(1) by (auto simp: higher split: option.splits)
  next
    case False
    then have "submit_block X test_service request w = (w, Ok \<lparr>resp_code = 400, resp_message = ''Bid below best.''\<rparr>)"
      using p by (simp add: submit_block_def)
    with False show ?thesis using req(1) assms(4) by (auto simp: higher split: option.splits)
  qed
qed

section \<open>One bid\<close>

lemma invalid_signature_passes:
  assumes "test_environment X rd"
    and "transport_documented X decode encode encode_msg decode_reply broken unary eb connect"
    and "fixture_unverified X rd"
  shows "invalid_signature X rd connect recorder = Some (Ok ())"
  unfolding invalid_signature_def
proof (rule with_server_runs [OF assms(1,2)])
  show "res_bind (test_bls_pubkey X rd) (\<lambda>builder. Ok (builder, [builder]))
      = Ok (drawn_key X rd 0, [drawn_key X rd 0])"
    by (simp add: drawn_key_random [OF assms(1)])
  fix client
  assume client: "reaches X broken client"
  let ?k = "drawn_key X rd 0"
  from gt_bid_trace_Ok [OF assms(1)] obtain bid where bid: "gt_bid_trace X rd 11 ''1000'' = Ok bid" by blast
  from gt_proposer_duties_Ok [OF assms(1)] obtain duty where
    duty: "gt_proposer_duties X rd 4 11 Address_zero = Ok [duty]" "val_slot duty = 11" by blast
  let ?w = "ims_set_proposer_duties [duty] (ims_set_payload_attributes (gt_payload_attr 11 Address_zero)
    (test_storage rd recorder [?k]))"
  have "ready (w_store ?w) ?k duty" using duty(2) by (auto simp: ready_def)
  from checks_ready [OF assms(1) bid [unfolded thousand] _ _ drawn_keys(3) [OF assms(1)]
      test_signature_vec [OF assms(1)] this, of 8] assms(3)
  have "submit_block_checks X test_service (w_store ?w)
      \<lparr>req_bid_trace = Some (bid\<lparr>gbt_builder_pubkey := pk_serialize ?k\<rparr>),
       req_execution_payload = Some (gt_execution_payload rd 8 B256_zero),
       req_signature = BlsSignature_to_vec \<lparr>sig_point = Some test_signature_bytes, sig_is_infinity = False\<rparr>,
       req_blobs_bundle = Some gt_blobs_bundle\<rparr> = Err (InvalidArgument ''Invalid signature'')"
    by (simp add: fixture_unverified_def)
  note refuses = refused [OF client this]
  show "snd (step_bind (give (test_signature X)) (\<lambda>signature.
       step_bind (give (gt_bid_trace X rd 11 ''1000'')) (\<lambda>bid.
       let bid = bid\<lparr>gbt_builder_pubkey := pk_serialize ?k\<rparr>;
           request = \<lparr>req_bid_trace = Some bid,
                      req_execution_payload = Some (gt_execution_payload rd 8 B256_zero),
                      req_signature = BlsSignature_to_vec signature,
                      req_blobs_bundle = Some gt_blobs_bundle\<rparr> in
       step_bind (change (set_payload_attributes in_memory_storage
         (gt_payload_attr 11 Address_zero))) (\<lambda>_.
       step_bind (give (gt_proposer_duties X rd 4 11 Address_zero)) (\<lambda>valid_duty.
       step_bind (change (set_proposer_duties in_memory_storage valid_duty)) (\<lambda>_.
         expect_refused client request ''Expected an error for the test case'' ''Invalid signature'')))))
       (test_storage rd recorder [?k])) = Ok ()"
    using refuses by (simp add: bid duty(1) test_signature_Ok(1) [OF assms(1)] Let_def)
qed

lemma valid_submission_passes:
  assumes "test_environment X rd"
    and "transport_documented X decode encode encode_msg decode_reply broken unary eb connect"
  shows "valid_submission X rd connect recorder = Some (Ok ())"
  unfolding valid_submission_def
proof (rule with_server_runs [OF assms gt_signer_Ok [OF assms(1)]], unfold prod.case)
  fix client
  assume client: "reaches X broken client"
  let ?k = "drawn_key X rd 5"
  from gt_proposer_duties_Ok [OF assms(1)] obtain duty where
    duty: "gt_proposer_duties X rd 6 11 Address_zero = Ok [duty]" "val_slot duty = 11" by blast
  let ?w = "ims_set_proposer_duties [duty] (ims_set_payload_attributes (gt_payload_attr 11 Address_zero)
    (test_storage rd recorder [?k]))"
  have "ready (w_store ?w) ?k duty" using duty(2) by (auto simp: ready_def)
  from submit_signed [OF assms(1) _ _ this, of 1000 9] obtain request w' reply where
    req: "signed_request X rd 9 (drawn_signer X rd 5) ?k ''1000'' = Ok (request, test_trace X rd 11 1000 ?k)" and
    sub: "submit_block X test_service request ?w = (w', Ok reply)"
      "best_value X rd (w_store w') = (case best_value X rd (w_store ?w) of
         None \<Rightarrow> Some (U256 (of_nat 1000))
       | Some best \<Rightarrow> Some (if best < U256 (of_nat 1000) then U256 (of_nat 1000) else best))"
    unfolding thousand by auto
  have "best_value X rd (w_store ?w) = None" by (simp add: best_value_def ims_reader_defs)
  with sub(2) obtain b where b: "ims_read_best_bid (w_store w') 11 B256_zero (drawn_key X rd 0) = Some b"
    "bid_value b = U256_from_u64 1000"
    by (auto simp: best_value_def U256_from_u64_def)
  show "snd (step_bind (give (signed_request X rd 9 (drawn_signer X rd 5) ?k ''1000'')) (\<lambda>(request, signable_bid).
       step_bind (change (set_payload_attributes in_memory_storage
         (gt_payload_attr 11 Address_zero))) (\<lambda>_.
       step_bind (give (gt_proposer_duties X rd 6 11 Address_zero)) (\<lambda>valid_duty.
       step_bind (change (set_proposer_duties in_memory_storage valid_duty)) (\<lambda>_.
       step_bind (invoke (MevRelayClient_submit_block client request)) (\<lambda>response.
       step_bind (give (unwrap response)) (\<lambda>_.
       step_bind (look (\<lambda>s. read_best_bid in_memory_storage s 11 (bt_parent_hash signable_bid)
         (bt_proposer_pubkey signable_bid))) (\<lambda>found.
       step_bind (give (unwrap_none found)) (\<lambda>best_bid.
         assert_eq ''assertion failed'' (bt_value (bid_trace best_bid)) (U256_from_u64 1000)))))))))
       (test_storage rd recorder [?k])) = Ok ()"
    by (simp add: req duty(1) invoke_client [OF client sub(1)] b)
qed

section \<open>A thousand bids\<close>

definition task_value :: "nat \<Rightarrow> nat" where "task_value i = 1000 + i * 100"

fun raise :: "nat option \<Rightarrow> nat list \<Rightarrow> nat option" where
  "raise best [] = best"
| "raise best (i # is) = raise (Some (case best of None \<Rightarrow> task_value i | Some b \<Rightarrow> max b (task_value i))) is"

lemma raise_Max:
  "raise (Some b) is = Some (Max (insert b (task_value ` set is)))"
proof (induction "is" arbitrary: b)
  case (Cons i "is")
  then show ?case by (cases "is = []") (simp_all add: max.assoc)
qed simp

lemma raise_all:
  assumes "set order = {..<n}" and "0 < n"
  shows "raise None order = Some (task_value (n - 1))"
proof (cases order)
  case (Cons i "is")
  have "Max (task_value ` {..<n}) = task_value (n - 1)"
    using assms(2) by (intro Max_eqI) (auto simp: task_value_def)
  moreover have "task_value ` {..<n} = insert (task_value i) (task_value ` set is)"
    using assms(1) Cons by auto
  ultimately show ?thesis using Cons by (simp add: raise_Max)
qed (use assms in auto)

lemma run_submissions:
  assumes "test_environment X rd" and "reaches X broken client"
    and "ready (w_store w) (drawn_key X rd i) duty"
    and "best_value X rd (w_store w) = map_option (\<lambda>n. U256 (of_nat n)) best"
    and "\<forall>b. best = Some b \<longrightarrow> b < 2 ^ 256" and "\<forall>j\<in>set order. task_value j < 2 ^ 256"
  shows "\<exists>w'. run_tasks (map (submission_task X rd (drawn_signer X rd i) (drawn_key X rd i) client) order) w
      = (w', map (\<lambda>_. Ok ()) order) \<and>
    best_value X rd (w_store w') = map_option (\<lambda>n. U256 (of_nat n)) (raise best order)"
  using assms(3-)
proof (induction order arbitrary: w best)
  case (Cons j order)
  have v: "0 < task_value j" "task_value j < 2 ^ 256" using Cons.prems(4) by (simp_all add: task_value_def)
  from submit_signed [OF assms(1) v Cons.prems(1), of "10 + j"] obtain request w1 reply where
    req: "signed_request X rd (10 + j) (drawn_signer X rd i) (drawn_key X rd i) (nat_to_string (task_value j))
      = Ok (request, test_trace X rd 11 (task_value j) (drawn_key X rd i))" and
    sub: "submit_block X test_service request w = (w1, Ok reply)" "ready (w_store w1) (drawn_key X rd i) duty"
      "best_value X rd (w_store w1) = (case best_value X rd (w_store w) of
         None \<Rightarrow> Some (U256 (of_nat (task_value j)))
       | Some best \<Rightarrow> Some (if best < U256 (of_nat (task_value j)) then U256 (of_nat (task_value j)) else best))"
    by blast
  have task: "submission_task X rd (drawn_signer X rd i) (drawn_key X rd i) client j w = (w1, Ok ())"
    using req by (simp add: submission_task_def task_value_def Let_def invoke_client [OF assms(2) sub(1)])
  let ?best = "Some (case best of None \<Rightarrow> task_value j | Some b \<Rightarrow> max b (task_value j))"
  have "best_value X rd (w_store w1) = map_option (\<lambda>n. U256 (of_nat n)) ?best"
    using sub(3) Cons.prems(2,3) v(2)
    by (auto simp: less_U256_def word_less_nat_alt unat_of_nat take_bit_nat_eq_self max_def split: option.splits)
  moreover have "\<forall>b. ?best = Some b \<longrightarrow> b < 2 ^ 256"
    using Cons.prems(3) v(2) by (auto split: option.splits)
  ultimately obtain w' where "run_tasks (map (submission_task X rd (drawn_signer X rd i) (drawn_key X rd i) client) order) w1
      = (w', map (\<lambda>_. Ok ()) order)"
    "best_value X rd (w_store w') = map_option (\<lambda>n. U256 (of_nat n)) (raise ?best order)"
    using Cons.IH [OF sub(2), of ?best] Cons.prems(4) by auto
  then show ?case using task by simp
qed simp

lemma concurrent_submissions_pass:
  assumes "test_environment X rd"
    and "transport_documented X decode encode encode_msg decode_reply broken unary eb connect"
    and "set order = {..<1000}"
  shows "concurrent_submissions X rd connect recorder order = Some (Ok ())"
  unfolding concurrent_submissions_def
proof (rule with_server_runs [OF assms(1,2) gt_signer_Ok [OF assms(1)]], unfold prod.case)
  fix client
  assume client: "reaches X broken client"
  note env = test_environmentD [OF assms(1)]
  let ?k = "drawn_key X rd 7"
  let ?tasks = "map (submission_task X rd (drawn_signer X rd 7) ?k client) order"
  from gt_proposer_duties_Ok [OF assms(1)] obtain duty where
    duty: "gt_proposer_duties X rd 8 11 Address_zero = Ok [duty]" "val_slot duty = 11" by blast
  let ?w = "ims_set_proposer_duties [duty] (ims_set_payload_attributes (gt_payload_attr 11 Address_zero)
    (test_storage rd recorder [?k]))"
  have ready: "ready (w_store ?w) ?k duty" using duty(2) by (auto simp: ready_def)
  have none: "best_value X rd (w_store ?w) = map_option (\<lambda>n. U256 (of_nat n)) None"
    by (simp add: best_value_def ims_reader_defs)
  have "\<forall>j\<in>set order. task_value j < 2 ^ 256" using assms(3) by (simp add: task_value_def)
  from run_submissions [OF assms(1) client ready none _ this] obtain w' where
    w': "run_tasks ?tasks ?w = (w', map (\<lambda>_. Ok ()) order)"
      "best_value X rd (w_store w') = Some (U256 (of_nat (task_value (1000 - 1))))"
    using raise_all [OF assms(3)] by auto
  have joined: "join_all ?tasks ?w = (w', Ok (map (\<lambda>_. ()) order))"
    using w'(1) by (simp add: join_all_def)
  from w'(2) obtain b where b: "ims_read_best_bid (w_store w') 11 B256_zero (drawn_key X rd 0) = Some b"
    "bid_value b = U256_from_u64 (of_nat (1000 + (1000 - 1) * 100))"
    by (auto simp: best_value_def U256_from_u64_def task_value_def)
  have "b256_from_str X (''0x'' @ hex_encode X (b256_bytes B256_zero)) = Ok (b256_bytes B256_zero)"
    using env(5) B256_zero_length unfolding texts_documented_def by blast
  then have zero: "B256_of_str X (''0x'' @ hex_encode X (b256_bytes B256_zero)) = Ok B256_zero"
    by (simp add: B256_of_str_def)
  show "snd (step_bind (change (set_payload_attributes in_memory_storage
         (gt_payload_attr 11 Address_zero))) (\<lambda>_.
       step_bind (give (gt_proposer_duties X rd 8 11 Address_zero)) (\<lambda>valid_duty.
       step_bind (change (set_proposer_duties in_memory_storage valid_duty)) (\<lambda>_.
       step_bind (join_all ?tasks) (\<lambda>_.
       step_bind (give (unwrap (B256_of_str X (''0x'' @ hex_encode X (b256_bytes B256_zero))))) (\<lambda>p_hash.
       step_bind (give (test_bls_pubkey X rd)) (\<lambda>pubkey.
       step_bind (look (\<lambda>s. read_best_bid in_memory_storage s 11 p_hash pubkey)) (\<lambda>found.
       step_bind (give (unwrap_none found)) (\<lambda>best_bid.
       let amount = of_nat (1000 + (1000 - 1) * 100)
       in assert_eq ''assertion failed'' (bt_value (bid_trace best_bid)) (U256_from_u64 amount)))))))))
       (test_storage rd recorder [?k])) = Ok ()"
    unfolding zero using b duty(1)
    by (simp add: step_Ok [where m = "join_all ?tasks", OF joined] drawn_key_random(2) [OF assms(1)] Let_def)
qed

section \<open>Properties\<close>


end
