(* ===== verification/Json_Types.thy ===== *)
theory Json_Types
  imports Http_Routing Codec_Laws
begin

text \<open>
  The JSON of the API: what \<open>derive(Serialize, Deserialize)\<close> makes of the types of \<open>crates/primitives\<close>
  with their \<open>serde\<close> attributes. A struct is written as an object of its fields in their order; it is
  read from an object without duplicates of them, in which other fields are ignored, or from the array
  of its fields. When several fields are wrong, which of the errors is reported is not modelled.
  The locale \<open>json_codec\<close> has what the JSON of a type promises; the types of the API are instances.
\<close>

section \<open>Objects and fields\<close>

named_theorems json_laws

definition to_object :: "string list \<Rightarrow> Json list \<Rightarrow> Json" where
  "to_object names js = JObject (zip names js)"

fun object_of :: "string list \<Rightarrow> Json \<Rightarrow> ((string \<times> Json) list, DeError) res" where
  "object_of names (JObject fs) =
     (if distinct (filter (\<lambda>n. n \<in> set names) (map fst fs)) then Ok fs
      else Err (DeCustom ''duplicate field''))"
| "object_of names (JSeq js) =
     (if length js = length names then Ok (zip names js) else Err (DeCustom ''invalid length''))"
| "object_of names _ = Err DeInvalidType"

definition field :: "(string \<times> Json) list \<Rightarrow> string \<Rightarrow> (Json \<Rightarrow> ('a, DeError) res) \<Rightarrow> ('a, DeError) res" where
  "field fs name reader =
     res_bind (ok_or (map_of fs name) (DeCustom (''missing field `'' @ name @ ''`''))) reader"

lemma object_of_object [json_laws]:
  "distinct names \<Longrightarrow> length js = length names \<Longrightarrow> object_of names (to_object names js) = Ok (zip names js)"
  by (simp add: to_object_def)

lemma field_Cons [json_laws]:
  "field ((n, j) # fs) name reader = (if name = n then reader j else field fs name reader)"
  by (simp add: field_def)

section \<open>Values\<close>

text \<open>\<open>DisplayFromStr\<close> of a \<open>u64\<close>, strings, booleans and bytes.\<close>

definition write_u64 :: "u64 \<Rightarrow> Json" where
  "write_u64 v = JString (nat_to_string (unat v))"

definition read_u64 :: "Json \<Rightarrow> (u64, DeError) res" where
  "read_u64 json =
     res_bind (deserialize_str json) (\<lambda>s. ok_or (u64_from_str s) (DeCustom ''invalid digit found in string''))"

fun read_bool :: "Json \<Rightarrow> (bool, DeError) res" where
  "read_bool (JBool b) = Ok b"
| "read_bool _ = Err DeInvalidType"

fun read_u8 :: "Json \<Rightarrow> (u8, DeError) res" where
  "read_u8 (JNumber n) = (if n < 256 then Ok (of_nat n) else Err (DeCustom ''invalid value''))"
| "read_u8 _ = Err DeInvalidType"

fun read_seq :: "(Json \<Rightarrow> ('a, DeError) res) \<Rightarrow> Json \<Rightarrow> ('a list, DeError) res" where
  "read_seq reader (JSeq js) = res_mapM reader js"
| "read_seq reader _ = Err DeInvalidType"

definition write_seq :: "('a \<Rightarrow> Json) \<Rightarrow> 'a list \<Rightarrow> Json" where
  "write_seq writer vs = JSeq (map writer vs)"

text \<open>
  The containers of \<open>ssz_types\<close> are written and read as sequences, also of bytes, such as a blob; the
  attributes \<open>hex_var_list\<close>, \<open>list_of_hex_var_list\<close> and \<open>hex_fixed_vec\<close> make hexadecimal digits of bytes.
\<close>

definition read_variable_list ::
    "externs \<Rightarrow> nat \<Rightarrow> (Json \<Rightarrow> ('a, DeError) res) \<Rightarrow> Json \<Rightarrow> ('a list, DeError) res" where
  "read_variable_list X n reader json =
     res_bind (read_seq reader json) (\<lambda>vs.
       if variable_list_serde_ok X n (length vs) then Ok vs
       else Err (DeCustom (ssz_error_debug X n (length vs))))"

definition read_fixed_vector ::
    "externs \<Rightarrow> nat \<Rightarrow> (Json \<Rightarrow> ('a, DeError) res) \<Rightarrow> Json \<Rightarrow> ('a list, DeError) res" where
  "read_fixed_vector X n reader json =
     res_bind (read_seq reader json) (\<lambda>vs.
       if fixed_vector_serde_ok X n (length vs) then Ok vs
       else Err (DeCustom (ssz_error_debug X n (length vs))))"

definition write_u8s :: "bytes \<Rightarrow> Json" where
  "write_u8s bs = write_seq (\<lambda>b. JNumber (unat b)) bs"

definition write_hex :: "externs \<Rightarrow> bytes \<Rightarrow> Json" where
  "write_hex X bs = JString (''0x'' @ hex_encode X bs)"

definition read_hex :: "externs \<Rightarrow> Json \<Rightarrow> (bytes, DeError) res" where
  "read_hex X json = res_bind (deserialize_str json) (\<lambda>s. res_map_err DeCustom (serde_hex_decode X s))"

definition read_hex_list :: "externs \<Rightarrow> nat \<Rightarrow> Json \<Rightarrow> (bytes, DeError) res" where
  "read_hex_list X n json =
     res_bind (read_hex X json) (\<lambda>bs.
       if variable_list_new_ok X n (length bs) then Ok bs
       else Err (DeCustom (ssz_error_debug X n (length bs))))"

definition read_hex_fixed :: "externs \<Rightarrow> nat \<Rightarrow> Json \<Rightarrow> (bytes, DeError) res" where
  "read_hex_fixed X n json =
     res_bind (read_hex X json) (\<lambda>bs.
       if fixed_vector_new_ok X n (length bs) then Ok bs
       else Err (DeCustom (ssz_error_debug X n (length bs))))"

text \<open>The newtypes derive the JSON of the value inside.\<close>

definition read_bytes :: "externs \<Rightarrow> nat \<Rightarrow> Json \<Rightarrow> (bytes, DeError) res" where
  "read_bytes X n json = res_map_err DeCustom (fixed_bytes_from_serde X n json)"

definition B256_serialize :: "externs \<Rightarrow> B256 \<Rightarrow> Json" where
  "B256_serialize X h = fixed_bytes_to_serde X (b256_bytes h)"

definition B256_deserialize :: "externs \<Rightarrow> Json \<Rightarrow> (B256, DeError) res" where
  "B256_deserialize X json = res_bind (read_bytes X 32 json) (\<lambda>bs. Ok (B256 bs))"

definition Address_serialize :: "externs \<Rightarrow> Address \<Rightarrow> Json" where
  "Address_serialize X a = fixed_bytes_to_serde X (address_bytes a)"

definition Address_deserialize :: "externs \<Rightarrow> Json \<Rightarrow> (Address, DeError) res" where
  "Address_deserialize X json = res_bind (read_bytes X 20 json) (\<lambda>bs. Ok (Address bs))"

definition Bytes48_serialize :: "externs \<Rightarrow> Bytes48 \<Rightarrow> Json" where
  "Bytes48_serialize X b = fixed_bytes_to_serde X (bytes48_bytes b)"

definition Bytes48_deserialize :: "externs \<Rightarrow> Json \<Rightarrow> (Bytes48, DeError) res" where
  "Bytes48_deserialize X json = res_bind (read_bytes X 48 json) (\<lambda>bs. Ok (Bytes48 bs))"

definition U256_serialize :: "externs \<Rightarrow> U256 \<Rightarrow> Json" where
  "U256_serialize X v = u256_to_serde X (u256_val v)"

definition U256_deserialize :: "externs \<Rightarrow> Json \<Rightarrow> (U256, DeError) res" where
  "U256_deserialize X json = res_map_err DeCustom (res_bind (u256_from_serde X json) (\<lambda>v. Ok (U256 v)))"

definition KzgCommitment_json :: "externs \<Rightarrow> KzgCommitment \<Rightarrow> Json" where
  "KzgCommitment_json X c = JString (KzgCommitment_serialize X c)"

definition read_bitlist :: "externs \<Rightarrow> nat \<Rightarrow> Json \<Rightarrow> (bool list, DeError) res" where
  "read_bitlist X n json = res_map_err DeCustom (bitlist_from_serde X n json)"

definition read_bitvector :: "externs \<Rightarrow> nat \<Rightarrow> Json \<Rightarrow> (bool list, DeError) res" where
  "read_bitvector X n json = res_map_err DeCustom (bitvector_from_serde X n json)"

text \<open>\<open>serde(try_from = "String", into = "String")\<close>.\<close>

definition ForkName_serialize :: "ForkName \<Rightarrow> Json" where
  "ForkName_serialize f = JString (ForkName_into f)"

definition ForkName_deserialize :: "Json \<Rightarrow> (ForkName, DeError) res" where
  "ForkName_deserialize json =
     res_bind (deserialize_str json) (\<lambda>s. res_map_err DeCustom (ForkName_try_from s))"

section \<open>What is written is read back\<close>

definition json_env :: "externs \<Rightarrow> bool" where
  "json_env X \<longleftrightarrow> hex_documented X \<and> texts_documented X \<and> serde_documented X \<and> ssz_containers X"

lemma json_envD:
  assumes "json_env X"
  shows "hex_documented X" "texts_documented X" "serde_documented X" "ssz_containers X"
  using assms by (simp_all add: json_env_def)

text \<open>Decimal digits of a \<open>u64\<close>.\<close>

lemma digits_snoc: "digits_value (s @ [c]) = 10 * digits_value s + (of_char c - 48)"
  by (simp add: digits_value_def)

lemma decimal_digit:
  "n < 10 \<Longrightarrow> set [char_of (48 + n)] \<subseteq> set ''0123456789'' \<and> of_char (char_of (48 + n) :: char) = 48 + n"
  for n :: nat
proof -
  have "\<forall>n\<in>set [0..<10::nat]. set [char_of (48 + n)] \<subseteq> set ''0123456789'' \<and>
      of_char (char_of (48 + n) :: char) = 48 + n"
    by code_simp
  then show "n < 10 \<Longrightarrow> ?thesis" by simp
qed

lemma nat_digits:
  "nat_to_string n \<noteq> [] \<and> set (nat_to_string n) \<subseteq> set ''0123456789'' \<and> digits_value (nat_to_string n) = n"
proof (induction n rule: nat_to_string.induct)
  case (1 n)
  show ?case
  proof (cases "n < 10")
    case True
    then show ?thesis
      using decimal_digit [of n] by (simp add: nat_to_string.simps [of n] digits_value_def del: list.set)
  next
    case False
    with 1 show ?thesis
      using decimal_digit [of "n mod 10"]
      by (simp add: nat_to_string.simps [of n] digits_snoc del: list.set)
  qed
qed

lemma u64_text:
  assumes "n < 2 ^ 64"
  shows "u64_from_str (nat_to_string n) = Some (of_nat n)"
proof -
  obtain c cs where s: "nat_to_string n = c # cs" using nat_digits [of n] by (cases "nat_to_string n") auto
  with nat_digits [of n] have "c \<in> set ''0123456789''" by auto
  then have "c \<noteq> CHR ''+''" by auto
  then show ?thesis
    using nat_digits [of n] assms s unfolding u64_from_str_def Let_def by simp
qed

text \<open>The lengths of texts.\<close>

lemma hex_width [simp]: "length (concat (map hex_byte bs)) = 2 * length bs"
  by (induction bs) (simp_all add: hex_byte_def)

lemma decimal_width: "n < 10 ^ k \<Longrightarrow> 0 < k \<Longrightarrow> length (nat_to_string n) \<le> k"
proof (induction n arbitrary: k rule: nat_to_string.induct)
  case (1 n)
  show ?case
  proof (cases "n < 10")
    case False
    then have "k \<noteq> 1" using "1.prems" by auto
    then obtain i where k: "k = Suc i" "0 < i" using "1.prems" by (cases k) auto
    then have "n div 10 < 10 ^ i" using "1.prems" by (simp add: less_mult_imp_div_less)
    with 1 False k show ?thesis by (simp add: nat_to_string.simps [of n])
  qed (use "1.prems" in \<open>simp add: nat_to_string.simps [of n]\<close>)
qed

lemma number_width: "length (nat_to_string (unat v)) \<le> 20" for v :: u64
proof -
  have "unat v < 2 ^ LENGTH(64)" by (rule unsigned_less)
  then show ?thesis by (intro decimal_width) simp_all
qed

lemma u64_json [json_laws]: "read_u64 (write_u64 v) = Ok v"
proof -
  have "unat v < 2 ^ LENGTH(64)" by (rule unsigned_less)
  then show ?thesis by (simp add: read_u64_def write_u64_def u64_text)
qed

lemma seq_json [json_laws]:
  "\<forall>v\<in>set vs. reader (writer v) = Ok v \<Longrightarrow> read_seq reader (write_seq writer vs) = Ok vs"
  by (induction vs) (simp_all add: write_seq_def)

lemma u8s_json [json_laws]: "read_seq read_u8 (write_u8s bs) = Ok bs"
proof -
  have "unat b < 2 ^ LENGTH(8)" for b :: u8 by (rule unsigned_less)
  then show ?thesis unfolding write_u8s_def by (intro seq_json) simp
qed

lemma text_json [json_laws]: "deserialize_str (JString s) = Ok s" "read_bool (JBool b) = Ok b"
  by simp_all

lemma bytes_json [json_laws]:
  assumes "json_env X"
  shows "length bs = n \<Longrightarrow> read_bytes X n (fixed_bytes_to_serde X bs) = Ok bs"
    and "wf_B256 h \<Longrightarrow> B256_deserialize X (B256_serialize X h) = Ok h"
    and "wf_B256 h \<Longrightarrow> impl_serde_deserialize (B256_of_str X) (impl_serde_serialize (B256_to_string X) h) = Ok h"
    and "wf_Address a \<Longrightarrow> Address_deserialize X (Address_serialize X a) = Ok a"
    and "length (bytes48_bytes b) = 48 \<Longrightarrow> Bytes48_deserialize X (Bytes48_serialize X b) = Ok b"
proof -
  note env = json_envD [OF assms]
  show *: "length bs = n \<Longrightarrow> read_bytes X n (fixed_bytes_to_serde X bs) = Ok bs" for bs n
    using env(3) by (auto simp: serde_documented_def read_bytes_def)
  show "wf_B256 h \<Longrightarrow> B256_deserialize X (B256_serialize X h) = Ok h"
    and "wf_Address a \<Longrightarrow> Address_deserialize X (Address_serialize X a) = Ok a"
    and "length (bytes48_bytes b) = 48 \<Longrightarrow> Bytes48_deserialize X (Bytes48_serialize X b) = Ok b"
    by (simp_all add: * wf_B256_def wf_Address_def B256_deserialize_def B256_serialize_def
        Address_deserialize_def Address_serialize_def Bytes48_deserialize_def Bytes48_serialize_def)
  show "wf_B256 h \<Longrightarrow> impl_serde_deserialize (B256_of_str X) (impl_serde_serialize (B256_to_string X) h) = Ok h"
    using env(2) by (intro serde_roundtrip) (simp add: texts_documented_def wf_B256_def B256_of_str_def B256_to_string_def)
qed

lemma u256_json [json_laws]:
  assumes "json_env X"
  shows "U256_deserialize X (U256_serialize X v) = Ok v"
    and "impl_serde_deserialize (U256_of_str X) (impl_serde_serialize (U256_to_string X) v) = Ok v"
  using json_envD(2,3) [OF assms]
  by (simp_all add: serde_documented_def texts_documented_def U256_deserialize_def U256_serialize_def
      impl_serde_deserialize_def impl_serde_serialize_def U256_of_str_def U256_to_string_def)

lemma key_json [json_laws]:
  assumes "json_env X"
  shows "valid_key X k \<Longrightarrow>
      impl_serde_deserialize (BlsPublicKey_of_str X) (impl_serde_serialize (BlsPublicKey_to_string X) k) = Ok k"
    and "valid_signature X s \<Longrightarrow>
      impl_serde_deserialize (BlsSignature_of_str X) (impl_serde_serialize (BlsSignature_to_string X) s) = Ok s"
  using text_roundtrips(1,2) [OF json_envD(1) [OF assms]] by (auto intro: serde_roundtrip)

lemma hex_json [json_laws]:
  assumes "json_env X"
  shows "read_hex X (write_hex X bs) = Ok bs"
    and "length bs \<le> n \<Longrightarrow> read_hex_list X n (write_hex X bs) = Ok bs"
    and "length bs = n \<Longrightarrow> read_hex_fixed X n (write_hex X bs) = Ok bs"
    and "length bs = n \<Longrightarrow> logs_bloom_deserialize X debug n (logs_bloom_serialize X bs) = Ok bs"
    and "length (kzg_bytes c) = 48 \<Longrightarrow> KzgCommitment_deserialize X (KzgCommitment_json X c) = Ok c"
proof -
  note env = json_envD [OF assms]
  have hex: "serde_hex_decode X (''0x'' @ hex_encode X bs) = Ok bs" for bs
    using env(1,2) unfolding hex_documented_def texts_documented_def by metis
  show *: "read_hex X (write_hex X bs) = Ok bs" by (simp add: read_hex_def write_hex_def hex [simplified])
  show "length bs \<le> n \<Longrightarrow> read_hex_list X n (write_hex X bs) = Ok bs"
    and "length bs = n \<Longrightarrow> read_hex_fixed X n (write_hex X bs) = Ok bs"
    using env(4) by (simp_all add: read_hex_list_def read_hex_fixed_def *)
  show "length bs = n \<Longrightarrow> logs_bloom_deserialize X debug n (logs_bloom_serialize X bs) = Ok bs"
    using env(4) by (simp add: logs_bloom_deserialize_def logs_bloom_serialize_def hex [simplified])
  show "length (kzg_bytes c) = 48 \<Longrightarrow> KzgCommitment_deserialize X (KzgCommitment_json X c) = Ok c"
    using env(1) by (simp add: KzgCommitment_deserialize_def KzgCommitment_json_def KzgCommitment_serialize_def
        KzgCommitment_of_str_def hex_documented_def BYTES_PER_COMMITMENT_def)
qed

lemma container_json [json_laws]:
  assumes "json_env X"
  shows "read_seq reader json = Ok vs \<Longrightarrow> length vs \<le> n \<Longrightarrow> read_variable_list X n reader json = Ok vs"
    and "read_seq reader json = Ok vs \<Longrightarrow> length vs = n \<Longrightarrow> read_fixed_vector X n reader json = Ok vs"
    and "length ns \<le> n \<Longrightarrow> quoted_list_deserialize X (read_seq read_u64) debug n (quoted_list_serialize write_u64 ns) = Ok ns"
    and "length bits \<le> n \<Longrightarrow> read_bitlist X n (bitlist_to_serde X n bits) = Ok bits"
    and "length bits = n \<Longrightarrow> read_bitvector X n (bitvector_to_serde X n bits) = Ok bits"
  using json_envD(3,4) [OF assms] seq_json [where reader = read_u64 and writer = write_u64]
  by (auto simp: serde_documented_def read_variable_list_def read_fixed_vector_def read_bitlist_def
      read_bitvector_def quoted_list_deserialize_def quoted_list_serialize_def write_seq_def u64_json)

lemma fork_json [json_laws]: "ForkName_deserialize (ForkName_serialize f) = Ok f"
proof -
  have "ForkName_of_str (ForkName_to_string f) = Ok f"
    by (cases f) (simp_all add: ForkName_of_str_def to_lowercase_def ascii_lower_def Let_def)
  then show ?thesis
    by (simp add: ForkName_deserialize_def ForkName_serialize_def ForkName_try_from_def ForkName_into_def)
qed

section \<open>Payloads\<close>

definition Withdrawal_fields :: "string list" where
  "Withdrawal_fields =
     [''index'', ''validator_index'', ''address'', ''amount'']"

definition Withdrawal_serialize :: "externs \<Rightarrow> Withdrawal \<Rightarrow> Json" where
  "Withdrawal_serialize X v = to_object Withdrawal_fields
     [write_u64 (wd_index v), write_u64 (wd_validator_index v), Address_serialize X (wd_address v),
     write_u64 (wd_amount v)]"

definition Withdrawal_deserialize :: "externs \<Rightarrow> Json \<Rightarrow> (Withdrawal, DeError) res" where
  "Withdrawal_deserialize X json =
     res_bind (object_of Withdrawal_fields json) (\<lambda>fs.
     res_bind (field fs ''index'' read_u64) (\<lambda>index.
     res_bind (field fs ''validator_index'' read_u64) (\<lambda>validator_index.
     res_bind (field fs ''address'' (Address_deserialize X)) (\<lambda>address.
     res_bind (field fs ''amount'' read_u64) (\<lambda>amount.
       Ok \<lparr>wd_index = index, wd_validator_index = validator_index, wd_address = address,
       wd_amount = amount\<rparr>)))))"

definition fits_Withdrawal :: "externs \<Rightarrow> Withdrawal \<Rightarrow> bool" where
  "fits_Withdrawal X v \<longleftrightarrow>
     wf_Address (wd_address v)"

lemma Withdrawal_json [json_laws]:
  "json_env X \<Longrightarrow> fits_Withdrawal X v \<Longrightarrow>
     Withdrawal_deserialize X (Withdrawal_serialize X v) = Ok v"
  by (cases v) (simp add: Withdrawal_serialize_def Withdrawal_deserialize_def
      Withdrawal_fields_def fits_Withdrawal_def list_all_iff json_laws)

definition ExecutionPayload_fields :: "string list" where
  "ExecutionPayload_fields =
     [''parent_hash'', ''fee_recipient'', ''state_root'', ''receipts_root'', ''logs_bloom'',
     ''prev_randao'', ''block_number'', ''gas_limit'', ''gas_used'', ''timestamp'', ''extra_data'',
     ''base_fee_per_gas'', ''block_hash'', ''transactions'', ''withdrawals'', ''blob_gas_used'',
     ''excess_blob_gas'']"

definition ExecutionPayload_serialize :: "externs \<Rightarrow> ExecutionPayload \<Rightarrow> Json" where
  "ExecutionPayload_serialize X v = to_object ExecutionPayload_fields
     [B256_serialize X (ep_parent_hash v), Address_serialize X (ep_fee_recipient v),
     B256_serialize X (ep_state_root v), B256_serialize X (ep_receipts_root v),
     write_hex X (ep_logs_bloom v), B256_serialize X (ep_prev_randao v), write_u64 (ep_block_number v),
     write_u64 (ep_gas_limit v), write_u64 (ep_gas_used v), write_u64 (ep_timestamp v),
     write_hex X (ep_extra_data v), impl_serde_serialize (U256_to_string X) (ep_base_fee_per_gas v),
     B256_serialize X (ep_block_hash v), write_seq (write_hex X) (ep_transactions v),
     write_seq (Withdrawal_serialize X) (ep_withdrawals v), write_u64 (ep_blob_gas_used v),
     write_u64 (ep_excess_blob_gas v)]"

definition ExecutionPayload_deserialize :: "externs \<Rightarrow> Json \<Rightarrow> (ExecutionPayload, DeError) res" where
  "ExecutionPayload_deserialize X json =
     res_bind (object_of ExecutionPayload_fields json) (\<lambda>fs.
     res_bind (field fs ''parent_hash'' (B256_deserialize X)) (\<lambda>parent_hash.
     res_bind (field fs ''fee_recipient'' (Address_deserialize X)) (\<lambda>fee_recipient.
     res_bind (field fs ''state_root'' (B256_deserialize X)) (\<lambda>state_root.
     res_bind (field fs ''receipts_root'' (B256_deserialize X)) (\<lambda>receipts_root.
     res_bind (field fs ''logs_bloom'' (read_hex_fixed X 256)) (\<lambda>logs_bloom.
     res_bind (field fs ''prev_randao'' (B256_deserialize X)) (\<lambda>prev_randao.
     res_bind (field fs ''block_number'' read_u64) (\<lambda>block_number.
     res_bind (field fs ''gas_limit'' read_u64) (\<lambda>gas_limit.
     res_bind (field fs ''gas_used'' read_u64) (\<lambda>gas_used.
     res_bind (field fs ''timestamp'' read_u64) (\<lambda>timestamp.
     res_bind (field fs ''extra_data'' (read_hex_list X 32)) (\<lambda>extra_data.
     res_bind (field fs ''base_fee_per_gas'' (impl_serde_deserialize (U256_of_str X))) (\<lambda>base_fee_per_gas.
     res_bind (field fs ''block_hash'' (B256_deserialize X)) (\<lambda>block_hash.
     res_bind (field fs ''transactions'' (read_variable_list X 1048576 (read_hex_list X 1073741824))) (\<lambda>transactions.
     res_bind (field fs ''withdrawals'' (read_variable_list X 16 (Withdrawal_deserialize X))) (\<lambda>withdrawals.
     res_bind (field fs ''blob_gas_used'' read_u64) (\<lambda>blob_gas_used.
     res_bind (field fs ''excess_blob_gas'' read_u64) (\<lambda>excess_blob_gas.
       Ok \<lparr>ep_parent_hash = parent_hash, ep_fee_recipient = fee_recipient,
       ep_state_root = state_root, ep_receipts_root = receipts_root, ep_logs_bloom = logs_bloom,
       ep_prev_randao = prev_randao, ep_block_number = block_number, ep_gas_limit = gas_limit,
       ep_gas_used = gas_used, ep_timestamp = timestamp, ep_extra_data = extra_data,
       ep_base_fee_per_gas = base_fee_per_gas, ep_block_hash = block_hash,
       ep_transactions = transactions, ep_withdrawals = withdrawals, ep_blob_gas_used = blob_gas_used,
       ep_excess_blob_gas = excess_blob_gas\<rparr>))))))))))))))))))"

definition fits_ExecutionPayload :: "externs \<Rightarrow> ExecutionPayload \<Rightarrow> bool" where
  "fits_ExecutionPayload X v \<longleftrightarrow>
     wf_B256 (ep_parent_hash v) \<and> wf_Address (ep_fee_recipient v) \<and>
     wf_B256 (ep_state_root v) \<and> wf_B256 (ep_receipts_root v) \<and>
     length (ep_logs_bloom v) = 256 \<and> wf_B256 (ep_prev_randao v) \<and>
     length (ep_extra_data v) \<le> 32 \<and> wf_B256 (ep_block_hash v) \<and>
     length (ep_transactions v) \<le> 1048576 \<and> (\<forall>x\<in>set (ep_transactions v). length x \<le> 1073741824) \<and>
     length (ep_withdrawals v) \<le> 16 \<and> list_all (fits_Withdrawal X) (ep_withdrawals v)"

lemma ExecutionPayload_json [json_laws]:
  "json_env X \<Longrightarrow> fits_ExecutionPayload X v \<Longrightarrow>
     ExecutionPayload_deserialize X (ExecutionPayload_serialize X v) = Ok v"
  by (cases v) (simp add: ExecutionPayload_serialize_def ExecutionPayload_deserialize_def
      ExecutionPayload_fields_def fits_ExecutionPayload_def list_all_iff json_laws)

definition ExecutionPayloadHeader_fields :: "string list" where
  "ExecutionPayloadHeader_fields =
     [''parent_hash'', ''fee_recipient'', ''state_root'', ''receipts_root'', ''logs_bloom'',
     ''prev_randao'', ''block_number'', ''gas_limit'', ''gas_used'', ''timestamp'', ''extra_data'',
     ''base_fee_per_gas'', ''block_hash'', ''transactions_root'', ''withdrawals_root'',
     ''blob_gas_used'', ''excess_blob_gas'']"

definition ExecutionPayloadHeader_serialize :: "externs \<Rightarrow> ExecutionPayloadHeader \<Rightarrow> Json" where
  "ExecutionPayloadHeader_serialize X v = to_object ExecutionPayloadHeader_fields
     [B256_serialize X (eph_parent_hash v), Address_serialize X (eph_fee_recipient v),
     B256_serialize X (eph_state_root v), B256_serialize X (eph_receipts_root v),
     logs_bloom_serialize X (eph_logs_bloom v), B256_serialize X (eph_prev_randao v),
     write_u64 (eph_block_number v), write_u64 (eph_gas_limit v), write_u64 (eph_gas_used v),
     write_u64 (eph_timestamp v), write_hex X (eph_extra_data v),
     impl_serde_serialize (U256_to_string X) (eph_base_fee_per_gas v),
     B256_serialize X (eph_block_hash v), B256_serialize X (eph_transactions_root v),
     B256_serialize X (eph_withdrawals_root v), write_u64 (eph_blob_gas_used v),
     write_u64 (eph_excess_blob_gas v)]"

definition ExecutionPayloadHeader_deserialize :: "externs \<Rightarrow> Json \<Rightarrow> (ExecutionPayloadHeader, DeError) res" where
  "ExecutionPayloadHeader_deserialize X json =
     res_bind (object_of ExecutionPayloadHeader_fields json) (\<lambda>fs.
     res_bind (field fs ''parent_hash'' (B256_deserialize X)) (\<lambda>parent_hash.
     res_bind (field fs ''fee_recipient'' (Address_deserialize X)) (\<lambda>fee_recipient.
     res_bind (field fs ''state_root'' (B256_deserialize X)) (\<lambda>state_root.
     res_bind (field fs ''receipts_root'' (B256_deserialize X)) (\<lambda>receipts_root.
     res_bind (field fs ''logs_bloom'' (logs_bloom_deserialize X (ssz_error_debug X 256) 256)) (\<lambda>logs_bloom.
     res_bind (field fs ''prev_randao'' (B256_deserialize X)) (\<lambda>prev_randao.
     res_bind (field fs ''block_number'' read_u64) (\<lambda>block_number.
     res_bind (field fs ''gas_limit'' read_u64) (\<lambda>gas_limit.
     res_bind (field fs ''gas_used'' read_u64) (\<lambda>gas_used.
     res_bind (field fs ''timestamp'' read_u64) (\<lambda>timestamp.
     res_bind (field fs ''extra_data'' (read_hex_list X 32)) (\<lambda>extra_data.
     res_bind (field fs ''base_fee_per_gas'' (impl_serde_deserialize (U256_of_str X))) (\<lambda>base_fee_per_gas.
     res_bind (field fs ''block_hash'' (B256_deserialize X)) (\<lambda>block_hash.
     res_bind (field fs ''transactions_root'' (B256_deserialize X)) (\<lambda>transactions_root.
     res_bind (field fs ''withdrawals_root'' (B256_deserialize X)) (\<lambda>withdrawals_root.
     res_bind (field fs ''blob_gas_used'' read_u64) (\<lambda>blob_gas_used.
     res_bind (field fs ''excess_blob_gas'' read_u64) (\<lambda>excess_blob_gas.
       Ok \<lparr>eph_parent_hash = parent_hash, eph_fee_recipient = fee_recipient,
       eph_state_root = state_root, eph_receipts_root = receipts_root, eph_logs_bloom = logs_bloom,
       eph_prev_randao = prev_randao, eph_block_number = block_number, eph_gas_limit = gas_limit,
       eph_gas_used = gas_used, eph_timestamp = timestamp, eph_extra_data = extra_data,
       eph_base_fee_per_gas = base_fee_per_gas, eph_block_hash = block_hash,
       eph_transactions_root = transactions_root, eph_withdrawals_root = withdrawals_root,
       eph_blob_gas_used = blob_gas_used, eph_excess_blob_gas = excess_blob_gas\<rparr>))))))))))))))))))"

definition fits_ExecutionPayloadHeader :: "externs \<Rightarrow> ExecutionPayloadHeader \<Rightarrow> bool" where
  "fits_ExecutionPayloadHeader X v \<longleftrightarrow>
     wf_B256 (eph_parent_hash v) \<and> wf_Address (eph_fee_recipient v) \<and>
     wf_B256 (eph_state_root v) \<and> wf_B256 (eph_receipts_root v) \<and>
     length (eph_logs_bloom v) = 256 \<and> wf_B256 (eph_prev_randao v) \<and>
     length (eph_extra_data v) \<le> 32 \<and> wf_B256 (eph_block_hash v) \<and>
     wf_B256 (eph_transactions_root v) \<and> wf_B256 (eph_withdrawals_root v)"

lemma ExecutionPayloadHeader_json [json_laws]:
  "json_env X \<Longrightarrow> fits_ExecutionPayloadHeader X v \<Longrightarrow>
     ExecutionPayloadHeader_deserialize X (ExecutionPayloadHeader_serialize X v) = Ok v"
  by (cases v) (simp add: ExecutionPayloadHeader_serialize_def ExecutionPayloadHeader_deserialize_def
      ExecutionPayloadHeader_fields_def fits_ExecutionPayloadHeader_def list_all_iff json_laws)

definition BlobsBundle_fields :: "string list" where
  "BlobsBundle_fields =
     [''commitments'', ''proofs'', ''blobs'']"

definition BlobsBundle_serialize :: "externs \<Rightarrow> BlobsBundle \<Rightarrow> Json" where
  "BlobsBundle_serialize X v = to_object BlobsBundle_fields
     [write_seq (Bytes48_serialize X) (bb_commitments v),
     write_seq (KzgCommitment_json X) (bb_proofs v), write_seq (write_u8s) (bb_blobs v)]"

definition BlobsBundle_deserialize :: "externs \<Rightarrow> Json \<Rightarrow> (BlobsBundle, DeError) res" where
  "BlobsBundle_deserialize X json =
     res_bind (object_of BlobsBundle_fields json) (\<lambda>fs.
     res_bind (field fs ''commitments'' (read_seq (Bytes48_deserialize X))) (\<lambda>commitments.
     res_bind (field fs ''proofs'' (read_variable_list X 4096 (KzgCommitment_deserialize X))) (\<lambda>proofs.
     res_bind (field fs ''blobs'' (read_variable_list X 4096 (read_fixed_vector X 131072 read_u8))) (\<lambda>blobs.
       Ok \<lparr>bb_commitments = commitments, bb_proofs = proofs, bb_blobs = blobs\<rparr>))))"

definition fits_BlobsBundle :: "externs \<Rightarrow> BlobsBundle \<Rightarrow> bool" where
  "fits_BlobsBundle X v \<longleftrightarrow>
     (\<forall>x\<in>set (bb_commitments v). length (bytes48_bytes (x)) = 48) \<and>
     length (bb_proofs v) \<le> 4096 \<and> (\<forall>x\<in>set (bb_proofs v). length (kzg_bytes (x)) = 48) \<and>
     length (bb_blobs v) \<le> 4096 \<and> (\<forall>x\<in>set (bb_blobs v). length x = 131072)"

lemma BlobsBundle_json [json_laws]:
  "json_env X \<Longrightarrow> fits_BlobsBundle X v \<Longrightarrow>
     BlobsBundle_deserialize X (BlobsBundle_serialize X v) = Ok v"
  by (cases v) (simp add: BlobsBundle_serialize_def BlobsBundle_deserialize_def
      BlobsBundle_fields_def fits_BlobsBundle_def list_all_iff json_laws)

definition BlindedBlockResponse_fields :: "string list" where
  "BlindedBlockResponse_fields =
     [''execution_payload'', ''blobs_bundle'']"

definition BlindedBlockResponse_serialize :: "externs \<Rightarrow> BlindedBlockResponse \<Rightarrow> Json" where
  "BlindedBlockResponse_serialize X v = to_object BlindedBlockResponse_fields
     [ExecutionPayload_serialize X (bbr_execution_payload v),
     BlobsBundle_serialize X (bbr_blobs_bundle v)]"

definition BlindedBlockResponse_deserialize :: "externs \<Rightarrow> Json \<Rightarrow> (BlindedBlockResponse, DeError) res" where
  "BlindedBlockResponse_deserialize X json =
     res_bind (object_of BlindedBlockResponse_fields json) (\<lambda>fs.
     res_bind (field fs ''execution_payload'' (ExecutionPayload_deserialize X)) (\<lambda>execution_payload.
     res_bind (field fs ''blobs_bundle'' (BlobsBundle_deserialize X)) (\<lambda>blobs_bundle.
       Ok \<lparr>bbr_execution_payload = execution_payload, bbr_blobs_bundle = blobs_bundle\<rparr>)))"

definition fits_BlindedBlockResponse :: "externs \<Rightarrow> BlindedBlockResponse \<Rightarrow> bool" where
  "fits_BlindedBlockResponse X v \<longleftrightarrow>
     fits_ExecutionPayload X (bbr_execution_payload v) \<and> fits_BlobsBundle X (bbr_blobs_bundle v)"

lemma BlindedBlockResponse_json [json_laws]:
  "json_env X \<Longrightarrow> fits_BlindedBlockResponse X v \<Longrightarrow>
     BlindedBlockResponse_deserialize X (BlindedBlockResponse_serialize X v) = Ok v"
  by (cases v) (simp add: BlindedBlockResponse_serialize_def BlindedBlockResponse_deserialize_def
      BlindedBlockResponse_fields_def fits_BlindedBlockResponse_def list_all_iff json_laws)

section \<open>Submissions and headers\<close>

definition BidTrace_fields :: "string list" where
  "BidTrace_fields =
     [''slot'', ''parent_hash'', ''block_hash'', ''builder_pubkey'', ''proposer_pubkey'',
     ''proposer_fee_recipient'', ''gas_limit'', ''gas_used'', ''value'']"

definition BidTrace_serialize :: "externs \<Rightarrow> BidTrace \<Rightarrow> Json" where
  "BidTrace_serialize X v = to_object BidTrace_fields
     [write_u64 (bt_slot v), B256_serialize X (bt_parent_hash v), B256_serialize X (bt_block_hash v),
     impl_serde_serialize (BlsPublicKey_to_string X) (bt_builder_pubkey v),
     impl_serde_serialize (BlsPublicKey_to_string X) (bt_proposer_pubkey v),
     Address_serialize X (bt_proposer_fee_recipient v), write_u64 (bt_gas_limit v),
     write_u64 (bt_gas_used v), U256_serialize X (bt_value v)]"

definition BidTrace_deserialize :: "externs \<Rightarrow> Json \<Rightarrow> (BidTrace, DeError) res" where
  "BidTrace_deserialize X json =
     res_bind (object_of BidTrace_fields json) (\<lambda>fs.
     res_bind (field fs ''slot'' read_u64) (\<lambda>slot.
     res_bind (field fs ''parent_hash'' (B256_deserialize X)) (\<lambda>parent_hash.
     res_bind (field fs ''block_hash'' (B256_deserialize X)) (\<lambda>block_hash.
     res_bind (field fs ''builder_pubkey'' (impl_serde_deserialize (BlsPublicKey_of_str X))) (\<lambda>builder_pubkey.
     res_bind (field fs ''proposer_pubkey'' (impl_serde_deserialize (BlsPublicKey_of_str X))) (\<lambda>proposer_pubkey.
     res_bind (field fs ''proposer_fee_recipient'' (Address_deserialize X)) (\<lambda>proposer_fee_recipient.
     res_bind (field fs ''gas_limit'' read_u64) (\<lambda>gas_limit.
     res_bind (field fs ''gas_used'' read_u64) (\<lambda>gas_used.
     res_bind (field fs ''value'' (U256_deserialize X)) (\<lambda>value.
       Ok \<lparr>bt_slot = slot, bt_parent_hash = parent_hash, bt_block_hash = block_hash,
       bt_builder_pubkey = builder_pubkey, bt_proposer_pubkey = proposer_pubkey,
       bt_proposer_fee_recipient = proposer_fee_recipient, bt_gas_limit = gas_limit,
       bt_gas_used = gas_used, bt_value = value\<rparr>))))))))))"

definition fits_BidTrace :: "externs \<Rightarrow> BidTrace \<Rightarrow> bool" where
  "fits_BidTrace X v \<longleftrightarrow>
     wf_B256 (bt_parent_hash v) \<and> wf_B256 (bt_block_hash v) \<and>
     valid_key X (bt_builder_pubkey v) \<and> valid_key X (bt_proposer_pubkey v) \<and>
     wf_Address (bt_proposer_fee_recipient v)"

lemma BidTrace_json [json_laws]:
  "json_env X \<Longrightarrow> fits_BidTrace X v \<Longrightarrow>
     BidTrace_deserialize X (BidTrace_serialize X v) = Ok v"
  by (cases v) (simp add: BidTrace_serialize_def BidTrace_deserialize_def
      BidTrace_fields_def fits_BidTrace_def list_all_iff json_laws)

definition BidSubmission_fields :: "string list" where
  "BidSubmission_fields =
     [''message'', ''execution_payload'', ''blobs_bundle'', ''signature'']"

definition BidSubmission_serialize :: "externs \<Rightarrow> BidSubmission \<Rightarrow> Json" where
  "BidSubmission_serialize X v = to_object BidSubmission_fields
     [BidTrace_serialize X (bs_message v), ExecutionPayload_serialize X (bs_execution_payload v),
     BlobsBundle_serialize X (bs_blobs_bundle v),
     impl_serde_serialize (BlsSignature_to_string X) (bs_signature v)]"

definition BidSubmission_deserialize :: "externs \<Rightarrow> Json \<Rightarrow> (BidSubmission, DeError) res" where
  "BidSubmission_deserialize X json =
     res_bind (object_of BidSubmission_fields json) (\<lambda>fs.
     res_bind (field fs ''message'' (BidTrace_deserialize X)) (\<lambda>message.
     res_bind (field fs ''execution_payload'' (ExecutionPayload_deserialize X)) (\<lambda>execution_payload.
     res_bind (field fs ''blobs_bundle'' (BlobsBundle_deserialize X)) (\<lambda>blobs_bundle.
     res_bind (field fs ''signature'' (impl_serde_deserialize (BlsSignature_of_str X))) (\<lambda>signature.
       Ok \<lparr>bs_message = message, bs_execution_payload = execution_payload,
       bs_blobs_bundle = blobs_bundle, bs_signature = signature\<rparr>)))))"

definition fits_BidSubmission :: "externs \<Rightarrow> BidSubmission \<Rightarrow> bool" where
  "fits_BidSubmission X v \<longleftrightarrow>
     fits_BidTrace X (bs_message v) \<and> fits_ExecutionPayload X (bs_execution_payload v) \<and>
     fits_BlobsBundle X (bs_blobs_bundle v) \<and> valid_signature X (bs_signature v)"

lemma BidSubmission_json [json_laws]:
  "json_env X \<Longrightarrow> fits_BidSubmission X v \<Longrightarrow>
     BidSubmission_deserialize X (BidSubmission_serialize X v) = Ok v"
  by (cases v) (simp add: BidSubmission_serialize_def BidSubmission_deserialize_def
      BidSubmission_fields_def fits_BidSubmission_def list_all_iff json_laws)

definition Header_fields :: "string list" where
  "Header_fields =
     [''header'', ''blob_kzg_commitments'', ''value'', ''pubkey'']"

definition Header_serialize :: "externs \<Rightarrow> Header \<Rightarrow> Json" where
  "Header_serialize X v = to_object Header_fields
     [ExecutionPayloadHeader_serialize X (hd_header v),
     write_seq (KzgCommitment_json X) (hd_blob_kzg_commitments v),
     impl_serde_serialize (U256_to_string X) (hd_value v),
     impl_serde_serialize (BlsPublicKey_to_string X) (hd_pubkey v)]"

definition Header_deserialize :: "externs \<Rightarrow> Json \<Rightarrow> (Header, DeError) res" where
  "Header_deserialize X json =
     res_bind (object_of Header_fields json) (\<lambda>fs.
     res_bind (field fs ''header'' (ExecutionPayloadHeader_deserialize X)) (\<lambda>header.
     res_bind (field fs ''blob_kzg_commitments'' (read_variable_list X 4096 (KzgCommitment_deserialize X))) (\<lambda>blob_kzg_commitments.
     res_bind (field fs ''value'' (impl_serde_deserialize (U256_of_str X))) (\<lambda>value.
     res_bind (field fs ''pubkey'' (impl_serde_deserialize (BlsPublicKey_of_str X))) (\<lambda>pubkey.
       Ok \<lparr>hd_header = header, hd_blob_kzg_commitments = blob_kzg_commitments, hd_value = value,
       hd_pubkey = pubkey\<rparr>)))))"

definition fits_Header :: "externs \<Rightarrow> Header \<Rightarrow> bool" where
  "fits_Header X v \<longleftrightarrow>
     fits_ExecutionPayloadHeader X (hd_header v) \<and>
     length (hd_blob_kzg_commitments v) \<le> 4096 \<and> (\<forall>x\<in>set (hd_blob_kzg_commitments v). length (kzg_bytes (x)) = 48) \<and>
     valid_key X (hd_pubkey v)"

lemma Header_json [json_laws]:
  "json_env X \<Longrightarrow> fits_Header X v \<Longrightarrow>
     Header_deserialize X (Header_serialize X v) = Ok v"
  by (cases v) (simp add: Header_serialize_def Header_deserialize_def
      Header_fields_def fits_Header_def list_all_iff json_laws)

definition SignedHeader_fields :: "string list" where
  "SignedHeader_fields =
     [''message'', ''signature'']"

definition SignedHeader_serialize :: "externs \<Rightarrow> SignedHeader \<Rightarrow> Json" where
  "SignedHeader_serialize X v = to_object SignedHeader_fields
     [Header_serialize X (sh_message v),
     impl_serde_serialize (BlsSignature_to_string X) (sh_signature v)]"

definition SignedHeader_deserialize :: "externs \<Rightarrow> Json \<Rightarrow> (SignedHeader, DeError) res" where
  "SignedHeader_deserialize X json =
     res_bind (object_of SignedHeader_fields json) (\<lambda>fs.
     res_bind (field fs ''message'' (Header_deserialize X)) (\<lambda>message.
     res_bind (field fs ''signature'' (impl_serde_deserialize (BlsSignature_of_str X))) (\<lambda>signature.
       Ok \<lparr>sh_message = message, sh_signature = signature\<rparr>)))"

definition fits_SignedHeader :: "externs \<Rightarrow> SignedHeader \<Rightarrow> bool" where
  "fits_SignedHeader X v \<longleftrightarrow>
     fits_Header X (sh_message v) \<and> valid_signature X (sh_signature v)"

lemma SignedHeader_json [json_laws]:
  "json_env X \<Longrightarrow> fits_SignedHeader X v \<Longrightarrow>
     SignedHeader_deserialize X (SignedHeader_serialize X v) = Ok v"
  by (cases v) (simp add: SignedHeader_serialize_def SignedHeader_deserialize_def
      SignedHeader_fields_def fits_SignedHeader_def list_all_iff json_laws)

section \<open>Registrations, duties and known validators\<close>

definition ValidatorRegistrationMessage_fields :: "string list" where
  "ValidatorRegistrationMessage_fields =
     [''fee_recipient'', ''gas_limit'', ''timestamp'', ''pubkey'']"

definition ValidatorRegistrationMessage_serialize :: "externs \<Rightarrow> ValidatorRegistrationMessage \<Rightarrow> Json" where
  "ValidatorRegistrationMessage_serialize X v = to_object ValidatorRegistrationMessage_fields
     [Address_serialize X (vrm_fee_recipient v), write_u64 (vrm_gas_limit v),
     write_u64 (vrm_timestamp v), impl_serde_serialize (BlsPublicKey_to_string X) (vrm_pubkey v)]"

definition ValidatorRegistrationMessage_deserialize :: "externs \<Rightarrow> Json \<Rightarrow> (ValidatorRegistrationMessage, DeError) res" where
  "ValidatorRegistrationMessage_deserialize X json =
     res_bind (object_of ValidatorRegistrationMessage_fields json) (\<lambda>fs.
     res_bind (field fs ''fee_recipient'' (Address_deserialize X)) (\<lambda>fee_recipient.
     res_bind (field fs ''gas_limit'' read_u64) (\<lambda>gas_limit.
     res_bind (field fs ''timestamp'' read_u64) (\<lambda>timestamp.
     res_bind (field fs ''pubkey'' (impl_serde_deserialize (BlsPublicKey_of_str X))) (\<lambda>pubkey.
       Ok \<lparr>vrm_fee_recipient = fee_recipient, vrm_gas_limit = gas_limit,
       vrm_timestamp = timestamp, vrm_pubkey = pubkey\<rparr>)))))"

definition fits_ValidatorRegistrationMessage :: "externs \<Rightarrow> ValidatorRegistrationMessage \<Rightarrow> bool" where
  "fits_ValidatorRegistrationMessage X v \<longleftrightarrow>
     wf_Address (vrm_fee_recipient v) \<and> valid_key X (vrm_pubkey v)"

lemma ValidatorRegistrationMessage_json [json_laws]:
  "json_env X \<Longrightarrow> fits_ValidatorRegistrationMessage X v \<Longrightarrow>
     ValidatorRegistrationMessage_deserialize X (ValidatorRegistrationMessage_serialize X v) = Ok v"
  by (cases v) (simp add: ValidatorRegistrationMessage_serialize_def ValidatorRegistrationMessage_deserialize_def
      ValidatorRegistrationMessage_fields_def fits_ValidatorRegistrationMessage_def list_all_iff json_laws)

definition ValidatorRegistration_fields :: "string list" where
  "ValidatorRegistration_fields =
     [''message'', ''signature'']"

definition ValidatorRegistration_serialize :: "externs \<Rightarrow> ValidatorRegistration \<Rightarrow> Json" where
  "ValidatorRegistration_serialize X v = to_object ValidatorRegistration_fields
     [ValidatorRegistrationMessage_serialize X (vr_message v),
     impl_serde_serialize (BlsSignature_to_string X) (vr_signature v)]"

definition ValidatorRegistration_deserialize :: "externs \<Rightarrow> Json \<Rightarrow> (ValidatorRegistration, DeError) res" where
  "ValidatorRegistration_deserialize X json =
     res_bind (object_of ValidatorRegistration_fields json) (\<lambda>fs.
     res_bind (field fs ''message'' (ValidatorRegistrationMessage_deserialize X)) (\<lambda>message.
     res_bind (field fs ''signature'' (impl_serde_deserialize (BlsSignature_of_str X))) (\<lambda>signature.
       Ok \<lparr>vr_message = message, vr_signature = signature\<rparr>)))"

definition fits_ValidatorRegistration :: "externs \<Rightarrow> ValidatorRegistration \<Rightarrow> bool" where
  "fits_ValidatorRegistration X v \<longleftrightarrow>
     fits_ValidatorRegistrationMessage X (vr_message v) \<and> valid_signature X (vr_signature v)"

lemma ValidatorRegistration_json [json_laws]:
  "json_env X \<Longrightarrow> fits_ValidatorRegistration X v \<Longrightarrow>
     ValidatorRegistration_deserialize X (ValidatorRegistration_serialize X v) = Ok v"
  by (cases v) (simp add: ValidatorRegistration_serialize_def ValidatorRegistration_deserialize_def
      ValidatorRegistration_fields_def fits_ValidatorRegistration_def list_all_iff json_laws)

definition Validator_fields :: "string list" where
  "Validator_fields =
     [''slot'', ''validator_index'', ''entry'']"

definition Validator_serialize :: "externs \<Rightarrow> Validator \<Rightarrow> Json" where
  "Validator_serialize X v = to_object Validator_fields
     [write_u64 (val_slot v), write_u64 (val_validator_index v),
     ValidatorRegistration_serialize X (val_entry v)]"

definition Validator_deserialize :: "externs \<Rightarrow> Json \<Rightarrow> (Validator, DeError) res" where
  "Validator_deserialize X json =
     res_bind (object_of Validator_fields json) (\<lambda>fs.
     res_bind (field fs ''slot'' read_u64) (\<lambda>slot.
     res_bind (field fs ''validator_index'' read_u64) (\<lambda>validator_index.
     res_bind (field fs ''entry'' (ValidatorRegistration_deserialize X)) (\<lambda>entry.
       Ok \<lparr>val_slot = slot, val_validator_index = validator_index, val_entry = entry\<rparr>))))"

definition fits_Validator :: "externs \<Rightarrow> Validator \<Rightarrow> bool" where
  "fits_Validator X v \<longleftrightarrow>
     fits_ValidatorRegistration X (val_entry v)"

lemma Validator_json [json_laws]:
  "json_env X \<Longrightarrow> fits_Validator X v \<Longrightarrow>
     Validator_deserialize X (Validator_serialize X v) = Ok v"
  by (cases v) (simp add: Validator_serialize_def Validator_deserialize_def
      Validator_fields_def fits_Validator_def list_all_iff json_laws)

definition KnownValidator_fields :: "string list" where
  "KnownValidator_fields =
     [''pubkey'', ''withdrawal_credentials'', ''effective_balance'', ''slashed'',
     ''activation_eligibility_epoch'', ''activation_epoch'', ''exit_epoch'', ''withdrawable_epoch'']"

definition KnownValidator_serialize :: "externs \<Rightarrow> KnownValidator \<Rightarrow> Json" where
  "KnownValidator_serialize X v = to_object KnownValidator_fields
     [impl_serde_serialize (BlsPublicKey_to_string X) (kv_pubkey v),
     JString (kv_withdrawal_credentials v), JString (kv_effective_balance v), JBool (kv_slashed v),
     write_u64 (kv_activation_eligibility_epoch v), write_u64 (kv_activation_epoch v),
     write_u64 (kv_exit_epoch v), write_u64 (kv_withdrawable_epoch v)]"

definition KnownValidator_deserialize :: "externs \<Rightarrow> Json \<Rightarrow> (KnownValidator, DeError) res" where
  "KnownValidator_deserialize X json =
     res_bind (object_of KnownValidator_fields json) (\<lambda>fs.
     res_bind (field fs ''pubkey'' (impl_serde_deserialize (BlsPublicKey_of_str X))) (\<lambda>pubkey.
     res_bind (field fs ''withdrawal_credentials'' deserialize_str) (\<lambda>withdrawal_credentials.
     res_bind (field fs ''effective_balance'' deserialize_str) (\<lambda>effective_balance.
     res_bind (field fs ''slashed'' read_bool) (\<lambda>slashed.
     res_bind (field fs ''activation_eligibility_epoch'' read_u64) (\<lambda>activation_eligibility_epoch.
     res_bind (field fs ''activation_epoch'' read_u64) (\<lambda>activation_epoch.
     res_bind (field fs ''exit_epoch'' read_u64) (\<lambda>exit_epoch.
     res_bind (field fs ''withdrawable_epoch'' read_u64) (\<lambda>withdrawable_epoch.
       Ok \<lparr>kv_pubkey = pubkey, kv_withdrawal_credentials = withdrawal_credentials,
       kv_effective_balance = effective_balance, kv_slashed = slashed,
       kv_activation_eligibility_epoch = activation_eligibility_epoch,
       kv_activation_epoch = activation_epoch, kv_exit_epoch = exit_epoch,
       kv_withdrawable_epoch = withdrawable_epoch\<rparr>)))))))))"

definition fits_KnownValidator :: "externs \<Rightarrow> KnownValidator \<Rightarrow> bool" where
  "fits_KnownValidator X v \<longleftrightarrow>
     valid_key X (kv_pubkey v)"

lemma KnownValidator_json [json_laws]:
  "json_env X \<Longrightarrow> fits_KnownValidator X v \<Longrightarrow>
     KnownValidator_deserialize X (KnownValidator_serialize X v) = Ok v"
  by (cases v) (simp add: KnownValidator_serialize_def KnownValidator_deserialize_def
      KnownValidator_fields_def fits_KnownValidator_def list_all_iff json_laws)

definition ValidatorEntry_fields :: "string list" where
  "ValidatorEntry_fields =
     [''index'', ''balance'', ''status'', ''validator'']"

definition ValidatorEntry_serialize :: "externs \<Rightarrow> ValidatorEntry \<Rightarrow> Json" where
  "ValidatorEntry_serialize X v = to_object ValidatorEntry_fields
     [write_u64 (ven_index v), JString (ven_balance v), JString (ven_status v),
     KnownValidator_serialize X (ven_validator v)]"

definition ValidatorEntry_deserialize :: "externs \<Rightarrow> Json \<Rightarrow> (ValidatorEntry, DeError) res" where
  "ValidatorEntry_deserialize X json =
     res_bind (object_of ValidatorEntry_fields json) (\<lambda>fs.
     res_bind (field fs ''index'' read_u64) (\<lambda>index.
     res_bind (field fs ''balance'' deserialize_str) (\<lambda>balance.
     res_bind (field fs ''status'' deserialize_str) (\<lambda>status.
     res_bind (field fs ''validator'' (KnownValidator_deserialize X)) (\<lambda>validator.
       Ok \<lparr>ven_index = index, ven_balance = balance, ven_status = status,
       ven_validator = validator\<rparr>)))))"

definition fits_ValidatorEntry :: "externs \<Rightarrow> ValidatorEntry \<Rightarrow> bool" where
  "fits_ValidatorEntry X v \<longleftrightarrow>
     fits_KnownValidator X (ven_validator v)"

lemma ValidatorEntry_json [json_laws]:
  "json_env X \<Longrightarrow> fits_ValidatorEntry X v \<Longrightarrow>
     ValidatorEntry_deserialize X (ValidatorEntry_serialize X v) = Ok v"
  by (cases v) (simp add: ValidatorEntry_serialize_def ValidatorEntry_deserialize_def
      ValidatorEntry_fields_def fits_ValidatorEntry_def list_all_iff json_laws)

definition KnownValidatorResponse_fields :: "string list" where
  "KnownValidatorResponse_fields =
     [''execution_optimistic'', ''finalized'', ''data'']"

definition KnownValidatorResponse_serialize :: "externs \<Rightarrow> KnownValidatorResponse \<Rightarrow> Json" where
  "KnownValidatorResponse_serialize X v = to_object KnownValidatorResponse_fields
     [JBool (kvr_execution_optimistic v), JBool (kvr_finalized v),
     ValidatorEntry_serialize X (kvr_data v)]"

definition KnownValidatorResponse_deserialize :: "externs \<Rightarrow> Json \<Rightarrow> (KnownValidatorResponse, DeError) res" where
  "KnownValidatorResponse_deserialize X json =
     res_bind (object_of KnownValidatorResponse_fields json) (\<lambda>fs.
     res_bind (field fs ''execution_optimistic'' read_bool) (\<lambda>execution_optimistic.
     res_bind (field fs ''finalized'' read_bool) (\<lambda>finalized.
     res_bind (field fs ''data'' (ValidatorEntry_deserialize X)) (\<lambda>data.
       Ok \<lparr>kvr_execution_optimistic = execution_optimistic, kvr_finalized = finalized,
       kvr_data = data\<rparr>))))"

definition fits_KnownValidatorResponse :: "externs \<Rightarrow> KnownValidatorResponse \<Rightarrow> bool" where
  "fits_KnownValidatorResponse X v \<longleftrightarrow>
     fits_ValidatorEntry X (kvr_data v)"

lemma KnownValidatorResponse_json [json_laws]:
  "json_env X \<Longrightarrow> fits_KnownValidatorResponse X v \<Longrightarrow>
     KnownValidatorResponse_deserialize X (KnownValidatorResponse_serialize X v) = Ok v"
  by (cases v) (simp add: KnownValidatorResponse_serialize_def KnownValidatorResponse_deserialize_def
      KnownValidatorResponse_fields_def fits_KnownValidatorResponse_def list_all_iff json_laws)

definition ProposerDutiesData_fields :: "string list" where
  "ProposerDutiesData_fields =
     [''slot'', ''pubkey'', ''validator_index'']"

definition ProposerDutiesData_serialize :: "externs \<Rightarrow> ProposerDutiesData \<Rightarrow> Json" where
  "ProposerDutiesData_serialize X v = to_object ProposerDutiesData_fields
     [write_u64 (pdd_slot v), fixed_bytes_to_serde X (pdd_pubkey v), write_u64 (pdd_validator_index v)]"

definition ProposerDutiesData_deserialize :: "externs \<Rightarrow> Json \<Rightarrow> (ProposerDutiesData, DeError) res" where
  "ProposerDutiesData_deserialize X json =
     res_bind (object_of ProposerDutiesData_fields json) (\<lambda>fs.
     res_bind (field fs ''slot'' read_u64) (\<lambda>slot.
     res_bind (field fs ''pubkey'' (read_bytes X 48)) (\<lambda>pubkey.
     res_bind (field fs ''validator_index'' read_u64) (\<lambda>validator_index.
       Ok \<lparr>pdd_slot = slot, pdd_pubkey = pubkey, pdd_validator_index = validator_index\<rparr>))))"

definition fits_ProposerDutiesData :: "externs \<Rightarrow> ProposerDutiesData \<Rightarrow> bool" where
  "fits_ProposerDutiesData X v \<longleftrightarrow>
     length (pdd_pubkey v) = 48"

lemma ProposerDutiesData_json [json_laws]:
  "json_env X \<Longrightarrow> fits_ProposerDutiesData X v \<Longrightarrow>
     ProposerDutiesData_deserialize X (ProposerDutiesData_serialize X v) = Ok v"
  by (cases v) (simp add: ProposerDutiesData_serialize_def ProposerDutiesData_deserialize_def
      ProposerDutiesData_fields_def fits_ProposerDutiesData_def list_all_iff json_laws)

definition ProposerDutiesResponse_fields :: "string list" where
  "ProposerDutiesResponse_fields =
     [''data'']"

definition ProposerDutiesResponse_serialize :: "externs \<Rightarrow> ProposerDutiesResponse \<Rightarrow> Json" where
  "ProposerDutiesResponse_serialize X v = to_object ProposerDutiesResponse_fields
     [write_seq (ProposerDutiesData_serialize X) (pdr_data v)]"

definition ProposerDutiesResponse_deserialize :: "externs \<Rightarrow> Json \<Rightarrow> (ProposerDutiesResponse, DeError) res" where
  "ProposerDutiesResponse_deserialize X json =
     res_bind (object_of ProposerDutiesResponse_fields json) (\<lambda>fs.
     res_bind (field fs ''data'' (read_seq (ProposerDutiesData_deserialize X))) (\<lambda>data.
       Ok \<lparr>pdr_data = data\<rparr>))"

definition fits_ProposerDutiesResponse :: "externs \<Rightarrow> ProposerDutiesResponse \<Rightarrow> bool" where
  "fits_ProposerDutiesResponse X v \<longleftrightarrow>
     list_all (fits_ProposerDutiesData X) (pdr_data v)"

lemma ProposerDutiesResponse_json [json_laws]:
  "json_env X \<Longrightarrow> fits_ProposerDutiesResponse X v \<Longrightarrow>
     ProposerDutiesResponse_deserialize X (ProposerDutiesResponse_serialize X v) = Ok v"
  by (cases v) (simp add: ProposerDutiesResponse_serialize_def ProposerDutiesResponse_deserialize_def
      ProposerDutiesResponse_fields_def fits_ProposerDutiesResponse_def list_all_iff json_laws)

section \<open>Blinded blocks\<close>

definition Eth1Data_fields :: "string list" where
  "Eth1Data_fields =
     [''deposit_root'', ''deposit_count'', ''block_hash'']"

definition Eth1Data_serialize :: "externs \<Rightarrow> Eth1Data \<Rightarrow> Json" where
  "Eth1Data_serialize X v = to_object Eth1Data_fields
     [B256_serialize X (e1_deposit_root v), write_u64 (e1_deposit_count v),
     B256_serialize X (e1_block_hash v)]"

definition Eth1Data_deserialize :: "externs \<Rightarrow> Json \<Rightarrow> (Eth1Data, DeError) res" where
  "Eth1Data_deserialize X json =
     res_bind (object_of Eth1Data_fields json) (\<lambda>fs.
     res_bind (field fs ''deposit_root'' (B256_deserialize X)) (\<lambda>deposit_root.
     res_bind (field fs ''deposit_count'' read_u64) (\<lambda>deposit_count.
     res_bind (field fs ''block_hash'' (B256_deserialize X)) (\<lambda>block_hash.
       Ok \<lparr>e1_deposit_root = deposit_root, e1_deposit_count = deposit_count,
       e1_block_hash = block_hash\<rparr>))))"

definition fits_Eth1Data :: "externs \<Rightarrow> Eth1Data \<Rightarrow> bool" where
  "fits_Eth1Data X v \<longleftrightarrow>
     wf_B256 (e1_deposit_root v) \<and> wf_B256 (e1_block_hash v)"

lemma Eth1Data_json [json_laws]:
  "json_env X \<Longrightarrow> fits_Eth1Data X v \<Longrightarrow>
     Eth1Data_deserialize X (Eth1Data_serialize X v) = Ok v"
  by (cases v) (simp add: Eth1Data_serialize_def Eth1Data_deserialize_def
      Eth1Data_fields_def fits_Eth1Data_def list_all_iff json_laws)

definition BeaconBlockHeader_fields :: "string list" where
  "BeaconBlockHeader_fields =
     [''slot'', ''proposer_index'', ''parent_root'', ''state_root'', ''body_root'']"

definition BeaconBlockHeader_serialize :: "externs \<Rightarrow> BeaconBlockHeader \<Rightarrow> Json" where
  "BeaconBlockHeader_serialize X v = to_object BeaconBlockHeader_fields
     [write_u64 (bbh_slot v), write_u64 (bbh_proposer_index v),
     impl_serde_serialize (B256_to_string X) (bbh_parent_root v),
     impl_serde_serialize (B256_to_string X) (bbh_state_root v),
     impl_serde_serialize (B256_to_string X) (bbh_body_root v)]"

definition BeaconBlockHeader_deserialize :: "externs \<Rightarrow> Json \<Rightarrow> (BeaconBlockHeader, DeError) res" where
  "BeaconBlockHeader_deserialize X json =
     res_bind (object_of BeaconBlockHeader_fields json) (\<lambda>fs.
     res_bind (field fs ''slot'' read_u64) (\<lambda>slot.
     res_bind (field fs ''proposer_index'' read_u64) (\<lambda>proposer_index.
     res_bind (field fs ''parent_root'' (impl_serde_deserialize (B256_of_str X))) (\<lambda>parent_root.
     res_bind (field fs ''state_root'' (impl_serde_deserialize (B256_of_str X))) (\<lambda>state_root.
     res_bind (field fs ''body_root'' (impl_serde_deserialize (B256_of_str X))) (\<lambda>body_root.
       Ok \<lparr>bbh_slot = slot, bbh_proposer_index = proposer_index, bbh_parent_root = parent_root,
       bbh_state_root = state_root, bbh_body_root = body_root\<rparr>))))))"

definition fits_BeaconBlockHeader :: "externs \<Rightarrow> BeaconBlockHeader \<Rightarrow> bool" where
  "fits_BeaconBlockHeader X v \<longleftrightarrow>
     wf_B256 (bbh_parent_root v) \<and> wf_B256 (bbh_state_root v) \<and> wf_B256 (bbh_body_root v)"

lemma BeaconBlockHeader_json [json_laws]:
  "json_env X \<Longrightarrow> fits_BeaconBlockHeader X v \<Longrightarrow>
     BeaconBlockHeader_deserialize X (BeaconBlockHeader_serialize X v) = Ok v"
  by (cases v) (simp add: BeaconBlockHeader_serialize_def BeaconBlockHeader_deserialize_def
      BeaconBlockHeader_fields_def fits_BeaconBlockHeader_def list_all_iff json_laws)

definition SignedBeaconBlockHeader_fields :: "string list" where
  "SignedBeaconBlockHeader_fields =
     [''message'', ''signature'']"

definition SignedBeaconBlockHeader_serialize :: "externs \<Rightarrow> SignedBeaconBlockHeader \<Rightarrow> Json" where
  "SignedBeaconBlockHeader_serialize X v = to_object SignedBeaconBlockHeader_fields
     [BeaconBlockHeader_serialize X (sbh_message v),
     impl_serde_serialize (BlsSignature_to_string X) (sbh_signature v)]"

definition SignedBeaconBlockHeader_deserialize :: "externs \<Rightarrow> Json \<Rightarrow> (SignedBeaconBlockHeader, DeError) res" where
  "SignedBeaconBlockHeader_deserialize X json =
     res_bind (object_of SignedBeaconBlockHeader_fields json) (\<lambda>fs.
     res_bind (field fs ''message'' (BeaconBlockHeader_deserialize X)) (\<lambda>message.
     res_bind (field fs ''signature'' (impl_serde_deserialize (BlsSignature_of_str X))) (\<lambda>signature.
       Ok \<lparr>sbh_message = message, sbh_signature = signature\<rparr>)))"

definition fits_SignedBeaconBlockHeader :: "externs \<Rightarrow> SignedBeaconBlockHeader \<Rightarrow> bool" where
  "fits_SignedBeaconBlockHeader X v \<longleftrightarrow>
     fits_BeaconBlockHeader X (sbh_message v) \<and> valid_signature X (sbh_signature v)"

lemma SignedBeaconBlockHeader_json [json_laws]:
  "json_env X \<Longrightarrow> fits_SignedBeaconBlockHeader X v \<Longrightarrow>
     SignedBeaconBlockHeader_deserialize X (SignedBeaconBlockHeader_serialize X v) = Ok v"
  by (cases v) (simp add: SignedBeaconBlockHeader_serialize_def SignedBeaconBlockHeader_deserialize_def
      SignedBeaconBlockHeader_fields_def fits_SignedBeaconBlockHeader_def list_all_iff json_laws)

definition ProposerSlashing_fields :: "string list" where
  "ProposerSlashing_fields =
     [''signed_header_1'', ''signed_header_2'']"

definition ProposerSlashing_serialize :: "externs \<Rightarrow> ProposerSlashing \<Rightarrow> Json" where
  "ProposerSlashing_serialize X v = to_object ProposerSlashing_fields
     [SignedBeaconBlockHeader_serialize X (ps_signed_header_1 v),
     SignedBeaconBlockHeader_serialize X (ps_signed_header_2 v)]"

definition ProposerSlashing_deserialize :: "externs \<Rightarrow> Json \<Rightarrow> (ProposerSlashing, DeError) res" where
  "ProposerSlashing_deserialize X json =
     res_bind (object_of ProposerSlashing_fields json) (\<lambda>fs.
     res_bind (field fs ''signed_header_1'' (SignedBeaconBlockHeader_deserialize X)) (\<lambda>signed_header_1.
     res_bind (field fs ''signed_header_2'' (SignedBeaconBlockHeader_deserialize X)) (\<lambda>signed_header_2.
       Ok \<lparr>ps_signed_header_1 = signed_header_1, ps_signed_header_2 = signed_header_2\<rparr>)))"

definition fits_ProposerSlashing :: "externs \<Rightarrow> ProposerSlashing \<Rightarrow> bool" where
  "fits_ProposerSlashing X v \<longleftrightarrow>
     fits_SignedBeaconBlockHeader X (ps_signed_header_1 v) \<and>
     fits_SignedBeaconBlockHeader X (ps_signed_header_2 v)"

lemma ProposerSlashing_json [json_laws]:
  "json_env X \<Longrightarrow> fits_ProposerSlashing X v \<Longrightarrow>
     ProposerSlashing_deserialize X (ProposerSlashing_serialize X v) = Ok v"
  by (cases v) (simp add: ProposerSlashing_serialize_def ProposerSlashing_deserialize_def
      ProposerSlashing_fields_def fits_ProposerSlashing_def list_all_iff json_laws)

definition Checkpoint_fields :: "string list" where
  "Checkpoint_fields =
     [''epoch'', ''root'']"

definition Checkpoint_serialize :: "externs \<Rightarrow> Checkpoint \<Rightarrow> Json" where
  "Checkpoint_serialize X v = to_object Checkpoint_fields
     [write_u64 (cp_epoch v), B256_serialize X (cp_root v)]"

definition Checkpoint_deserialize :: "externs \<Rightarrow> Json \<Rightarrow> (Checkpoint, DeError) res" where
  "Checkpoint_deserialize X json =
     res_bind (object_of Checkpoint_fields json) (\<lambda>fs.
     res_bind (field fs ''epoch'' read_u64) (\<lambda>epoch.
     res_bind (field fs ''root'' (B256_deserialize X)) (\<lambda>root.
       Ok \<lparr>cp_epoch = epoch, cp_root = root\<rparr>)))"

definition fits_Checkpoint :: "externs \<Rightarrow> Checkpoint \<Rightarrow> bool" where
  "fits_Checkpoint X v \<longleftrightarrow>
     wf_B256 (cp_root v)"

lemma Checkpoint_json [json_laws]:
  "json_env X \<Longrightarrow> fits_Checkpoint X v \<Longrightarrow>
     Checkpoint_deserialize X (Checkpoint_serialize X v) = Ok v"
  by (cases v) (simp add: Checkpoint_serialize_def Checkpoint_deserialize_def
      Checkpoint_fields_def fits_Checkpoint_def list_all_iff json_laws)

definition AttestationData_fields :: "string list" where
  "AttestationData_fields =
     [''slot'', ''index'', ''beacon_block_root'', ''source'', ''target'']"

definition AttestationData_serialize :: "externs \<Rightarrow> AttestationData \<Rightarrow> Json" where
  "AttestationData_serialize X v = to_object AttestationData_fields
     [write_u64 (ad_slot v), write_u64 (ad_index v), B256_serialize X (ad_beacon_block_root v),
     Checkpoint_serialize X (ad_source v), Checkpoint_serialize X (ad_target v)]"

definition AttestationData_deserialize :: "externs \<Rightarrow> Json \<Rightarrow> (AttestationData, DeError) res" where
  "AttestationData_deserialize X json =
     res_bind (object_of AttestationData_fields json) (\<lambda>fs.
     res_bind (field fs ''slot'' read_u64) (\<lambda>slot.
     res_bind (field fs ''index'' read_u64) (\<lambda>index.
     res_bind (field fs ''beacon_block_root'' (B256_deserialize X)) (\<lambda>beacon_block_root.
     res_bind (field fs ''source'' (Checkpoint_deserialize X)) (\<lambda>source.
     res_bind (field fs ''target'' (Checkpoint_deserialize X)) (\<lambda>target.
       Ok \<lparr>ad_slot = slot, ad_index = index, ad_beacon_block_root = beacon_block_root,
       ad_source = source, ad_target = target\<rparr>))))))"

definition fits_AttestationData :: "externs \<Rightarrow> AttestationData \<Rightarrow> bool" where
  "fits_AttestationData X v \<longleftrightarrow>
     wf_B256 (ad_beacon_block_root v) \<and> fits_Checkpoint X (ad_source v) \<and>
     fits_Checkpoint X (ad_target v)"

lemma AttestationData_json [json_laws]:
  "json_env X \<Longrightarrow> fits_AttestationData X v \<Longrightarrow>
     AttestationData_deserialize X (AttestationData_serialize X v) = Ok v"
  by (cases v) (simp add: AttestationData_serialize_def AttestationData_deserialize_def
      AttestationData_fields_def fits_AttestationData_def list_all_iff json_laws)

definition IndexedAttestation_fields :: "string list" where
  "IndexedAttestation_fields =
     [''attesting_indices'', ''data'', ''signature'']"

definition IndexedAttestation_serialize :: "externs \<Rightarrow> IndexedAttestation \<Rightarrow> Json" where
  "IndexedAttestation_serialize X v = to_object IndexedAttestation_fields
     [quoted_list_serialize write_u64 (ia_attesting_indices v), AttestationData_serialize X (ia_data v),
     impl_serde_serialize (BlsSignature_to_string X) (ia_signature v)]"

definition IndexedAttestation_deserialize :: "externs \<Rightarrow> Json \<Rightarrow> (IndexedAttestation, DeError) res" where
  "IndexedAttestation_deserialize X json =
     res_bind (object_of IndexedAttestation_fields json) (\<lambda>fs.
     res_bind (field fs ''attesting_indices'' (quoted_list_deserialize X (read_seq read_u64) (ssz_error_debug X 2048) 2048)) (\<lambda>attesting_indices.
     res_bind (field fs ''data'' (AttestationData_deserialize X)) (\<lambda>data.
     res_bind (field fs ''signature'' (impl_serde_deserialize (BlsSignature_of_str X))) (\<lambda>signature.
       Ok \<lparr>ia_attesting_indices = attesting_indices, ia_data = data, ia_signature = signature\<rparr>))))"

definition fits_IndexedAttestation :: "externs \<Rightarrow> IndexedAttestation \<Rightarrow> bool" where
  "fits_IndexedAttestation X v \<longleftrightarrow>
     length (ia_attesting_indices v) \<le> 2048 \<and> fits_AttestationData X (ia_data v) \<and>
     valid_signature X (ia_signature v)"

lemma IndexedAttestation_json [json_laws]:
  "json_env X \<Longrightarrow> fits_IndexedAttestation X v \<Longrightarrow>
     IndexedAttestation_deserialize X (IndexedAttestation_serialize X v) = Ok v"
  by (cases v) (simp add: IndexedAttestation_serialize_def IndexedAttestation_deserialize_def
      IndexedAttestation_fields_def fits_IndexedAttestation_def list_all_iff json_laws)

definition AttesterSlashing_fields :: "string list" where
  "AttesterSlashing_fields =
     [''attestation_1'', ''attestation_2'']"

definition AttesterSlashing_serialize :: "externs \<Rightarrow> AttesterSlashing \<Rightarrow> Json" where
  "AttesterSlashing_serialize X v = to_object AttesterSlashing_fields
     [IndexedAttestation_serialize X (as_attestation_1 v),
     IndexedAttestation_serialize X (as_attestation_2 v)]"

definition AttesterSlashing_deserialize :: "externs \<Rightarrow> Json \<Rightarrow> (AttesterSlashing, DeError) res" where
  "AttesterSlashing_deserialize X json =
     res_bind (object_of AttesterSlashing_fields json) (\<lambda>fs.
     res_bind (field fs ''attestation_1'' (IndexedAttestation_deserialize X)) (\<lambda>attestation_1.
     res_bind (field fs ''attestation_2'' (IndexedAttestation_deserialize X)) (\<lambda>attestation_2.
       Ok \<lparr>as_attestation_1 = attestation_1, as_attestation_2 = attestation_2\<rparr>)))"

definition fits_AttesterSlashing :: "externs \<Rightarrow> AttesterSlashing \<Rightarrow> bool" where
  "fits_AttesterSlashing X v \<longleftrightarrow>
     fits_IndexedAttestation X (as_attestation_1 v) \<and>
     fits_IndexedAttestation X (as_attestation_2 v)"

lemma AttesterSlashing_json [json_laws]:
  "json_env X \<Longrightarrow> fits_AttesterSlashing X v \<Longrightarrow>
     AttesterSlashing_deserialize X (AttesterSlashing_serialize X v) = Ok v"
  by (cases v) (simp add: AttesterSlashing_serialize_def AttesterSlashing_deserialize_def
      AttesterSlashing_fields_def fits_AttesterSlashing_def list_all_iff json_laws)

definition Attestation_fields :: "string list" where
  "Attestation_fields =
     [''aggregation_bits'', ''data'', ''signature'']"

definition Attestation_serialize :: "externs \<Rightarrow> Attestation \<Rightarrow> Json" where
  "Attestation_serialize X v = to_object Attestation_fields
     [bitlist_to_serde X 2048 (at_aggregation_bits v), AttestationData_serialize X (at_data v),
     impl_serde_serialize (BlsSignature_to_string X) (at_signature v)]"

definition Attestation_deserialize :: "externs \<Rightarrow> Json \<Rightarrow> (Attestation, DeError) res" where
  "Attestation_deserialize X json =
     res_bind (object_of Attestation_fields json) (\<lambda>fs.
     res_bind (field fs ''aggregation_bits'' (read_bitlist X 2048)) (\<lambda>aggregation_bits.
     res_bind (field fs ''data'' (AttestationData_deserialize X)) (\<lambda>data.
     res_bind (field fs ''signature'' (impl_serde_deserialize (BlsSignature_of_str X))) (\<lambda>signature.
       Ok \<lparr>at_aggregation_bits = aggregation_bits, at_data = data, at_signature = signature\<rparr>))))"

definition fits_Attestation :: "externs \<Rightarrow> Attestation \<Rightarrow> bool" where
  "fits_Attestation X v \<longleftrightarrow>
     length (at_aggregation_bits v) \<le> 2048 \<and> fits_AttestationData X (at_data v) \<and>
     valid_signature X (at_signature v)"

lemma Attestation_json [json_laws]:
  "json_env X \<Longrightarrow> fits_Attestation X v \<Longrightarrow>
     Attestation_deserialize X (Attestation_serialize X v) = Ok v"
  by (cases v) (simp add: Attestation_serialize_def Attestation_deserialize_def
      Attestation_fields_def fits_Attestation_def list_all_iff json_laws)

definition DepositData_fields :: "string list" where
  "DepositData_fields =
     [''pubkey'', ''withdrawal_credentials'', ''amount'', ''signature'']"

definition DepositData_serialize :: "externs \<Rightarrow> DepositData \<Rightarrow> Json" where
  "DepositData_serialize X v = to_object DepositData_fields
     [impl_serde_serialize (BlsPublicKey_to_string X) (dd_pubkey v),
     B256_serialize X (dd_withdrawal_credentials v), write_u64 (dd_amount v),
     impl_serde_serialize (BlsSignature_to_string X) (dd_signature v)]"

definition DepositData_deserialize :: "externs \<Rightarrow> Json \<Rightarrow> (DepositData, DeError) res" where
  "DepositData_deserialize X json =
     res_bind (object_of DepositData_fields json) (\<lambda>fs.
     res_bind (field fs ''pubkey'' (impl_serde_deserialize (BlsPublicKey_of_str X))) (\<lambda>pubkey.
     res_bind (field fs ''withdrawal_credentials'' (B256_deserialize X)) (\<lambda>withdrawal_credentials.
     res_bind (field fs ''amount'' read_u64) (\<lambda>amount.
     res_bind (field fs ''signature'' (impl_serde_deserialize (BlsSignature_of_str X))) (\<lambda>signature.
       Ok \<lparr>dd_pubkey = pubkey, dd_withdrawal_credentials = withdrawal_credentials,
       dd_amount = amount, dd_signature = signature\<rparr>)))))"

definition fits_DepositData :: "externs \<Rightarrow> DepositData \<Rightarrow> bool" where
  "fits_DepositData X v \<longleftrightarrow>
     valid_key X (dd_pubkey v) \<and> wf_B256 (dd_withdrawal_credentials v) \<and>
     valid_signature X (dd_signature v)"

lemma DepositData_json [json_laws]:
  "json_env X \<Longrightarrow> fits_DepositData X v \<Longrightarrow>
     DepositData_deserialize X (DepositData_serialize X v) = Ok v"
  by (cases v) (simp add: DepositData_serialize_def DepositData_deserialize_def
      DepositData_fields_def fits_DepositData_def list_all_iff json_laws)

definition Deposit_fields :: "string list" where
  "Deposit_fields =
     [''proof'', ''data'']"

definition Deposit_serialize :: "externs \<Rightarrow> Deposit \<Rightarrow> Json" where
  "Deposit_serialize X v = to_object Deposit_fields
     [write_seq (B256_serialize X) (dp_proof v), DepositData_serialize X (dp_data v)]"

definition Deposit_deserialize :: "externs \<Rightarrow> Json \<Rightarrow> (Deposit, DeError) res" where
  "Deposit_deserialize X json =
     res_bind (object_of Deposit_fields json) (\<lambda>fs.
     res_bind (field fs ''proof'' (read_fixed_vector X 33 (B256_deserialize X))) (\<lambda>proof.
     res_bind (field fs ''data'' (DepositData_deserialize X)) (\<lambda>data.
       Ok \<lparr>dp_proof = proof, dp_data = data\<rparr>)))"

definition fits_Deposit :: "externs \<Rightarrow> Deposit \<Rightarrow> bool" where
  "fits_Deposit X v \<longleftrightarrow>
     length (dp_proof v) = 33 \<and> list_all (wf_B256) (dp_proof v) \<and>
     fits_DepositData X (dp_data v)"

lemma Deposit_json [json_laws]:
  "json_env X \<Longrightarrow> fits_Deposit X v \<Longrightarrow>
     Deposit_deserialize X (Deposit_serialize X v) = Ok v"
  by (cases v) (simp add: Deposit_serialize_def Deposit_deserialize_def
      Deposit_fields_def fits_Deposit_def list_all_iff json_laws)

definition VoluntaryExit_fields :: "string list" where
  "VoluntaryExit_fields =
     [''epoch'', ''validator_index'']"

definition VoluntaryExit_serialize :: "externs \<Rightarrow> VoluntaryExit \<Rightarrow> Json" where
  "VoluntaryExit_serialize X v = to_object VoluntaryExit_fields
     [write_u64 (vx_epoch v), write_u64 (vx_validator_index v)]"

definition VoluntaryExit_deserialize :: "externs \<Rightarrow> Json \<Rightarrow> (VoluntaryExit, DeError) res" where
  "VoluntaryExit_deserialize X json =
     res_bind (object_of VoluntaryExit_fields json) (\<lambda>fs.
     res_bind (field fs ''epoch'' read_u64) (\<lambda>epoch.
     res_bind (field fs ''validator_index'' read_u64) (\<lambda>validator_index.
       Ok \<lparr>vx_epoch = epoch, vx_validator_index = validator_index\<rparr>)))"

lemma VoluntaryExit_json [json_laws]:
  "json_env X \<Longrightarrow>
     VoluntaryExit_deserialize X (VoluntaryExit_serialize X v) = Ok v"
  by (cases v) (simp add: VoluntaryExit_serialize_def VoluntaryExit_deserialize_def
      VoluntaryExit_fields_def list_all_iff json_laws)

definition SignedVoluntaryExit_fields :: "string list" where
  "SignedVoluntaryExit_fields =
     [''message'', ''signature'']"

definition SignedVoluntaryExit_serialize :: "externs \<Rightarrow> SignedVoluntaryExit \<Rightarrow> Json" where
  "SignedVoluntaryExit_serialize X v = to_object SignedVoluntaryExit_fields
     [VoluntaryExit_serialize X (svx_message v),
     impl_serde_serialize (BlsSignature_to_string X) (svx_signature v)]"

definition SignedVoluntaryExit_deserialize :: "externs \<Rightarrow> Json \<Rightarrow> (SignedVoluntaryExit, DeError) res" where
  "SignedVoluntaryExit_deserialize X json =
     res_bind (object_of SignedVoluntaryExit_fields json) (\<lambda>fs.
     res_bind (field fs ''message'' (VoluntaryExit_deserialize X)) (\<lambda>message.
     res_bind (field fs ''signature'' (impl_serde_deserialize (BlsSignature_of_str X))) (\<lambda>signature.
       Ok \<lparr>svx_message = message, svx_signature = signature\<rparr>)))"

definition fits_SignedVoluntaryExit :: "externs \<Rightarrow> SignedVoluntaryExit \<Rightarrow> bool" where
  "fits_SignedVoluntaryExit X v \<longleftrightarrow>
     valid_signature X (svx_signature v)"

lemma SignedVoluntaryExit_json [json_laws]:
  "json_env X \<Longrightarrow> fits_SignedVoluntaryExit X v \<Longrightarrow>
     SignedVoluntaryExit_deserialize X (SignedVoluntaryExit_serialize X v) = Ok v"
  by (cases v) (simp add: SignedVoluntaryExit_serialize_def SignedVoluntaryExit_deserialize_def
      SignedVoluntaryExit_fields_def fits_SignedVoluntaryExit_def list_all_iff json_laws)

definition SyncAggregate_fields :: "string list" where
  "SyncAggregate_fields =
     [''sync_committee_bits'', ''sync_committee_signature'']"

definition SyncAggregate_serialize :: "externs \<Rightarrow> SyncAggregate \<Rightarrow> Json" where
  "SyncAggregate_serialize X v = to_object SyncAggregate_fields
     [bitvector_to_serde X 512 (sa_sync_committee_bits v),
     impl_serde_serialize (BlsSignature_to_string X) (sa_sync_committee_signature v)]"

definition SyncAggregate_deserialize :: "externs \<Rightarrow> Json \<Rightarrow> (SyncAggregate, DeError) res" where
  "SyncAggregate_deserialize X json =
     res_bind (object_of SyncAggregate_fields json) (\<lambda>fs.
     res_bind (field fs ''sync_committee_bits'' (read_bitvector X 512)) (\<lambda>sync_committee_bits.
     res_bind (field fs ''sync_committee_signature'' (impl_serde_deserialize (BlsSignature_of_str X))) (\<lambda>sync_committee_signature.
       Ok \<lparr>sa_sync_committee_bits = sync_committee_bits,
       sa_sync_committee_signature = sync_committee_signature\<rparr>)))"

definition fits_SyncAggregate :: "externs \<Rightarrow> SyncAggregate \<Rightarrow> bool" where
  "fits_SyncAggregate X v \<longleftrightarrow>
     length (sa_sync_committee_bits v) = 512 \<and> valid_signature X (sa_sync_committee_signature v)"

lemma SyncAggregate_json [json_laws]:
  "json_env X \<Longrightarrow> fits_SyncAggregate X v \<Longrightarrow>
     SyncAggregate_deserialize X (SyncAggregate_serialize X v) = Ok v"
  by (cases v) (simp add: SyncAggregate_serialize_def SyncAggregate_deserialize_def
      SyncAggregate_fields_def fits_SyncAggregate_def list_all_iff json_laws)

definition BlsToExecutionChange_fields :: "string list" where
  "BlsToExecutionChange_fields =
     [''validator_index'', ''from_bls_pubkey'', ''to_execution_address'']"

definition BlsToExecutionChange_serialize :: "externs \<Rightarrow> BlsToExecutionChange \<Rightarrow> Json" where
  "BlsToExecutionChange_serialize X v = to_object BlsToExecutionChange_fields
     [write_u64 (bec_validator_index v),
     impl_serde_serialize (BlsPublicKey_to_string X) (bec_from_bls_pubkey v),
     Address_serialize X (bec_to_execution_address v)]"

definition BlsToExecutionChange_deserialize :: "externs \<Rightarrow> Json \<Rightarrow> (BlsToExecutionChange, DeError) res" where
  "BlsToExecutionChange_deserialize X json =
     res_bind (object_of BlsToExecutionChange_fields json) (\<lambda>fs.
     res_bind (field fs ''validator_index'' read_u64) (\<lambda>validator_index.
     res_bind (field fs ''from_bls_pubkey'' (impl_serde_deserialize (BlsPublicKey_of_str X))) (\<lambda>from_bls_pubkey.
     res_bind (field fs ''to_execution_address'' (Address_deserialize X)) (\<lambda>to_execution_address.
       Ok \<lparr>bec_validator_index = validator_index, bec_from_bls_pubkey = from_bls_pubkey,
       bec_to_execution_address = to_execution_address\<rparr>))))"

definition fits_BlsToExecutionChange :: "externs \<Rightarrow> BlsToExecutionChange \<Rightarrow> bool" where
  "fits_BlsToExecutionChange X v \<longleftrightarrow>
     valid_key X (bec_from_bls_pubkey v) \<and> wf_Address (bec_to_execution_address v)"

lemma BlsToExecutionChange_json [json_laws]:
  "json_env X \<Longrightarrow> fits_BlsToExecutionChange X v \<Longrightarrow>
     BlsToExecutionChange_deserialize X (BlsToExecutionChange_serialize X v) = Ok v"
  by (cases v) (simp add: BlsToExecutionChange_serialize_def BlsToExecutionChange_deserialize_def
      BlsToExecutionChange_fields_def fits_BlsToExecutionChange_def list_all_iff json_laws)

definition SignedBlsToExecutionChange_fields :: "string list" where
  "SignedBlsToExecutionChange_fields =
     [''message'', ''signature'']"

definition SignedBlsToExecutionChange_serialize :: "externs \<Rightarrow> SignedBlsToExecutionChange \<Rightarrow> Json" where
  "SignedBlsToExecutionChange_serialize X v = to_object SignedBlsToExecutionChange_fields
     [BlsToExecutionChange_serialize X (sbec_message v),
     impl_serde_serialize (BlsSignature_to_string X) (sbec_signature v)]"

definition SignedBlsToExecutionChange_deserialize :: "externs \<Rightarrow> Json \<Rightarrow> (SignedBlsToExecutionChange, DeError) res" where
  "SignedBlsToExecutionChange_deserialize X json =
     res_bind (object_of SignedBlsToExecutionChange_fields json) (\<lambda>fs.
     res_bind (field fs ''message'' (BlsToExecutionChange_deserialize X)) (\<lambda>message.
     res_bind (field fs ''signature'' (impl_serde_deserialize (BlsSignature_of_str X))) (\<lambda>signature.
       Ok \<lparr>sbec_message = message, sbec_signature = signature\<rparr>)))"

definition fits_SignedBlsToExecutionChange :: "externs \<Rightarrow> SignedBlsToExecutionChange \<Rightarrow> bool" where
  "fits_SignedBlsToExecutionChange X v \<longleftrightarrow>
     fits_BlsToExecutionChange X (sbec_message v) \<and> valid_signature X (sbec_signature v)"

lemma SignedBlsToExecutionChange_json [json_laws]:
  "json_env X \<Longrightarrow> fits_SignedBlsToExecutionChange X v \<Longrightarrow>
     SignedBlsToExecutionChange_deserialize X (SignedBlsToExecutionChange_serialize X v) = Ok v"
  by (cases v) (simp add: SignedBlsToExecutionChange_serialize_def SignedBlsToExecutionChange_deserialize_def
      SignedBlsToExecutionChange_fields_def fits_SignedBlsToExecutionChange_def list_all_iff json_laws)

definition BlindedBlockBody_fields :: "string list" where
  "BlindedBlockBody_fields =
     [''randao_reveal'', ''eth1_data'', ''graffiti'', ''proposer_slashings'', ''attester_slashings'',
     ''attestations'', ''deposits'', ''voluntary_exits'', ''sync_aggregate'',
     ''execution_payload_header'', ''bls_to_execution_changes'', ''blob_kzg_commitments'']"

definition BlindedBlockBody_serialize :: "externs \<Rightarrow> BlindedBlockBody \<Rightarrow> Json" where
  "BlindedBlockBody_serialize X v = to_object BlindedBlockBody_fields
     [impl_serde_serialize (BlsSignature_to_string X) (blbb_randao_reveal v),
     Eth1Data_serialize X (blbb_eth1_data v), B256_serialize X (blbb_graffiti v),
     write_seq (ProposerSlashing_serialize X) (blbb_proposer_slashings v),
     write_seq (AttesterSlashing_serialize X) (blbb_attester_slashings v),
     write_seq (Attestation_serialize X) (blbb_attestations v),
     write_seq (Deposit_serialize X) (blbb_deposits v),
     write_seq (SignedVoluntaryExit_serialize X) (blbb_voluntary_exits v),
     SyncAggregate_serialize X (blbb_sync_aggregate v),
     ExecutionPayloadHeader_serialize X (blbb_execution_payload_header v),
     write_seq (SignedBlsToExecutionChange_serialize X) (blbb_bls_to_execution_changes v),
     write_seq (KzgCommitment_json X) (blbb_blob_kzg_commitments v)]"

definition BlindedBlockBody_deserialize :: "externs \<Rightarrow> Json \<Rightarrow> (BlindedBlockBody, DeError) res" where
  "BlindedBlockBody_deserialize X json =
     res_bind (object_of BlindedBlockBody_fields json) (\<lambda>fs.
     res_bind (field fs ''randao_reveal'' (impl_serde_deserialize (BlsSignature_of_str X))) (\<lambda>randao_reveal.
     res_bind (field fs ''eth1_data'' (Eth1Data_deserialize X)) (\<lambda>eth1_data.
     res_bind (field fs ''graffiti'' (B256_deserialize X)) (\<lambda>graffiti.
     res_bind (field fs ''proposer_slashings'' (read_variable_list X 16 (ProposerSlashing_deserialize X))) (\<lambda>proposer_slashings.
     res_bind (field fs ''attester_slashings'' (read_variable_list X 2 (AttesterSlashing_deserialize X))) (\<lambda>attester_slashings.
     res_bind (field fs ''attestations'' (read_variable_list X 128 (Attestation_deserialize X))) (\<lambda>attestations.
     res_bind (field fs ''deposits'' (read_variable_list X 16 (Deposit_deserialize X))) (\<lambda>deposits.
     res_bind (field fs ''voluntary_exits'' (read_variable_list X 16 (SignedVoluntaryExit_deserialize X))) (\<lambda>voluntary_exits.
     res_bind (field fs ''sync_aggregate'' (SyncAggregate_deserialize X)) (\<lambda>sync_aggregate.
     res_bind (field fs ''execution_payload_header'' (ExecutionPayloadHeader_deserialize X)) (\<lambda>execution_payload_header.
     res_bind (field fs ''bls_to_execution_changes'' (read_variable_list X 16 (SignedBlsToExecutionChange_deserialize X))) (\<lambda>bls_to_execution_changes.
     res_bind (field fs ''blob_kzg_commitments'' (read_variable_list X 4096 (KzgCommitment_deserialize X))) (\<lambda>blob_kzg_commitments.
       Ok \<lparr>blbb_randao_reveal = randao_reveal, blbb_eth1_data = eth1_data,
       blbb_graffiti = graffiti, blbb_proposer_slashings = proposer_slashings,
       blbb_attester_slashings = attester_slashings, blbb_attestations = attestations,
       blbb_deposits = deposits, blbb_voluntary_exits = voluntary_exits,
       blbb_sync_aggregate = sync_aggregate, blbb_execution_payload_header = execution_payload_header,
       blbb_bls_to_execution_changes = bls_to_execution_changes,
       blbb_blob_kzg_commitments = blob_kzg_commitments\<rparr>)))))))))))))"

definition fits_BlindedBlockBody :: "externs \<Rightarrow> BlindedBlockBody \<Rightarrow> bool" where
  "fits_BlindedBlockBody X v \<longleftrightarrow>
     valid_signature X (blbb_randao_reveal v) \<and> fits_Eth1Data X (blbb_eth1_data v) \<and>
     wf_B256 (blbb_graffiti v) \<and>
     length (blbb_proposer_slashings v) \<le> 16 \<and> list_all (fits_ProposerSlashing X) (blbb_proposer_slashings v) \<and>
     length (blbb_attester_slashings v) \<le> 2 \<and> list_all (fits_AttesterSlashing X) (blbb_attester_slashings v) \<and>
     length (blbb_attestations v) \<le> 128 \<and> list_all (fits_Attestation X) (blbb_attestations v) \<and>
     length (blbb_deposits v) \<le> 16 \<and> list_all (fits_Deposit X) (blbb_deposits v) \<and>
     length (blbb_voluntary_exits v) \<le> 16 \<and> list_all (fits_SignedVoluntaryExit X) (blbb_voluntary_exits v) \<and>
     fits_SyncAggregate X (blbb_sync_aggregate v) \<and>
     fits_ExecutionPayloadHeader X (blbb_execution_payload_header v) \<and>
     length (blbb_bls_to_execution_changes v) \<le> 16 \<and> list_all (fits_SignedBlsToExecutionChange X) (blbb_bls_to_execution_changes v) \<and>
     length (blbb_blob_kzg_commitments v) \<le> 4096 \<and> (\<forall>x\<in>set (blbb_blob_kzg_commitments v). length (kzg_bytes (x)) = 48)"

lemma BlindedBlockBody_json [json_laws]:
  "json_env X \<Longrightarrow> fits_BlindedBlockBody X v \<Longrightarrow>
     BlindedBlockBody_deserialize X (BlindedBlockBody_serialize X v) = Ok v"
  by (cases v) (simp add: BlindedBlockBody_serialize_def BlindedBlockBody_deserialize_def
      BlindedBlockBody_fields_def fits_BlindedBlockBody_def list_all_iff json_laws)

definition BlindedBlock_fields :: "string list" where
  "BlindedBlock_fields =
     [''slot'', ''proposer_index'', ''parent_root'', ''state_root'', ''body'']"

definition BlindedBlock_serialize :: "externs \<Rightarrow> BlindedBlock \<Rightarrow> Json" where
  "BlindedBlock_serialize X v = to_object BlindedBlock_fields
     [write_u64 (blb_slot v), write_u64 (blb_proposer_index v), B256_serialize X (blb_parent_root v),
     B256_serialize X (blb_state_root v), BlindedBlockBody_serialize X (blb_body v)]"

definition BlindedBlock_deserialize :: "externs \<Rightarrow> Json \<Rightarrow> (BlindedBlock, DeError) res" where
  "BlindedBlock_deserialize X json =
     res_bind (object_of BlindedBlock_fields json) (\<lambda>fs.
     res_bind (field fs ''slot'' read_u64) (\<lambda>slot.
     res_bind (field fs ''proposer_index'' read_u64) (\<lambda>proposer_index.
     res_bind (field fs ''parent_root'' (B256_deserialize X)) (\<lambda>parent_root.
     res_bind (field fs ''state_root'' (B256_deserialize X)) (\<lambda>state_root.
     res_bind (field fs ''body'' (BlindedBlockBody_deserialize X)) (\<lambda>body.
       Ok \<lparr>blb_slot = slot, blb_proposer_index = proposer_index, blb_parent_root = parent_root,
       blb_state_root = state_root, blb_body = body\<rparr>))))))"

definition fits_BlindedBlock :: "externs \<Rightarrow> BlindedBlock \<Rightarrow> bool" where
  "fits_BlindedBlock X v \<longleftrightarrow>
     wf_B256 (blb_parent_root v) \<and> wf_B256 (blb_state_root v) \<and>
     fits_BlindedBlockBody X (blb_body v)"

lemma BlindedBlock_json [json_laws]:
  "json_env X \<Longrightarrow> fits_BlindedBlock X v \<Longrightarrow>
     BlindedBlock_deserialize X (BlindedBlock_serialize X v) = Ok v"
  by (cases v) (simp add: BlindedBlock_serialize_def BlindedBlock_deserialize_def
      BlindedBlock_fields_def fits_BlindedBlock_def list_all_iff json_laws)

definition SignedBlindedBlock_fields :: "string list" where
  "SignedBlindedBlock_fields =
     [''message'', ''signature'']"

definition SignedBlindedBlock_serialize :: "externs \<Rightarrow> SignedBlindedBlock \<Rightarrow> Json" where
  "SignedBlindedBlock_serialize X v = to_object SignedBlindedBlock_fields
     [BlindedBlock_serialize X (sbl_message v),
     impl_serde_serialize (BlsSignature_to_string X) (sbl_signature v)]"

definition SignedBlindedBlock_deserialize :: "externs \<Rightarrow> Json \<Rightarrow> (SignedBlindedBlock, DeError) res" where
  "SignedBlindedBlock_deserialize X json =
     res_bind (object_of SignedBlindedBlock_fields json) (\<lambda>fs.
     res_bind (field fs ''message'' (BlindedBlock_deserialize X)) (\<lambda>message.
     res_bind (field fs ''signature'' (impl_serde_deserialize (BlsSignature_of_str X))) (\<lambda>signature.
       Ok \<lparr>sbl_message = message, sbl_signature = signature\<rparr>)))"

definition fits_SignedBlindedBlock :: "externs \<Rightarrow> SignedBlindedBlock \<Rightarrow> bool" where
  "fits_SignedBlindedBlock X v \<longleftrightarrow>
     fits_BlindedBlock X (sbl_message v) \<and> valid_signature X (sbl_signature v)"

lemma SignedBlindedBlock_json [json_laws]:
  "json_env X \<Longrightarrow> fits_SignedBlindedBlock X v \<Longrightarrow>
     SignedBlindedBlock_deserialize X (SignedBlindedBlock_serialize X v) = Ok v"
  by (cases v) (simp add: SignedBlindedBlock_serialize_def SignedBlindedBlock_deserialize_def
      SignedBlindedBlock_fields_def fits_SignedBlindedBlock_def list_all_iff json_laws)

section \<open>Versioned answers\<close>

definition Versioned_fields :: "string list" where
  "Versioned_fields = [''version'', ''data'']"

definition Versioned_serialize :: "('a \<Rightarrow> Json) \<Rightarrow> 'a Versioned \<Rightarrow> Json" where
  "Versioned_serialize writer v = to_object Versioned_fields
     [ForkName_serialize (ver_version v), writer (ver_data v)]"

definition Versioned_deserialize ::
    "(Json \<Rightarrow> ('a, DeError) res) \<Rightarrow> Json \<Rightarrow> ('a Versioned, DeError) res" where
  "Versioned_deserialize reader json =
     res_bind (object_of Versioned_fields json) (\<lambda>fs.
     res_bind (field fs ''version'' ForkName_deserialize) (\<lambda>version.
     res_bind (field fs ''data'' reader) (\<lambda>data.
       Ok \<lparr>ver_version = version, ver_data = data\<rparr>)))"

lemma Versioned_json [json_laws]:
  "reader (writer (ver_data v)) = Ok (ver_data v) \<Longrightarrow>
     Versioned_deserialize reader (Versioned_serialize writer v) = Ok v"
  by (cases v) (simp add: Versioned_serialize_def Versioned_deserialize_def Versioned_fields_def json_laws)

section \<open>What the JSON of a type promises\<close>

locale json_codec =
  fixes writer :: "'a \<Rightarrow> Json" and reader :: "Json \<Rightarrow> ('a, DeError) res" and fits :: "'a \<Rightarrow> bool"
  assumes reads_back: "fits v \<Longrightarrow> reader (writer v) = Ok v"
begin

lemma list_reads_back: "list_all fits vs \<Longrightarrow> read_seq reader (write_seq writer vs) = Ok vs"
  by (rule seq_json) (simp add: list_all_iff reads_back)

lemma versioned_reads_back:
  "fits (ver_data v) \<Longrightarrow> Versioned_deserialize reader (Versioned_serialize writer v) = Ok v"
  by (simp add: Versioned_json reads_back)

lemma writer_inj: "fits v \<Longrightarrow> fits v' \<Longrightarrow> writer v = writer v' \<longleftrightarrow> v = v'"
  using reads_back by (metis res.inject(1))

end

interpretation submission_json: json_codec "BidSubmission_serialize X" "BidSubmission_deserialize X"
    "\<lambda>v. json_env X \<and> fits_BidSubmission X v" for X
  by unfold_locales (simp add: BidSubmission_json)

interpretation block_json: json_codec "SignedBlindedBlock_serialize X" "SignedBlindedBlock_deserialize X"
    "\<lambda>v. json_env X \<and> fits_SignedBlindedBlock X v" for X
  by unfold_locales (simp add: SignedBlindedBlock_json)

interpretation registration_json: json_codec "ValidatorRegistration_serialize X"
    "ValidatorRegistration_deserialize X" "\<lambda>v. json_env X \<and> fits_ValidatorRegistration X v" for X
  by unfold_locales (simp add: ValidatorRegistration_json)

interpretation duty_json: json_codec "Validator_serialize X" "Validator_deserialize X"
    "\<lambda>v. json_env X \<and> fits_Validator X v" for X
  by unfold_locales (simp add: Validator_json)

interpretation header_json: json_codec "SignedHeader_serialize X" "SignedHeader_deserialize X"
    "\<lambda>v. json_env X \<and> fits_SignedHeader X v" for X
  by unfold_locales (simp add: SignedHeader_json)

interpretation response_json: json_codec "BlindedBlockResponse_serialize X" "BlindedBlockResponse_deserialize X"
    "\<lambda>v. json_env X \<and> fits_BlindedBlockResponse X v" for X
  by unfold_locales (simp add: BlindedBlockResponse_json)

section \<open>Bodies\<close>

text \<open>
  \<open>parse\<close> and \<open>render\<close> are \<open>from_slice\<close> and \<open>to_vec\<close> of \<open>serde_json\<close>: a value is read back from its
  text, and a string of plain characters is written between quotes.
\<close>

definition plain_text :: "string \<Rightarrow> bool" where
  "plain_text s \<longleftrightarrow> list_all (\<lambda>c. 32 \<le> (of_char c :: nat) \<and> of_char c < (127 :: nat) \<and>
     c \<noteq> CHR 0x22 \<and> c \<noteq> CHR 0x5C) s"

definition ascii :: "string \<Rightarrow> bytes" where
  "ascii s = map of_char s"

definition json_texts :: "(bytes \<Rightarrow> (Json, string) res) \<Rightarrow> (Json \<Rightarrow> bytes) \<Rightarrow> bool" where
  "json_texts parse render \<longleftrightarrow>
     (\<forall>j. parse (render j) = Ok j) \<and>
     (\<forall>s. plain_text s \<longrightarrow> render (JString s) = ascii (CHR 0x22 # s @ [CHR 0x22]))"

definition from_body ::
    "(bytes \<Rightarrow> (Json, string) res) \<Rightarrow> (Json \<Rightarrow> ('a, DeError) res) \<Rightarrow> bytes \<Rightarrow> 'a option" where
  "from_body parse reader bs =
     (case parse bs of
        Ok json \<Rightarrow> (case reader json of Ok a \<Rightarrow> Some a | _ \<Rightarrow> None)
      | _ \<Rightarrow> None)"

lemma from_body_render:
  "json_texts parse render \<Longrightarrow> reader json = Ok a \<Longrightarrow> from_body parse reader (render json) = Some a"
  by (simp add: json_texts_def from_body_def)

text \<open>The decoders of the server, for the two queries that \<open>serde_urlencoded\<close> reads.\<close>

definition serde_decoders ::
    "externs \<Rightarrow> (bytes \<Rightarrow> (Json, string) res) \<Rightarrow> (string \<Rightarrow> string option) \<Rightarrow> (string \<Rightarrow> QueryParams option)
     \<Rightarrow> Decoders" where
  "serde_decoders X parse api_key params =
     \<lparr>de_blinded_block = from_body parse (SignedBlindedBlock_deserialize X),
      de_registrations = from_body parse (read_seq (ValidatorRegistration_deserialize X)),
      de_submission = from_body parse (BidSubmission_deserialize X),
      de_api_key = api_key, de_params = params\<rparr>"

text \<open>The bytes of a reply.\<close>

fun body_bytes :: "externs \<Rightarrow> (Json \<Rightarrow> bytes) \<Rightarrow> ReplyBody \<Rightarrow> bytes" where
  "body_bytes X render (Text s) = ascii s"
| "body_bytes X render (JsonString s) = render (JString s)"
| "body_bytes X render (JsonHeader h) = render (Versioned_serialize (SignedHeader_serialize X) h)"
| "body_bytes X render (JsonBlindedBlock b) = render (Versioned_serialize (BlindedBlockResponse_serialize X) b)"
| "body_bytes X render (JsonDuties ds) = render (write_seq (Validator_serialize X) ds)"
| "body_bytes X render (JsonBids bs) = render (write_seq (BidSubmission_serialize X) bs)"

text \<open>A POST with a JSON body, as a client of the API makes it.\<close>

definition json_post :: "string list \<Rightarrow> string option \<Rightarrow> bytes \<Rightarrow> HttpRequest" where
  "json_post path query body =
     \<lparr>hq_method = POST, hq_path = path, hq_query = query, hq_content_type = Some ''application/json'',
      hq_content_length = Some (length body), hq_body = body\<rparr>"

lemma json_body_post:
  "length body \<le> size_limit \<Longrightarrow> from_json body = Some a \<Longrightarrow>
     json_body size_limit from_json (json_post path query body) = Ok a"
  by (simp add: json_body_def json_post_def)

section \<open>Properties\<close>

text \<open>
  C30. A submission, a blinded block or a list of registrations that a client writes as JSON, of at most the
  size that the route admits, is handled by the server as the value it was written from; a header,
  payload, list of duties or of bids that the server replies with is read by the client as the value that
  the handler returned.
\<close>

theorem json_bodies_delivered:
  fixes api_key params
  assumes "json_env X" and "json_texts parse render"
  defines "D \<equiv> serde_decoders X parse api_key params"
  shows "(let body = render (BidSubmission_serialize X b) in
      fits_BidSubmission X b \<and> length body \<le> bids_limit \<longrightarrow>
      RelayHttpServer_routes X S env D (json_post [''relay'', ''v1'', ''builder'', ''blocks''] query body) w
        = post_bids_handler X S b w) \<and>
    (let body = render (SignedBlindedBlock_serialize X sb) in
      fits_SignedBlindedBlock X sb \<and> length body \<le> blinded_blocks_limit \<longrightarrow>
      RelayHttpServer_routes X S env D (json_post [''eth'', ''v1'', ''builder'', ''blinded_blocks''] query body) w
        = blinded_blocks_handler X S sb (su_elapsed env) w) \<and>
    (let body = render (write_seq (ValidatorRegistration_serialize X) regs) in
      list_all (fits_ValidatorRegistration X) regs \<and> length body \<le> validators_limit \<and>
      api_key q = Some key \<and> is_ok (su_auth env key) \<longrightarrow>
      RelayHttpServer_routes X S env D (json_post [''eth'', ''v1'', ''builder'', ''validators''] (Some q) body) w
        = post_validators_handler X S (su_known env) regs w) \<and>
    (fits_SignedHeader X (ver_data h) \<longrightarrow>
      from_body parse (Versioned_deserialize (SignedHeader_deserialize X)) (body_bytes X render (JsonHeader h)) = Some h) \<and>
    (fits_BlindedBlockResponse X (ver_data r) \<longrightarrow>
      from_body parse (Versioned_deserialize (BlindedBlockResponse_deserialize X))
        (body_bytes X render (JsonBlindedBlock r)) = Some r) \<and>
    (list_all (fits_Validator X) duties \<longrightarrow>
      from_body parse (read_seq (Validator_deserialize X)) (body_bytes X render (JsonDuties duties)) = Some duties) \<and>
    (list_all (fits_BidSubmission X) bids \<longrightarrow>
      from_body parse (read_seq (BidSubmission_deserialize X)) (body_bytes X render (JsonBids bids)) = Some bids)"
proof -
  note body = from_body_render [OF assms(2)]
  have lists: "list_all P vs \<Longrightarrow> list_all (\<lambda>v. json_env X \<and> P v) vs" for P and vs :: "'v list"
    using assms(1) by (simp add: list_all_iff)
  have bid: "fits_BidSubmission X b \<Longrightarrow>
      from_body parse (BidSubmission_deserialize X) (render (BidSubmission_serialize X b)) = Some b"
    using assms(1) by (intro body submission_json.reads_back conjI)
  have block: "fits_SignedBlindedBlock X sb \<Longrightarrow>
      from_body parse (SignedBlindedBlock_deserialize X) (render (SignedBlindedBlock_serialize X sb)) = Some sb"
    using assms(1) by (intro body block_json.reads_back conjI)
  have regs: "list_all (fits_ValidatorRegistration X) regs \<Longrightarrow>
      from_body parse (read_seq (ValidatorRegistration_deserialize X))
        (render (write_seq (ValidatorRegistration_serialize X) regs)) = Some regs"
    by (intro body registration_json.list_reads_back lists)
  have header: "fits_SignedHeader X (ver_data h) \<Longrightarrow>
      from_body parse (Versioned_deserialize (SignedHeader_deserialize X))
        (render (Versioned_serialize (SignedHeader_serialize X) h)) = Some h"
    using assms(1) by (intro body header_json.versioned_reads_back conjI)
  have response: "fits_BlindedBlockResponse X (ver_data r) \<Longrightarrow>
      from_body parse (Versioned_deserialize (BlindedBlockResponse_deserialize X))
        (render (Versioned_serialize (BlindedBlockResponse_serialize X) r)) = Some r"
    using assms(1) by (intro body response_json.versioned_reads_back conjI)
  have duties: "list_all (fits_Validator X) duties \<Longrightarrow>
      from_body parse (read_seq (Validator_deserialize X)) (render (write_seq (Validator_serialize X) duties))
        = Some duties"
    by (intro body duty_json.list_reads_back lists)
  have bids: "list_all (fits_BidSubmission X) bids \<Longrightarrow>
      from_body parse (read_seq (BidSubmission_deserialize X)) (render (write_seq (BidSubmission_serialize X) bids))
        = Some bids"
    by (intro body submission_json.list_reads_back lists)
  have "fits_BidSubmission X b \<and> length body \<le> bids_limit \<longrightarrow>
      RelayHttpServer_routes X S env D (json_post [''relay'', ''v1'', ''builder'', ''blocks''] query body) w
        = post_bids_handler X S b w" if "body = render (BidSubmission_serialize X b)" for body
    using bid that
    by (simp add: routes_by_path json_post_def post_bids_route_def warp_post_def D_def serde_decoders_def
        json_body_post [unfolded json_post_def])
  moreover have "fits_SignedBlindedBlock X sb \<and> length body \<le> blinded_blocks_limit \<longrightarrow>
      RelayHttpServer_routes X S env D (json_post [''eth'', ''v1'', ''builder'', ''blinded_blocks''] query body) w
        = blinded_blocks_handler X S sb (su_elapsed env) w" if "body = render (SignedBlindedBlock_serialize X sb)" for body
    using block that
    by (simp add: routes_by_path json_post_def post_blinded_blocks_route_def warp_post_def D_def
        serde_decoders_def json_body_post [unfolded json_post_def])
  moreover have "list_all (fits_ValidatorRegistration X) regs \<and> length body \<le> validators_limit \<and>
      api_key q = Some key \<and> is_ok (su_auth env key) \<longrightarrow>
      RelayHttpServer_routes X S env D (json_post [''eth'', ''v1'', ''builder'', ''validators''] (Some q) body) w
        = post_validators_handler X S (su_known env) regs w"
    if "body = render (write_seq (ValidatorRegistration_serialize X) regs)" for body
    using regs that
    by (auto simp: routes_by_path json_post_def post_validators_route_def warp_post_def warp_query_def D_def
        serde_decoders_def validate_api_key_def is_ok_iff json_body_post [unfolded json_post_def])
  ultimately show ?thesis using header response duties bids by (simp add: Let_def)
qed

text \<open>
  The blobs of a bundle are read and written as sequences of numbers: a bundle, and so a submission, with
  a blob in hexadecimal digits, the form of its commitments and proofs, is rejected.
\<close>

theorem blob_text_rejected:
  assumes "map_of outer ''blobs_bundle'' = Some (JObject fs)"
    and "map_of fs ''blobs'' = Some (JSeq (js @ JString s # js'))"
  shows "\<not> is_ok (BlobsBundle_deserialize X (JObject fs)) \<and> \<not> is_ok (BidSubmission_deserialize X (JObject outer))"
proof -
  have "res_mapM (read_fixed_vector X 131072 read_u8) (js @ JString s # js') \<noteq> Ok vs" for vs
    by (auto simp: res_mapM_eq_Ok list_all2_append1 list_all2_Cons1 read_fixed_vector_def)
  then have "BlobsBundle_deserialize X (JObject fs) \<noteq> Ok b" for b
    using assms(2)
    by (auto simp: BlobsBundle_deserialize_def field_def read_variable_list_def res_simps)
  moreover from this have "BidSubmission_deserialize X (JObject outer) \<noteq> Ok b" for b
    using assms(1) by (auto simp: BidSubmission_deserialize_def field_def res_simps)
  ultimately show ?thesis by (simp add: is_ok_iff)
qed

end
