(* ===== verification/Examples.thy ===== *)
theory Examples
  imports Http_Server Grpc_Service
begin

text \<open>
  A concrete instance of the third-party functions that satisfies their documented behaviour, and a
  small relay with one builder, one registered proposer and one duty. The properties that have
  hypotheses are applied to it.
\<close>

section \<open>A concrete instance of the third-party functions\<close>

text \<open>
  The signature of a key on a message is a fixed-width string made of both; hexadecimal strings are
  read and written as documented; roots are padded or truncated concatenations.
\<close>

definition toy_sig :: "bytes \<Rightarrow> Hash256 \<Rightarrow> bytes" where
  "toy_sig pk msg = 1 # take 95 (msg @ pk @ replicate 95 0)"

definition toy_pk :: "bytes \<Rightarrow> bytes" where
  "toy_pk sk = take 48 (sk @ replicate 48 0)"

definition toy_root :: "Hash256 list \<Rightarrow> Hash256" where
  "toy_root rs = take 32 (concat rs @ replicate 32 0)"

definition toy_key_gen :: "bytes \<Rightarrow> bytes \<Rightarrow> (bytes, BLST_ERROR) res" where
  "toy_key_gen ikm info = (if length ikm = 32 then Ok (1 # tl ikm) else Err BLST_BAD_ENCODING)"

text \<open>Decimal numbers.\<close>

definition is_digit :: "char \<Rightarrow> bool" where
  "is_digit c \<longleftrightarrow> c \<in> set ''0123456789''"

definition dec_value :: "string \<Rightarrow> nat" where
  "dec_value = foldl (\<lambda>n c. 10 * n + (of_char c - 48)) 0"

definition toy_u256_from_str :: "string \<Rightarrow> (u256, string) res" where
  "toy_u256_from_str s =
     (if s \<noteq> [] \<and> list_all is_digit s then Ok (of_nat (dec_value s)) else Err ''invalid digit'')"

definition unhex_digit :: "char \<Rightarrow> nat option" where
  "unhex_digit c = List.find (\<lambda>i. ''0123456789abcdef'' ! i = c) [0..<16]"

fun toy_hex_decode :: "string \<Rightarrow> (bytes, string) res" where
  "toy_hex_decode [] = Ok []"
| "toy_hex_decode [c] = Err ''odd length''"
| "toy_hex_decode (c # d # cs) =
     (case (unhex_digit c, unhex_digit d) of
        (Some a, Some b) \<Rightarrow> res_bind (toy_hex_decode cs) (\<lambda>bs. Ok (of_nat (16 * a + b) # bs))
      | _ \<Rightarrow> Err ''invalid character'')"

definition toy_fixed :: "nat \<Rightarrow> string \<Rightarrow> (bytes, string) res" where
  "toy_fixed n s =
     res_bind (toy_hex_decode (if take 2 s = ''0x'' then drop 2 s else s))
       (\<lambda>bs. if length bs = n then Ok bs else Err ''invalid length'')"

definition toy_fixed_json :: "nat \<Rightarrow> Json \<Rightarrow> (bytes, string) res" where
  "toy_fixed_json n json = (case json of JString s \<Rightarrow> toy_fixed n s | _ \<Rightarrow> Err ''invalid type'')"

text \<open>Numbers from decimal digits, or from hexadecimal digits after a prefix.\<close>

definition toy_u256_text :: "string \<Rightarrow> (u256, string) res" where
  "toy_u256_text s =
     (if take 2 s = ''0x''
      then (case those (map unhex_digit (drop 2 s)) of
              Some ds \<Rightarrow> Ok (of_nat (foldl (\<lambda>n d. 16 * n + d) 0 ds))
            | None \<Rightarrow> Err ''invalid digit'')
      else toy_u256_from_str s)"

definition bytes_bits :: "bytes \<Rightarrow> bool list" where
  "bytes_bits bs = concat (map (\<lambda>b. map (bit b) [0..<8]) bs)"

definition toy_bits :: "Json \<Rightarrow> (bool list, string) res" where
  "toy_bits json =
     (case json of
        JString s \<Rightarrow> res_bind (toy_hex_decode (drop 2 s)) (\<lambda>bs. Ok (bytes_bits bs))
      | _ \<Rightarrow> Err ''invalid type'')"

definition toy_externs :: externs where
  "toy_externs =
    \<lparr>blst_pk_from_bytes = (\<lambda>bs. if length bs = 48 then Ok bs else Err BLST_BAD_ENCODING),
     blst_pk_default = 0xc0 # replicate 47 0,
     blst_pk_key_validate = (\<lambda>bs. if length bs = 48 then Ok bs else Err BLST_BAD_ENCODING),
     blst_sig_from_bytes = (\<lambda>bs. if length bs = 96 then Ok bs else Err BLST_BAD_ENCODING),
     blst_sig_verify = (\<lambda>s check msg dst aug pk validate.
       if s = toy_sig pk msg then BLST_SUCCESS else BLST_VERIFY_FAIL),
     blst_sk_from_bytes = (\<lambda>bs. Ok bs),
     blst_sk_key_gen = toy_key_gen,
     blst_sk_to_pk = toy_pk,
     blst_sk_sign = (\<lambda>sk msg dst aug. toy_sig (toy_pk sk) msg),
     th_container = toy_root,
     th_u64 = (\<lambda>v. [ucast v]),
     th_u8_array = (\<lambda>bs. bs),
     th_hash256 = (\<lambda>h. h),
     th_merkle_root = (\<lambda>bs n. bs),
     th_fixed_vector_bytes = (\<lambda>n bs. bs),
     th_variable_list_bytes = (\<lambda>n bs. bs),
     th_variable_list_u64 = (\<lambda>n vs. map ucast vs),
     th_variable_list = (\<lambda>n rs. toy_root rs),
     th_fixed_vector = (\<lambda>n rs. concat rs),
     th_bitlist = (\<lambda>n bs. map (\<lambda>b. if b then 1 else 0) bs),
     th_bitvector = (\<lambda>n bs. map (\<lambda>b. if b then 1 else 0) bs),
     fixed_vector_from = (\<lambda>n bs. take n bs @ replicate (n - length bs) 0),
     fixed_vector_new_ok = (\<lambda>n k. k = n),
     variable_list_from = (\<lambda>n bs. take n bs),
     variable_list_new_ok = (\<lambda>n k. k \<le> n),
     keccak256 = (\<lambda>bs. take 32 (bs @ replicate 32 0)),
     u256_from_str = toy_u256_text,
     u256_to_string = (\<lambda>v. nat_to_string (unat v)),
     u256_from_be_slice = foldl (\<lambda>a b. a * 256 + ucast b) 0,
     u256_as_le_slice = (\<lambda>v. map (\<lambda>i. ucast (drop_bit (8 * i) v)) [0..<32]),
     u256_try_into_u64 = (\<lambda>v. if unat v < 2 ^ 64 then Some (ucast v) else None),
     b256_from_str = toy_fixed 32,
     hash256_from_str = toy_fixed 32,
     address_from_str = toy_fixed 20,
     hex_decode = toy_hex_decode,
     hex_encode = (\<lambda>bs. concat (map hex_byte bs)),
     serde_hex_decode = (\<lambda>s. if take 2 s = ''0x'' then toy_hex_decode (drop 2 s)
       else Err ''missing prefix''),
     serde_hex_encode = (\<lambda>bs. ''0x'' @ concat (map hex_byte bs)),
     fixed_bytes_to_serde = (\<lambda>bs. JString (''0x'' @ concat (map hex_byte bs))),
     fixed_bytes_from_serde = toy_fixed_json,
     u256_to_serde = (\<lambda>v. JString (nat_to_string (unat v))),
     u256_from_serde = (\<lambda>json. case json of JString s \<Rightarrow> toy_u256_text s | _ \<Rightarrow> Err ''invalid type''),
     bitlist_to_serde = (\<lambda>n bs. JString (''0x'' @ concat (map hex_byte (bits_bytes (bs @ [True]))))),
     bitlist_from_serde = (\<lambda>n json. res_bind (toy_bits json)
       (\<lambda>bs. Ok (butlast (rev (dropWhile Not (rev bs)))))),
     bitvector_to_serde = (\<lambda>n bs. JString (''0x'' @ concat (map hex_byte (bits_bytes bs)))),
     bitvector_from_serde = (\<lambda>n json. res_bind (toy_bits json) (\<lambda>bs. Ok (take n bs))),
     variable_list_serde_ok = (\<lambda>n k. k \<le> n),
     fixed_vector_serde_ok = (\<lambda>n k. k = n),
     ssz_error_debug = (\<lambda>n k. ''OutOfBounds'')\<rparr>"

lemma toy_sel [simp]:
  "blst_pk_from_bytes toy_externs bs = (if length bs = 48 then Ok bs else Err BLST_BAD_ENCODING)"
  "blst_pk_key_validate toy_externs bs = (if length bs = 48 then Ok bs else Err BLST_BAD_ENCODING)"
  "blst_sig_from_bytes toy_externs bs = (if length bs = 96 then Ok bs else Err BLST_BAD_ENCODING)"
  "blst_sig_verify toy_externs s check msg dst aug pk validate =
     (if s = toy_sig pk msg then BLST_SUCCESS else BLST_VERIFY_FAIL)"
  "blst_sk_from_bytes toy_externs bs = Ok bs"
  "blst_sk_key_gen toy_externs = toy_key_gen"
  "blst_pk_default toy_externs = 0xc0 # replicate 47 0"
  "blst_sk_to_pk toy_externs = toy_pk"
  "blst_sk_sign toy_externs sk msg dst aug = toy_sig (toy_pk sk) msg"
  "th_container toy_externs = toy_root" "th_variable_list toy_externs n rs = toy_root rs"
  "variable_list_new_ok toy_externs n k = (k \<le> n)"
  "fixed_vector_new_ok toy_externs n k = (k = n)"
  "variable_list_from toy_externs n bs = take n bs"
  "fixed_vector_from toy_externs n bs = take n bs @ replicate (n - length bs) 0"
  "u256_from_str toy_externs = toy_u256_text"
  "hex_decode toy_externs = toy_hex_decode"
  "hex_encode toy_externs bs = concat (map hex_byte bs)"
  "u256_to_string toy_externs v = nat_to_string (unat v)"
  "b256_from_str toy_externs = toy_fixed 32" "hash256_from_str toy_externs = toy_fixed 32"
  "address_from_str toy_externs = toy_fixed 20"
  "serde_hex_encode toy_externs bs = ''0x'' @ concat (map hex_byte bs)"
  by (simp_all add: toy_externs_def)

lemma toy_lengths [simp]:
  "length (toy_sig pk msg) = 96" "length (toy_pk sk) = 48" "length (toy_root rs) = 32"
  by (simp_all add: toy_sig_def toy_pk_def toy_root_def)

lemma toy_sig_neq_zeros [simp]: "toy_sig pk msg \<noteq> replicate 96 0"
  by (simp add: toy_sig_def numeral_eq_Suc)

lemma unhex_digit: "n < 16 \<Longrightarrow> unhex_digit (hex_digit n) = Some n"
proof -
  have "\<forall>n\<in>set [0..<16]. unhex_digit (hex_digit n) = Some n"
    by (simp add: unhex_digit_def hex_digit_def upt_rec)
  then show "n < 16 \<Longrightarrow> ?thesis" by simp
qed

lemma dec_value_snoc: "dec_value (s @ [c]) = 10 * dec_value s + (of_char c - 48)"
  by (simp add: dec_value_def)

lemma digit_char: "n < 10 \<Longrightarrow> is_digit (char_of (48 + n)) \<and> of_char (char_of (48 + n) :: char) = 48 + n"
  for n :: nat
proof -
  have "\<forall>n\<in>set [0..<10::nat]. is_digit (char_of (48 + n)) \<and> of_char (char_of (48 + n) :: char) = 48 + n"
    by code_simp
  then show "n < 10 \<Longrightarrow> ?thesis" by simp
qed

lemma dec_nat_to_string:
  "nat_to_string n \<noteq> [] \<and> list_all is_digit (nat_to_string n) \<and> dec_value (nat_to_string n) = n"
proof (induction n rule: nat_to_string.induct)
  case (1 n)
  show ?case
  proof (cases "n < 10")
    case True
    then show ?thesis
      using digit_char [of n] by (simp add: nat_to_string.simps [of n] dec_value_def)
  next
    case False
    with 1 show ?thesis
      using digit_char [of "n mod 10"] by (simp add: nat_to_string.simps [of n] dec_value_snoc)
  qed
qed

lemma toy_u256_from_nat: "toy_u256_from_str (nat_to_string n) = Ok (of_nat n)"
  by (simp add: toy_u256_from_str_def dec_nat_to_string)

lemma toy_u256_text_nat [simp]: "toy_u256_text (nat_to_string n) = Ok (of_nat n)"
proof -
  have "list_all is_digit (nat_to_string n)" using dec_nat_to_string by blast
  then have "take 2 (nat_to_string n) \<noteq> ''0x''"
    by (cases "nat_to_string n"; cases "tl (nat_to_string n)") (auto simp: is_digit_def numeral_2_eq_2)
  then show ?thesis by (simp add: toy_u256_text_def toy_u256_from_nat)
qed

lemma toy_u256_1000 [simp]: "toy_u256_text ''1000'' = Ok 1000"
  by (simp add: toy_u256_text_def toy_u256_from_str_def is_digit_def dec_value_def)

lemma toy_hex_decode_encode: "toy_hex_decode (concat (map hex_byte bs)) = Ok bs"
proof (induction bs)
  case (Cons b bs)
  have "unat b < 2 ^ LENGTH(8)" by (rule unsigned_less)
  then have "unat b div 16 < 16" by simp
  then have "unhex_digit (hex_digit (unat b div 16)) = Some (unat b div 16)"
    "unhex_digit (hex_digit (unat b mod 16)) = Some (unat b mod 16)"
    by (simp_all add: unhex_digit)
  with Cons show ?case by (simp add: hex_byte_def flip: of_nat_mult of_nat_add)
qed simp

lemma toy_documented:
  "blst_encodings toy_externs" "blst_correct toy_externs" "tree_hash_width toy_externs"
  "ssz_containers toy_externs" "hex_documented toy_externs" "blst_signatures toy_externs"
  by (auto simp: blst_encodings_def blst_correct_def tree_hash_width_def ssz_containers_def
      hex_documented_def blst_signatures_def toy_hex_decode_encode split: if_splits)
    (simp_all add: toy_externs_def toy_hex_decode_encode)

lemma toy_texts: "texts_documented toy_externs"
proof -
  have "take 2 (concat (map hex_byte bs)) \<noteq> ''0x''" for bs
    using hex_encode_no_0x [OF toy_documented(5)] by simp
  then have "toy_fixed n (concat (map hex_byte bs)) = Ok bs"
    "toy_fixed n (''0x'' @ concat (map hex_byte bs)) = Ok bs" if "length bs = n" for n bs
    using that by (simp_all add: toy_fixed_def toy_hex_decode_encode)
  moreover have "toy_u256_text ''0x0'' = Ok 0" by code_simp
  moreover have "toy_u256_text (nat_to_string (unat v)) = Ok v" for v by simp
  ultimately show ?thesis
    unfolding texts_documented_def toy_sel toy_u256_text_nat by blast
qed

lemma bits_byte:
  assumes "length bs \<le> 8"
  shows "map (bit (horner_sum of_bool 2 bs :: u8)) [0..<8] = bs @ replicate (8 - length bs) False"
  using assms by (auto intro!: nth_equalityI simp: bit_horner_sum_bit_iff nth_append split: if_splits)

lemma bytes_bits: "\<exists>n. bytes_bits (bits_bytes bs) = bs @ replicate n False"
proof (induction bs rule: bits_bytes.induct)
  case (2 b bs)
  let ?h = "take 8 (b # bs)"
  from 2 obtain n where n: "bytes_bits (bits_bytes (drop 8 (b # bs))) = drop 8 (b # bs) @ replicate n False"
    by blast
  have "bytes_bits (bits_bytes (b # bs)) =
      map (bit (horner_sum of_bool 2 ?h :: u8)) [0..<8] @ bytes_bits (bits_bytes (drop 8 (b # bs)))"
    by (simp add: bytes_bits_def)
  also have "\<dots> = ?h @ replicate (8 - length ?h) False @ drop 8 (b # bs) @ replicate n False"
    by (simp only: n bits_byte length_take min.cobounded2 append_assoc)
  also have "\<exists>m. ?h @ replicate (8 - length ?h) False @ drop 8 (b # bs) @ replicate n False
      = (b # bs) @ replicate m False"
  proof (cases "length (b # bs) < 8")
    case True
    then have "drop 8 (b # bs) = []" "?h = b # bs" by simp_all
    then show ?thesis by (simp only: append_Nil flip: replicate_add) blast
  next
    case False
    then have "replicate (8 - length ?h) False = []" by simp
    then show ?thesis by (simp only: append_Nil append_take_drop_id flip: append_assoc) blast
  qed
  finally show ?case .
qed (simp add: bytes_bits_def)

lemma toy_serde: "serde_documented toy_externs"
proof -
  have "dropWhile Not (replicate n False @ True # bs) = True # bs" for n bs
    by (induction n) simp_all
  then have list: "butlast (rev (dropWhile Not (rev (bytes_bits (bits_bytes (bs @ [True])))))) = bs" for bs
    using bytes_bits [of "bs @ [True]"] by auto
  have vector: "take (length bs) (bytes_bits (bits_bytes bs)) = bs" for bs
    using bytes_bits [of bs] by auto
  have fixed: "toy_fixed (length bs) (''0x'' @ concat (map hex_byte bs)) = Ok bs" for bs
    by (simp add: toy_fixed_def toy_hex_decode_encode)
  show ?thesis
    unfolding serde_documented_def using list vector fixed
    by (auto simp: toy_externs_def toy_fixed_json_def toy_bits_def toy_hex_decode_encode)
qed

lemma toy_keys: "blst_keys toy_externs"
proof -
  have "hd (toy_pk (1 # bs)) = 1" for bs by (simp add: toy_pk_def hd_take)
  then have "toy_pk (1 # bs) \<noteq> 0xc0 # replicate 47 0" "1 # bs \<noteq> replicate 32 0" for bs
    by (auto dest: arg_cong [of _ _ hd])
  then show ?thesis by (auto simp: blst_keys_def toy_key_gen_def split: if_splits)
qed

section \<open>A small relay\<close>

definition demo_builder :: BlsPublicKey where "demo_builder = BlsPublicKey (replicate 48 1)"
definition demo_proposer :: BlsPublicKey where "demo_proposer = BlsPublicKey (replicate 48 2)"

definition demo_fork :: ForkDatas where
  "demo_fork = from_genesis_and_current_version [0, 0, 0, 0] [4, 0, 0, 0] (replicate 32 7)"

definition demo_registration :: ValidatorRegistration where
  "demo_registration =
     (let m = \<lparr>vrm_fee_recipient = Address_zero, vrm_gas_limit = 30000000, vrm_timestamp = 1,
               vrm_pubkey = demo_proposer\<rparr> in
      \<lparr>vr_message = m,
       vr_signature = BlsSignature_from_point (toy_sig (pk_serialize demo_proposer)
         (signing_root toy_externs (ValidatorRegistrationMessage_tree_hash_root toy_externs m)
           (compute_builder_domain toy_externs demo_fork))) False\<rparr>)"

definition demo_duty :: Validator where
  "demo_duty = \<lparr>val_slot = 11, val_validator_index = 7, val_entry = demo_registration\<rparr>"

definition demo_attrs :: PayloadAttributes where
  "demo_attrs = \<lparr>pa_proposal_slot = 11, pa_parent_block_root = replicate 32 8, pa_parent_block_number = 99,
     pa_parent_block_hash = replicate 32 9, pa_proposer_index = 7, pa_timestamp = 5,
     pa_prev_randao = replicate 32 0, pa_suggested_fee_recipient = replicate 20 0,
     pa_withdrawals = Some [], pa_parent_beacon_block_root = None\<rparr>"

definition demo_world :: relay_world where
  "demo_world = InMemoryStorage_new (HeadSlot 10) demo_attrs [demo_builder] demo_fork
     (Mapping.update demo_proposer demo_registration Mapping.empty) [demo_duty] RelayMetrics_zero"

text \<open>Payload and bid number \<open>n\<close>: the block hash is made of \<open>n\<close>.\<close>

definition demo_payload :: "u8 \<Rightarrow> ExecutionPayload" where
  "demo_payload n =
    \<lparr>ep_parent_hash = B256 (replicate 32 9), ep_fee_recipient = Address_zero,
     ep_state_root = B256_zero, ep_receipts_root = B256_zero, ep_logs_bloom = replicate 256 0,
     ep_prev_randao = B256 (replicate 32 0), ep_block_number = 100, ep_gas_limit = 30000000,
     ep_gas_used = 21000, ep_timestamp = 5, ep_extra_data = [], ep_base_fee_per_gas = U256 7,
     ep_block_hash = B256 (replicate 32 n), ep_transactions = [[1, 2, 3]], ep_withdrawals = [],
     ep_blob_gas_used = 0, ep_excess_blob_gas = 0\<rparr>"

definition demo_trace :: "u8 \<Rightarrow> u256 \<Rightarrow> BidTrace" where
  "demo_trace n v =
    \<lparr>bt_slot = 11, bt_parent_hash = B256 (replicate 32 9), bt_block_hash = B256 (replicate 32 n),
     bt_builder_pubkey = demo_builder, bt_proposer_pubkey = demo_proposer,
     bt_proposer_fee_recipient = Address_zero, bt_gas_limit = 30000000, bt_gas_used = 21000,
     bt_value = U256 v\<rparr>"

definition demo_bid :: "u8 \<Rightarrow> u256 \<Rightarrow> BidSubmission" where
  "demo_bid n v =
     BidSubmission_new (demo_trace n v) (demo_payload n) BlobsBundle_default
       (BlsSignature_from_point (toy_sig (pk_serialize demo_builder)
         (signing_root toy_externs (BidTrace_tree_hash_root toy_externs (demo_trace n v))
           (compute_builder_domain toy_externs demo_fork))) False)"

definition demo_signer :: BlsSigner where
  "demo_signer = BlsSigner_new (BlsSecretKey (replicate 32 5)) demo_fork"

definition demo_body :: "ExecutionPayloadHeader \<Rightarrow> BlindedBlockBody" where
  "demo_body h =
    \<lparr>blbb_randao_reveal = BlsSignature_empty,
     blbb_eth1_data = \<lparr>e1_deposit_root = B256_zero, e1_deposit_count = 0, e1_block_hash = B256_zero\<rparr>,
     blbb_graffiti = B256_zero, blbb_proposer_slashings = [], blbb_attester_slashings = [],
     blbb_attestations = [], blbb_deposits = [], blbb_voluntary_exits = [],
     blbb_sync_aggregate = \<lparr>sa_sync_committee_bits = replicate 512 False,
       sa_sync_committee_signature = BlsSignature_empty\<rparr>,
     blbb_execution_payload_header = h, blbb_bls_to_execution_changes = [],
     blbb_blob_kzg_commitments = []\<rparr>"

text \<open>The block that the proposer of the duty signs for a header.\<close>

definition demo_block :: "ExecutionPayloadHeader \<Rightarrow> SignedBlindedBlock" where
  "demo_block h =
     (let b = \<lparr>blb_slot = 11, blb_proposer_index = 7, blb_parent_root = B256_zero,
               blb_state_root = B256_zero, blb_body = demo_body h\<rparr> in
      \<lparr>sbl_message = b,
       sbl_signature = BlsSignature_from_point (toy_sig (pk_serialize demo_proposer)
         (signing_root toy_externs (BlindedBlock_tree_hash_root toy_externs b)
           (compute_proposer_domain toy_externs demo_fork))) False\<rparr>)"

lemma toy_verify [simp]:
  "BlsSignature_verify toy_externs (BlsSignature_from_point (toy_sig (pk_serialize k) m) False) k m"
  by (simp add: BlsSignature_verify_def BlsSignature_from_point_def Signature_verify_def)

lemma demo_duty_pubkey [simp]: "duty_pubkey demo_duty = demo_proposer"
  by (simp add: duty_pubkey_def demo_duty_def demo_registration_def Let_def)

lemma demo_world_sel [simp]:
  "im_slot (w_store demo_world) = HeadSlot 10"
  "im_payload_attributes (w_store demo_world) = demo_attrs"
  "im_proposer_duties (w_store demo_world) = [demo_duty]"
  "im_validator_registrations (w_store demo_world)
   = Mapping.update demo_proposer demo_registration Mapping.empty"
  "im_wlist_builders (w_store demo_world) = [demo_builder]"
  "im_best_bid_per_slot (w_store demo_world) = Mapping.empty"
  "im_best_bid_by_slot (w_store demo_world) = Mapping.empty"
  "im_best_bid_by_block_number (w_store demo_world) = Mapping.empty"
  "im_blinded_block_resp (w_store demo_world) = Mapping.empty"
  "im_fork_data (w_store demo_world) = demo_fork"
  "im_delivered_blocks (w_store demo_world) = []"
  "w_tasks demo_world = []"
  by (simp_all add: demo_world_def InMemoryStorage_new_def Let_def)

lemma demo_bid_sel [simp]:
  "bid_trace (demo_bid n v) = demo_trace n v" "bs_execution_payload (demo_bid n v) = demo_payload n"
  "bs_blobs_bundle (demo_bid n v) = BlobsBundle_default"
  "bid_key (demo_bid n v) = (11, B256 (replicate 32 9), demo_proposer)"
  "bt_slot (demo_trace n v) = 11" "bt_value (demo_trace n v) = U256 v"
  "ep_block_hash (demo_payload n) = B256 (replicate 32 n)"
  by (simp_all add: demo_bid_def bid_key_def demo_trace_def demo_payload_def)

text \<open>A bid of positive value is admissible in every state with the static part of the example.\<close>

lemma demo_admissible:
  assumes "same_static \<sigma> (abs_in_memory (w_store demo_world))" and "v \<noteq> 0"
  shows "admissible_static toy_externs \<sigma> (demo_bid n v)" and "duty_of \<sigma> 11 = Some demo_duty"
proof -
  have "admissible_static toy_externs (abs_in_memory (w_store demo_world)) (demo_bid n v)"
    using assms(2) by (simp add: admissible_static_def Let_def BidTrace_verify_signature_def)
      (simp add: demo_bid_def demo_trace_def demo_attrs_def prev_randao_def demo_payload_def
        B256_from_hash256_def)
  then show "admissible_static toy_externs \<sigma> (demo_bid n v)"
    using assms(1) admissible_static_cong [of \<sigma> "abs_in_memory (w_store demo_world)"]
    by (simp add: same_static_def)
  have "val_slot demo_duty = 11" by (simp add: demo_duty_def)
  then show "duty_of \<sigma> 11 = Some demo_duty"
    using assms(1) by (simp add: duty_of_def same_static_def)
qed

end
