(* ===== verification/Witnesses.thy ===== *)
theory Witnesses
  imports Examples
begin

text \<open>
  The properties with hypotheses, applied to the concrete instance of \<open>Examples\<close>: each hypothesis
  is discharged there.
\<close>

section \<open>Cryptography and types\<close>

theorem domains_separated_witness:
  "length (compute_builder_domain toy_externs demo_fork) = 32 \<and>
   compute_builder_domain toy_externs demo_fork \<noteq> compute_proposer_domain toy_externs demo_fork"
  using domains_separated [OF toy_documented(3), of demo_fork demo_fork] by blast

theorem signer_roundtrip_witness:
  "BlsSignature_verify toy_externs (BlsSigner_sign toy_externs demo_signer (replicate 32 1))
     (BlsSigner_public_key toy_externs demo_signer)
     (signing_root toy_externs (replicate 32 1)
       (compute_builder_domain toy_externs (sg_fork_data demo_signer)))"
  using signer_roundtrip [OF toy_documented(2), of demo_signer "replicate 32 1"] by blast

theorem public_key_deserialize_witness:
  "BlsPublicKey_deserialize toy_externs (replicate 48 1) = Ok (BlsPublicKey (replicate 48 1)) \<and>
   (case BlsPublicKey_deserialize toy_externs INFINITY_PUBLIC_KEY of
      Ok k \<Rightarrow> False | Err e \<Rightarrow> e = InvalidInfinityPublicKey | Panic m \<Rightarrow> False)"
proof -
  have no: "blst_pk_key_validate toy_externs bs \<noteq> Panic m" for bs m by simp
  have ne: "replicate 48 1 \<noteq> INFINITY_PUBLIC_KEY"
    by (simp add: INFINITY_PUBLIC_KEY_def numeral_eq_Suc)
  have "BlsPublicKey_deserialize toy_externs (replicate 48 1) = Ok (BlsPublicKey (replicate 48 1))"
    using ne by (simp add: BlsPublicKey_deserialize_def PublicKey_deserialize_def PUBLIC_KEY_BYTES_LEN_def)
  moreover have "case BlsPublicKey_deserialize toy_externs INFINITY_PUBLIC_KEY of
      Ok k \<Rightarrow> False | Err e \<Rightarrow> e = InvalidInfinityPublicKey | Panic m \<Rightarrow> False"
    using public_key_deserialize_spec [OF toy_documented(1) no, of INFINITY_PUBLIC_KEY]
    by (simp split: res.splits)
  ultimately show ?thesis by blast
qed

theorem signature_roundtrip_witness:
  "case BlsSignature_deserialize toy_externs (replicate 96 3) of
     Ok s \<Rightarrow> BlsSignature_serialize s = replicate 96 3 \<and> \<not> BlsSignature_is_empty s
   | Err e \<Rightarrow> False | Panic m \<Rightarrow> False"
proof -
  have "hd (replicate 96 (3::u8)) \<noteq> hd NONE_SIGNATURE"
    by (simp add: NONE_SIGNATURE_def SIGNATURE_BYTES_LEN_def)
  then have ne: "replicate 96 (3::u8) \<noteq> NONE_SIGNATURE" by metis
  then obtain s where s: "BlsSignature_deserialize toy_externs (replicate 96 3) = Ok s"
    by (simp add: BlsSignature_deserialize_def)
  have len: "length (replicate 96 (3::u8)) = 96" by simp
  from signature_roundtrip [OF toy_documented(1) len s] s ne show ?thesis by simp
qed

theorem fork_version_witness:
  "try_from_chain toy_externs Holesky = Ok (ForkVersion [0x01, 0x01, 0x70, 0])"
  using fork_version_spec [OF toy_documented(5)] by blast

section \<open>The auction\<close>

lemma demo_first_ok: "is_ok (snd (post_bids_handler toy_externs in_memory_storage (demo_bid 1 1000) demo_world))"
  using demo_admissible(1) [of "abs_in_memory (w_store demo_world)" 1000 1]
    demo_admissible(2) [of "abs_in_memory (w_store demo_world)" 1000]
  by (simp add: ims.post_bids_is_ok outbids_def abs_in_memory_def)

definition demo_world1 :: relay_world where
  "demo_world1 = fst (post_bids_handler toy_externs in_memory_storage (demo_bid 1 1000) demo_world)"

lemma demo_world1_abs:
  "abs_in_memory (w_store demo_world1) =
     record_bid (demo_bid 1 1000) demo_duty (abs_in_memory (w_store demo_world))"
  "w_tasks demo_world1 = []"
proof -
  have d: "duty_of (abs_in_memory (w_store demo_world)) 11 = Some demo_duty"
    by (rule demo_admissible(2) [of _ 1]) simp_all
  obtain duty where "duty_of (abs_in_memory (w_store demo_world)) (bt_slot (bid_trace (demo_bid 1 1000))) = Some duty"
    "abs_in_memory (w_store demo_world1) = record_bid (demo_bid 1 1000) duty (abs_in_memory (w_store demo_world))"
    "w_tasks demo_world1 = w_tasks demo_world"
    unfolding demo_world1_def by (rule post_bids_accepted [OF demo_first_ok])
  with d show "abs_in_memory (w_store demo_world1) =
      record_bid (demo_bid 1 1000) demo_duty (abs_in_memory (w_store demo_world))"
    and "w_tasks demo_world1 = []" by simp_all
qed

lemma demo_world1_best:
  "read_best_bid in_memory_storage (w_store demo_world1) 11 (B256 (replicate 32 9)) demo_proposer
     = Some (demo_bid 1 1000)"
proof -
  have "ss_best_bid (abs_in_memory (w_store demo_world1)) (bid_key (demo_bid 1 1000)) = Some (demo_bid 1 1000)"
    unfolding demo_world1_abs by (simp del: demo_bid_sel)
  then show ?thesis by (simp add: ims_reader_defs)
qed

theorem auction_monotone_witness:
  "\<exists>d. read_best_bid in_memory_storage
      (w_store (post_all toy_externs in_memory_storage [demo_bid 2 500, demo_bid 3 2000] demo_world1))
      11 (B256 (replicate 32 9)) demo_proposer = Some d \<and> U256 1000 \<le> bid_value d"
  using auction_monotone [OF demo_world1_best, where X = toy_externs and bs = "[demo_bid 2 500, demo_bid 3 2000]"]
  by simp

section \<open>Headers and delivery\<close>

lemma demo_world1_header:
  "\<exists>vh. get_header_handler toy_externs in_memory_storage demo_signer 11 (B256 (replicate 32 9))
      demo_proposer t demo_world1
    = (fst (get_header_handler toy_externs in_memory_storage demo_signer 11 (B256 (replicate 32 9))
        demo_proposer t demo_world1), Ok \<lparr>rp_status = 200, rp_body = JsonHeader vh\<rparr>) \<and>
    hd_header (sh_message (ver_data vh)) = header_from_payload toy_externs (demo_payload 1)"
proof -
  obtain h where h: "SignedHeader_try_from toy_externs (demo_bid 1 1000) demo_signer = Ok h"
    using SignedHeader_try_from_is_Ok [of toy_externs "demo_bid 1 1000" demo_signer]
    by (auto simp: BlobsBundle_default_def)
  have "ss_registrations (abs_in_memory (w_store demo_world1)) demo_proposer = Some demo_registration"
    "ss_head_slot (abs_in_memory (w_store demo_world1)) = HeadSlot 10"
    unfolding demo_world1_abs by simp_all
  then have "snd (get_header_handler toy_externs in_memory_storage demo_signer 11 (B256 (replicate 32 9))
        demo_proposer t demo_world1)
      = Ok \<lparr>rp_status = 200, rp_body = JsonHeader \<lparr>ver_version = Deneb, ver_data = h\<rparr>\<rparr>"
    using h demo_world1_best by (simp add: get_header_Ok_iff)
  with SignedHeader_try_from_eq_Ok(1) [OF h] show ?thesis
    by (intro exI [of _ "\<lparr>ver_version = Deneb, ver_data = h\<rparr>"]) (simp add: prod_eq_iff)
qed

theorem get_header_signed_witness:
  "\<exists>vh. snd (get_header_handler toy_externs in_memory_storage demo_signer 11 (B256 (replicate 32 9))
      demo_proposer 3 demo_world1) = Ok \<lparr>rp_status = 200, rp_body = JsonHeader vh\<rparr> \<and>
    hd_value (sh_message (ver_data vh)) = U256 1000"
proof -
  from demo_world1_header [of 3] obtain vh where vh:
    "snd (get_header_handler toy_externs in_memory_storage demo_signer 11 (B256 (replicate 32 9))
      demo_proposer 3 demo_world1) = Ok \<lparr>rp_status = 200, rp_body = JsonHeader vh\<rparr>"
    by (metis snd_conv)
  from get_header_signed [OF toy_documented(2) vh demo_world1_best] vh show ?thesis
    by (auto simp: Let_def)
qed

lemma demo_block_sel [simp]:
  "blb_slot (sbl_message (demo_block h)) = 11" "blb_proposer_index (sbl_message (demo_block h)) = 7"
  "blbb_execution_payload_header (blb_body (sbl_message (demo_block h))) = h"
  "SignedBlindedBlock_block_hash (demo_block h) = eph_block_hash h"
  by (simp_all add: demo_block_def Let_def demo_body_def SignedBlindedBlock_block_hash_def)

lemma demo_block_ok:
  assumes "same_static (abs_in_memory (w_store w)) (abs_in_memory (w_store demo_world))"
    and "ss_responses (abs_in_memory (w_store w)) demo_proposer \<noteq> None"
  shows "is_ok (snd (blinded_blocks_handler toy_externs in_memory_storage (demo_block h) t w))"
proof -
  have "duty_of (abs_in_memory (w_store w)) 11 = Some demo_duty"
    using demo_admissible(2) [OF assms(1), of 1] by simp
  moreover have "ss_registrations (abs_in_memory (w_store w)) demo_proposer = Some demo_registration"
    "ss_fork_data (abs_in_memory (w_store w)) = demo_fork"
    using assms(1) by (simp_all add: same_static_def)
  moreover have "val_validator_index demo_duty = 7" by (simp add: demo_duty_def)
  ultimately have "authorized_block toy_externs (abs_in_memory (w_store w)) (demo_block h) demo_duty"
    by (simp add: authorized_block_def del: abs_in_memory_sel) (simp add: demo_block_def Let_def)
  with assms(2) show ?thesis unfolding ims.blinded_blocks_is_ok
    by (intro exI [of _ demo_duty]) simp
qed

lemma demo_world1_static: "same_static (abs_in_memory (w_store demo_world1)) (abs_in_memory (w_store demo_world))"
  unfolding demo_world1_abs by simp

theorem delivered_payload_witness:
  "let h = header_from_payload toy_externs (demo_payload 1);
       w2 = fst (get_header_handler toy_externs in_memory_storage demo_signer 11 (B256 (replicate 32 9))
         demo_proposer 3 demo_world1) in
     snd (blinded_blocks_handler toy_externs in_memory_storage (demo_block h) 4 w2) =
       Ok \<lparr>rp_status = 200, rp_body = JsonBlindedBlock
         \<lparr>ver_version = Deneb, ver_data = to_blinded_block_response (demo_bid 1 1000)\<rparr>\<rparr>"
proof -
  let ?h = "header_from_payload toy_externs (demo_payload 1)"
  let ?w2 = "fst (get_header_handler toy_externs in_memory_storage demo_signer 11 (B256 (replicate 32 9))
         demo_proposer 3 demo_world1)"
  from demo_world1_header [of 3] obtain vh where vh:
    "get_header_handler toy_externs in_memory_storage demo_signer 11 (B256 (replicate 32 9))
      demo_proposer 3 demo_world1 = (?w2, Ok \<lparr>rp_status = 200, rp_body = JsonHeader vh\<rparr>)"
    "hd_header (sh_message (ver_data vh)) = ?h" by blast
  have duty: "find_duty_by_slot in_memory_storage (w_store demo_world) (bt_slot (bid_trace (demo_bid 1 1000)))
      = Some demo_duty"
    using demo_admissible(2) [of "abs_in_memory (w_store demo_world)" 1]
    by (simp add: find_duty_abs del: in_memory_readers)
  have ok: "is_ok (snd (blinded_blocks_handler toy_externs in_memory_storage (demo_block ?h) 4 ?w2))"
    by (rule demo_block_ok) (simp_all add: demo_world1_abs demo_world1_static del: abs_in_memory_sel)
  have key: "bt_proposer_pubkey (bid_trace (demo_bid 1 1000)) = duty_pubkey demo_duty"
    "bt_parent_hash (demo_trace 1 1000) = B256 (replicate 32 9)"
    by (simp_all add: demo_trace_def)
  show ?thesis
    using delivered_payload_matches_header [OF demo_first_ok refl duty key(1),
        where signer = demo_signer and ?t1.0 = 3 and ?w2.0 = ?w2 and vh = vh and sb = "demo_block ?h"
        and ?t2.0 = 4] vh ok key
    by (simp add: Let_def flip: demo_world1_def)
qed

theorem late_bid_witness:
  "\<exists>content. w_tasks (fst (blinded_blocks_handler toy_externs in_memory_storage
      (demo_block (header_from_payload toy_externs (demo_payload 1))) 4
      (fst (post_bids_handler toy_externs in_memory_storage (demo_bid 2 2000) demo_world1))))
    = [PublishTask content Ssz] \<and>
    content_block_hash content \<noteq> B256 (replicate 32 1)"
proof -
  let ?sb = "demo_block (header_from_payload toy_externs (demo_payload 1))"
  let ?w2 = "fst (post_bids_handler toy_externs in_memory_storage (demo_bid 2 2000) demo_world1)"
  have "outbids (abs_in_memory (w_store demo_world1)) (demo_bid 2 2000)"
    unfolding demo_world1_abs by (simp add: outbids_def U256_less_iff)
  then have ok: "is_ok (snd (post_bids_handler toy_externs in_memory_storage (demo_bid 2 2000) demo_world1))"
    unfolding ims.post_bids_is_ok using demo_admissible(1) [OF demo_world1_static, of 2000 2]
      demo_admissible(2) [OF demo_world1_static, of 2000] by simp
  obtain duty where "duty_of (abs_in_memory (w_store demo_world1)) (bt_slot (bid_trace (demo_bid 2 2000))) = Some duty"
    and w2: "abs_in_memory (w_store ?w2) = record_bid (demo_bid 2 2000) duty (abs_in_memory (w_store demo_world1))"
    by (rule post_bids_accepted [OF ok])
  then have duty: "duty = demo_duty"
    using demo_admissible(2) [OF demo_world1_static, of 1] by simp
  have block: "is_ok (snd (blinded_blocks_handler toy_externs in_memory_storage ?sb 4 ?w2))"
    by (rule demo_block_ok) (simp_all add: w2 demo_world1_static duty del: abs_in_memory_sel)
  have "B256 (replicate 32 1) \<noteq> B256 (replicate 32 (2::u8))" by (simp add: numeral_eq_Suc)
  then have "SignedBlindedBlock_block_hash ?sb \<noteq> ep_block_hash (bs_execution_payload (demo_bid 2 2000))"
    by simp
  from late_bid_replaces_payload [OF ok refl _ block this] show ?thesis
    by (auto simp: demo_world1_abs)
qed

section \<open>The gRPC interface\<close>

definition demo_gpayload :: GExecutionPayload where
  "demo_gpayload =
    \<lparr>gep_parent_hash = replicate 32 9, gep_state_root = replicate 32 0,
     gep_receipts_root = replicate 32 0, gep_logs_bloom = [], gep_prev_randao = replicate 32 0,
     gep_extra_data = [], gep_base_fee_per_gas = replicate 32 0, gep_fee_recipient = replicate 20 0,
     gep_block_hash = replicate 32 1, gep_transactions = [\<lparr>ctx_raw_data = [1, 2, 3]\<rparr>],
     gep_withdrawals = [\<lparr>gw_index = 1, gw_validator_index = 2, gw_address = replicate 20 0, gw_amount = 3\<rparr>],
     gep_block_number = 100, gep_gas_limit = 30000000, gep_timestamp = 5, gep_gas_used = 21000,
     gep_blob_gas_used = 0, gep_excess_blob_gas = 0\<rparr>"

definition demo_gbid :: "bytes \<Rightarrow> GBidTrace" where
  "demo_gbid builder =
    \<lparr>gbt_slot = 11, gbt_parent_hash = replicate 32 9, gbt_block_hash = replicate 32 1,
     gbt_builder_pubkey = builder, gbt_proposer_pubkey = replicate 48 2,
     gbt_proposer_fee_recipient = replicate 20 0, gbt_gas_limit = 30000000, gbt_gas_used = 21000,
     gbt_value = ''1000''\<rparr>"

definition demo_request :: "bytes \<Rightarrow> SubmitBlockRequest" where
  "demo_request builder =
    \<lparr>req_bid_trace = Some (demo_gbid builder), req_execution_payload = Some demo_gpayload,
     req_signature = toy_sig (pk_serialize demo_builder)
       (signing_root toy_externs (BidTrace_tree_hash_root toy_externs (demo_trace 1 1000))
         (compute_builder_domain toy_externs demo_fork)),
     req_blobs_bundle = Some \<lparr>gbb_commitments = [], gbb_proofs = [], gbb_blobs = []\<rparr>\<rparr>"

lemma demo_gpayload_converts: "\<exists>p. ExecutionPayload_try_from toy_externs demo_gpayload = Ok p"
  by (simp add: ExecutionPayload_try_from_def demo_gpayload_def Withdrawal_try_from_def
      Address_try_from_def B256_try_from_def U256_try_from_def HASHSIZE_def variable_list_new_def)

theorem payload_conversion_witness:
  "case ExecutionPayload_try_from toy_externs demo_gpayload of
     Ok q \<Rightarrow> wf_ExecutionPayload q \<and> ep_block_number q = 100 | Err e \<Rightarrow> False | Panic m \<Rightarrow> False"
proof -
  from demo_gpayload_converts obtain p where p: "ExecutionPayload_try_from toy_externs demo_gpayload = Ok p" ..
  from payload_conversion_wf [OF toy_documented(4) p] p show ?thesis by (simp add: demo_gpayload_def)
qed

theorem withdrawal_conversion_witness:
  "case Withdrawal_try_from \<lparr>gw_index = 1, gw_validator_index = 2, gw_address = replicate 20 0, gw_amount = 3\<rparr> of
     Ok v \<Rightarrow> wd_validator_index v = 3 | Err e \<Rightarrow> False | Panic m \<Rightarrow> False"
proof -
  obtain v where v: "Withdrawal_try_from \<lparr>gw_index = 1, gw_validator_index = 2,
      gw_address = replicate 20 0, gw_amount = 3\<rparr> = Ok v"
    by (simp add: Withdrawal_try_from_def Address_try_from_def)
  from withdrawal_conversion [OF v] v show ?thesis by simp
qed

lemma demo_request_decodes:
  "\<exists>b. decode_request toy_externs (demo_request (replicate 48 1)) = Some b"
proof -
  from demo_gpayload_converts obtain p where "ExecutionPayload_try_from toy_externs demo_gpayload = Ok p" ..
  then show ?thesis
    by (simp add: decode_request_def demo_request_def demo_gbid_def BidTrace_try_from_def
        U256_of_str_def B256_try_from_def HASHSIZE_def BlsPublicKey_from_vec_def Address_try_from_def
        BlsSignature_from_vec_def BlobsBundle_try_from_def variable_list_new_def)
qed

theorem grpc_http_equivalent_witness:
  "\<exists>b. decode_request toy_externs (demo_request (replicate 48 1)) = Some b \<and>
     fst (submit_block toy_externs (RelayGrpcService_new in_memory_storage demo_fork)
            (demo_request (replicate 48 1)) demo_world)
       = fst (post_bids_handler toy_externs in_memory_storage b demo_world)"
proof -
  from demo_request_decodes obtain b where b: "decode_request toy_externs (demo_request (replicate 48 1)) = Some b" ..
  have "im_fork_data (w_store demo_world) = demo_fork" by simp
  from grpc_http_equivalent [OF b this] b show ?thesis by (auto simp: Let_def)
qed

theorem malformed_key_witness:
  "submit_block toy_externs (RelayGrpcService_new in_memory_storage demo_fork) (demo_request [1, 2]) demo_world
     = (demo_world, Panic ''Failed to parse public key'')"
  by (rule malformed_key_panics [where gb = "demo_gbid [1, 2]" and gp = demo_gpayload and v = "U256 1000"])
    (simp_all add: demo_request_def demo_gbid_def U256_of_str_def)

section \<open>Registrations\<close>

definition demo_known :: known_validators where
  "demo_known i k = (if k = demo_proposer
     then Inr \<lparr>kvr_execution_optimistic = False, kvr_finalized = True,
       kvr_data = \<lparr>ven_index = 7, ven_balance = ''32'', ven_status = ''active_ongoing'',
         ven_validator = \<lparr>kv_pubkey = k, kv_withdrawal_credentials = '''', kv_effective_balance = ''32'',
           kv_slashed = False, kv_activation_eligibility_epoch = 0, kv_activation_epoch = 0,
           kv_exit_epoch = 0, kv_withdrawable_epoch = 0\<rparr>\<rparr>\<rparr>
     else Inl ''not found'')"

lemma demo_registers:
  "read_validator_registration in_memory_storage
     (w_store (fst (post_validators_handler toy_externs in_memory_storage demo_known [demo_registration] demo_world)))
     demo_proposer = Some demo_registration"
proof -
  have "accepts_registration toy_externs (compute_builder_domain toy_externs demo_fork)
      (demo_known 0 demo_proposer) demo_registration"
    by (simp add: accepts_registration_def demo_known_def is_active_def str_contains_def
        sublist_code demo_registration_def Let_def)
  moreover have "vrm_pubkey (vr_message demo_registration) = demo_proposer"
    by (simp add: demo_registration_def Let_def)
  ultimately show ?thesis
    by (simp add: post_validators_store registered_map_lookup ims_reader_defs reg_key_def)
qed

theorem post_validators_verified_witness:
  "ValidatorRegistration_verify_signature toy_externs demo_registration (fds_builder demo_fork)"
  using post_validators_verified [OF demo_registers] by simp

definition demo_send :: "string \<Rightarrow> string \<Rightarrow> (HttpResponse, string) res" where
  "demo_send url secret = Ok \<lparr>hr_status = 401, hr_json = Err ''no user'', hr_text = Ok ''denied''\<rparr>"

theorem post_validators_auth_witness:
  "\<exists>e. post_validators toy_externs (MbsAuth_validate ''http://auth/'' demo_send) in_memory_storage
      demo_known ''wrong'' [demo_registration] demo_world = (demo_world, Err e)"
  using post_validators_auth [of demo_send toy_externs "''http://auth/''" demo_known "''wrong''"
      "[demo_registration]" demo_world "\<lambda>e. ''''"]
  by (auto simp: demo_send_def)

end
