(* ===== verification/Beacon_Service.thy ===== *)
theory Beacon_Service
  imports World
begin

text \<open>
  \<open>crates/beacon\<close>: the client of the beacon node (\<open>api/mod.rs\<close>), the service that queues its calls
  and the handle that talks to it (\<open>service\<close>), and the stream that merges the two event
  subscriptions (\<open>events\<close>). What the node answers is an argument of the model.
\<close>

section \<open>The API of the beacon node\<close>

record BeaconSyncStatus =
  bss_head_slot :: u64
  bss_is_syncing :: bool

record BeaconSyncStatusResponse =
  bsr_data :: BeaconSyncStatus

text \<open>The trait \<open>BeaconApi\<close>; the error of a call is the rendering of its \<open>eyre\<close> report.\<close>

record BeaconApi =
  api_sync_status :: "(BeaconSyncStatusResponse, string) res"
  api_proposer_duties :: "u64 \<Rightarrow> (ProposerDutiesResponse, string) res"
  api_publish_block :: "SignedBeaconBlockContent \<Rightarrow> SubmissionType \<Rightarrow> (unit, string) res"
  api_get_fork_data :: "(GetForkResponse, string) res"
  api_get_known_validator :: "BlsPublicKey \<Rightarrow> (KnownValidatorResponse, string) res"

definition SYNC_STATUS_PATH :: string where "SYNC_STATUS_PATH = ''eth/v1/node/syncing''"
definition PROPOSER_DUTIES_PATH :: string where
  "PROPOSER_DUTIES_PATH = ''eth/v1/validator/duties/proposer/''"
definition PUBLISH_BLOCK :: string where "PUBLISH_BLOCK = ''eth/v1/beacon/blocks''"
definition GET_FORK_DATA :: string where "GET_FORK_DATA = ''eth/v2/debug/beacon/states/head''"
definition GET_VALIDATOR :: string where
  "GET_VALIDATOR = ''eth/v1/beacon/states/head/validators/''"

record ApiErrorResponse =
  aer_code :: u16
  aer_message :: string
  aer_stacktraces :: "string list"

text \<open>
  A response of the HTTP client to a GET: its status, what its body gives when it is read as the
  expected type, and as the error type of the API.
\<close>

record 'a GetResponse =
  gr_status :: u16
  gr_json :: "('a, string) res"
  gr_error :: "(ApiErrorResponse, string) res"

definition is_success :: "u16 \<Rightarrow> bool" where
  "is_success status \<longleftrightarrow> 200 \<le> status \<and> status < 300"

definition get_api_response ::
    "string \<Rightarrow> (string \<Rightarrow> ('a GetResponse, string) res) \<Rightarrow> string \<Rightarrow> ('a, string) res" where
  "get_api_response base get path =
     (let url = base @ path in
      res_bind (get url) (\<lambda>resp.
      if is_success (gr_status resp) then gr_json resp
      else res_bind (gr_error resp) (\<lambda>error_resp.
        Err (''API error: code '' @ nat_to_string (unat (aer_code error_resp))
             @ '', message: '' @ aer_message error_resp))))"

text \<open>The body of a POST is the value as JSON or its SSZ bytes; which bytes is left to \<open>ssz_derive\<close>.\<close>

datatype 'b PostBody = JsonBody 'b | SszBody 'b

record 'b PostRequest =
  pr_url :: string
  pr_headers :: "(string \<times> string) list"
  pr_body :: "'b PostBody"

definition post_request :: "string \<Rightarrow> string \<Rightarrow> 'b \<Rightarrow> SubmissionType \<Rightarrow> 'b PostRequest" where
  "post_request base path body submission_type =
     (let url = base @ path;
          headers = [(''Eth-Consensus-Version'', ForkName_to_string Deneb)]
      in case submission_type of
           Json \<Rightarrow> \<lparr>pr_url = url, pr_headers = headers, pr_body = JsonBody body\<rparr>
         | Ssz \<Rightarrow> \<lparr>pr_url = url,
             pr_headers = headers @ [(''Content-Type'', ''application/octet-stream'')],
             pr_body = SszBody body\<rparr>)"

text \<open>\<open>send\<close> gives the status of the response, or an error when the node cannot be reached.\<close>

definition post_api_response ::
    "string \<Rightarrow> ('b PostRequest \<Rightarrow> (u16, string) res) \<Rightarrow> string \<Rightarrow> 'b \<Rightarrow> SubmissionType
     \<Rightarrow> (unit, string) res" where
  "post_api_response base send path body submission_type =
     res_bind (send (post_request base path body submission_type)) (\<lambda>_. Ok ())"

definition BeaconNodeApi ::
    "externs \<Rightarrow> string \<Rightarrow> (string \<Rightarrow> (BeaconSyncStatusResponse GetResponse, string) res)
     \<Rightarrow> (string \<Rightarrow> (ProposerDutiesResponse GetResponse, string) res)
     \<Rightarrow> (string \<Rightarrow> (GetForkResponse GetResponse, string) res)
     \<Rightarrow> (string \<Rightarrow> (KnownValidatorResponse GetResponse, string) res)
     \<Rightarrow> (SignedBeaconBlockContent PostRequest \<Rightarrow> (u16, string) res) \<Rightarrow> BeaconApi" where
  "BeaconNodeApi X url get_sync get_duties get_fork get_validator send =
    \<lparr>api_sync_status = get_api_response url get_sync SYNC_STATUS_PATH,
     api_proposer_duties = (\<lambda>epoch.
       get_api_response url get_duties (PROPOSER_DUTIES_PATH @ nat_to_string (unat epoch))),
     api_publish_block = (\<lambda>block submission_type.
       post_api_response url send PUBLISH_BLOCK block submission_type),
     api_get_fork_data = get_api_response url get_fork GET_FORK_DATA,
     api_get_known_validator = (\<lambda>pubkey.
       get_api_response url get_validator (GET_VALIDATOR @ BlsPublicKey_to_string X pubkey))\<rparr>"

section \<open>The service\<close>

text \<open>
  A command carries the sender of a one-shot channel, here its number. What the service sends back
  is a future: the call of the API that the receiver runs when it awaits it.
\<close>

datatype BeaconCommands =
    SyncStatus nat
  | ForkDataCmd nat
  | ProposerDuties u64 nat
  | KnownValidatorCmd BlsPublicKey nat
  | PublishBlockCmd SignedBeaconBlockContent SubmissionType nat

datatype ApiFuture =
    SyncStatusFuture
  | ForkDataFuture
  | ProposerDutyFuture u64
  | KnownValidatorFuture BlsPublicKey
  | PublishFuture SignedBeaconBlockContent SubmissionType

text \<open>A one-shot channel: nothing sent yet, a value in it, or its receiver dropped.\<close>

datatype 'a oneshot = Empty | Sent 'a | Dropped

record BeaconService =
  bs_command_rx :: "BeaconCommands list"
  bs_channels :: "nat \<Rightarrow> ApiFuture oneshot"
  bs_next :: nat

definition BeaconService_new :: BeaconService where
  "BeaconService_new = \<lparr>bs_command_rx = [], bs_channels = (\<lambda>_. Empty), bs_next = 0\<rparr>"

text \<open>\<open>let _ = tx.send(fut)\<close>: a dropped receiver is ignored.\<close>

definition oneshot_send :: "nat \<Rightarrow> 'a \<Rightarrow> (nat \<Rightarrow> 'a oneshot) \<Rightarrow> nat \<Rightarrow> 'a oneshot" where
  "oneshot_send tx fut channels =
     (case channels tx of Dropped \<Rightarrow> channels | _ \<Rightarrow> channels(tx := Sent fut))"

fun handle_command :: "BeaconCommands \<Rightarrow> (nat \<Rightarrow> ApiFuture oneshot) \<Rightarrow> nat \<Rightarrow> ApiFuture oneshot" where
  "handle_command (SyncStatus tx) channels = oneshot_send tx SyncStatusFuture channels"
| "handle_command (KnownValidatorCmd pubkey tx) channels =
     oneshot_send tx (KnownValidatorFuture pubkey) channels"
| "handle_command (ForkDataCmd tx) channels = oneshot_send tx ForkDataFuture channels"
| "handle_command (ProposerDuties epoch tx) channels =
     oneshot_send tx (ProposerDutyFuture epoch) channels"
| "handle_command (PublishBlockCmd block submission_type tx) channels =
     oneshot_send tx (PublishFuture block submission_type) channels"

text \<open>One poll drains the queue and stays pending.\<close>

definition BeaconService_poll :: "BeaconService \<Rightarrow> BeaconService" where
  "BeaconService_poll s = s
     \<lparr>bs_command_rx := [],
      bs_channels := fold handle_command (bs_command_rx s) (bs_channels s)\<rparr>"

section \<open>The handle\<close>

text \<open>\<open>oneshot::channel\<close> and \<open>to_service.send\<close>: a new channel and its command at the end of the queue.\<close>

definition handle_send :: "(nat \<Rightarrow> BeaconCommands) \<Rightarrow> BeaconService \<Rightarrow> nat \<times> BeaconService" where
  "handle_send mk s =
     (let tx = bs_next s in
      (tx, s\<lparr>bs_command_rx := bs_command_rx s @ [mk tx],
             bs_channels := (bs_channels s)(tx := Empty), bs_next := tx + 1\<rparr>))"

definition handle_sync_status :: "BeaconService \<Rightarrow> nat \<times> BeaconService" where
  "handle_sync_status = handle_send SyncStatus"

definition handle_get_fork_data :: "BeaconService \<Rightarrow> nat \<times> BeaconService" where
  "handle_get_fork_data = handle_send ForkDataCmd"

definition handle_get_known_validator :: "BlsPublicKey \<Rightarrow> BeaconService \<Rightarrow> nat \<times> BeaconService" where
  "handle_get_known_validator pubkey = handle_send (KnownValidatorCmd pubkey)"

definition handle_proposer_duties :: "u64 \<Rightarrow> BeaconService \<Rightarrow> nat \<times> BeaconService" where
  "handle_proposer_duties epoch = handle_send (ProposerDuties epoch)"

definition handle_publish_block ::
    "SignedBeaconBlockContent \<Rightarrow> SubmissionType \<Rightarrow> BeaconService \<Rightarrow> nat \<times> BeaconService" where
  "handle_publish_block block submission_type = handle_send (PublishBlockCmd block submission_type)"

text \<open>\<open>rx.await\<close>: the future, once it is there.\<close>

definition oneshot_recv :: "nat \<Rightarrow> BeaconService \<Rightarrow> ApiFuture option" where
  "oneshot_recv tx s = (case bs_channels s tx of Sent fut \<Rightarrow> Some fut | _ \<Rightarrow> None)"

section \<open>Events\<close>

datatype BeaconEventTopic = PayloadAttributesTopic | NewHead | NewBlock

fun topic_as_str :: "BeaconEventTopic \<Rightarrow> string" where
  "topic_as_str PayloadAttributesTopic = ''payload_attributes''"
| "topic_as_str NewHead = ''head''"
| "topic_as_str NewBlock = ''block''"

definition events_url :: "string \<Rightarrow> BeaconEventTopic \<Rightarrow> string" where
  "events_url base topic = base @ ''eth/v1/events?topics='' @ topic_as_str topic"

text \<open>The events: the data of a payload-attributes event, and the slot of a head event.\<close>

datatype BeaconEvent = PayloadAttributeEvent PayloadAttributes | HeadEvent u64

text \<open>
  A subscription is what its successive polls give; after the last entry it stays pending. \<open>End\<close> is
  \<open>Ready(None)\<close> and \<open>Error\<close> is \<open>Ready(Some(Err(_)))\<close>.
\<close>

datatype 'a poll_item = Item 'a | Error | End | NotReady

type_synonym 'a EventStream = "'a poll_item list"

fun poll_stream :: "'a EventStream \<Rightarrow> 'a poll_item \<times> 'a EventStream" where
  "poll_stream [] = (NotReady, [])"
| "poll_stream (i # is) = (i, is)"

record BeaconEventsStream =
  es_payload_attributes :: "PayloadAttributes EventStream"
  es_new_head :: "u64 EventStream"

datatype 'a Poll = Pending | Ready 'a

fun poll_next :: "BeaconEventsStream \<Rightarrow> BeaconEvent option Poll \<times> BeaconEventsStream" where
  "poll_next s =
     (let (p, pa') = poll_stream (es_payload_attributes s);
          s = s\<lparr>es_payload_attributes := pa'\<rparr>
      in case p of
           Item event \<Rightarrow> (Ready (Some (PayloadAttributeEvent event)), s)
         | Error \<Rightarrow> (Ready None, s)
         | _ \<Rightarrow>
             (let (h, nh') = poll_stream (es_new_head s);
                  s = s\<lparr>es_new_head := nh'\<rparr>
              in case h of
                   Item event \<Rightarrow> (Ready (Some (HeadEvent event)), s)
                 | Error \<Rightarrow> (Ready None, s)
                 | End \<Rightarrow> (Ready None, s)
                 | NotReady \<Rightarrow> (Pending, s)))"

declare poll_next.simps [simp del]

text \<open>
  \<open>subscribe_with_retry\<close>: \<open>attempts k\<close> is the outcome of the \<open>k\<close>-th attempt, which is waited for
  forever; the fuel bounds the number of attempts. The result counts the delays before it.
\<close>

fun subscribe_with_retry :: "nat \<Rightarrow> (nat \<Rightarrow> ('a, string) res) \<Rightarrow> nat \<Rightarrow> ('a \<times> nat) option" where
  "subscribe_with_retry 0 attempts k = None"
| "subscribe_with_retry (Suc fuel) attempts k =
     (case attempts k of
        Ok subscription \<Rightarrow> Some (subscription, k)
      | _ \<Rightarrow> subscribe_with_retry fuel attempts (k + 1))"

section \<open>Lemmas\<close>

fun command_tx :: "BeaconCommands \<Rightarrow> nat" where
  "command_tx (SyncStatus tx) = tx"
| "command_tx (ForkDataCmd tx) = tx"
| "command_tx (ProposerDuties epoch tx) = tx"
| "command_tx (KnownValidatorCmd pubkey tx) = tx"
| "command_tx (PublishBlockCmd block ty tx) = tx"

fun command_future :: "BeaconCommands \<Rightarrow> ApiFuture" where
  "command_future (SyncStatus tx) = SyncStatusFuture"
| "command_future (ForkDataCmd tx) = ForkDataFuture"
| "command_future (ProposerDuties epoch tx) = ProposerDutyFuture epoch"
| "command_future (KnownValidatorCmd pubkey tx) = KnownValidatorFuture pubkey"
| "command_future (PublishBlockCmd block ty tx) = PublishFuture block ty"

lemma handle_command_eq:
  "handle_command c channels = oneshot_send (command_tx c) (command_future c) channels"
  by (cases c) simp_all

lemma oneshot_send_other: "tx \<noteq> n \<Longrightarrow> oneshot_send tx fut channels n = channels n"
  by (simp add: oneshot_send_def split: oneshot.split)

lemma oneshot_send_same: "channels tx \<noteq> Dropped \<Longrightarrow> oneshot_send tx fut channels tx = Sent fut"
  by (simp add: oneshot_send_def split: oneshot.split)

lemma fold_other:
  "n \<notin> command_tx ` set cs \<Longrightarrow> fold handle_command cs channels n = channels n"
  by (induction cs arbitrary: channels) (simp_all add: handle_command_eq oneshot_send_other)

lemma fold_answers:
  assumes "c \<in> set cs" and "distinct (map command_tx cs)" and "channels (command_tx c) \<noteq> Dropped"
  shows "fold handle_command cs channels (command_tx c) = Sent (command_future c)"
  using assms
proof (induction cs arbitrary: channels)
  case (Cons d cs)
  show ?case
  proof (cases "c = d")
    case True
    with Cons.prems have "command_tx c \<notin> command_tx ` set cs" by simp
    then have "fold handle_command cs (handle_command d channels) (command_tx c)
        = handle_command d channels (command_tx c)"
      by (rule fold_other)
    moreover from True Cons.prems(3)
    have "handle_command d channels (command_tx c) = Sent (command_future c)"
      by (simp add: handle_command_eq oneshot_send_same)
    ultimately show ?thesis by simp
  next
    case False
    with Cons.prems have c: "c \<in> set cs" "command_tx d \<noteq> command_tx c" by auto
    with Cons.prems have "handle_command d channels (command_tx c) \<noteq> Dropped"
      by (simp add: handle_command_eq oneshot_send_other)
    with Cons.IH c(1) Cons.prems(2) show ?thesis by simp
  qed
qed simp

text \<open>Channels are numbered in the order of the calls, so the queue never holds a number twice.\<close>

definition service_inv :: "BeaconService \<Rightarrow> bool" where
  "service_inv s \<longleftrightarrow> distinct (map command_tx (bs_command_rx s)) \<and>
     (\<forall>c\<in>set (bs_command_rx s). command_tx c < bs_next s)"

lemma service_inv_new: "service_inv BeaconService_new"
  by (simp add: service_inv_def BeaconService_new_def)

lemma service_inv_send:
  assumes "service_inv s" and "\<And>tx. command_tx (mk tx) = tx"
  shows "service_inv (snd (handle_send mk s))"
  using assms by (auto simp: service_inv_def handle_send_def Let_def)

lemma service_inv_poll: "service_inv s \<Longrightarrow> service_inv (BeaconService_poll s)"
  by (simp add: service_inv_def BeaconService_poll_def)

lemma poll_answers:
  assumes "service_inv s" and "c \<in> set (bs_command_rx s)"
    and "bs_channels s (command_tx c) \<noteq> Dropped"
  shows "oneshot_recv (command_tx c) (BeaconService_poll s) = Some (command_future c)"
  using fold_answers [of c "bs_command_rx s" "bs_channels s"] assms
  by (simp add: service_inv_def oneshot_recv_def BeaconService_poll_def)

text \<open>Items of a subscription and of a run of polls.\<close>

fun items :: "'a EventStream \<Rightarrow> 'a list" where
  "items [] = []"
| "items (Item a # is) = a # items is"
| "items (_ # is) = items is"

fun poll_times :: "nat \<Rightarrow> BeaconEventsStream \<Rightarrow> BeaconEvent option Poll list \<times> BeaconEventsStream" where
  "poll_times 0 s = ([], s)"
| "poll_times (Suc n) s =
     (let (r, s') = poll_next s; (rs, s'') = poll_times n s' in (r # rs, s''))"

fun payload_event :: "BeaconEvent option Poll \<Rightarrow> PayloadAttributes option" where
  "payload_event (Ready (Some (PayloadAttributeEvent a))) = Some a"
| "payload_event _ = None"

fun head_event :: "BeaconEvent option Poll \<Rightarrow> u64 option" where
  "head_event (Ready (Some (HeadEvent h))) = Some h"
| "head_event _ = None"

lemma items_poll_stream:
  "items xs = (case fst (poll_stream xs) of Item a \<Rightarrow> [a] | _ \<Rightarrow> []) @ items (snd (poll_stream xs))"
  by (cases xs; cases "hd xs") simp_all

lemma poll_next_items:
  assumes "poll_next s = (r, s')"
  shows "items (es_payload_attributes s) =
      (case payload_event r of Some a \<Rightarrow> [a] | None \<Rightarrow> []) @ items (es_payload_attributes s')"
    and "items (es_new_head s) =
      (case head_event r of Some h \<Rightarrow> [h] | None \<Rightarrow> []) @ items (es_new_head s')"
  using assms items_poll_stream [of "es_payload_attributes s"] items_poll_stream [of "es_new_head s"]
  by (auto simp: poll_next.simps Let_def split: prod.splits poll_item.splits)

lemma poll_times_items:
  "items (es_payload_attributes s) = List.map_filter payload_event (fst (poll_times n s))
     @ items (es_payload_attributes (snd (poll_times n s))) \<and>
   items (es_new_head s) = List.map_filter head_event (fst (poll_times n s))
     @ items (es_new_head (snd (poll_times n s)))"
proof (induction n arbitrary: s)
  case (Suc n)
  obtain r s' where r: "poll_next s = (r, s')" by (cases "poll_next s")
  have step: "poll_times (Suc n) s = (r # fst (poll_times n s'), snd (poll_times n s'))"
    by (simp add: r case_prod_beta)
  show ?case unfolding step using poll_next_items [OF r] Suc.IH [of s']
    by (simp add: map_filter_simps split: option.split)
qed (simp add: map_filter_simps)

lemma subscribe_first:
  assumes "\<And>j. k \<le> j \<Longrightarrow> j < k + n \<Longrightarrow> \<not> is_ok (attempts j)" and "attempts (k + n) = Ok a"
    and "n < fuel"
  shows "subscribe_with_retry fuel attempts k = Some (a, k + n)"
  using assms
proof (induction n arbitrary: k fuel)
  case 0
  then show ?case by (cases fuel) simp_all
next
  case (Suc n)
  then obtain fuel' where f: "fuel = Suc fuel'" by (cases fuel) simp_all
  have "\<not> is_ok (attempts k)" using Suc.prems(1) [of k] by simp
  moreover have "subscribe_with_retry fuel' attempts (k + 1) = Some (a, k + 1 + n)"
    using Suc.prems f by (intro Suc.IH) simp_all
  ultimately show ?case using f by (cases "attempts k") simp_all
qed

section \<open>Properties\<close>

text \<open>
  C36. The queue of the beacon service never mixes up its callers: whatever is already queued, a call
  through the handle is answered by the next poll with the future of exactly this call, and every
  other caller with its own.
\<close>

theorem service_answers_each_caller:
  assumes "service_inv s" and "handle_get_known_validator pubkey s = (tx, s')"
  shows "oneshot_recv tx (BeaconService_poll s') = Some (KnownValidatorFuture pubkey) \<and>
    (\<forall>c\<in>set (bs_command_rx s). bs_channels s (command_tx c) \<noteq> Dropped \<longrightarrow>
       oneshot_recv (command_tx c) (BeaconService_poll s') = Some (command_future c)) \<and>
    bs_command_rx (BeaconService_poll s') = [] \<and> service_inv (BeaconService_poll s')"
proof -
  have s': "s' = snd (handle_send (KnownValidatorCmd pubkey) s)" "tx = bs_next s"
    using assms(2) by (auto simp: handle_get_known_validator_def handle_send_def Let_def)
  have inv: "service_inv s'"
    unfolding s' by (rule service_inv_send [OF assms(1)]) simp
  have q: "bs_command_rx s' = bs_command_rx s @ [KnownValidatorCmd pubkey tx]"
    "bs_channels s' = (bs_channels s)(tx := Empty)"
    by (simp_all add: s' handle_send_def Let_def)
  have "oneshot_recv tx (BeaconService_poll s') = Some (KnownValidatorFuture pubkey)"
    using poll_answers [OF inv, of "KnownValidatorCmd pubkey tx"] by (simp add: q)
  moreover have "oneshot_recv (command_tx c) (BeaconService_poll s') = Some (command_future c)"
    if "c \<in> set (bs_command_rx s)" "bs_channels s (command_tx c) \<noteq> Dropped" for c
    using poll_answers [OF inv, of c] that by (simp add: q)
  ultimately show ?thesis
    using service_inv_poll [OF inv] by (simp add: BeaconService_poll_def)
qed

text \<open>
  C35. The merged event stream loses, repeats and reorders nothing: after any number of polls, the
  payload attributes that were returned followed by those that are left are those of the
  subscription, in order, and the same holds for the head events.
\<close>

theorem event_stream_faithful:
  "List.map_filter payload_event (fst (poll_times n s)) @ items (es_payload_attributes (snd (poll_times n s)))
     = items (es_payload_attributes s) \<and>
   List.map_filter head_event (fst (poll_times n s)) @ items (es_new_head (snd (poll_times n s)))
     = items (es_new_head s)"
  using poll_times_items [of s n] by simp

text \<open>
  Publishing a block succeeds as soon as the node answers at all, whatever the status of the
  answer; the request is a POST of the block to the blocks endpoint with the Deneb version header,
  in SSZ with the octet-stream content type, or in JSON.
\<close>

theorem publish_ignores_status:
  "api_publish_block (BeaconNodeApi X url gs gd gf gv (\<lambda>req. Ok (status req))) block ty = Ok () \<and>
   api_publish_block (BeaconNodeApi X url gs gd gf gv (\<lambda>req. Err e)) block ty = Err e \<and>
   post_request url PUBLISH_BLOCK block Ssz =
     \<lparr>pr_url = url @ ''eth/v1/beacon/blocks'',
      pr_headers = [(''Eth-Consensus-Version'', ''deneb''), (''Content-Type'', ''application/octet-stream'')],
      pr_body = SszBody block\<rparr>"
  by (simp add: BeaconNodeApi_def post_api_response_def post_request_def PUBLISH_BLOCK_def)

text \<open>
  A subscription that is refused any number of times and then accepted is established after
  exactly as many delays; the number of attempts bounds the loop.
\<close>

theorem subscribe_with_retry_returns:
  assumes "\<And>j. j < n \<Longrightarrow> \<not> is_ok (attempts j)" and "attempts n = Ok a"
  shows "subscribe_with_retry (n + 1) attempts 0 = Some (a, n)"
  using subscribe_first [of 0 n attempts a "n + 1"] assms by simp

end
