(* ===== verification/Relay_Service.thy ===== *)
theory Relay_Service
  imports Beacon_Service Storage
begin

text \<open>
  \<open>bin/relay/src/service.rs\<close>: the service that follows the beacon chain. It writes the head slot and
  the payload attributes of each event, spawns the refresh of the proposer duties, and reconnects
  when the event stream ends.
\<close>

section \<open>Duties\<close>

text \<open>A duty whose key does not decode makes the conversion panic.\<close>

definition into_duties ::
    "externs \<Rightarrow> 's Storage \<Rightarrow> 's \<Rightarrow> ProposerDutiesData list \<Rightarrow> (Validator list, string) res" where
  "into_duties X S s duties =
     (if empty_validator_regs S s then Ok []
      else res_bind
        (res_mapM (\<lambda>duty.
           res_bind (BlsPublicKey_from_fixed X (pdd_pubkey duty)) (\<lambda>pubkey.
             Ok (map_option
               (\<lambda>registration. \<lparr>val_slot = pdd_slot duty, val_validator_index = pdd_validator_index duty,
                  val_entry = registration\<rparr>)
               (read_validator_registration S s pubkey)))) duties)
        (\<lambda>found. Ok (List.map_filter (\<lambda>v. v) found)))"

text \<open>
  The spawned task, from the end of its delay: both epochs are asked for, an error of either ends the
  task, and an empty result leaves the duties as they are.
\<close>

definition refresh_duties ::
    "externs \<Rightarrow> 's Storage \<Rightarrow> BeaconApi \<Rightarrow> u64 \<Rightarrow> HeadSlot \<Rightarrow> 's world \<Rightarrow> 's world \<times> (unit, string) res" where
  "refresh_duties X S api slots_per_epoch head w =
     (let outcome =
        res_bind (HeadSlot_epoch head slots_per_epoch) (\<lambda>epoch.
        let duties_epoch_res = api_proposer_duties api epoch;
            duties_next_epoch_res = api_proposer_duties api (epoch + 1)
        in res_bind duties_epoch_res (\<lambda>now.
           res_bind duties_next_epoch_res (\<lambda>coming.
           into_duties X S (w_store w) (merge_with now coming))))
      in case outcome of
           Err e \<Rightarrow> (w, Err e)
         | Panic m \<Rightarrow> (w, Panic m)
         | Ok duties \<Rightarrow> (if duties \<noteq> [] then set_proposer_duties S duties w else w, Ok ()))"

section \<open>The service\<close>

text \<open>
  \<open>PendingConnection\<close> holds a future; here the number of polls it still needs and the stream it
  then gives. \<open>connect k\<close> is the \<open>k\<close>-th connection that is made.
\<close>

datatype Inner = BeaconEvents BeaconEventsStream | PendingConnection nat BeaconEventsStream

record RelayService =
  rs_inner :: Inner
  rs_connections :: nat
  rs_slots_per_epoch :: u64

type_synonym connections = "nat \<Rightarrow> nat \<times> BeaconEventsStream"

definition RelayService_new :: "connections \<Rightarrow> u64 \<Rightarrow> RelayService" where
  "RelayService_new connect slots_per_epoch =
     \<lparr>rs_inner = BeaconEvents (snd (connect 0)), rs_connections = 1,
      rs_slots_per_epoch = slots_per_epoch\<rparr>"

definition on_event :: "'s Storage \<Rightarrow> BeaconEvent \<Rightarrow> 's world \<Rightarrow> 's world" where
  "on_event S event w =
     (case event of
        PayloadAttributeEvent p_attr \<Rightarrow> set_payload_attributes S p_attr w
      | HeadEvent slot \<Rightarrow>
          let head_slot = HeadSlot slot;
              w = set_head_slot S head_slot w
          in if slot mod 32 = 0 then spawn (RefreshDutiesTask head_slot) w else w)"

text \<open>One poll; every branch of the source returns \<open>Pending\<close>, so the service never ends.\<close>

definition RelayService_poll ::
    "'s Storage \<Rightarrow> connections \<Rightarrow> RelayService \<times> 's world \<Rightarrow> RelayService \<times> 's world" where
  "RelayService_poll S connect st =
     (let (rs, w) = st in
      case rs_inner rs of
        BeaconEvents stream \<Rightarrow>
          let (r, stream') = poll_next stream in
          (case r of
             Ready (Some event) \<Rightarrow> (rs\<lparr>rs_inner := BeaconEvents stream'\<rparr>, on_event S event w)
           | Ready None \<Rightarrow>
               let (delay, next) = connect (rs_connections rs) in
               (rs\<lparr>rs_inner := PendingConnection delay next,
                   rs_connections := rs_connections rs + 1\<rparr>, w)
           | Pending \<Rightarrow> (rs\<lparr>rs_inner := BeaconEvents stream'\<rparr>, w))
      | PendingConnection delay next \<Rightarrow>
          (case delay of
             0 \<Rightarrow> (rs\<lparr>rs_inner := BeaconEvents next\<rparr>, w)
           | Suc d \<Rightarrow> (rs\<lparr>rs_inner := PendingConnection d next\<rparr>, w)))"

definition RelayService_run ::
    "'s Storage \<Rightarrow> connections \<Rightarrow> nat \<Rightarrow> RelayService \<times> 's world \<Rightarrow> RelayService \<times> 's world" where
  "RelayService_run S connect n = (RelayService_poll S connect ^^ n)"

section \<open>Lemmas\<close>

text \<open>The duties that are found for decodable keys.\<close>

definition duty_entry ::
    "(BlsPublicKey \<Rightarrow> ValidatorRegistration option) \<Rightarrow> ProposerDutiesData \<Rightarrow> Validator option" where
  "duty_entry regs duty =
     map_option (\<lambda>registration. \<lparr>val_slot = pdd_slot duty,
         val_validator_index = pdd_validator_index duty, val_entry = registration\<rparr>)
       (regs (BlsPublicKey (pdd_pubkey duty)))"

lemma duty_entry_Some:
  "duty_entry regs duty = Some v \<longleftrightarrow>
     regs (BlsPublicKey (pdd_pubkey duty)) = Some (val_entry v) \<and>
     val_slot v = pdd_slot duty \<and> val_validator_index v = pdd_validator_index duty"
  by (auto simp: duty_entry_def)

lemma map_filter_id_map: "List.map_filter (\<lambda>v. v) (map f xs) = List.map_filter f xs"
  by (induction xs) (simp_all add: map_filter_simps split: option.split)

context storage_contract
begin

lemma into_duties_eq:
  assumes "\<And>d. d \<in> set duties \<Longrightarrow> blst_pk_from_bytes X (pdd_pubkey d) = Ok (pdd_pubkey d)"
  shows "into_duties X S s duties = Ok (List.map_filter (duty_entry (ss_registrations (alpha s))) duties)"
proof (cases "empty_validator_regs S s")
  case True
  then have "ss_registrations (alpha s) k = None" for k
    using empty_validator_regs [of s] by (cases "ss_registrations (alpha s) k") auto
  then have "List.map_filter (duty_entry (ss_registrations (alpha s))) duties = []"
    by (induction duties) (simp_all add: map_filter_simps duty_entry_def)
  with True show ?thesis by (simp add: into_duties_def)
next
  case False
  have "res_mapM (\<lambda>duty. res_bind (BlsPublicKey_from_fixed X (pdd_pubkey duty)) (\<lambda>pubkey.
      Ok (map_option (\<lambda>registration. \<lparr>val_slot = pdd_slot duty,
        val_validator_index = pdd_validator_index duty, val_entry = registration\<rparr>)
        (read_validator_registration S s pubkey)))) duties
      = (Ok (map (duty_entry (ss_registrations (alpha s))) duties) :: (Validator option list, string) res)"
    by (rule res_mapM_Ok_all)
      (simp add: BlsPublicKey_from_fixed_def assms duty_entry_def read_validator_registration)
  with False show ?thesis by (simp only: into_duties_def if_False res_bind.simps map_filter_id_map)
qed

lemma into_duties_registered:
  assumes "into_duties X S s duties = Ok ds" and "v \<in> set ds"
  shows "\<exists>k. ss_registrations (alpha s) k = Some (val_entry v)"
proof -
  from assms obtain found where found: "ds = List.map_filter (\<lambda>v. v) found"
    and all: "list_all2 (\<lambda>duty r. res_bind (BlsPublicKey_from_fixed X (pdd_pubkey duty)) (\<lambda>pubkey.
      Ok (map_option (\<lambda>registration. \<lparr>val_slot = pdd_slot duty,
        val_validator_index = pdd_validator_index duty, val_entry = registration\<rparr>)
        (read_validator_registration S s pubkey))) = (Ok r :: (Validator option, string) res)) duties found"
    by (auto simp: into_duties_def res_simps res_mapM_eq_Ok split: if_splits)
  from assms(2) have "Some v \<in> set found" unfolding found map_filter_set by simp
  from list_all2_mem_right [OF all this]
  show ?thesis by (auto simp: res_simps read_validator_registration)
qed

end

lemma refresh_duties_store:
  assumes "slots_per_epoch \<noteq> 0"
    and "api_proposer_duties api (head_slot head div slots_per_epoch) = Ok now"
    and "api_proposer_duties api (head_slot head div slots_per_epoch + 1) = Ok coming"
    and "\<And>d. d \<in> set (pdr_data now) \<union> set (pdr_data coming) \<Longrightarrow>
           blst_pk_from_bytes X (pdd_pubkey d) = Ok (pdd_pubkey d)"
  shows "refresh_duties X in_memory_storage api slots_per_epoch head w =
     (let ds = List.map_filter (duty_entry (Mapping.lookup (im_validator_registrations (w_store w))))
        (pdr_data now @ pdr_data coming) in
      (if ds = [] then w else ims_set_proposer_duties ds w, Ok ()))"
proof -
  have "into_duties X in_memory_storage (w_store w) (pdr_data now @ pdr_data coming)
      = Ok (List.map_filter (duty_entry (Mapping.lookup (im_validator_registrations (w_store w))))
        (pdr_data now @ pdr_data coming))"
    using ims.into_duties_eq [where duties = "pdr_data now @ pdr_data coming" and X = X
        and s = "w_store w"] assms(4) by simp
  then show ?thesis
    using assms(1-3) by (simp add: refresh_duties_def HeadSlot_epoch_def Let_def merge_with_def)
qed

lemma refresh_duties_failure:
  "snd (refresh_duties X S api n head w) \<noteq> Ok () \<Longrightarrow> fst (refresh_duties X S api n head w) = w"
  by (auto simp: refresh_duties_def Let_def split: res.splits)

text \<open>Whatever the node answers, a refresh can only replace the duties.\<close>

lemma refresh_duties_cases:
  "fst (refresh_duties X S api n head w) = w \<or>
   (\<exists>duties ds. into_duties X S (w_store w) duties = Ok ds \<and>
      fst (refresh_duties X S api n head w) = set_proposer_duties S ds w)"
  by (auto simp: refresh_duties_def Let_def res_simps split: res.splits)

lemma slot_mod_32: "slot mod 32 = 0 \<longleftrightarrow> unat slot mod 32 = 0" for slot :: u64
  by (simp add: word_unat_eq_iff unat_mod_distrib)

lemma poll_pending_connection:
  "RelayService_run S connect n (rs\<lparr>rs_inner := PendingConnection n next\<rparr>, w)
     = (rs\<lparr>rs_inner := PendingConnection 0 next\<rparr>, w)"
proof (induction n arbitrary: rs)
  case (Suc n)
  have "RelayService_poll S connect (rs\<lparr>rs_inner := PendingConnection (Suc n) next\<rparr>, w)
      = (rs\<lparr>rs_inner := PendingConnection n next\<rparr>, w)"
    by (simp add: RelayService_poll_def)
  with Suc show ?case by (simp add: RelayService_run_def funpow_Suc_right del: funpow.simps)
qed (simp add: RelayService_run_def)

section \<open>Properties\<close>

text \<open>
  The duties that are kept are those of the beacon node whose validator is registered with the
  relay, in the order of the node, with the slot and index of the duty and the registration that is
  stored for exactly its key; without registrations there are none.
\<close>

theorem into_duties_spec:
  assumes "\<And>d. d \<in> set duties \<Longrightarrow> blst_pk_from_bytes X (pdd_pubkey d) = Ok (pdd_pubkey d)"
  shows "\<exists>ds. into_duties X in_memory_storage s duties = Ok ds \<and>
    ds = List.map_filter (duty_entry (Mapping.lookup (im_validator_registrations s))) duties \<and>
    list_all (\<lambda>v. \<exists>d\<in>set duties. val_slot v = pdd_slot d \<and>
      val_validator_index v = pdd_validator_index d \<and>
      read_validator_registration in_memory_storage s (BlsPublicKey (pdd_pubkey d)) = Some (val_entry v)) ds"
  using ims.into_duties_eq [where s = s and X = X and duties = duties, OF assms]
  by (auto simp: list_all_iff map_filter_set duty_entry_Some ims_reader_defs)

text \<open>
  C32. A refresh asks for the epoch of the head slot and the next one and stores the duties of both,
  those whose validator is registered; when there are none it leaves the old duties in place, however
  old they are. Nothing else changes; and a refresh that fails changes nothing at all.
\<close>

theorem refresh_duties_spec:
  assumes "slots_per_epoch \<noteq> 0"
    and "api_proposer_duties api (head_slot head div slots_per_epoch) = Ok now"
    and "api_proposer_duties api (head_slot head div slots_per_epoch + 1) = Ok coming"
    and "\<And>d. d \<in> set (pdr_data now) \<union> set (pdr_data coming) \<Longrightarrow>
           blst_pk_from_bytes X (pdd_pubkey d) = Ok (pdd_pubkey d)"
  shows "let ds = List.map_filter (duty_entry (Mapping.lookup (im_validator_registrations (w_store w))))
               (pdr_data now @ pdr_data coming) in
     refresh_duties X in_memory_storage api slots_per_epoch head w =
       ((if ds = [] then w else on_store (\<lambda>s. s\<lparr>im_proposer_duties := ds\<rparr>) w), Ok ()) \<and>
     (snd (refresh_duties X in_memory_storage api' n head' w') \<noteq> Ok () \<longrightarrow>
        fst (refresh_duties X in_memory_storage api' n head' w') = w')"
proof -
  have "refresh_duties X in_memory_storage api slots_per_epoch head w =
     (let ds = List.map_filter (duty_entry (Mapping.lookup (im_validator_registrations (w_store w))))
        (pdr_data now @ pdr_data coming) in
      (if ds = [] then w else ims_set_proposer_duties ds w, Ok ()))"
    by (rule refresh_duties_store [OF assms])
  then show ?thesis
    using refresh_duties_failure [where S = in_memory_storage]
    by (simp add: Let_def ims_set_proposer_duties_def)
qed

text \<open>
  What an event does: payload attributes are stored and change no other part of the storage; a
  head slot is stored, and spawns one refresh of the duties exactly when it is a multiple of 32,
  whatever the configured number of slots per epoch is.
\<close>

theorem event_effect:
  "let w1 = on_event in_memory_storage (PayloadAttributeEvent a) w;
       w2 = on_event in_memory_storage (HeadEvent slot) w in
     w_store w1 = (w_store w)\<lparr>im_payload_attributes := a\<rparr> \<and> w_tasks w1 = w_tasks w \<and>
     w_store w2 = (w_store w)\<lparr>im_slot := HeadSlot slot\<rparr> \<and> w_recorder w2 = w_recorder w \<and>
     w_tasks w2 = w_tasks w @ (if unat slot mod 32 = 0 then [RefreshDutiesTask (HeadSlot slot)] else [])"
  by (simp add: slot_mod_32 Let_def on_event_def ims_set_payload_attributes_def
      ims_record_relayed_block_def ims_set_head_slot_def)

text \<open>
  The service comes back from a lost stream: when the stream ends or fails, the service waits for
  the connection and is on the new stream after as many polls as the connection needs and one more,
  with the storage, the metrics and the tasks as they were.
\<close>

theorem service_reconnects:
  assumes "rs_inner rs = BeaconEvents stream" and "fst (poll_next stream) = Ready None"
    and "connect (rs_connections rs) = (n, next)"
  shows "RelayService_run S connect (n + 2) (rs, w) =
    (rs\<lparr>rs_inner := BeaconEvents next, rs_connections := rs_connections rs + 1\<rparr>, w)"
proof -
  let ?rs = "rs\<lparr>rs_connections := rs_connections rs + 1\<rparr>"
  have "RelayService_poll S connect (rs, w) = (?rs\<lparr>rs_inner := PendingConnection n next\<rparr>, w)"
    using assms by (simp add: RelayService_poll_def case_prod_beta Let_def)
  then have "RelayService_run S connect (n + 1) (rs, w) = (?rs\<lparr>rs_inner := PendingConnection 0 next\<rparr>, w)"
    using poll_pending_connection [where S = S and connect = connect and n = n and rs = ?rs
        and w = w]
    by (simp add: RelayService_run_def funpow_Suc_right del: funpow.simps)
  then show ?thesis
    by (simp add: RelayService_run_def RelayService_poll_def)
qed

end
