(* ===== verification/System.thy ===== *)
theory System
  imports Relay_Service Http_Server Grpc_Service
begin

text \<open>
  The relay as a whole: the HTTP server, the gRPC server, the service that follows the beacon chain
  and the tasks they spawn all work on one storage. A step is one request, one event or one task, in
  any order; what a request meets outside the relay (the API-key service, the beacon node) is arbitrary
  in every step. Requests that overlap are the subject of \<open>Bid_Race\<close>.
\<close>

section \<open>Steps\<close>

inductive relay_step :: "externs \<Rightarrow> ForkDatas \<Rightarrow> u64 \<Rightarrow> relay_world \<Rightarrow> relay_world \<Rightarrow> bool"
  for X :: externs and fds :: ForkDatas and slots_per_epoch :: u64 where
  http: "serve X in_memory_storage env req w = (w', reply) \<Longrightarrow>
     relay_step X fds slots_per_epoch w w'"
| grpc: "submit_block X (RelayGrpcService_new in_memory_storage fds) request w = (w', reply) \<Longrightarrow>
     relay_step X fds slots_per_epoch w w'"
| event: "relay_step X fds slots_per_epoch w (on_event in_memory_storage e w)"
| refresh: "RefreshDutiesTask head \<in> set (w_tasks w) \<Longrightarrow>
     refresh_duties X in_memory_storage api slots_per_epoch head
       (w\<lparr>w_tasks := remove1 (RefreshDutiesTask head) (w_tasks w)\<rparr>) = (w', r) \<Longrightarrow>
     relay_step X fds slots_per_epoch w w'"
| publish: "PublishTask content ty \<in> set (w_tasks w) \<Longrightarrow>
     relay_step X fds slots_per_epoch w (w\<lparr>w_tasks := remove1 (PublishTask content ty) (w_tasks w)\<rparr>)"

inductive_cases relay_stepE: "relay_step X fds slots_per_epoch w w'"

text \<open>The worlds that can occur, from the storage that start-up makes.\<close>

inductive reachable ::
    "externs \<Rightarrow> ForkDatas \<Rightarrow> u64 \<Rightarrow> BlsPublicKey list \<Rightarrow> relay_world \<Rightarrow> bool"
  for X :: externs and fds :: ForkDatas and slots_per_epoch :: u64 and builders :: "BlsPublicKey list" where
  start: "reachable X fds slots_per_epoch builders
     (InMemoryStorage_new slot attrs builders fds Mapping.empty [] recorder)"
| step: "reachable X fds slots_per_epoch builders w \<Longrightarrow> relay_step X fds slots_per_epoch w w' \<Longrightarrow>
     reachable X fds slots_per_epoch builders w'"

section \<open>The invariant\<close>

definition sound_bid :: "externs \<Rightarrow> ForkDatas \<Rightarrow> BlsPublicKey set \<Rightarrow> BidSubmission \<Rightarrow> bool" where
  "sound_bid X fds builders b \<longleftrightarrow>
     \<not> U256_is_zero (bid_value b) \<and> bt_builder_pubkey (bid_trace b) \<in> builders \<and>
     BidTrace_verify_signature X (bid_trace b) (bs_signature b) (compute_builder_domain X fds)"

definition sound_registration :: "externs \<Rightarrow> ForkDatas \<Rightarrow> ValidatorRegistration \<Rightarrow> bool" where
  "sound_registration X fds r \<longleftrightarrow>
     BlsSignature_verify X (vr_signature r) (reg_key r)
       (signing_root X (ValidatorRegistrationMessage_tree_hash_root X (vr_message r))
         (compute_builder_domain X fds))"

definition sound_task :: "externs \<Rightarrow> ForkDatas \<Rightarrow> BlsPublicKey set \<Rightarrow> SpawnedTask \<Rightarrow> bool" where
  "sound_task X fds builders t \<longleftrightarrow>
     (case t of
        RefreshDutiesTask head \<Rightarrow> unat (head_slot head) mod 32 = 0
      | PublishTask content ty \<Rightarrow> ty = Ssz \<and>
          (\<exists>sb b duty. content = signed_beacon_block sb (to_blinded_block_response b) \<and>
             sound_bid X fds builders b \<and> sound_registration X fds (val_entry duty) \<and>
             val_slot duty = blb_slot (sbl_message sb) \<and>
             BlsSignature_verify X (sbl_signature sb) (duty_pubkey duty)
               (signing_root X (BlindedBlock_tree_hash_root X (sbl_message sb))
                 (compute_proposer_domain X fds))))"

definition store_inv :: "externs \<Rightarrow> ForkDatas \<Rightarrow> BlsPublicKey set \<Rightarrow> StorageSpec \<Rightarrow> bool" where
  "store_inv X fds builders \<sigma> \<longleftrightarrow>
     ss_fork_data \<sigma> = fds \<and> ss_builders \<sigma> = builders \<and> ss_bid_by_slot \<sigma> = Map.empty \<and>
     (\<forall>k b. ss_best_bid \<sigma> k = Some b \<longrightarrow> bid_key b = k \<and> sound_bid X fds builders b) \<and>
     (\<forall>n b. ss_bid_by_block_number \<sigma> n = Some b \<longrightarrow>
        ep_block_number (bs_execution_payload b) = n \<and> sound_bid X fds builders b) \<and>
     (\<forall>k r. ss_responses \<sigma> k = Some r \<longrightarrow>
        (\<exists>b. sound_bid X fds builders b \<and> r = to_blinded_block_response b)) \<and>
     (\<forall>k r. ss_registrations \<sigma> k = Some r \<longrightarrow> reg_key r = k \<and> sound_registration X fds r) \<and>
     (\<forall>d\<in>set (ss_proposer_duties \<sigma>). sound_registration X fds (val_entry d))"

definition world_inv :: "externs \<Rightarrow> ForkDatas \<Rightarrow> BlsPublicKey set \<Rightarrow> relay_world \<Rightarrow> bool" where
  "world_inv X fds builders w \<longleftrightarrow>
     store_inv X fds builders (abs_in_memory (w_store w)) \<and>
     (\<forall>t\<in>set (w_tasks w). sound_task X fds builders t)"

lemma world_inv_start:
  "world_inv X fds (set builders) (InMemoryStorage_new slot attrs builders fds Mapping.empty [] recorder)"
  by (auto simp: world_inv_def store_inv_def InMemoryStorage_new_def Let_def abs_in_memory_def
      fun_eq_iff lookup_empty)

lemma sound_bid_admissible:
  assumes "store_inv X fds builders \<sigma>" and "admissible_static X (\<sigma>\<lparr>ss_fork_data := fds\<rparr>) b"
  shows "sound_bid X fds builders b"
  using assms by (simp add: store_inv_def admissible_static_def sound_bid_def Let_def)

lemma store_inv_record_bid:
  assumes "store_inv X fds builders \<sigma>" and "sound_bid X fds builders b"
  shows "store_inv X fds builders (record_bid b duty \<sigma>)"
  using assms by (auto simp: store_inv_def record_bid_def)

lemma store_inv_frame:
  assumes "store_inv X fds builders \<sigma>"
  shows "store_inv X fds builders (\<sigma>\<lparr>ss_head_slot := h\<rparr>)"
    and "store_inv X fds builders (\<sigma>\<lparr>ss_payload_attributes := a\<rparr>)"
    and "store_inv X fds builders (\<sigma>\<lparr>ss_delivered := D\<rparr>)"
  using assms by (simp_all add: store_inv_def)

section \<open>Every step keeps the invariant\<close>

lemma world_inv_post_bids [relay_intros]:
  assumes "world_inv X fds builders w"
  shows "world_inv X fds builders (fst (post_bids_handler X in_memory_storage b w))"
proof (rule ims.post_bids_handler_cases [where w = w and X = X and b = b])
  fix duty
  let ?\<sigma> = "abs_in_memory (w_store w)"
  assume adm: "admissible_static X ?\<sigma> b" and eq: "post_bids_handler X in_memory_storage b w
      = (post_bids_commit in_memory_storage b duty w, Ok (with_status (Text ''OK'') StatusOK))"
  from assms have inv: "store_inv X fds builders ?\<sigma>" by (simp add: world_inv_def)
  then have "?\<sigma>\<lparr>ss_fork_data := fds\<rparr> = ?\<sigma>" by (simp add: store_inv_def)
  with adm have "sound_bid X fds builders b" using sound_bid_admissible [OF inv] by metis
  with assms show ?thesis
    by (simp add: eq world_inv_def ims.post_bids_commit_store ims.post_bids_commit_frame
        store_inv_record_bid)
qed (use assms in simp_all)

lemma world_inv_blinded_blocks [relay_intros]:
  assumes inv: "world_inv X fds builders w"
  shows "world_inv X fds builders (fst (blinded_blocks_handler X in_memory_storage sb t w))"
proof (cases "blinded_blocks_checks X in_memory_storage (w_store w) sb")
  case (Ok resp)
  let ?\<sigma> = "abs_in_memory (w_store w)"
  from Ok obtain duty where d: "authorized_block X ?\<sigma> sb duty" "ss_responses ?\<sigma> (duty_pubkey duty) = Some resp"
    unfolding ims.blinded_blocks_checks_Ok by blast
  from inv have s: "store_inv X fds builders ?\<sigma>" by (simp add: world_inv_def)
  then have fds: "ss_fork_data ?\<sigma> = fds" by (simp only: store_inv_def)
  from d(2) s obtain b where "sound_bid X fds builders b" "resp = to_blinded_block_response b"
    unfolding store_inv_def by blast
  moreover from d(1) have "val_slot duty = blb_slot (sbl_message sb)" "duty \<in> set (ss_proposer_duties ?\<sigma>)"
    unfolding authorized_block_def by (auto dest: duty_of_slot)
  moreover from this s have "sound_registration X fds (val_entry duty)"
    unfolding store_inv_def by blast
  ultimately have "sound_task X fds builders (PublishTask (signed_beacon_block sb resp) Ssz)"
    using d(1) unfolding sound_task_def authorized_block_def fds by auto
  with inv show ?thesis
    by (simp add: world_inv_def ims.blinded_blocks_Ok_store [OF Ok] store_inv_frame)
qed (use inv in \<open>simp_all add: blinded_blocks_handler_def\<close>)

lemma world_inv_post_validators [relay_intros]:
  assumes "world_inv X fds builders w"
  shows "world_inv X fds builders (fst (post_validators_handler X in_memory_storage known regs w))"
proof -
  have "w_tasks (fst (post_validators_handler X in_memory_storage known regs w)) = w_tasks w"
    by (simp add: post_validators_handler_eq ims_set_validator_registrations_def Let_def)
  then show ?thesis
    using assms
    by (auto simp: world_inv_def store_inv_def post_validators_store sound_registration_def
        dest: registered_map_sound)
qed

lemma world_inv_get_header [relay_intros]:
  assumes "world_inv X fds builders w"
  shows "world_inv X fds builders
    (fst (get_header_handler X in_memory_storage signer slot phash pubkey t w))"
  using assms by (simp add: world_inv_def)

lemma world_inv_filtered [relay_intros]:
  assumes "world_inv X fds builders w" and "\<And>a. world_inv X fds builders (fst (h a))"
  shows "world_inv X fds builders (fst (filtered r h w))"
  using filtered_cases [of r h w] assms by auto

lemma world_inv_dispatch [relay_intros]:
  assumes "world_inv X fds builders w"
  shows "world_inv X fds builders (fst (dispatch X in_memory_storage env req w))"
  using assms
  by (cases req) (auto simp: status_handler_def get_validators_handler_def
      intro!: relay_intros)

lemma world_inv_submit_block [relay_intros]:
  assumes inv: "world_inv X fds builders w"
  shows "world_inv X fds builders
    (fst (submit_block X (RelayGrpcService_new in_memory_storage fds) req w))"
proof (rule submit_block_cases [where X = X and w = w and req = req
      and self = "RelayGrpcService_new in_memory_storage fds"])
  let ?self = "RelayGrpcService_new in_memory_storage fds"
  fix t p bb sig key
  assume "submit_block_checks X ?self (w_store w) req = Ok (Accepted t p bb sig key)"
    and eq: "submit_block X ?self req w
      = (update_best ?self t p bb sig key w, Ok \<lparr>resp_code = 200, resp_message = ''Success''\<rparr>)"
  from ims.submit_block_Accepted_abs [OF this(1) refl] obtain duty where "key = duty_pubkey duty"
    "admissible_static X ((abs_in_memory (w_store w))\<lparr>ss_fork_data := fds\<rparr>)
      (BidSubmission_new t p bb sig)" by blast
  moreover from inv this(2) have "sound_bid X fds builders (BidSubmission_new t p bb sig)"
    using sound_bid_admissible unfolding world_inv_def by blast
  ultimately show ?thesis
    using inv unfolding eq
    by (simp add: update_best_commit RelayGrpcService_new_def world_inv_def
        ims.post_bids_commit_store ims.post_bids_commit_frame store_inv_record_bid)
qed (use inv in simp_all)

lemma world_inv_on_event [relay_intros]:
  assumes "world_inv X fds builders w"
  shows "world_inv X fds builders (on_event in_memory_storage e w)"
proof (cases e)
  case (PayloadAttributeEvent a)
  with assms show ?thesis
    by (simp add: on_event_def world_inv_def ims.setters_store ims.setters_tasks store_inv_frame
        del: in_memory_setters)
next
  case (HeadEvent slot)
  with assms show ?thesis
    by (auto simp: on_event_def world_inv_def ims.setters_store ims.setters_tasks store_inv_frame
        sound_task_def slot_mod_32 Let_def simp del: in_memory_setters)
qed

lemma world_inv_refresh [relay_intros]:
  assumes "world_inv X fds builders w"
  shows "world_inv X fds builders (fst (refresh_duties X in_memory_storage api n head w))"
  using refresh_duties_cases [of X in_memory_storage api n head w]
proof (elim disjE exE conjE)
  fix duties ds
  assume ok: "into_duties X in_memory_storage (w_store w) duties = Ok ds"
    and eq: "fst (refresh_duties X in_memory_storage api n head w)
      = set_proposer_duties in_memory_storage ds w"
  have "\<forall>d\<in>set ds. sound_registration X fds (val_entry d)"
    using ims.into_duties_registered [OF ok] assms unfolding world_inv_def store_inv_def by blast
  with assms show ?thesis
    by (simp add: eq world_inv_def ims.setters_store ims.setters_tasks store_inv_def
        del: in_memory_setters)
qed (use assms in simp)

lemma world_inv_tasks [relay_intros]:
  "world_inv X fds builders w \<Longrightarrow> world_inv X fds builders (w\<lparr>w_tasks := remove1 t (w_tasks w)\<rparr>)"
  by (auto simp: world_inv_def dest: notin_set_remove1)

lemma world_inv_step:
  assumes "relay_step X fds n w w'" and "world_inv X fds builders w"
  shows "world_inv X fds builders w'"
  using assms
  by (elim relay_stepE) (metis serve_fst fst_conv relay_intros | simp add: relay_intros)+

lemma reachable_inv: "reachable X fds n builders w \<Longrightarrow> world_inv X fds (set builders) w"
  by (induction rule: reachable.induct) (auto intro: world_inv_start world_inv_step)

section \<open>Properties\<close>

text \<open>
  In every world that can occur, a best bid is stored under its own slot, parent hash and
  proposer, is not zero, comes from a whitelisted builder and carries this builder's signature under
  the builder domain that the relay was started with; so does the bid of a block number; and no bid is
  ever found by slot.
\<close>

theorem reachable_best_bids:
  assumes "reachable X fds slots_per_epoch builders w"
  shows "(read_best_bid in_memory_storage (w_store w) slot h v = Some b \<longrightarrow>
      bt_slot (bid_trace b) = slot \<and> bt_parent_hash (bid_trace b) = h \<and>
      bt_proposer_pubkey (bid_trace b) = v \<and> sound_bid X fds (set builders) b) \<and>
    (read_best_bid_by_block_number in_memory_storage (w_store w) n = Some b \<longrightarrow>
      ep_block_number (bs_execution_payload b) = n \<and> sound_bid X fds (set builders) b) \<and>
    read_best_bid_by_slot in_memory_storage (w_store w) slot = None"
  using reachable_inv [OF assms]
  by (auto simp: world_inv_def store_inv_def ims_reader_defs bid_key_def
      dest: spec [of _ "(slot, h, v)"])

text \<open>
  In every world that can occur, a registration is stored under the key that signed it, and every
  duty is for a validator that has signed a registration; what is handed out for a proposer is the
  payload of a bid that a whitelisted builder signed.
\<close>

theorem reachable_registrations:
  assumes "reachable X fds slots_per_epoch builders w"
  shows "(read_validator_registration in_memory_storage (w_store w) k = Some r \<longrightarrow>
      vrm_pubkey (vr_message r) = k \<and> ValidatorRegistration_verify_signature X r (fds_builder fds)) \<and>
    (find_duty_by_slot in_memory_storage (w_store w) slot = Some d \<longrightarrow> val_slot d = slot \<and>
      ValidatorRegistration_verify_signature X (val_entry d) (fds_builder fds)) \<and>
    (read_blinded_block_response in_memory_storage (w_store w) k = Some resp \<longrightarrow>
      (\<exists>b. sound_bid X fds (set builders) b \<and> resp = to_blinded_block_response b))"
proof -
  have sig: "ValidatorRegistration_verify_signature X r (fds_builder fds) = sound_registration X fds r" for r
    by (simp add: sound_registration_def ValidatorRegistration_verify_signature_def
        compute_builder_domain_def reg_key_def)
  show ?thesis
    unfolding sig using reachable_inv [OF assms]
    by (auto simp: world_inv_def store_inv_def ims_reader_defs reg_key_def dest!: find_Some_mem)
qed


end
