(* ===== verification/Startup.thy ===== *)
theory Startup
  imports System
begin

text \<open>
  \<open>bin/relay/src/main.rs\<close> and \<open>bin/relay/src/cli.rs\<close>: the arguments of the command line, the fork
  data (from the beacon node, or from the arguments), the storage that is made of the first events,
  and the order in which the parts of the relay are started. Parsing the command line itself is clap's.
\<close>

section \<open>The command line\<close>

datatype StartUpErrors =
    EmptyBuilders
  | Unauthorized AuthError
  | InvalidChain string
  | SetupStorage string

record CliArgs =
  ca_mbs_auth_url :: string
  ca_beacon_url :: string
  ca_grpc_port :: u16
  ca_http_port :: u16
  ca_metrics_port :: u16
  ca_slots_per_epoch :: u64
  ca_white_listed_builders :: "bytes list"
  ca_genesis_fork_version :: ForkVersion
  ca_current_fork_version :: ForkVersion
  ca_genesis_validators_root :: Hash256
  ca_chain :: NamedChain
  ca_bls_secret_key :: BlsSecretKey

record SocketAddr =
  sa_ip :: bytes
  sa_port :: u16

definition parse_bls_secret_key :: "externs \<Rightarrow> string \<Rightarrow> (BlsSecretKey, string) res" where
  "parse_bls_secret_key X s =
     res_map_err (\<lambda>e. ''Invalid BLS secret key: '' @ e) (BlsSecretKey_of_str X s)"

definition parse_fork_version :: "externs \<Rightarrow> string \<Rightarrow> (ForkVersion, string) res" where
  "parse_fork_version X s = ForkVersion_of_str X s"

definition HASH256_SIZE :: nat where "HASH256_SIZE = 32"

definition parse_genesis_root :: "externs \<Rightarrow> string \<Rightarrow> (Hash256, string) res" where
  "parse_genesis_root X s =
     (let s = trim_start_0x s in
      res_bind (res_map_err (\<lambda>e. ''Invalid genesis root: '' @ e) (hex_decode X s)) (\<lambda>bytes.
      if length bytes \<noteq> HASH256_SIZE then Err ''Invalid genesis root length'' else Ok bytes))"

definition grpc_addr :: "CliArgs \<Rightarrow> SocketAddr" where
  "grpc_addr args = \<lparr>sa_ip = [0, 0, 0, 0], sa_port = ca_grpc_port args\<rparr>"

definition http_addr :: "CliArgs \<Rightarrow> SocketAddr" where
  "http_addr args = \<lparr>sa_ip = [0, 0, 0, 0], sa_port = ca_http_port args\<rparr>"

definition genesis_fork_version :: "externs \<Rightarrow> CliArgs \<Rightarrow> (ForkVersion, StartUpErrors) res" where
  "genesis_fork_version X args = res_map_err InvalidChain (try_from_chain X (ca_chain args))"

definition fork_data_builder :: "CliArgs \<Rightarrow> ForkData" where
  "fork_data_builder args =
     \<lparr>fd_current_version = fork_version_bytes (ca_genesis_fork_version args),
      fd_genesis_validators_root = replicate 32 0\<rparr>"

definition fork_data_proposer :: "CliArgs \<Rightarrow> ForkData" where
  "fork_data_proposer args =
     \<lparr>fd_current_version = fork_version_bytes (ca_current_fork_version args),
      fd_genesis_validators_root = ca_genesis_validators_root args\<rparr>"

definition cli_fork_data :: "CliArgs \<Rightarrow> ForkDatas" where
  "cli_fork_data args = ForkDatas_new (fork_data_builder args) (fork_data_proposer args)"

definition enabled_builders :: "externs \<Rightarrow> CliArgs \<Rightarrow> (BlsPublicKey list, 'e) res" where
  "enabled_builders X args = res_mapM (BlsPublicKey_from_fixed X) (ca_white_listed_builders args)"

section \<open>The fork data\<close>

definition setup_fork_data ::
    "externs \<Rightarrow> (GetForkResponse, string) res \<Rightarrow> ForkVersion \<Rightarrow> (ForkDatas, string) res" where
  "setup_fork_data X get_fork_data genesis_version =
     res_bind get_fork_data (\<lambda>fork_data.
     let genesis_version = fork_version_bytes genesis_version in
     res_bind (ForkVersion_of_str X (cf_current_version (fdr_fork (gfr_data fork_data))))
       (\<lambda>current_version.
     let current_version = fork_version_bytes current_version in
     res_bind (hash256_from_str X (fdr_genesis_validators_root (gfr_data fork_data)))
       (\<lambda>genesis_validators_root.
     Ok (from_genesis_and_current_version genesis_version current_version
           genesis_validators_root))))"

section \<open>The storage\<close>

text \<open>
  The loop that waits for the first event of each kind. A turn is one poll of the stream: \<open>next\<close>
  polls again when it is \<open>Pending\<close>, and an end of the stream (\<open>None\<close>) is skipped by the last arm of the
  match. The fuel bounds the number of polls.
\<close>

fun first_events ::
    "nat \<Rightarrow> BeaconEventsStream \<Rightarrow> PayloadAttributes option \<Rightarrow> u64 option
     \<Rightarrow> (PayloadAttributes \<times> u64) option" where
  "first_events fuel stream attr_event slot_event =
     (case (attr_event, slot_event) of
        (Some attr, Some slot) \<Rightarrow> Some (attr, slot)
      | _ \<Rightarrow>
          (case fuel of
             0 \<Rightarrow> None
           | Suc fuel \<Rightarrow>
               let (r, stream) = poll_next stream in
               (case r of
                  Ready (Some (PayloadAttributeEvent event)) \<Rightarrow>
                    if attr_event = None
                    then first_events fuel stream (Some event) slot_event
                    else first_events fuel stream attr_event slot_event
                | Ready (Some (HeadEvent event)) \<Rightarrow>
                    if slot_event = None
                    then first_events fuel stream attr_event (Some event)
                    else first_events fuel stream attr_event slot_event
                | _ \<Rightarrow> first_events fuel stream attr_event slot_event)))"

declare first_events.simps [simp del]

definition setup_storage ::
    "nat \<Rightarrow> BeaconEventsStream \<Rightarrow> BlsPublicKey list \<Rightarrow> ForkDatas \<Rightarrow> RelayMetrics
     \<Rightarrow> (relay_world, string) res option" where
  "setup_storage fuel stream wlist_builders fds recorder =
     (case first_events fuel stream None None of
        None \<Rightarrow> None
      | Some (attr, slot) \<Rightarrow>
          let duties = []; regs = Mapping.empty in
          Some (Ok (InMemoryStorage_new (HeadSlot slot) attr wlist_builders fds regs duties recorder)))"

section \<open>The order of the start\<close>

text \<open>\<open>unwrap_or_else\<close>: any error falls back to the command line.\<close>

definition fork_data_or_default ::
    "externs \<Rightarrow> (GetForkResponse, string) res \<Rightarrow> ForkVersion \<Rightarrow> ForkDatas \<Rightarrow> (ForkDatas, StartUpErrors) res" where
  "fork_data_or_default X get_fork_data fork_version default_fork_data =
     (case setup_fork_data X get_fork_data fork_version of
        Ok fds \<Rightarrow> Ok fds
      | Err err \<Rightarrow> Ok default_fork_data
      | Panic m \<Rightarrow> Panic m)"

record Started =
  st_world :: relay_world
  st_fork_data :: ForkDatas
  st_signer :: BlsSigner
  st_slots_per_epoch :: u64
  st_grpc_addr :: SocketAddr
  st_http_addr :: SocketAddr

text \<open>
  \<open>main\<close> up to the service that then runs forever: the critical tasks that were spawned, in order, and
  the outcome; \<open>None\<close> when it still waits for its first events. \<open>build_client\<close> is the outcome of
  building the HTTP client of the authentication.
\<close>

definition relay_main ::
    "externs \<Rightarrow> nat \<Rightarrow> CliArgs \<Rightarrow> (GetForkResponse, string) res \<Rightarrow> BeaconEventsStream
     \<Rightarrow> (unit, string) res \<Rightarrow> RelayMetrics \<Rightarrow> string list \<times> (Started, StartUpErrors) res option" where
  "relay_main X fuel args get_fork_data stream build_client recorder =
     (case genesis_fork_version X args of
        Err e \<Rightarrow> ([], Some (Err e))
      | Panic m \<Rightarrow> ([], Some (Panic m))
      | Ok fork_version \<Rightarrow>
     let default_fork_data = cli_fork_data args;
         spawned = [''metrics-server''] in
     case enabled_builders X args of
        Err e \<Rightarrow> (spawned, Some (Err e))
      | Panic m \<Rightarrow> (spawned, Some (Panic m))
      | Ok builders \<Rightarrow>
     if builders = [] then (spawned, Some (Err EmptyBuilders)) else
     let spawned = spawned @ [''beacon-service''];
         fds = fork_data_or_default X get_fork_data fork_version default_fork_data in
     case fds of
        Err e \<Rightarrow> (spawned, Some (Err e))
      | Panic m \<Rightarrow> (spawned, Some (Panic m))
      | Ok fds \<Rightarrow>
     case setup_storage fuel stream builders fds recorder of
        None \<Rightarrow> (spawned, None)
      | Some (Err e) \<Rightarrow> (spawned, Some (Err (SetupStorage e)))
      | Some (Panic m) \<Rightarrow> (spawned, Some (Panic m))
      | Some (Ok storage) \<Rightarrow>
     let spawned = spawned @ [''grpc-server''];
         signer = BlsSigner_new (ca_bls_secret_key args) fds in
     case build_client of
        Err e \<Rightarrow> (spawned, Some (Err (Unauthorized (RequestError e))))
      | Panic m \<Rightarrow> (spawned, Some (Panic m))
      | Ok _ \<Rightarrow>
     (spawned @ [''http-server''],
      Some (Ok \<lparr>st_world = storage, st_fork_data = fds, st_signer = signer,
        st_slots_per_epoch = ca_slots_per_epoch args, st_grpc_addr = grpc_addr args,
        st_http_addr = http_addr args\<rparr>)))"

section \<open>Lemmas\<close>

text \<open>The first event of a kind: the one that is there, or the first item of the subscription.\<close>

fun first_of :: "'a option \<Rightarrow> 'a list \<Rightarrow> 'a option" where
  "first_of (Some a) as = Some a"
| "first_of None [] = None"
| "first_of None (a # as) = Some a"

definition both :: "'a option \<Rightarrow> 'b option \<Rightarrow> ('a \<times> 'b) option" where
  "both x y = (case (x, y) of (Some a, Some b) \<Rightarrow> Some (a, b) | _ \<Rightarrow> None)"

lemma poll_next_shorter:
  assumes "poll_next s = (r, s')"
    and "es_payload_attributes s \<noteq> [] \<or> es_new_head s \<noteq> []"
  shows "length (es_payload_attributes s') + length (es_new_head s')
      < length (es_payload_attributes s) + length (es_new_head s)"
  using assms
  by (cases "es_payload_attributes s"; cases "es_new_head s")
    (auto simp: poll_next.simps Let_def split: prod.splits poll_item.splits)

lemma first_events_unfold:
  "first_events (Suc fuel) s p h =
     (case both p h of
        Some r \<Rightarrow> Some r
      | None \<Rightarrow>
          (let (r, s') = poll_next s in
           first_events fuel s' (first_of p (case payload_event r of Some a \<Rightarrow> [a] | None \<Rightarrow> []))
             (first_of h (case head_event r of Some a \<Rightarrow> [a] | None \<Rightarrow> []))))"
  by (cases p; cases h)
    (simp_all add: first_events.simps [of "Suc fuel"] both_def
      split: prod.split Poll.split option.split BeaconEvent.split)

lemma first_events_0: "first_events 0 s p h = both p h"
  by (cases p; cases h) (simp_all add: first_events.simps [of 0] both_def)

lemma first_of_append: "first_of p (xs @ ys) = first_of (first_of p xs) ys"
  by (cases p; cases xs) simp_all

lemma both_first_of: "both p h = Some r \<Longrightarrow> both (first_of p xs) (first_of h ys) = Some r"
  by (cases p; cases h) (simp_all add: both_def)

lemma first_events_sound:
  assumes "first_events fuel s p h = Some r"
  shows "both (first_of p (items (es_payload_attributes s))) (first_of h (items (es_new_head s))) = Some r"
  using assms
proof (induction fuel arbitrary: s p h)
  case 0
  then show ?case by (simp add: first_events_0 both_first_of)
next
  case (Suc fuel)
  obtain e s' where e: "poll_next s = (e, s')" by fastforce
  show ?case
  proof (cases "both p h")
    case None
    with Suc.prems e have "first_events fuel s'
        (first_of p (case payload_event e of Some a \<Rightarrow> [a] | None \<Rightarrow> []))
        (first_of h (case head_event e of Some a \<Rightarrow> [a] | None \<Rightarrow> [])) = Some r"
      by (simp add: first_events_unfold)
    from Suc.IH [OF this] show ?thesis
      unfolding poll_next_items [OF e] first_of_append .
  qed (use Suc.prems in \<open>simp add: first_events_unfold both_first_of\<close>)
qed

lemma first_events_complete:
  assumes "length (es_payload_attributes s) + length (es_new_head s) \<le> fuel"
  shows "first_events fuel s p h =
    both (first_of p (items (es_payload_attributes s))) (first_of h (items (es_new_head s)))"
  using assms
proof (induction fuel arbitrary: s p h)
  case 0
  then show ?case by (cases p; cases h) (simp_all add: first_events_0)
next
  case (Suc fuel)
  obtain e s' where e: "poll_next s = (e, s')" by fastforce
  have less: "length (es_payload_attributes s') + length (es_new_head s') \<le> fuel"
  proof (cases "es_payload_attributes s \<noteq> [] \<or> es_new_head s \<noteq> []")
    case True
    with poll_next_shorter [OF e] Suc.prems show ?thesis by linarith
  next
    case False
    with e show ?thesis by (auto simp: poll_next.simps)
  qed
  show ?case
  proof (cases "both p h")
    case None
    then show ?thesis
      unfolding poll_next_items [OF e] first_of_append
      by (simp add: first_events_unfold e Suc.IH [OF less])
  qed (simp add: first_events_unfold both_first_of)
qed

lemma enabled_builders_no_Err: "res_mapM (BlsPublicKey_from_fixed X) bs \<noteq> Err e"
  by (induction bs) (auto simp: res_simps BlsPublicKey_from_fixed_def)

lemma fork_data_or_default_no_Err: "fork_data_or_default X g v d \<noteq> Err e"
  by (simp add: fork_data_or_default_def split: res.split)

lemma setup_fork_data_version:
  "setup_fork_data X g v = Ok fds \<Longrightarrow> fd_current_version (fds_builder fds) = fork_version_bytes v"
  by (auto simp: setup_fork_data_def Let_def res_simps from_genesis_and_current_version_def)

lemma cli_fork_data_version [simp]:
  "fd_current_version (fds_builder (cli_fork_data args))
     = fork_version_bytes (ca_genesis_fork_version args)"
  by (simp add: cli_fork_data_def ForkDatas_new_def fork_data_builder_def)

section \<open>Properties\<close>

text \<open>
  C33. Setting up the storage takes the first payload attributes and the first head slot of the
  subscriptions, whatever comes between them, and starts with no registrations, duties or bids; it is
  done after at most as many polls as the subscriptions have entries. When a subscription ends or stays
  silent without giving an event, no number of polls is enough: the loop neither fails nor reconnects.
\<close>

theorem setup_storage_spec:
  assumes "length (es_payload_attributes s) + length (es_new_head s) \<le> fuel"
  shows "setup_storage fuel s builders fds recorder =
      (case (items (es_payload_attributes s), items (es_new_head s)) of
         (attr # _, slot # _) \<Rightarrow>
           Some (Ok (InMemoryStorage_new (HeadSlot slot) attr builders fds Mapping.empty [] recorder))
       | _ \<Rightarrow> None) \<and>
    (items (es_payload_attributes s) = [] \<or> items (es_new_head s) = [] \<longrightarrow>
       setup_storage any_fuel s builders fds recorder = None)"
proof -
  have "first_events any_fuel s None None = None"
    if "items (es_payload_attributes s) = [] \<or> items (es_new_head s) = []"
    using that first_events_sound [of any_fuel s None None]
    by (cases "first_events any_fuel s None None";
        cases "items (es_payload_attributes s)"; cases "items (es_new_head s)")
      (auto simp: both_def)
  then show ?thesis
    unfolding setup_storage_def first_events_complete [OF assms]
    by (simp add: both_def split: list.split)
qed

text \<open>
  The parts are started in one order: the metrics, the beacon service, the gRPC server and the HTTP
  server. An unsupported chain ends the start before any of them, an empty list of builders after the
  metrics; while the relay waits for its first events neither server runs; an HTTP client that cannot
  be built leaves the gRPC server without the HTTP server; and setting up the storage never fails.
\<close>

theorem start_order:
  "case relay_main X fuel args get_fork_data stream build_client recorder of (spawned, outcome) \<Rightarrow>
     prefix spawned [''metrics-server'', ''beacon-service'', ''grpc-server'', ''http-server''] \<and>
     (case outcome of
        None \<Rightarrow> spawned = [''metrics-server'', ''beacon-service'']
      | Some (Ok st) \<Rightarrow> length spawned = 4
      | Some (Err (InvalidChain e)) \<Rightarrow> spawned = [] \<and> try_from_chain X (ca_chain args) = Err e
      | Some (Err EmptyBuilders) \<Rightarrow>
          spawned = [''metrics-server''] \<and> ca_white_listed_builders args = []
      | Some (Err (Unauthorized e)) \<Rightarrow> length spawned = 3
      | Some (Err (SetupStorage e)) \<Rightarrow> False
      | Some (Panic m) \<Rightarrow> length spawned < 4)"
proof (cases "try_from_chain X (ca_chain args)")
  case (Ok v)
  show ?thesis
  proof (cases "res_mapM (BlsPublicKey_from_fixed X) (ca_white_listed_builders args)
      :: (BlsPublicKey list, StartUpErrors) res")
    case (Ok ks)
    then show ?thesis
      using \<open>try_from_chain X (ca_chain args) = res.Ok v\<close> res_mapM_length [OF Ok]
      by (auto simp: relay_main_def genesis_fork_version_def enabled_builders_def Let_def
          setup_storage_def fork_data_or_default_no_Err split: res.split option.split)
  next
    case (Err e)
    then show ?thesis by (simp add: enabled_builders_no_Err)
  next
    case (Panic m)
    then show ?thesis using \<open>try_from_chain X (ca_chain args) = res.Ok v\<close>
      by (simp add: relay_main_def genesis_fork_version_def enabled_builders_def Let_def)
  qed
qed (simp_all add: relay_main_def genesis_fork_version_def)

text \<open>
  C34. The relay that has started is in a reachable state, for the fork data that its signer and the
  gRPC server use as well, and with the builders of the command line, of which there is one at least.
  The fork data are those of the node with the genesis version of the chain, when the node answers with
  data that parse; otherwise both come from the command line, where the genesis version is an option
  of its own that may belong to another chain than the one that is configured.
\<close>

theorem started_consistent:
  assumes "relay_main X fuel args get_fork_data stream build_client recorder = (spawned, Some (Ok st))"
  shows "case try_from_chain X (ca_chain args) of
      Ok v \<Rightarrow>
        (\<exists>builders. res_mapM (BlsPublicKey_from_fixed X) (ca_white_listed_builders args)
             = (Ok builders :: (BlsPublicKey list, StartUpErrors) res) \<and> builders \<noteq> [] \<and>
           reachable X (st_fork_data st) (st_slots_per_epoch st) builders (st_world st)) \<and>
        sg_fork_data (st_signer st) = st_fork_data st \<and>
        (case setup_fork_data X get_fork_data v of
           Ok fds \<Rightarrow> st_fork_data st = fds \<and>
             fd_current_version (fds_builder fds) = fork_version_bytes v
         | Err e \<Rightarrow> st_fork_data st = cli_fork_data args \<and>
             fd_current_version (fds_builder (cli_fork_data args))
               = fork_version_bytes (ca_genesis_fork_version args)
         | Panic m \<Rightarrow> False)
    | _ \<Rightarrow> False"
proof -
  from assms obtain v where v: "try_from_chain X (ca_chain args) = Ok v"
    by (auto simp: relay_main_def genesis_fork_version_def res_simps split: res.splits)
  from assms v obtain ks where ks: "(enabled_builders X args :: (_, StartUpErrors) res) = Ok ks" "ks \<noteq> []"
    by (auto simp: relay_main_def genesis_fork_version_def Let_def split: res.splits if_splits)
  from assms v ks obtain fds where fds: "fork_data_or_default X get_fork_data v (cli_fork_data args) = Ok fds"
    by (auto simp: relay_main_def genesis_fork_version_def Let_def split: res.splits)
  with assms v ks obtain w where w: "setup_storage fuel stream ks fds recorder = Some (Ok w)"
    and st: "st_world st = w" "st_fork_data st = fds" "sg_fork_data (st_signer st) = fds"
    by (auto simp: relay_main_def genesis_fork_version_def Let_def BlsSigner_new_def
        split: res.splits option.splits)
  from w have "reachable X fds (st_slots_per_epoch st) ks w"
    by (auto simp: setup_storage_def Let_def split: option.splits intro: reachable.start)
  then show ?thesis
    using v ks fds st
    by (auto simp: enabled_builders_def fork_data_or_default_def setup_fork_data_version
        split: res.splits)
qed

end
