(* ===== verification/Bid_Race.thy ===== *)
theory Bid_Race
  imports Auction
begin

text \<open>
  Bids that are handled at the same time. The server runs every request as a task of its own on a
  multi-threaded runtime, and the handler of a bid takes a lock of the storage for each access and not
  for the whole of its work; this theory runs any number of handlers step by step. The checks are one
  step: they read the best bid once, and everything else they read no handler of a bid writes.
\<close>

section \<open>Jobs\<close>

text \<open>How far the handler of a bid is.\<close>

datatype job =
    Arrived BidSubmission
  | Checked BidSubmission Validator
  | Stored BidSubmission Validator
  | Won BidSubmission
  | Refused BidSubmission

fun job_bid :: "job \<Rightarrow> BidSubmission" where
  "job_bid (Arrived b) = b"
| "job_bid (Checked b d) = b"
| "job_bid (Stored b d) = b"
| "job_bid (Won b) = b"
| "job_bid (Refused b) = b"

fun passed :: "job \<Rightarrow> bool" where
  "passed (Arrived b) = False"
| "passed (Refused b) = False"
| "passed _ = True"

text \<open>The next step of a handler.\<close>

fun run_job :: "externs \<Rightarrow> 's Storage \<Rightarrow> job \<Rightarrow> 's world \<Rightarrow> 's world \<times> job" where
  "run_job X S (Arrived b) w =
     (case post_bids_checks X S (w_store w) b of
        Ok duty \<Rightarrow> (w, Checked b duty) | _ \<Rightarrow> (w, Refused b))"
| "run_job X S (Checked b duty) w =
     (set_best_bid S (bt_slot (bid_trace b)) b w, Stored b duty)"
| "run_job X S (Stored b duty) w =
     (set_blinded_block_response S (duty_pubkey duty) (to_blinded_block_response b) w, Won b)"
| "run_job X S (Won b) w = (w, Won b)"
| "run_job X S (Refused b) w = (w, Refused b)"

type_synonym 's race = "'s world \<times> job list"

inductive race_step :: "externs \<Rightarrow> 's Storage \<Rightarrow> 's race \<Rightarrow> 's race \<Rightarrow> bool"
  for X :: externs and S :: "'s Storage" where
  job: "i < length jobs \<Longrightarrow> run_job X S (jobs ! i) w = (w', j) \<Longrightarrow>
     race_step X S (w, jobs) (w', jobs[i := j])"

inductive_cases race_stepE: "race_step X S (w, jobs) st"

text \<open>A schedule: which handler makes the next step.\<close>

definition run_at :: "externs \<Rightarrow> 's Storage \<Rightarrow> nat \<Rightarrow> 's race \<Rightarrow> 's race" where
  "run_at X S i st =
     (let (w, jobs) = st; (w', j) = run_job X S (jobs ! i) w in (w', jobs[i := j]))"

definition run_schedule :: "externs \<Rightarrow> 's Storage \<Rightarrow> nat list \<Rightarrow> 's race \<Rightarrow> 's race" where
  "run_schedule X S is st = fold (run_at X S) is st"

lemma run_schedule_simps [simp]:
  "run_schedule X S [] st = st"
  "run_schedule X S (i # is) st = run_schedule X S is (run_at X S i st)"
  by (simp_all add: run_schedule_def)

lemma run_at_step: "i < length jobs \<Longrightarrow> race_step X S (w, jobs) (run_at X S i (w, jobs))"
  by (cases "run_job X S (jobs ! i) w") (auto simp: run_at_def intro: race_step.job)

lemma run_at_length [simp]: "length (snd (run_at X S i st)) = length (snd st)"
  by (simp add: run_at_def case_prod_beta Let_def)

lemma run_schedule_steps:
  assumes "\<And>i. i \<in> set is \<Longrightarrow> i < length (snd st)"
  shows "(race_step X S)\<^sup>*\<^sup>* st (run_schedule X S is st)"
  using assms
proof (induction "is" arbitrary: st)
  case (Cons i "is")
  have "race_step X S st (run_at X S i st)"
    using run_at_step [of i "snd st" X S "fst st"] Cons.prems by simp
  moreover have "(race_step X S)\<^sup>*\<^sup>* (run_at X S i st) (run_schedule X S is (run_at X S i st))"
    by (rule Cons.IH) (use Cons.prems in simp)
  ultimately show ?case by (simp add: converse_rtranclp_into_rtranclp)
qed simp

text \<open>Every turn of a handler brings it closer to its reply.\<close>

fun rank :: "job \<Rightarrow> nat" where
  "rank (Arrived b) = 3"
| "rank (Checked b d) = 2"
| "rank (Stored b d) = 1"
| "rank _ = 0"

lemma run_job_rank: "rank (snd (run_job X S j w)) \<le> rank j - 1"
  by (cases j) (simp_all split: res.split)

lemma run_job_bid [simp]: "job_bid (snd (run_job X S j w)) = job_bid j"
  by (cases j) (simp_all split: res.split)

lemma run_schedule_rank:
  "i < length (snd st) \<Longrightarrow>
     rank (snd (run_schedule X S is st) ! i) \<le> rank (snd st ! i) - count_list is i"
proof (induction "is" arbitrary: st)
  case (Cons n "is")
  have "rank (snd (run_at X S n st) ! i) \<le> rank (snd st ! i) - (if n = i then 1 else 0)"
    using Cons.prems run_job_rank [of X S "snd st ! i" "fst st"]
    by (simp add: run_at_def case_prod_beta Let_def nth_list_update)
  with Cons.IH [of "run_at X S n st"] Cons.prems show ?case by (auto split: if_splits)
qed simp

lemma run_bids_update:
  assumes "i < length jobs" and "job_bid j = job_bid (jobs ! i)"
  shows "map job_bid (jobs[i := j]) = map job_bid jobs"
  using assms by (metis list_update_id map_update)

lemma run_at_bids [simp]: "map job_bid (snd (run_at X S i st)) = map job_bid (snd st)"
  using run_bids_update [of i "snd st"]
  by (cases "i < length (snd st)")
    (simp_all add: run_at_def case_prod_beta Let_def list_update_beyond not_less)

lemma run_schedule_bids: "map job_bid (snd (run_schedule X S is st)) = map job_bid (snd st)"
  by (induction "is" arbitrary: st) simp_all

lemma rank_0: "rank j = 0 \<longleftrightarrow> j = Won (job_bid j) \<or> j = Refused (job_bid j)"
  by (cases j) simp_all

section \<open>What holds under any interleaving\<close>

text \<open>
  Relative to the storage \<open>\<sigma>0\<close> when the handlers started: a bid that passed its checks is admissible
  there and higher than the best bid there was, and so is a best bid that was stored since.
\<close>

definition race_inv :: "externs \<Rightarrow> StorageSpec \<Rightarrow> StorageSpec \<Rightarrow> job list \<Rightarrow> bool" where
  "race_inv X \<sigma>0 \<sigma> jobs \<longleftrightarrow>
     same_static \<sigma> \<sigma>0 \<and>
     (\<forall>j\<in>set jobs. passed j \<longrightarrow> admissible X \<sigma>0 (job_bid j) \<and> outbids \<sigma>0 (job_bid j)) \<and>
     (\<forall>k. ss_best_bid \<sigma> k = ss_best_bid \<sigma>0 k \<or>
        (\<exists>c\<in>job_bid ` set jobs. ss_best_bid \<sigma> k = Some c \<and> bid_key c = k \<and>
           admissible X \<sigma>0 c \<and> outbids \<sigma>0 c))"

lemma outbids_trans:
  assumes "race_inv X \<sigma>0 \<sigma> jobs" and "outbids \<sigma> b"
  shows "outbids \<sigma>0 b"
proof (cases "ss_best_bid \<sigma> (bid_key b) = ss_best_bid \<sigma>0 (bid_key b)")
  case False
  with assms(1) obtain c where "ss_best_bid \<sigma> (bid_key b) = Some c" "bid_key c = bid_key b"
    "outbids \<sigma>0 c"
    unfolding race_inv_def by blast
  with assms(2) show ?thesis by (auto simp: outbids_def split: option.splits)
qed (use assms(2) in \<open>simp add: outbids_def\<close>)

lemma race_inv_check:
  assumes inv: "race_inv X \<sigma>0 \<sigma> jobs" and i: "i < length jobs" and j: "job_bid j = job_bid (jobs ! i)"
    and ok: "passed j \<Longrightarrow> admissible X \<sigma>0 (job_bid j) \<and> outbids \<sigma>0 (job_bid j)"
  shows "race_inv X \<sigma>0 \<sigma> (jobs[i := j])"
proof -
  have "job_bid ` set (jobs[i := j]) = job_bid ` set jobs"
    using run_bids_update [OF i j] by (metis list.set_map)
  moreover have "\<forall>j'\<in>set (jobs[i := j]). passed j' \<longrightarrow>
      admissible X \<sigma>0 (job_bid j') \<and> outbids \<sigma>0 (job_bid j')"
    using inv ok set_update_subset_insert [of jobs i j] unfolding race_inv_def by blast
  ultimately show ?thesis using inv unfolding race_inv_def by simp
qed

lemma race_inv_store:
  assumes inv: "race_inv X \<sigma>0 \<sigma> jobs" and b: "b \<in> job_bid ` set jobs"
    and ok: "admissible X \<sigma>0 b \<and> outbids \<sigma>0 b"
    and best: "ss_best_bid \<sigma>' = (ss_best_bid \<sigma>)(bid_key b \<mapsto> b)" and static: "same_static \<sigma>' \<sigma>"
  shows "race_inv X \<sigma>0 \<sigma>' jobs"
proof -
  have "same_static \<sigma>' \<sigma>0" using inv static by (simp add: race_inv_def same_static_def)
  then show ?thesis using inv b ok by (auto simp: race_inv_def best)
qed

lemma race_inv_best_cong:
  assumes "race_inv X \<sigma>0 \<sigma> jobs" and "ss_best_bid \<sigma>' = ss_best_bid \<sigma>" and "same_static \<sigma>' \<sigma>"
  shows "race_inv X \<sigma>0 \<sigma>' jobs"
  using assms by (simp add: race_inv_def same_static_def)

context storage_contract
begin

lemma set_best_bid_best:
  "ss_best_bid (alpha (w_store (set_best_bid S (bt_slot (bid_trace b)) b w)))
     = (ss_best_bid (alpha (w_store w)))(bid_key b \<mapsto> b)"
  by (simp add: setters_store bid_key_def)

lemma setters_static:
  "same_static (alpha (w_store (set_best_bid S n b w))) (alpha (w_store w))"
  "same_static (alpha (w_store (set_blinded_block_response S k r w))) (alpha (w_store w))"
  by (simp_all add: same_static_def setters_store)

lemma race_inv_run_job:
  assumes inv: "race_inv X \<sigma>0 (alpha (w_store w)) jobs" and i: "i < length jobs"
    and run: "run_job X S (jobs ! i) w = (w', j)"
  shows "race_inv X \<sigma>0 (alpha (w_store w')) (jobs[i := j])"
proof (cases "jobs ! i")
  case (Arrived b)
  have jb: "job_bid j = b" using run_job_bid [of X S "jobs ! i" w] run Arrived by simp
  have w: "w' = w" using run Arrived by (simp split: res.splits)
  have "admissible X \<sigma>0 b \<and> outbids \<sigma>0 b" if "passed j"
  proof -
    from that run Arrived obtain d where "post_bids_checks X S (w_store w) b = Ok d"
      by (auto split: res.splits)
    then have "outbids (alpha (w_store w)) b" "admissible X (alpha (w_store w)) b"
      by (simp_all add: post_bids_checks_Ok admissible_def)
    with inv show ?thesis
      using outbids_trans [OF inv] same_static_admissible by (auto simp: race_inv_def)
  qed
  with inv i jb Arrived show ?thesis unfolding w by (intro race_inv_check) simp_all
next
  case (Checked b d)
  with run have j: "j = Stored b d" and w': "w' = set_best_bid S (bt_slot (bid_trace b)) b w" by auto
  have b: "Checked b d \<in> set jobs" using i Checked by (metis nth_mem)
  then have ok: "admissible X \<sigma>0 b \<and> outbids \<sigma>0 b" using inv by (auto simp: race_inv_def)
  have "race_inv X \<sigma>0 (alpha (w_store w')) jobs"
    unfolding w' using b by (intro race_inv_store [OF inv _ ok] set_best_bid_best setters_static) force
  then show ?thesis using i Checked ok unfolding j by (intro race_inv_check) simp_all
next
  case (Stored b d)
  with run have j: "j = Won b" and w': "w' = set_blinded_block_response S (duty_pubkey d)
      (to_blinded_block_response b) w" by auto
  have b: "Stored b d \<in> set jobs" using i Stored by (metis nth_mem)
  then have ok: "admissible X \<sigma>0 b \<and> outbids \<sigma>0 b" using inv by (auto simp: race_inv_def)
  have "race_inv X \<sigma>0 (alpha (w_store w')) jobs"
    unfolding w' by (rule race_inv_best_cong [OF inv _ setters_static(2)]) (simp add: setters_store)
  then show ?thesis using i Stored ok unfolding j by (intro race_inv_check) simp_all
next
  case (Won b)
  with run have "w' = w" "jobs[i := j] = jobs" by (metis list_update_id run_job.simps(4) prod.inject)+
  with inv show ?thesis by simp
next
  case (Refused b)
  with run have "w' = w" "jobs[i := j] = jobs" by (metis list_update_id run_job.simps(5) prod.inject)+
  with inv show ?thesis by simp
qed

lemma race_inv_steps:
  assumes "(race_step X S)\<^sup>*\<^sup>* (w, jobs) (w', jobs')" and "race_inv X \<sigma>0 (alpha (w_store w)) jobs"
  shows "race_inv X \<sigma>0 (alpha (w_store w')) jobs'"
  using assms(1)
proof (induction rule: rtranclp_induct2)
  case (step w1 jobs1 w2 jobs2)
  then show ?case by (auto elim!: race_stepE intro: race_inv_run_job)
qed (rule assms(2))

text \<open>Two acceptable bids one after the other: the higher one is the best bid.\<close>

lemma serial_best:
  assumes "admissible X (alpha (w_store w)) b1" and "admissible X (alpha (w_store w)) b2"
    and "outbids (alpha (w_store w)) b1" and "bid_key b1 = bid_key b2" and "bid_value b2 < bid_value b1"
  shows "ss_best_bid (alpha (w_store (post_all X S [b1, b2] w))) (bid_key b1) = Some b1 \<and>
    ss_best_bid (alpha (w_store (post_all X S [b2, b1] w))) (bid_key b1) = Some b1"
proof -
  let ?c = "candidates X (alpha (w_store w)) (bid_key b1)"
  have split: "?c [x, y] = ?c [] @ [x, y]" if "{x, y} = {b1, b2}" for x y
    using that assms by (auto simp: candidates_def doubleton_eq_iff split: option.split)
  have two: "first_max bid_value (xs @ [x, y]) = first_max bid_value ((xs @ [x]) @ [y])" for xs x y
    by simp
  have "first_max bid_value (?c []) = ss_best_bid (alpha (w_store w)) (bid_key b1)"
    by (rule candidates_Nil)
  with assms(3,5) show ?thesis
    unfolding post_all_best
    by (simp add: split insert_commute two first_max_snoc del: append_assoc)
      (auto simp: outbids_def split: option.splits)
qed

lemma race_steps_bids:
  assumes "(race_step X S)\<^sup>*\<^sup>* (w, jobs) (w', jobs')"
  shows "map job_bid jobs' = map job_bid jobs"
  using assms
proof (induction rule: rtranclp_induct2)
  case (step w1 jobs1 w2 jobs2)
  then obtain i j where i: "i < length jobs1" "run_job X S (jobs1 ! i) w1 = (w2, j)"
    "jobs2 = jobs1[i := j]"
    by (auto elim!: race_stepE)
  then have "job_bid j = job_bid (jobs1 ! i)" using run_job_bid [of X S "jobs1 ! i" w1] by simp
  with step.IH i show ?case by (simp add: run_bids_update)
qed simp

lemma race_inv_start: "race_inv X (alpha (w_store w)) (alpha (w_store w)) (map Arrived bs)"
  by (auto simp: race_inv_def)

text \<open>Without interleaving the three steps are the handler.\<close>

lemma run_job_handler:
  assumes "run_job X S (Arrived b) w = (w1, j1)" and "run_job X S j1 w1 = (w2, j2)"
    and "run_job X S j2 w2 = (w3, j3)"
  shows "w3 = fst (post_bids_handler X S b w) \<and>
    j3 = (if is_ok (snd (post_bids_handler X S b w)) then Won b else Refused b)"
proof (cases "post_bids_checks X S (w_store w) b")
  case (Ok duty)
  with assms show ?thesis
    by (auto simp: post_bids_handler_def post_bids_commit_def Let_def BidSubmission_new_eta
        to_blinded_block_response_def)
qed (use assms in \<open>auto simp: post_bids_handler_def post_bids_checks_no_Panic\<close>)

end

section \<open>Properties\<close>

text \<open>
  C19. Whatever the interleaving of any number of handlers, a best bid of a later state is the best bid
  the storage started with, or a submitted bid for the key that is admissible and higher than the one
  the storage started with; so the best bid never falls below where it was when the handlers began,
  and head slot, attributes, duties, registrations and whitelist are untouched.
\<close>

theorem race_safe:
  assumes "(race_step X in_memory_storage)\<^sup>*\<^sup>* (w, map Arrived bs) (w', jobs)"
  shows "same_static (abs_in_memory (w_store w')) (abs_in_memory (w_store w)) \<and>
    (read_best_bid in_memory_storage (w_store w') slot h v
       = read_best_bid in_memory_storage (w_store w) slot h v \<or>
     (\<exists>c\<in>set bs. read_best_bid in_memory_storage (w_store w') slot h v = Some c \<and>
        bid_key c = (slot, h, v) \<and> admissible X (abs_in_memory (w_store w)) c \<and>
        outbids (abs_in_memory (w_store w)) c))"
proof -
  have "race_inv X (abs_in_memory (w_store w)) (abs_in_memory (w_store w')) jobs"
    by (rule ims.race_inv_steps [OF assms ims.race_inv_start])
  moreover have "job_bid ` set jobs = set bs"
    using arg_cong [OF ims.race_steps_bids [OF assms], of set] by (simp add: image_image comp_def)
  ultimately show ?thesis
    unfolding race_inv_def by (auto simp: ims_reader_defs dest: spec [of _ "(slot, h, v)"])
qed

text \<open>
  Every submission is answered: after a schedule that gives a handler three turns or more, at any
  places among the turns of the others, the handler has accepted or rejected its bid; and three turns
  in a row are exactly the handler, with its effect and its verdict.
\<close>

theorem race_answers:
  assumes "i < length bs" and "3 \<le> count_list is i"
  shows "snd (run_schedule X in_memory_storage is (w, map Arrived bs)) ! i
      \<in> {Won (bs ! i), Refused (bs ! i)} \<and>
    run_schedule X in_memory_storage [0, 0, 0] (w, [Arrived b]) =
      (let (w', r) = post_bids_handler X in_memory_storage b w in
       (w', [if is_ok r then Won b else Refused b]))"
proof
  let ?j = "snd (run_schedule X in_memory_storage is (w, map Arrived bs)) ! i"
  have "rank ?j = 0"
    using run_schedule_rank [of i "(w, map Arrived bs)" X in_memory_storage "is"] assms by simp
  moreover have "job_bid ?j = bs ! i"
  proof -
    have "map job_bid (snd (run_schedule X in_memory_storage is (w, map Arrived bs))) = bs"
      by (simp add: run_schedule_bids comp_def)
    then show ?thesis using assms(1) by (metis length_map nth_map)
  qed
  ultimately show "?j \<in> {Won (bs ! i), Refused (bs ! i)}" by (auto simp: rank_0)
next
  let ?S = in_memory_storage
  obtain w1 j1 where 1: "run_job X ?S (Arrived b) w = (w1, j1)" by fastforce
  obtain w2 j2 where 2: "run_job X ?S j1 w1 = (w2, j2)" by fastforce
  obtain w3 j3 where 3: "run_job X ?S j2 w2 = (w3, j3)" by fastforce
  from 1 2 3 ims.run_job_handler [OF 1 2 3]
  show "run_schedule X ?S [0, 0, 0] (w, [Arrived b]) =
      (let (w', r) = post_bids_handler X ?S b w in (w', [if is_ok r then Won b else Refused b]))"
    by (simp add: run_at_def case_prod_beta Let_def del: run_job.simps)
qed

text \<open>
  C20. Reading the best bid and replacing it are two steps, and a race between them loses the better
  bid: when two bids for one key are each acceptable, the second one lower than the first, there is a
  schedule after which both are accepted and the best bid is the lower one, although each of the two
  serial orders ends with the higher one. In another schedule the best bid is the second one while the
  payload kept for the proposer is the first one's.
\<close>

theorem race_loses_better_bid:
  assumes "post_bids_checks X in_memory_storage (w_store w) b1 = Ok d"
    and "post_bids_checks X in_memory_storage (w_store w) b2 = Ok d"
    and "bid_key b1 = bid_key b2" and "bid_value b2 < bid_value b1"
  shows "let S = in_memory_storage;
      best = (\<lambda>w. read_best_bid S (w_store w) (bt_slot (bid_trace b1))
        (bt_parent_hash (bid_trace b1)) (bt_proposer_pubkey (bid_trace b1)));
      (w1, jobs1) = run_schedule X S [0, 1, 0, 0, 1, 1] (w, [Arrived b1, Arrived b2]);
      (w2, jobs2) = run_schedule X S [0, 1, 0, 1, 1, 0] (w, [Arrived b1, Arrived b2]) in
    jobs1 = [Won b1, Won b2] \<and> best w1 = Some b2 \<and>
    best (post_all X S [b1, b2] w) = Some b1 \<and> best (post_all X S [b2, b1] w) = Some b1 \<and>
    jobs2 = [Won b1, Won b2] \<and> best w2 = Some b2 \<and>
    read_blinded_block_response S (w_store w2) (duty_pubkey d) = Some (to_blinded_block_response b1)"
proof -
  let ?s = "abs_in_memory (w_store w)"
  from assms(1,2) have *: "outbids ?s b1" "admissible X ?s b1" "admissible X ?s b2"
    by (simp_all add: ims.post_bids_checks_Ok admissible_def)
  from ims.serial_best [OF *(2,3,1) assms(3,4)]
  have serial: "ims_read_best_bid (w_store (post_all X in_memory_storage [b1, b2] w))
      (bt_slot (bid_trace b1)) (bt_parent_hash (bid_trace b1)) (bt_proposer_pubkey (bid_trace b1)) = Some b1"
    "ims_read_best_bid (w_store (post_all X in_memory_storage [b2, b1] w))
      (bt_slot (bid_trace b1)) (bt_parent_hash (bid_trace b1)) (bt_proposer_pubkey (bid_trace b1)) = Some b1"
    by (simp_all add: bid_key_def ims_reader_defs)
  from assms(3) have key: "bt_slot (bid_trace b2) = bt_slot (bid_trace b1)"
    "bt_parent_hash (bid_trace b2) = bt_parent_hash (bid_trace b1)"
    "bt_proposer_pubkey (bid_trace b2) = bt_proposer_pubkey (bid_trace b1)"
    by (simp_all add: bid_key_def)
  show ?thesis
    using assms(1,2) serial
    by (simp add: run_at_def ims_setter_defs ims_reader_defs key Let_def)
qed

end
