(* ===== verification/Bid_Routes.thy ===== *)
theory Bid_Routes
  imports Auction Grpc_Service
begin

text \<open>
  The two ways in which a bid reaches the relay, HTTP and gRPC, as instances of one interface, and the
  auction over any mixture of both.
\<close>

section \<open>The interface\<close>

text \<open>
  A route decodes a request to a submission, or not; a decoded one is handled as \<open>post_bids\<close> handles
  it, another one changes nothing.
\<close>

locale bid_route =
  fixes X :: externs and fds :: ForkDatas
    and decode :: "'r \<Rightarrow> BidSubmission option"
    and submit :: "'r \<Rightarrow> relay_world \<Rightarrow> relay_world"
  assumes decoded: "decode r = Some b \<Longrightarrow> im_fork_data (w_store w) = fds \<Longrightarrow>
      submit r w = fst (post_bids_handler X in_memory_storage b w)"
    and undecoded: "decode r = None \<Longrightarrow> submit r w = w"
begin

lemma submit_eq:
  assumes "im_fork_data (w_store w) = fds"
  shows "submit r w = post_all X in_memory_storage (case decode r of None \<Rightarrow> [] | Some b \<Rightarrow> [b]) w"
  using assms decoded undecoded by (cases "decode r") (simp_all add: post_all_def)

lemma post_all_fork:
  "im_fork_data (w_store (post_all X in_memory_storage bs w)) = im_fork_data (w_store w)"
  using ims.post_all_static [of X bs w] by (simp add: same_static_def)

lemma submits_eq:
  assumes "im_fork_data (w_store w) = fds"
  shows "fold submit rs w = post_all X in_memory_storage (List.map_filter decode rs) w"
  using assms
proof (induction rs arbitrary: w)
  case (Cons r rs)
  have "im_fork_data (w_store (submit r w)) = fds"
    using Cons.prems by (simp add: submit_eq post_all_fork)
  then have "fold submit rs (submit r w)
      = post_all X in_memory_storage (List.map_filter decode rs) (submit r w)"
    by (rule Cons.IH)
  then show ?case
    using Cons.prems by (simp add: submit_eq map_filter_simps post_all_def split: option.split)
qed (simp add: post_all_def map_filter_simps)

end

text \<open>Two routes side by side are a route.\<close>

locale two_routes = one: bid_route X fds d1 s1 + two: bid_route X fds d2 s2
  for X :: externs and fds :: ForkDatas
    and d1 :: "'r1 \<Rightarrow> BidSubmission option" and s1 :: "'r1 \<Rightarrow> relay_world \<Rightarrow> relay_world"
    and d2 :: "'r2 \<Rightarrow> BidSubmission option" and s2 :: "'r2 \<Rightarrow> relay_world \<Rightarrow> relay_world"

sublocale two_routes \<subseteq> both: bid_route X fds "case_sum d1 d2" "case_sum s1 s2"
  by unfold_locales
    (auto simp: one.decoded one.undecoded two.decoded two.undecoded split: sum.splits)

section \<open>The routes of the relay\<close>

definition submit_http :: "externs \<Rightarrow> BidSubmission \<Rightarrow> relay_world \<Rightarrow> relay_world" where
  "submit_http X b w = fst (post_bids_handler X in_memory_storage b w)"

definition submit_grpc ::
    "externs \<Rightarrow> ForkDatas \<Rightarrow> SubmitBlockRequest \<Rightarrow> relay_world \<Rightarrow> relay_world" where
  "submit_grpc X fds req w = fst (submit_block X (RelayGrpcService_new in_memory_storage fds) req w)"

lemma submit_grpc_decoded:
  assumes "decode_request X req = Some b" and "im_fork_data (w_store w) = fds"
  shows "submit_grpc X fds req w = submit_http X b w"
proof -
  have "gs_fork_data (RelayGrpcService_new in_memory_storage fds)
      = fork_data (gs_storage (RelayGrpcService_new in_memory_storage fds)) (w_store w)"
    using assms(2) by (simp add: RelayGrpcService_new_def ims_reader_defs)
  from submit_block_decoded [OF assms(1) this] show ?thesis
    by (auto simp: submit_grpc_def submit_http_def post_bids_handler_def RelayGrpcService_new_def)
qed

lemma submit_grpc_undecoded:
  assumes "decode_request X req = None"
  shows "submit_grpc X fds req w = w"
  unfolding submit_grpc_def
  by (rule submit_block_cases [where X = X and w = w and req = req
        and self = "RelayGrpcService_new in_memory_storage fds"])
    (use assms submit_block_checks_Accepted in fastforce)+

interpretation relay_routes: two_routes X fds Some "submit_http X" "decode_request X" "submit_grpc X fds"
  for X fds
  by unfold_locales
    (simp_all add: submit_http_def submit_grpc_decoded submit_grpc_undecoded)

section \<open>Properties\<close>

text \<open>
  C3. The auction over both interfaces: whatever bids are submitted over HTTP and gRPC, in any order,
  the best bid of a key is the first one of maximal value among the best bid there was and the
  admissible submissions for the key; a gRPC request that does not convert has no effect.
\<close>

theorem auction_over_both_routes:
  assumes "im_fork_data (w_store w) = fds"
  shows "read_best_bid in_memory_storage
      (w_store (fold (case_sum (submit_http X) (submit_grpc X fds)) requests w)) slot h v =
    first_max bid_value (candidates X (abs_in_memory (w_store w)) (slot, h, v)
      (List.map_filter (case_sum Some (decode_request X)) requests))"
  unfolding relay_routes.both.submits_eq [OF assms]
  using ims.post_all_best [of X "List.map_filter (case_sum Some (decode_request X)) requests" w "(slot, h, v)"]
  by (simp add: ims_reader_defs)

end
