(* ===== verification/Run_Witnesses.thy ===== *)
theory Run_Witnesses
  imports Witnesses Startup Bid_Race Bid_Routes
begin

text \<open>
  The properties of the services, of the races and of the whole relay, applied to concrete inputs: a
  run of the relay from its start, in which a validator registers, its duty is fetched, the head moves
  on, a builder bids and the proposer hands in the block.
\<close>

section \<open>The beacon service and the event stream\<close>

theorem service_answers_witness:
  "oneshot_recv 1 (BeaconService_poll (snd (handle_get_known_validator demo_proposer
       (snd (handle_sync_status BeaconService_new))))) = Some (KnownValidatorFuture demo_proposer) \<and>
   oneshot_recv 0 (BeaconService_poll (snd (handle_get_known_validator demo_proposer
       (snd (handle_sync_status BeaconService_new))))) = Some SyncStatusFuture"
proof -
  let ?s = "snd (handle_sync_status BeaconService_new)"
  have s: "service_inv ?s" "bs_command_rx ?s = [SyncStatus 0]" "bs_channels ?s 0 = Empty" "bs_next ?s = 1"
    by (simp_all add: service_inv_def handle_sync_status_def handle_send_def BeaconService_new_def Let_def)
  have "handle_get_known_validator demo_proposer ?s
      = (1, snd (handle_get_known_validator demo_proposer ?s))"
    using s(4) by (simp add: handle_get_known_validator_def handle_send_def Let_def)
  from service_answers_each_caller [OF s(1) this] s(2,3) show ?thesis by simp
qed

theorem subscribe_witness:
  "subscribe_with_retry 4 (\<lambda>k. if k < 3 then Err ''refused'' else Ok ()) 0 = Some ((), 3)"
  using subscribe_with_retry_returns [of 3 "\<lambda>k. if k < 3 then Err ''refused'' else Ok ()" "()"]
  by simp

definition demo_stream :: BeaconEventsStream where
  "demo_stream = \<lparr>es_payload_attributes = [NotReady, Item demo_attrs, End],
     es_new_head = [NotReady, Item 10, Item 11]\<rparr>"

definition demo_connect :: connections where
  "demo_connect k = (2, demo_stream)"

definition demo_service :: RelayService where
  "demo_service = \<lparr>rs_inner = BeaconEvents \<lparr>es_payload_attributes = [Error], es_new_head = []\<rparr>,
     rs_connections = 1, rs_slots_per_epoch = 32\<rparr>"

theorem service_reconnects_witness:
  "rs_inner (fst (RelayService_run in_memory_storage demo_connect 4 (demo_service, demo_world)))
     = BeaconEvents demo_stream"
proof -
  have "fst (poll_next \<lparr>es_payload_attributes = [Error], es_new_head = []\<rparr>) = Ready None"
    by (simp add: poll_next.simps)
  from service_reconnects [where rs = demo_service and n = 2 and connect = demo_connect
      and S = in_memory_storage and w = demo_world, OF _ this]
  show ?thesis by (simp add: demo_service_def demo_connect_def)
qed

section \<open>Duties\<close>

definition demo_duties :: "ProposerDutiesData list" where
  "demo_duties = [\<lparr>pdd_slot = 9, pdd_pubkey = replicate 48 3, pdd_validator_index = 5\<rparr>,
     \<lparr>pdd_slot = 11, pdd_pubkey = replicate 48 2, pdd_validator_index = 7\<rparr>]"

definition demo_api :: BeaconApi where
  "demo_api = \<lparr>api_sync_status = Err ''down'',
     api_proposer_duties = (\<lambda>epoch. Ok \<lparr>pdr_data = if epoch = 0 then demo_duties else []\<rparr>),
     api_publish_block = (\<lambda>block ty. Ok ()), api_get_fork_data = Err ''no debug namespace'',
     api_get_known_validator = (\<lambda>k. Err ''not found'')\<rparr>"

lemma demo_duties_decode:
  "d \<in> set demo_duties \<Longrightarrow> blst_pk_from_bytes toy_externs (pdd_pubkey d) = Ok (pdd_pubkey d)"
  by (auto simp: demo_duties_def)

lemma demo_keys_differ [simp]: "BlsPublicKey (replicate 48 3) \<noteq> demo_proposer"
  "demo_proposer \<noteq> BlsPublicKey (replicate 48 3)"
  by (simp_all add: demo_proposer_def numeral_eq_Suc)

lemma demo_duties_found:
  assumes "regs demo_proposer = Some demo_registration"
    and "regs (BlsPublicKey (replicate 48 3)) = None"
  shows "List.map_filter (duty_entry regs) demo_duties = [demo_duty]"
  using assms
  by (simp add: map_filter_simps demo_duties_def duty_entry_def demo_duty_def flip: demo_proposer_def)

theorem into_duties_witness:
  "into_duties toy_externs in_memory_storage (w_store demo_world) demo_duties = Ok [demo_duty]"
  using into_duties_spec [where s = "w_store demo_world", OF demo_duties_decode]
  by (simp add: demo_duties_found)

theorem refresh_duties_witness:
  "refresh_duties toy_externs in_memory_storage demo_api 32 (HeadSlot 0) demo_world
     = (on_store (\<lambda>s. s\<lparr>im_proposer_duties := [demo_duty]\<rparr>) demo_world, Ok ()) \<and>
   fst (refresh_duties toy_externs in_memory_storage demo_api 0 (HeadSlot 0) demo_world) = demo_world"
proof -
  have api: "api_proposer_duties demo_api (head_slot (HeadSlot 0) div 32) = Ok \<lparr>pdr_data = demo_duties\<rparr>"
    "api_proposer_duties demo_api (head_slot (HeadSlot 0) div 32 + 1) = Ok \<lparr>pdr_data = []\<rparr>"
    by (simp_all add: demo_api_def)
  have keys: "blst_pk_from_bytes toy_externs (pdd_pubkey d) = Ok (pdd_pubkey d)"
    if "d \<in> set (pdr_data \<lparr>pdr_data = demo_duties\<rparr>) \<union> set (pdr_data \<lparr>pdr_data = []\<rparr>)"
    for d :: ProposerDutiesData
    using that by (intro demo_duties_decode) simp
  have "snd (refresh_duties toy_externs in_memory_storage demo_api 0 (HeadSlot 0) demo_world) \<noteq> Ok ()"
    by (simp add: refresh_duties_def HeadSlot_epoch_def)
  with refresh_duties_spec [where slots_per_epoch = 32 and X = toy_externs and w = demo_world
      and api' = demo_api and n = 0 and head' = "HeadSlot 0" and w' = demo_world, OF _ api keys]
  show ?thesis by (simp add: demo_duties_found Let_def)
qed

section \<open>A run of the relay\<close>

definition demo_env :: Surroundings where
  "demo_env = \<lparr>su_auth = (\<lambda>k. if k = ''key'' then Ok \<lparr>mu_team_id = [], mu_id = []\<rparr> else Err InvalidSecret),
     su_known = demo_known, su_signer = demo_signer, su_elapsed = 3, su_debug = (\<lambda>e. ''error'')\<rparr>"

definition body :: "'a \<Rightarrow> 'a Body" where
  "body a = \<lparr>bd_content_length = Some 100, bd_json = Some a\<rparr>"

text \<open>The start, the registration, the head of an epoch, the refresh, the next head, the bid, the block.\<close>

definition run0 :: relay_world where
  "run0 = InMemoryStorage_new (HeadSlot 0) demo_attrs [demo_builder] demo_fork Mapping.empty []
     RelayMetrics_zero"
definition run1 :: relay_world where
  "run1 = fst (serve toy_externs in_memory_storage demo_env
     (PostValidators ''key'' (body [demo_registration])) run0)"
definition run2 :: relay_world where "run2 = on_event in_memory_storage (HeadEvent 0) run1"
definition run3 :: relay_world where
  "run3 = fst (refresh_duties toy_externs in_memory_storage demo_api 32 (HeadSlot 0)
     (run2\<lparr>w_tasks := remove1 (RefreshDutiesTask (HeadSlot 0)) (w_tasks run2)\<rparr>))"
definition run4 :: relay_world where "run4 = on_event in_memory_storage (HeadEvent 10) run3"
definition run5 :: relay_world where
  "run5 = fst (serve toy_externs in_memory_storage demo_env (PostBid (body (demo_bid 1 1000))) run4)"
definition run6 :: relay_world where
  "run6 = fst (serve toy_externs in_memory_storage demo_env
     (PostBlindedBlock (body (demo_block (header_from_payload toy_externs (demo_payload 1))))) run5)"

lemma run1_store:
  "im_validator_registrations (w_store run1) = registered_map toy_externs
     (compute_builder_domain toy_externs demo_fork) demo_known [demo_registration]"
  "w_store run1 = (w_store run0)\<lparr>im_validator_registrations := registered_map toy_externs
     (compute_builder_domain toy_externs demo_fork) demo_known [demo_registration]\<rparr>"
  "w_tasks run1 = []"
proof -
  have f: "im_fork_data (w_store run0) = demo_fork" "w_tasks run0 = []"
    by (simp_all add: run0_def InMemoryStorage_new_def Let_def)
  have run1: "run1 = fst (post_validators_handler toy_externs in_memory_storage demo_known [demo_registration] run0)"
    by (simp add: run1_def demo_env_def body_def validate_api_key_def filtered_def with_json_body_def
        validators_limit_def)
  show *: "w_store run1 = (w_store run0)\<lparr>im_validator_registrations := registered_map toy_externs
     (compute_builder_domain toy_externs demo_fork) demo_known [demo_registration]\<rparr>"
    unfolding run1 by (simp add: post_validators_store f)
  show "w_tasks run1 = []"
    unfolding run1 by (simp add: post_validators_handler_eq ims_set_validator_registrations_def Let_def f)
  from * show "im_validator_registrations (w_store run1) = registered_map toy_externs
     (compute_builder_domain toy_externs demo_fork) demo_known [demo_registration]" by simp
qed

text \<open>Only the proposer is registered.\<close>

lemma demo_registered:
  "Mapping.lookup (registered_map toy_externs (compute_builder_domain toy_externs demo_fork)
     demo_known [demo_registration]) = [demo_proposer \<mapsto> demo_registration]"
proof -
  have "accepts_registration toy_externs (compute_builder_domain toy_externs demo_fork)
      (demo_known 0 demo_proposer) demo_registration"
    by (simp add: accepts_registration_def demo_known_def is_active_def str_contains_def
        sublist_code demo_registration_def Let_def)
  moreover have "vrm_pubkey (vr_message demo_registration) = demo_proposer"
    by (simp add: demo_registration_def Let_def)
  ultimately show ?thesis
    by (auto simp: registered_map_lookup reg_key_def fun_eq_iff)
qed

lemma run2_eq:
  "w_store run2 = (w_store run1)\<lparr>im_slot := HeadSlot 0\<rparr>"
  "w_tasks run2 = [RefreshDutiesTask (HeadSlot 0)]"
  by (simp_all add: run2_def on_event_def Let_def ims_set_head_slot_def run1_store)

lemma run3_eq:
  "w_store run3 = (w_store run2)\<lparr>im_proposer_duties := [demo_duty]\<rparr>" "w_tasks run3 = []"
proof -
  let ?w = "run2\<lparr>w_tasks := []\<rparr>"
  have regs: "Mapping.lookup (im_validator_registrations (w_store run2)) = [demo_proposer \<mapsto> demo_registration]"
    by (simp add: run2_eq run1_store demo_registered)
  have ds: "List.map_filter (duty_entry [demo_proposer \<mapsto> demo_registration]) demo_duties = [demo_duty]"
    by (rule demo_duties_found) simp_all
  have keys: "blst_pk_from_bytes toy_externs (pdd_pubkey d) = Ok (pdd_pubkey d)"
    if "d \<in> set (pdr_data \<lparr>pdr_data = demo_duties\<rparr>) \<union> set (pdr_data \<lparr>pdr_data = []\<rparr>)"
    for d :: ProposerDutiesData
    using that by (intro demo_duties_decode) simp
  have "refresh_duties toy_externs in_memory_storage demo_api 32 (HeadSlot 0) ?w
      = (ims_set_proposer_duties [demo_duty] ?w, Ok ())"
    using refresh_duties_store [where slots_per_epoch = 32 and api = demo_api and head = "HeadSlot 0"
        and w = ?w, OF _ _ _ keys] regs ds
    by (simp add: demo_api_def Let_def)
  then have run3: "run3 = ims_set_proposer_duties [demo_duty] ?w"
    unfolding run3_def by (simp add: run2_eq)
  show "w_store run3 = (w_store run2)\<lparr>im_proposer_duties := [demo_duty]\<rparr>" "w_tasks run3 = []"
    unfolding run3 by (simp_all add: ims_set_proposer_duties_def)
qed

lemma run4_eq:
  "w_store run4 = (w_store run0)\<lparr>im_slot := HeadSlot 10, im_proposer_duties := [demo_duty],
     im_validator_registrations := registered_map toy_externs
       (compute_builder_domain toy_externs demo_fork) demo_known [demo_registration]\<rparr>"
  "w_tasks run4 = []"
  by (simp_all add: run4_def on_event_def Let_def ims_set_head_slot_def run3_eq run2_eq run1_store)

lemma run4_abs:
  "same_static (abs_in_memory (w_store run4)) (abs_in_memory (w_store demo_world))"
  "ss_best_bid (abs_in_memory (w_store run4)) k = None"
  by (auto simp: run4_eq same_static_def abs_in_memory_def demo_registered run0_def
      InMemoryStorage_new_def Let_def fun_eq_iff lookup_empty split: prod.split)

lemma run_reachable:
  "reachable toy_externs demo_fork 32 [demo_builder] run4"
  "reachable toy_externs demo_fork 32 [demo_builder] run5"
  "reachable toy_externs demo_fork 32 [demo_builder] run6"
proof -
  let ?R = "reachable toy_externs demo_fork 32 [demo_builder]"
  have http: "?R w \<Longrightarrow> ?R (fst (serve toy_externs in_memory_storage demo_env req w))" for req w
    using reachable.step [OF _ relay_step.http [OF prod.collapse [symmetric]]] by blast
  have "?R run0" unfolding run0_def by (rule reachable.start)
  then have "?R run1" unfolding run1_def by (rule http)
  then have "?R run2" unfolding run2_def by (rule reachable.step [OF _ relay_step.event])
  then have "?R run3"
    unfolding run3_def
    by (rule reachable.step [OF _ relay_step.refresh [where head = "HeadSlot 0" and api = demo_api]])
      (simp_all add: run2_eq prod_eq_iff)
  then show "?R run4" unfolding run4_def by (rule reachable.step [OF _ relay_step.event])
  then show "?R run5" unfolding run5_def by (rule http)
  then show "?R run6" unfolding run6_def by (rule http)
qed

section \<open>The whole relay\<close>

lemma run5_abs:
  "abs_in_memory (w_store run5) = record_bid (demo_bid 1 1000) demo_duty (abs_in_memory (w_store run4))"
  "w_tasks run5 = []"
proof -
  have ok: "is_ok (snd (post_bids_handler toy_externs in_memory_storage (demo_bid 1 1000) run4))"
    unfolding ims.post_bids_is_ok
    using demo_admissible(1) [OF run4_abs(1), of 1000 1] demo_admissible(2) [OF run4_abs(1), of 1000] run4_abs(2)
    by (simp add: outbids_def del: abs_in_memory_sel)
  have run5: "run5 = fst (post_bids_handler toy_externs in_memory_storage (demo_bid 1 1000) run4)"
    by (simp add: run5_def body_def filtered_def with_json_body_def bids_limit_def)
  from post_bids_accepted [OF ok] obtain duty where
    "duty_of (abs_in_memory (w_store run4)) 11 = Some duty"
    "abs_in_memory (w_store run5) = record_bid (demo_bid 1 1000) duty (abs_in_memory (w_store run4))"
    "w_tasks run5 = w_tasks run4"
    unfolding run5 by (metis demo_bid_sel(1,5))
  with demo_admissible(2) [OF run4_abs(1), of 1] show
    "abs_in_memory (w_store run5) = record_bid (demo_bid 1 1000) demo_duty (abs_in_memory (w_store run4))"
    "w_tasks run5 = []"
    by (simp_all add: run4_eq)
qed

lemma run5_best:
  "read_best_bid in_memory_storage (w_store run5) 11 (B256 (replicate 32 9)) demo_proposer
     = Some (demo_bid 1 1000)"
proof -
  have "ss_best_bid (abs_in_memory (w_store run5)) (bid_key (demo_bid 1 1000)) = Some (demo_bid 1 1000)"
    unfolding run5_abs by (simp del: demo_bid_sel)
  then show ?thesis by (simp add: ims_reader_defs)
qed

theorem reachable_best_bids_witness:
  "sound_bid toy_externs demo_fork {demo_builder} (demo_bid 1 1000)"
  using reachable_best_bids [OF run_reachable(2), where slot = 11 and h = "B256 (replicate 32 9)"
      and v = demo_proposer and b = "demo_bid 1 1000"] run5_best
  by simp

lemma run6_task:
  "w_tasks run6 = [PublishTask (signed_beacon_block
     (demo_block (header_from_payload toy_externs (demo_payload 1)))
     (to_blinded_block_response (demo_bid 1 1000))) Ssz]"
proof -
  let ?sb = "demo_block (header_from_payload toy_externs (demo_payload 1))"
  have static: "same_static (abs_in_memory (w_store run5)) (abs_in_memory (w_store demo_world))"
    using run4_abs(1) unfolding run5_abs by simp
  have resp: "ss_responses (abs_in_memory (w_store run5)) demo_proposer
      = Some (to_blinded_block_response (demo_bid 1 1000))"
    unfolding run5_abs by simp
  have ok: "is_ok (snd (blinded_blocks_handler toy_externs in_memory_storage ?sb 3 run5))"
    by (rule demo_block_ok [OF static]) (simp only: resp, simp)
  have "run6 = fst (blinded_blocks_handler toy_externs in_memory_storage ?sb 3 run5)"
    by (simp add: run6_def body_def demo_env_def filtered_def with_json_body_def blinded_blocks_limit_def)
  then show ?thesis
    using blinded_blocks_answer(2) [OF ok _ resp [folded demo_duty_pubkey]]
      demo_admissible(2) [OF static, of 1] by (simp add: run5_abs)
qed

theorem reachable_registrations_witness:
  "ValidatorRegistration_verify_signature toy_externs demo_registration (fds_builder demo_fork)"
proof -
  have "read_validator_registration in_memory_storage (w_store run4) demo_proposer = Some demo_registration"
    by (simp add: ims_reader_defs run4_eq demo_registered)
  with reachable_registrations [OF run_reachable(1)] show ?thesis by blast
qed


section \<open>Races\<close>

lemma demo_checks:
  "v \<noteq> 0 \<Longrightarrow> post_bids_checks toy_externs in_memory_storage (w_store demo_world) (demo_bid n v) = Ok demo_duty"
  using demo_admissible(1) [of "abs_in_memory (w_store demo_world)" v n]
    demo_admissible(2) [of "abs_in_memory (w_store demo_world)" v]
  by (simp add: ims.post_bids_checks_Ok outbids_def abs_in_memory_def)

theorem race_safe_witness:
  "same_static (abs_in_memory (w_store (fst (run_schedule toy_externs in_memory_storage [0, 1, 0, 1, 1, 0]
     (demo_world, [Arrived (demo_bid 1 1000), Arrived (demo_bid 2 500)])))))
     (abs_in_memory (w_store demo_world))"
proof -
  let ?st = "(demo_world, map Arrived [demo_bid 1 1000, demo_bid 2 500])"
  have "(race_step toy_externs in_memory_storage)\<^sup>*\<^sup>* ?st
      (run_schedule toy_externs in_memory_storage [0, 1, 0, 1, 1, 0] ?st)"
    by (rule run_schedule_steps) auto
  then have "(race_step toy_externs in_memory_storage)\<^sup>*\<^sup>* ?st
      (fst (run_schedule toy_externs in_memory_storage [0, 1, 0, 1, 1, 0] ?st),
       snd (run_schedule toy_externs in_memory_storage [0, 1, 0, 1, 1, 0] ?st))" by simp
  from race_safe [OF this] show ?thesis by simp
qed

theorem race_answers_witness:
  "snd (run_schedule toy_externs in_memory_storage [1, 0, 0, 1, 1, 0]
     (demo_world, [Arrived (demo_bid 1 1000), Arrived (demo_bid 2 500)])) ! 1
   \<in> {Won (demo_bid 2 500), Refused (demo_bid 2 500)}"
  using race_answers [of 1 "[demo_bid 1 1000, demo_bid 2 500]" "[1, 0, 0, 1, 1, 0]" toy_externs demo_world]
  by simp

theorem race_loses_better_bid_witness:
  "read_best_bid in_memory_storage (w_store (fst (run_schedule toy_externs in_memory_storage
       [0, 1, 0, 0, 1, 1] (demo_world, [Arrived (demo_bid 1 1000), Arrived (demo_bid 2 500)]))))
     11 (B256 (replicate 32 9)) demo_proposer = Some (demo_bid 2 500)"
proof -
  have lt: "bid_value (demo_bid 2 500) < bid_value (demo_bid 1 1000)"
    by (simp add: U256_less_iff)
  have key: "bid_key (demo_bid 1 1000) = bid_key (demo_bid 2 500)"
    "bt_parent_hash (demo_trace 1 1000) = B256 (replicate 32 9)"
    "bt_proposer_pubkey (demo_trace 1 1000) = demo_proposer"
    by simp_all (simp_all add: demo_trace_def)
  show ?thesis
    using race_loses_better_bid [OF demo_checks demo_checks key(1) lt] key
    by (simp add: Let_def case_prod_beta)
qed

section \<open>Both interfaces\<close>

theorem auction_over_both_routes_witness:
  "read_best_bid in_memory_storage (w_store (fold (case_sum (submit_http toy_externs)
       (submit_grpc toy_externs demo_fork)) [Inl (demo_bid 1 500), Inr \<lparr>req_bid_trace = None,
         req_execution_payload = None, req_signature = [], req_blobs_bundle = None\<rparr>,
         Inl (demo_bid 2 1000)] demo_world)) 11 (B256 (replicate 32 9)) demo_proposer
     = Some (demo_bid 2 1000)"
proof -
  let ?\<sigma> = "abs_in_memory (w_store demo_world)"
  have adm: "admissible toy_externs ?\<sigma> (demo_bid n v)" if "v \<noteq> 0" for n v
    using demo_admissible(1) [of ?\<sigma> v n] demo_admissible(2) [of ?\<sigma> v] that
    by (simp add: admissible_def)
  have c: "candidates toy_externs ?\<sigma> (11, B256 (replicate 32 9), demo_proposer)
      [demo_bid 1 500, demo_bid 2 1000] = [demo_bid 1 500, demo_bid 2 1000]"
    using adm by (simp add: candidates_def)
  show ?thesis
    using auction_over_both_routes [where w = demo_world and fds = demo_fork and X = toy_externs
        and requests = "[Inl (demo_bid 1 500), Inr \<lparr>req_bid_trace = None,
         req_execution_payload = None, req_signature = [], req_blobs_bundle = None\<rparr>,
         Inl (demo_bid 2 1000)]" and slot = 11 and h = "B256 (replicate 32 9)" and v = demo_proposer] c
    by (simp add: map_filter_simps decode_request_def first_max_def U256_less_iff not_le flip: not_less)
qed

section \<open>Start-up\<close>

theorem setup_storage_witness:
  "setup_storage 6 demo_stream [demo_builder] demo_fork RelayMetrics_zero =
     Some (Ok (InMemoryStorage_new (HeadSlot 10) demo_attrs [demo_builder] demo_fork Mapping.empty []
       RelayMetrics_zero)) \<and>
   setup_storage 1000 \<lparr>es_payload_attributes = [End], es_new_head = [Item 10]\<rparr> [demo_builder] demo_fork
     RelayMetrics_zero = None"
  using setup_storage_spec [of demo_stream 6 "[demo_builder]" demo_fork RelayMetrics_zero]
    setup_storage_spec [of "\<lparr>es_payload_attributes = [End], es_new_head = [Item 10]\<rparr>" 2
      "[demo_builder]" demo_fork RelayMetrics_zero 1000]
  by (simp add: demo_stream_def)

definition demo_args :: CliArgs where
  "demo_args = \<lparr>ca_mbs_auth_url = ''https://auth.example.com/'', ca_beacon_url = ''http://127.0.0.1:3500/'',
     ca_grpc_port = 50051, ca_http_port = 9063, ca_metrics_port = 9090, ca_slots_per_epoch = 32,
     ca_white_listed_builders = [replicate 48 1], ca_genesis_fork_version = ForkVersion [0, 0, 0, 0],
     ca_current_fork_version = ForkVersion [4, 0, 0, 0], ca_genesis_validators_root = replicate 32 7,
     ca_chain = Holesky, ca_bls_secret_key = BlsSecretKey (replicate 32 5)\<rparr>"

lemma demo_chain: "try_from_chain toy_externs Holesky = Ok (ForkVersion [1, 1, 0x70, 0])"
proof -
  have "''01017000'' = concat (map hex_byte [1, 1, 0x70, 0])"
    by (simp add: hex_byte_def hex_digit_def)
  then have "toy_hex_decode ''01017000'' = Ok [1, 1, 0x70, 0]"
    by (simp only: toy_hex_decode_encode)
  then show ?thesis by (simp add: try_from_chain_def ForkVersion_of_str_def del: toy_hex_decode.simps)
qed

lemma demo_main:
  "\<exists>spawned st. relay_main toy_externs 6 demo_args (Err ''no debug namespace'') demo_stream (Ok ())
     RelayMetrics_zero = (spawned, Some (Ok st))"
proof -
  have "try_from_chain toy_externs Holesky = Ok (ForkVersion [1, 1, 0x70, 0])"
    by (rule demo_chain)
  moreover have "setup_storage 6 demo_stream ks fds r = Some (Ok (InMemoryStorage_new (HeadSlot 10)
      demo_attrs ks fds Mapping.empty [] r))" for ks fds r
    by (simp add: setup_storage_def first_events_complete demo_stream_def both_def Let_def)
  ultimately show ?thesis
    by (simp add: relay_main_def genesis_fork_version_def demo_args_def enabled_builders_def
        BlsPublicKey_from_fixed_def fork_data_or_default_def setup_fork_data_def Let_def)
qed

theorem started_witness:
  "\<exists>spawned st. relay_main toy_externs 6 demo_args (Err ''no debug namespace'') demo_stream (Ok ())
     RelayMetrics_zero = (spawned, Some (Ok st)) \<and>
   fd_current_version (fds_builder (st_fork_data st)) = [0, 0, 0, 0] \<and>
   try_from_chain toy_externs Holesky = Ok (ForkVersion [1, 1, 0x70, 0])"
proof -
  from demo_main obtain spawned st where st: "relay_main toy_externs 6 demo_args
      (Err ''no debug namespace'') demo_stream (Ok ()) RelayMetrics_zero = (spawned, Some (Ok st))" by blast
  have "try_from_chain toy_externs Holesky = Ok (ForkVersion [1, 1, 0x70, 0])"
    by (rule demo_chain)
  with started_consistent [OF st] st show ?thesis
    by (simp add: setup_fork_data_def demo_args_def)
qed

end
