(* ===== verification/Programs.thy ===== *)
theory Programs
  imports World
begin

text \<open>
  Handlers that run at the same time. The server runs every request as a task of its own on a
  multi-threaded runtime, and a handler takes a lock of the storage for each access and not for the
  whole of its work. A handler is therefore also given as a program: a tree of single accesses, each of
  which reads the storage or changes the world, between which the accesses of other tasks may come.
  This theory has the programs, their run without interference, and the rule by which an invariant is
  proved for all interleavings at once.
\<close>

section \<open>Programs\<close>

datatype ('s, 'a) prog =
    Return 'a
  | Read "'s \<Rightarrow> ('s, 'a) prog"
  | Write "'s world \<Rightarrow> 's world" "('s, 'a) prog"

primrec pbind :: "('s, 'a) prog \<Rightarrow> ('a \<Rightarrow> ('s, 'b) prog) \<Rightarrow> ('s, 'b) prog" where
  "pbind (Return a) f = f a"
| "pbind (Read k) f = Read (\<lambda>s. pbind (k s) f)"
| "pbind (Write g p) f = Write g (pbind p f)"

definition get :: "('s \<Rightarrow> 'a) \<Rightarrow> ('s, 'a) prog" where
  "get f = Read (\<lambda>s. Return (f s))"

definition put :: "('s world \<Rightarrow> 's world) \<Rightarrow> ('s, unit) prog" where
  "put g = Write g (Return ())"

text \<open>The next access of a program.\<close>

fun prog_step :: "('s, 'a) prog \<Rightarrow> 's world \<Rightarrow> 's world \<times> ('s, 'a) prog" where
  "prog_step (Return a) w = (w, Return a)"
| "prog_step (Read k) w = (w, k (w_store w))"
| "prog_step (Write g p) w = (g w, p)"

text \<open>All accesses in a row.\<close>

primrec run_prog :: "('s, 'a) prog \<Rightarrow> 's world \<Rightarrow> 's world \<times> 'a" where
  "run_prog (Return a) w = (w, a)"
| "run_prog (Read k) w = run_prog (k (w_store w)) w"
| "run_prog (Write g p) w = run_prog p (g w)"

text \<open>
  The turns of one program while others run: \<open>ws\<close> are the worlds that it finds when its turn comes.
\<close>

fun prog_turns :: "('s, 'a) prog \<Rightarrow> 's world list \<Rightarrow> ('s, 'a) prog" where
  "prog_turns p [] = p"
| "prog_turns p (w # ws) = prog_turns (snd (prog_step p w)) ws"

section \<open>Lemmas\<close>

lemma run_pbind [simp]: "run_prog (pbind p f) w = (let (w', a) = run_prog p w in run_prog (f a) w')"
  by (induction p arbitrary: w) simp_all

lemma run_get [simp]: "run_prog (get f) w = (w, f (w_store w))"
  by (simp add: get_def)

lemma run_put [simp]: "run_prog (put g) w = (g w, ())"
  by (simp add: put_def)

lemma pbind_get [simp]: "pbind (get f) k = Read (\<lambda>s. k (f s))"
  by (simp add: get_def)

lemma pbind_put [simp]: "pbind (put g) k = Write g (k ())"
  by (simp add: put_def)

lemma run_map_prog [simp]: "run_prog (map_prog h p) w = (fst (run_prog p w), h (snd (run_prog p w)))"
  by (induction p arbitrary: w) simp_all

lemma prog_step_run: "run_prog (snd (prog_step p w)) (fst (prog_step p w)) = run_prog p w"
  by (cases p) simp_all

lemma prog_turns_Return [simp]: "prog_turns (Return a) ws = Return a"
  by (induction ws) simp_all

text \<open>A program that returns after at most \<open>n\<close> accesses, whatever they give.\<close>

fun within :: "nat \<Rightarrow> ('s, 'a) prog \<Rightarrow> bool" where
  "within n (Return a) = True"
| "within n (Read k) = (case n of 0 \<Rightarrow> False | Suc m \<Rightarrow> \<forall>s. within m (k s))"
| "within n (Write g p) = (case n of 0 \<Rightarrow> False | Suc m \<Rightarrow> within m p)"

lemma within_map [simp]: "within n (map_prog h p) = within n p"
  by (induction p arbitrary: n) (simp_all split: nat.split)

lemma within_step: "within n p \<Longrightarrow> within (n - 1) (snd (prog_step p w))"
  by (cases p) (auto split: nat.splits)

lemma within_0: "within 0 p \<longleftrightarrow> (\<exists>a. p = Return a)"
  by (cases p) simp_all

lemma within_turns: "within n p \<Longrightarrow> n \<le> length ws \<Longrightarrow> \<exists>a. prog_turns p ws = Return a"
proof (induction ws arbitrary: n p)
  case (Cons w ws)
  from Cons.IH [OF within_step [OF Cons.prems(1)]] Cons.prems(2) show ?case by simp
qed (simp add: within_0)

lemma prog_turns_map: "prog_turns (map_prog h p) ws = map_prog h (prog_turns p ws)"
proof (induction ws arbitrary: p)
  case (Cons w ws)
  have "snd (prog_step (map_prog h p) w) = map_prog h (snd (prog_step p w))"
    by (cases p) simp_all
  with Cons show ?case by simp
qed simp

section \<open>Invariants under interleaving\<close>

text \<open>
  A program is safe for an invariant of the world when every write of it keeps the invariant from any
  world that satisfies it, not only from the one that the program has seen, and when what it returns
  satisfies \<open>Q\<close>; what it may use of the world is that the invariant holds at each of its reads.
\<close>

inductive safe_prog :: "('s world \<Rightarrow> bool) \<Rightarrow> ('a \<Rightarrow> bool) \<Rightarrow> ('s, 'a) prog \<Rightarrow> bool"
  for I :: "'s world \<Rightarrow> bool" and Q :: "'a \<Rightarrow> bool" where
  Return: "Q a \<Longrightarrow> safe_prog I Q (Return a)"
| Read: "(\<And>w. I w \<Longrightarrow> safe_prog I Q (k (w_store w))) \<Longrightarrow> safe_prog I Q (Read k)"
| Write: "(\<And>w. I w \<Longrightarrow> I (g w)) \<Longrightarrow> safe_prog I Q p \<Longrightarrow> safe_prog I Q (Write g p)"

inductive_simps safe_simps [simp]:
  "safe_prog I Q (Return a)"
  "safe_prog I Q (Read k)"
  "safe_prog I Q (Write g p)"

lemma safe_pbind [relay_intros]:
  assumes "safe_prog I R p" and "\<And>a. R a \<Longrightarrow> safe_prog I Q (f a)"
  shows "safe_prog I Q (pbind p f)"
  using assms(1) by (induction rule: safe_prog.induct) (auto intro: safe_prog.intros assms(2))

lemma safe_put [simp]: "safe_prog I Q (put g) \<longleftrightarrow> (\<forall>w. I w \<longrightarrow> I (g w)) \<and> Q ()"
  by (simp add: put_def)

lemma safe_map_prog: "safe_prog I (\<lambda>a. Q (h a)) p \<Longrightarrow> safe_prog I Q (map_prog h p)"
  by (induction rule: safe_prog.induct) simp_all

lemma safe_weaken: "safe_prog I Q p \<Longrightarrow> (\<And>a. Q a \<Longrightarrow> R a) \<Longrightarrow> safe_prog I R p"
  by (induction rule: safe_prog.induct) (auto intro: safe_prog.intros)

lemma safe_step:
  assumes "safe_prog I Q p" and "I w"
  shows "I (fst (prog_step p w)) \<and> safe_prog I Q (snd (prog_step p w))"
  using assms by (cases rule: safe_prog.cases) (auto intro: safe_prog.intros)

lemma safe_run:
  assumes "safe_prog I Q p" and "I w"
  shows "I (fst (run_prog p w)) \<and> Q (snd (run_prog p w))"
  using assms by (induction arbitrary: w rule: safe_prog.induct) auto

section \<open>Servers\<close>

text \<open>
  A server starts programs, some of them for tasks that the world holds, and lets any of the running
  ones make its next access. \<open>I\<close> is an invariant of the world; the programs that start are safe for it.
\<close>

type_synonym ('s, 'a) server = "'s world \<times> ('s, 'a) prog list"

inductive server_step ::
    "('s world \<Rightarrow> 's world \<Rightarrow> ('s, 'a) prog \<Rightarrow> bool) \<Rightarrow> ('s, 'a) server \<Rightarrow> ('s, 'a) server \<Rightarrow> bool"
  for starts :: "'s world \<Rightarrow> 's world \<Rightarrow> ('s, 'a) prog \<Rightarrow> bool" where
  start: "starts w w' p \<Longrightarrow> server_step starts (w, ps) (w', ps @ [p])"
| turn: "i < length ps \<Longrightarrow> prog_step (ps ! i) w = (w', p') \<Longrightarrow>
     server_step starts (w, ps) (w', ps[i := p'])"

inductive_cases server_stepE: "server_step starts (w, ps) st"

lemma server_turns_run:
  "(server_step starts)\<^sup>*\<^sup>* (w, ps @ [p]) (fst (run_prog p w), ps @ [Return (snd (run_prog p w))])"
proof (induction p arbitrary: w)
  case (Return a)
  then show ?case by simp
next
  case (Read k)
  have "server_step starts (w, ps @ [Read k]) (w, (ps @ [Read k])[length ps := k (w_store w)])"
    by (rule server_step.turn) simp_all
  then show ?case
    using Read [of "k (w_store w)" w] by (simp add: converse_rtranclp_into_rtranclp)
next
  case (Write g p)
  have "server_step starts (w, ps @ [Write g p]) (g w, (ps @ [Write g p])[length ps := p])"
    by (rule server_step.turn) simp_all
  then show ?case
    using Write [of "g w"] by (simp add: converse_rtranclp_into_rtranclp)
qed

lemma server_runs:
  assumes "starts w w' p"
  shows "(server_step starts)\<^sup>*\<^sup>* (w, ps) (fst (run_prog p w'), ps @ [Return (snd (run_prog p w'))])"
  using server_step.start [of starts, OF assms] server_turns_run [of starts w' ps p]
  by (rule converse_rtranclp_into_rtranclp)

locale safe_server =
  fixes starts :: "'s world \<Rightarrow> 's world \<Rightarrow> ('s, 'a) prog \<Rightarrow> bool"
    and I :: "'s world \<Rightarrow> bool" and Q :: "'a \<Rightarrow> bool"
  assumes starts_inv: "starts w w' p \<Longrightarrow> I w \<Longrightarrow> I w'"
    and starts_safe: "starts w w' p \<Longrightarrow> I w \<Longrightarrow> safe_prog I Q p"
begin

lemma step_safe:
  assumes "server_step starts (w, ps) (w', ps')" and "I w" and "\<forall>p\<in>set ps. safe_prog I Q p"
  shows "I w' \<and> (\<forall>p\<in>set ps'. safe_prog I Q p)"
  using assms(1)
proof (rule server_stepE)
  fix v p
  assume "(w', ps') = (v, ps @ [p])" "starts w v p"
  with assms(2,3) show ?thesis by (auto dest: starts_inv starts_safe)
next
  fix i v p'
  assume st: "(w', ps') = (v, ps[i := p'])" "i < length ps" "prog_step (ps ! i) w = (v, p')"
  then have "safe_prog I Q (ps ! i)" using assms(3) by simp
  from safe_step [OF this assms(2)] st have "I v" "safe_prog I Q p'" by simp_all
  with st(1) assms(3) set_update_subset_insert [of ps i p'] show ?thesis by auto
qed

lemma run_safe:
  assumes "(server_step starts)\<^sup>*\<^sup>* (w, []) (w', ps')" and "I w"
  shows "I w' \<and> (\<forall>p\<in>set ps'. safe_prog I Q p)"
  using assms(1)
proof (induction rule: rtranclp_induct2)
  case (step w1 ps1 w2 ps2)
  then show ?case using step_safe by blast
qed (use assms(2) in simp)

lemma answers_safe:
  assumes "(server_step starts)\<^sup>*\<^sup>* (w, []) (w', ps')" and "I w" and "Return a \<in> set ps'"
  shows "Q a"
  using run_safe [OF assms(1,2)] assms(3) by auto

end

end
