(* ===== verification/Handler_Programs.thy ===== *)
theory Handler_Programs
  imports Programs System
begin

text \<open>
  The handlers as programs over the in-memory storage: one \<open>Read\<close> for each time that the source takes
  the lock of the storage to read, one \<open>Write\<close> for each time that it takes it to write, touches a metric
  or spawns a task, in the order of the source. Run in a row, every program is the handler of its own
  theory, so what is proved there is about the same code.
\<close>

type_synonym 'a relay_prog = "(InMemoryStorageInner, 'a) prog"

definition pbind_ok ::
    "('a, 'e) res relay_prog \<Rightarrow> ('a \<Rightarrow> ('b, 'e) res relay_prog) \<Rightarrow> ('b, 'e) res relay_prog" where
  "pbind_ok p f = pbind p (\<lambda>r. case r of
     Ok a \<Rightarrow> f a | Err e \<Rightarrow> Return (Err e) | Panic m \<Rightarrow> Return (Panic m))"

section \<open>Storage functions that take more than one lock\<close>

definition set_payload_attributes_prog :: "PayloadAttributes \<Rightarrow> unit relay_prog" where
  "set_payload_attributes_prog payload_attr =
     pbind (put (on_chain (set_block (pa_parent_block_number payload_attr)))) (\<lambda>_.
     pbind (put (on_chain (set_proposal_slot (pa_proposal_slot payload_attr)))) (\<lambda>_.
     pbind (get (\<lambda>s. parent_hash payload_attr \<in> set (im_delivered_blocks s))) (\<lambda>delivered.
     pbind (put (on_relay (if delivered then inc_relayed_blocks else inc_non_relayed_blocks))) (\<lambda>_.
     put (on_store (\<lambda>s. s\<lparr>im_payload_attributes := payload_attr\<rparr>))))))"

definition set_validator_registrations_prog :: "ValidatorRegistrations \<Rightarrow> unit relay_prog" where
  "set_validator_registrations_prog registrations =
     (let count = Mapping.size registrations in
      pbind (put (on_store (\<lambda>s. s\<lparr>im_validator_registrations := registrations\<rparr>))) (\<lambda>_.
      put (on_relay (set_registered_validators count))))"

definition set_delivered_blocks_prog :: "B256 \<Rightarrow> unit relay_prog" where
  "set_delivered_blocks_prog block_hash =
     pbind (put (on_relay inc_blinded_blocks)) (\<lambda>_.
     put (on_store (\<lambda>s. s\<lparr>im_delivered_blocks := im_delivered_blocks s @ [block_hash]\<rparr>)))"

section \<open>HTTP handlers\<close>

definition post_bids_prog :: "externs \<Rightarrow> BidSubmission \<Rightarrow> WarpResult relay_prog" where
  "post_bids_prog X submission =
     (let bid = bid_trace submission in
      pbind (get (\<lambda>s. is_bid_higher in_memory_storage s bid)) (\<lambda>higher.
      if \<not> higher then Return (Err (custom (CausePostBids BelowFloor)))
      else if U256_is_zero (bt_value bid) then Return (Err (custom (CausePostBids ZeroBid)))
      else pbind (get (\<lambda>s. ims_is_whitelisted_builder s (bt_builder_pubkey bid))) (\<lambda>whitelisted.
      if \<not> whitelisted then Return (Err (custom (CausePostBids UnauthorizedBuilder)))
      else pbind (get ims_read_head_slot) (\<lambda>head_slot.
      if \<not> is_next_slot head_slot (bt_slot bid)
      then Return (Err (custom (CausePostBids PastSlotSubmission)))
      else let execution_payload = bs_execution_payload submission in
      pbind (get ims_read_payload_attributes) (\<lambda>attrs.
      case validate_bid attrs (bt_slot bid) (ep_prev_randao execution_payload) of
        Err error_message \<Rightarrow> Return
          (Err (custom (CausePostBids (InvalidPayloadAttrs (ValidationErrors_to_string error_message)))))
      | Panic m \<Rightarrow> Return (Panic m)
      | Ok _ \<Rightarrow>
      pbind (get (\<lambda>s. ims_find_duty_by_slot s (bt_slot bid))) (\<lambda>found.
      case found of
        None \<Rightarrow> Return (Err (custom (CausePostBids DutyNotFound)))
      | Some duty \<Rightarrow>
      pbind (get (\<lambda>s. compute_builder_domain X (ims_fork_data s))) (\<lambda>builder_domain.
      if \<not> BidTrace_verify_signature X bid (bs_signature submission) builder_domain
      then Return (Err (custom (CausePostBids InvalidSignature)))
      else let submission = BidSubmission_new bid execution_payload
                 (bs_blobs_bundle submission) (bs_signature submission) in
      pbind (put (ims_set_best_bid (bt_slot bid) submission)) (\<lambda>_.
      pbind (put (ims_set_blinded_block_response (duty_pubkey duty)
                    (to_blinded_block_response submission))) (\<lambda>_.
      Return (Ok (with_status (Text ''OK'') StatusOK)))))))))))"

definition get_header_prog ::
    "externs \<Rightarrow> BlsSigner \<Rightarrow> u64 \<Rightarrow> B256 \<Rightarrow> BlsPublicKey \<Rightarrow> nat \<Rightarrow> WarpResult relay_prog" where
  "get_header_prog X signer slot phash pubkey elapsed =
     pbind (get (\<lambda>s. ims_read_validator_registration s pubkey)) (\<lambda>registration.
     if registration = None then Return (Err (custom (CauseGetHeader UnauthorizedGetHeader)))
     else pbind (get ims_read_head_slot) (\<lambda>current_slot.
     if \<not> is_next_slot current_slot slot then Return (Err (custom (CauseGetHeader InvalidSlot)))
     else pbind (get (\<lambda>s. ims_read_best_bid s slot phash pubkey)) (\<lambda>found.
     case found of
       None \<Rightarrow> Return (Err (custom (CauseGetHeader NoBidFound)))
     | Some bid \<Rightarrow>
     pbind_ok (Return (res_map_err (\<lambda>e. custom (CauseConversion e)) (SignedHeader_try_from X bid signer)))
       (\<lambda>header.
     pbind (put (on_relay inc_headers)) (\<lambda>_.
     pbind (case u256_try_into_u64 X (u256_val (bt_value (bid_trace bid))) of
              Some n \<Rightarrow> put (on_relay (set_header_values n)) | None \<Rightarrow> Return ()) (\<lambda>_.
     pbind (put (on_relay (set_tx_count (length (ep_transactions (bs_execution_payload bid)))))) (\<lambda>_.
     pbind (put (on_relay (set_header_latency (of_nat elapsed)))) (\<lambda>_.
     Return (Ok (reply_json (JsonHeader (Versioned_new Deneb header))))))))))))"

definition blinded_blocks_prog ::
    "externs \<Rightarrow> SignedBlindedBlock \<Rightarrow> nat \<Rightarrow> WarpResult relay_prog" where
  "blinded_blocks_prog X sb elapsed =
     (let slot = SignedBlindedBlock_slot sb in
      pbind (get (\<lambda>s. ims_find_duty_by_slot s slot)) (\<lambda>found.
      case found of
        None \<Rightarrow> Return (Err (custom (CausePostBlindedBlock NoDutyFound)))
      | Some duty \<Rightarrow>
      let proposer_index = SignedBlindedBlock_proposer_index sb in
      if val_validator_index duty \<noteq> proposer_index
      then Return (Err (custom (CausePostBlindedBlock
             (ProposerIndexMismatch (val_validator_index duty) proposer_index))))
      else pbind (get (\<lambda>s. compute_proposer_domain X (ims_fork_data s))) (\<lambda>domain.
      let signature = sbl_signature sb;
          proposer_pubkey = duty_pubkey duty;
          blinded_block = sbl_message sb in
      pbind (get (\<lambda>s. ims_read_validator_registration s proposer_pubkey)) (\<lambda>registration.
      if registration = None
      then Return (Err (custom (CausePostBlindedBlock UnauthorizedSubmission)))
      else if \<not> BlsSignature_verify X signature proposer_pubkey
                (signing_root X (BlindedBlock_tree_hash_root X blinded_block) domain)
      then Return (Err (custom (CausePostBlindedBlock InvalidBlindedSignature)))
      else pbind (get (\<lambda>s. ims_read_blinded_block_response s proposer_pubkey)) (\<lambda>stored.
      case stored of
        None \<Rightarrow> Return (Err (custom (CausePostBlindedBlock NoBlockFromBlockHash)))
      | Some resp \<Rightarrow>
      let content = signed_beacon_block sb resp;
          block_hash = content_block_hash content in
      pbind (put (spawn (PublishTask content Ssz))) (\<lambda>_.
      pbind (put (on_relay (set_blinded_block_latency (of_nat elapsed)))) (\<lambda>_.
      pbind (set_delivered_blocks_prog block_hash) (\<lambda>_.
      Return (Ok (reply_json (JsonBlindedBlock (Versioned_new Deneb resp))))))))))))"

definition post_validators_prog ::
    "externs \<Rightarrow> known_validators \<Rightarrow> ValidatorRegistration list \<Rightarrow> WarpResult relay_prog" where
  "post_validators_prog X known registrations =
     pbind (get (\<lambda>s. compute_builder_domain X (ims_fork_data s))) (\<lambda>domain.
     let (to_register, registered) = register_loop X domain known 0 registrations (Mapping.empty, 0) in
     pbind (set_validator_registrations_prog to_register) (\<lambda>_.
     Return (Ok (with_status (Text ''OK'') StatusOK))))"

definition get_validators_prog :: "WarpResult relay_prog" where
  "get_validators_prog =
     pbind (get ims_read_proposer_duties) (\<lambda>duties. Return (Ok (reply_json (JsonDuties duties))))"

definition get_bids_prog :: "QueryParams \<Rightarrow> WarpResult relay_prog" where
  "get_bids_prog params =
     pbind (case qp_slot params of None \<Rightarrow> Return None
            | Some slot \<Rightarrow> get (\<lambda>s. ims_read_best_bid_by_slot s slot)) (\<lambda>by_slot.
     pbind (case qp_block_number params of None \<Rightarrow> Return None
            | Some n \<Rightarrow> get (\<lambda>s. ims_read_best_bid_by_block_number s n)) (\<lambda>by_number.
     Return (Ok (reply_json (JsonBids (case by_slot of
         Some bid \<Rightarrow> [bid]
       | None \<Rightarrow> (case by_number of Some bid \<Rightarrow> [bid] | None \<Rightarrow> [])))))))"

section \<open>The gRPC service\<close>

definition validate_bid_and_payload_prog ::
    "BidTrace \<Rightarrow> ExecutionPayload \<Rightarrow> (Validator, Status) res relay_prog" where
  "validate_bid_and_payload_prog bid execution_payload =
     (if U256_is_zero (bt_value bid) then Return (Err (InvalidArgument ''Block value 0.''))
      else pbind (get (\<lambda>s. ims_is_whitelisted_builder s (bt_builder_pubkey bid))) (\<lambda>whitelisted.
      if \<not> whitelisted then Return (Err (InvalidArgument ''Invalid builder address.''))
      else pbind (get ims_read_head_slot) (\<lambda>head_slot.
      if \<not> is_next_slot head_slot (bt_slot bid)
      then Return (Err (InvalidArgument ''Submission for past slot.''))
      else pbind (get ims_read_payload_attributes) (\<lambda>attrs.
      case validate_bid attrs (bt_slot bid) (ep_prev_randao execution_payload) of
        Err error_message \<Rightarrow>
          Return (Err (InvalidArgument (ValidationErrors_to_string error_message)))
      | Panic m \<Rightarrow> Return (Panic m)
      | Ok _ \<Rightarrow> pbind (get (\<lambda>s. ims_find_duty_by_slot s (bt_slot bid))) (\<lambda>duty.
          Return (ok_or duty (InvalidArgument ''No duty found.'')))))))"

definition update_best_prog ::
    "BidTrace \<Rightarrow> ExecutionPayload \<Rightarrow> BlobsBundle \<Rightarrow> BlsSignature \<Rightarrow> BlsPublicKey \<Rightarrow> unit relay_prog" where
  "update_best_prog bid exec_payload blobs_bundle signature proposer_key =
     (let submission = BidSubmission_new bid exec_payload blobs_bundle signature in
      pbind (put (ims_set_best_bid (bt_slot bid) submission)) (\<lambda>_.
      put (ims_set_blinded_block_response proposer_key (to_blinded_block_response submission))))"

definition submit_block_prog ::
    "externs \<Rightarrow> ForkDatas \<Rightarrow> SubmitBlockRequest \<Rightarrow> (SubmitBlockResponse, Status) res relay_prog" where
  "submit_block_prog X fds req =
     (let self = RelayGrpcService_new in_memory_storage fds in
     pbind_ok (Return (ok_or (req_bid_trace req) (InvalidArgument ''Missing bid''))) (\<lambda>bid.
     pbind_ok (Return (ok_or (req_execution_payload req) (InvalidArgument ''Missing Execution Payload'')))
       (\<lambda>exec_payload.
     pbind_ok (Return (ok_or (req_blobs_bundle req) (InvalidArgument ''Missing Blobs Bundle''))) (\<lambda>blobs.
     pbind_ok (Return (res_map_err (\<lambda>e. InvalidArgument (ConversionError_to_string e))
       (BidTrace_try_from X bid))) (\<lambda>bid.
     pbind (get (\<lambda>s. grpc_is_bid_higher self s bid)) (\<lambda>higher.
     if \<not> higher then Return (Ok \<lparr>resp_code = 400, resp_message = ''Bid below best.''\<rparr>)
     else
     pbind_ok (Return (res_map_err (\<lambda>e. InvalidArgument (ConversionError_to_string e))
       (ExecutionPayload_try_from X exec_payload))) (\<lambda>exec_payload.
     pbind_ok (validate_bid_and_payload_prog bid exec_payload) (\<lambda>duty.
     pbind_ok (Return (BlsSignature_from_vec X (req_signature req))) (\<lambda>signature.
     pbind_ok (Return (verify_signature X self bid signature)) (\<lambda>_.
     pbind_ok (Return (res_map_err (\<lambda>e. InvalidArgument (ConversionError_to_string e))
       (BlobsBundle_try_from X blobs))) (\<lambda>blobs.
     pbind (update_best_prog bid exec_payload blobs signature (duty_pubkey duty)) (\<lambda>_.
     Return (Ok \<lparr>resp_code = 200, resp_message = ''Success''\<rparr>)))))))))))))"

section \<open>The service that follows the chain\<close>

definition on_event_prog :: "BeaconEvent \<Rightarrow> unit relay_prog" where
  "on_event_prog event =
     (case event of
        PayloadAttributeEvent p_attr \<Rightarrow> set_payload_attributes_prog p_attr
      | HeadEvent slot \<Rightarrow>
          pbind (put (ims_set_head_slot (HeadSlot slot))) (\<lambda>_.
          if slot mod 32 = 0 then put (spawn (RefreshDutiesTask (HeadSlot slot))) else Return ()))"

fun find_duties_prog ::
    "externs \<Rightarrow> ProposerDutiesData list \<Rightarrow> (Validator list, string) res relay_prog" where
  "find_duties_prog X [] = Return (Ok [])"
| "find_duties_prog X (duty # duties) =
     pbind_ok (Return (BlsPublicKey_from_fixed X (pdd_pubkey duty))) (\<lambda>pubkey.
     pbind (get (\<lambda>s. ims_read_validator_registration s pubkey)) (\<lambda>registration.
     pbind_ok (find_duties_prog X duties) (\<lambda>found.
     Return (Ok (case registration of
         None \<Rightarrow> found
       | Some entry \<Rightarrow> \<lparr>val_slot = pdd_slot duty, val_validator_index = pdd_validator_index duty,
                        val_entry = entry\<rparr> # found)))))"

definition into_duties_prog ::
    "externs \<Rightarrow> ProposerDutiesData list \<Rightarrow> (Validator list, string) res relay_prog" where
  "into_duties_prog X duties =
     pbind (get ims_empty_validator_regs) (\<lambda>empty.
     if empty then Return (Ok []) else find_duties_prog X duties)"

definition refresh_duties_prog ::
    "externs \<Rightarrow> BeaconApi \<Rightarrow> u64 \<Rightarrow> HeadSlot \<Rightarrow> (unit, string) res relay_prog" where
  "refresh_duties_prog X api slots_per_epoch head =
     pbind_ok (Return (HeadSlot_epoch head slots_per_epoch)) (\<lambda>epoch.
     pbind_ok (Return (api_proposer_duties api epoch)) (\<lambda>now.
     pbind_ok (Return (api_proposer_duties api (epoch + 1))) (\<lambda>coming.
     pbind_ok (into_duties_prog X (merge_with now coming)) (\<lambda>duties.
     pbind (if duties \<noteq> [] then put (ims_set_proposer_duties duties) else Return ()) (\<lambda>_.
     Return (Ok ()))))))"

section \<open>Run in a row, the programs are the handlers\<close>

lemma run_pbind_ok [simp]:
  "run_prog (pbind_ok p f) w = (case run_prog p w of
     (w', Ok a) \<Rightarrow> run_prog (f a) w' | (w', Err e) \<Rightarrow> (w', Err e) | (w', Panic m) \<Rightarrow> (w', Panic m))"
  by (simp add: pbind_ok_def split: prod.split res.split)

lemma run_set_payload_attributes:
  "run_prog (set_payload_attributes_prog a) w = (ims_set_payload_attributes a w, ())"
  by (simp add: set_payload_attributes_prog_def ims_set_payload_attributes_def
      ims_record_relayed_block_def Let_def)

lemma run_set_validator_registrations:
  "run_prog (set_validator_registrations_prog m) w = (ims_set_validator_registrations m w, ())"
  by (simp add: set_validator_registrations_prog_def ims_set_validator_registrations_def Let_def)

lemma run_set_delivered_blocks:
  "run_prog (set_delivered_blocks_prog h) w = (ims_set_delivered_blocks h w, ())"
  by (simp add: set_delivered_blocks_prog_def ims_set_delivered_blocks_def)

lemmas run_storage_progs =
  run_set_payload_attributes run_set_validator_registrations run_set_delivered_blocks

lemma run_post_bids: "run_prog (post_bids_prog X b) w = post_bids_handler X in_memory_storage b w"
  by (auto simp: post_bids_prog_def post_bids_handler_def post_bids_checks_def post_bids_commit_def
      Let_def split: res.split option.split)

lemma run_get_header:
  "run_prog (get_header_prog X signer slot phash pubkey t) w
     = get_header_handler X in_memory_storage signer slot phash pubkey t w"
  by (auto simp: get_header_prog_def get_header_handler_def get_header_response_def Let_def
      split: res.split option.split)

lemma run_blinded_blocks:
  "run_prog (blinded_blocks_prog X sb t) w = blinded_blocks_handler X in_memory_storage sb t w"
  by (auto simp: blinded_blocks_prog_def blinded_blocks_handler_def blinded_blocks_checks_def Let_def
      run_storage_progs split: res.split option.split)

lemma run_post_validators:
  "run_prog (post_validators_prog X known regs) w
     = post_validators_handler X in_memory_storage known regs w"
  by (simp add: post_validators_prog_def post_validators_handler_def run_storage_progs
      split: prod.split)

lemma run_get_validators:
  "run_prog get_validators_prog w = get_validators_handler in_memory_storage w"
  by (simp add: get_validators_prog_def get_validators_handler_def)

lemma run_get_bids: "run_prog (get_bids_prog params) w = get_bids_handler in_memory_storage params w"
  by (auto simp: get_bids_prog_def get_bids_handler_def Let_def split: option.split)

lemma run_validate_bid_and_payload:
  "run_prog (validate_bid_and_payload_prog bid p) w
     = (w, validate_bid_and_payload (RelayGrpcService_new in_memory_storage fds) (w_store w) bid p)"
  by (auto simp: validate_bid_and_payload_prog_def validate_bid_and_payload_def
      RelayGrpcService_new_def Let_def split: res.split)

lemma run_submit_block:
  "run_prog (submit_block_prog X fds req) w
     = submit_block X (RelayGrpcService_new in_memory_storage fds) req w"
proof -
  let ?self = "RelayGrpcService_new in_memory_storage fds"
  have S: "gs_storage ?self = in_memory_storage" by (simp add: RelayGrpcService_new_def)
  show ?thesis
    by (auto simp: submit_block_prog_def submit_block_def submit_block_checks_def Let_def
        update_best_def update_best_prog_def S run_validate_bid_and_payload [where fds = fds] split: res.split)
qed

lemma run_on_event: "run_prog (on_event_prog e) w = (on_event in_memory_storage e w, ())"
  by (auto simp: on_event_prog_def on_event_def Let_def run_storage_progs split: BeaconEvent.split)

lemma run_find_duties:
  "run_prog (find_duties_prog X duties) w = (w,
     res_bind (res_mapM (\<lambda>duty.
           res_bind (BlsPublicKey_from_fixed X (pdd_pubkey duty)) (\<lambda>pubkey.
             Ok (map_option
               (\<lambda>registration. \<lparr>val_slot = pdd_slot duty, val_validator_index = pdd_validator_index duty,
                  val_entry = registration\<rparr>)
               (ims_read_validator_registration (w_store w) pubkey)))) duties)
        (\<lambda>found. Ok (List.map_filter (\<lambda>v. v) found)))"
  (is "_ = (w, res_bind (res_mapM ?f duties) _)")
proof (induction duties)
  case (Cons d ds)
  then show ?case
    by (cases "BlsPublicKey_from_fixed X (pdd_pubkey d) :: (BlsPublicKey, string) res";
        cases "res_mapM ?f ds")
      (simp_all add: map_filter_simps split: option.split)
qed (simp add: map_filter_simps)

lemma run_into_duties:
  "run_prog (into_duties_prog X duties) w = (w, into_duties X in_memory_storage (w_store w) duties)"
  by (simp add: into_duties_prog_def into_duties_def run_find_duties)

lemma run_refresh_duties:
  "run_prog (refresh_duties_prog X api n head) w = refresh_duties X in_memory_storage api n head w"
  by (auto simp: refresh_duties_prog_def refresh_duties_def Let_def run_into_duties
      split: res.split)

lemmas run_handler_progs =
  run_post_bids run_get_header run_blinded_blocks run_post_validators run_get_validators run_get_bids
  run_submit_block run_on_event run_refresh_duties

end
