(* ===== verification/Concurrency.thy ===== *)
theory Concurrency
  imports Handler_Programs Bid_Routes
begin

text \<open>
  The whole relay with all its handlers interleaved: HTTP requests, gRPC calls, events of the beacon
  chain and spawned tasks run as programs side by side, and between any two accesses of one of them the
  others may make any number of theirs. What \<open>System\<close> shows for handlers that run one after the other is
  shown here for every interleaving, for the state and for the replies.
\<close>

section \<open>The concurrent relay\<close>

datatype call =
    HttpCall Surroundings ApiRequest
  | GrpcCall SubmitBlockRequest
  | EventCall BeaconEvent

datatype outcome =
    HttpReply Surroundings ApiRequest "Reply option"
  | GrpcReply SubmitBlockRequest "(SubmitBlockResponse, Status) res"
  | TaskEnded "(unit, string) res"

definition filtered_prog ::
    "('a, Rejection) res \<Rightarrow> ('a \<Rightarrow> WarpResult relay_prog) \<Rightarrow> WarpResult relay_prog" where
  "filtered_prog r handler =
     (case r of Ok a \<Rightarrow> handler a | Err e \<Rightarrow> Return (Err e) | Panic m \<Rightarrow> Return (Panic m))"

fun dispatch_prog :: "externs \<Rightarrow> Surroundings \<Rightarrow> ApiRequest \<Rightarrow> WarpResult relay_prog" where
  "dispatch_prog X env GetStatus = Return (Ok (with_status (Text ''OK'') StatusOK))"
| "dispatch_prog X env (PostBlindedBlock body) =
     filtered_prog (with_json_body blinded_blocks_limit body)
       (\<lambda>sb. blinded_blocks_prog X sb (su_elapsed env))"
| "dispatch_prog X env (GetHeader slot phash pubkey) =
     get_header_prog X (su_signer env) slot phash pubkey (su_elapsed env)"
| "dispatch_prog X env (PostValidators api_key body) =
     filtered_prog (validate_api_key (su_auth env) api_key) (\<lambda>_.
       filtered_prog (with_json_body validators_limit body) (\<lambda>regs.
         post_validators_prog X (su_known env) regs))"
| "dispatch_prog X env GetValidators = get_validators_prog"
| "dispatch_prog X env (PostBid body) =
     filtered_prog (with_json_body bids_limit body) (post_bids_prog X)"
| "dispatch_prog X env (GetBids params) = get_bids_prog params"

fun warp_reply :: "Surroundings \<Rightarrow> WarpResult \<Rightarrow> Reply option" where
  "warp_reply env (Ok reply) = Some reply"
| "warp_reply env (Err e) = Some (handle_rejection (su_debug env) e)"
| "warp_reply env (Panic m) = None"

fun call_prog :: "externs \<Rightarrow> ForkDatas \<Rightarrow> call \<Rightarrow> outcome relay_prog" where
  "call_prog X fds (HttpCall env req) =
     map_prog (\<lambda>r. HttpReply env req (warp_reply env r)) (dispatch_prog X env req)"
| "call_prog X fds (GrpcCall req) = map_prog (GrpcReply req) (submit_block_prog X fds req)"
| "call_prog X fds (EventCall e) = map_prog (\<lambda>_. TaskEnded (Ok ())) (on_event_prog e)"

text \<open>What may start: any call at any time, and the tasks that are waiting.\<close>

inductive relay_starts ::
    "externs \<Rightarrow> ForkDatas \<Rightarrow> u64 \<Rightarrow> relay_world \<Rightarrow> relay_world \<Rightarrow> outcome relay_prog \<Rightarrow> bool"
  for X :: externs and fds :: ForkDatas and slots_per_epoch :: u64 where
  call: "relay_starts X fds slots_per_epoch w w (call_prog X fds c)"
| refresh: "RefreshDutiesTask head \<in> set (w_tasks w) \<Longrightarrow>
     relay_starts X fds slots_per_epoch w
       (w\<lparr>w_tasks := remove1 (RefreshDutiesTask head) (w_tasks w)\<rparr>)
       (map_prog TaskEnded (refresh_duties_prog X api slots_per_epoch head))"
| publish: "PublishTask content ty \<in> set (w_tasks w) \<Longrightarrow>
     relay_starts X fds slots_per_epoch w
       (w\<lparr>w_tasks := remove1 (PublishTask content ty) (w_tasks w)\<rparr>) (Return (TaskEnded (Ok ())))"

inductive_cases relay_startsE: "relay_starts X fds n w w' p"

text \<open>The states of the concurrent relay, from the storage that start-up makes.\<close>

definition concurrent ::
    "externs \<Rightarrow> ForkDatas \<Rightarrow> u64 \<Rightarrow> BlsPublicKey list \<Rightarrow> (InMemoryStorageInner, outcome) server \<Rightarrow> bool" where
  "concurrent X fds slots_per_epoch builders st \<longleftrightarrow>
     (\<exists>slot attrs recorder. (server_step (relay_starts X fds slots_per_epoch))\<^sup>*\<^sup>*
        (InMemoryStorage_new slot attrs builders fds Mapping.empty [] recorder, []) st)"

section \<open>What replies must be\<close>

text \<open>
  A header is that of a sound bid for what was asked, signed by the relay; a payload is that of a sound
  bid; duties carry signed registrations, and bids are sound.
\<close>

fun sound_outcome :: "externs \<Rightarrow> ForkDatas \<Rightarrow> BlsPublicKey set \<Rightarrow> outcome \<Rightarrow> bool" where
  "sound_outcome X fds builders (HttpReply env req (Some reply)) =
     (case rp_body reply of
        JsonHeader vh \<Rightarrow>
          (\<exists>slot h k b. req = GetHeader slot h k \<and> bid_key b = (slot, h, k) \<and>
             sound_bid X fds builders b \<and> SignedHeader_try_from X b (su_signer env) = Ok (ver_data vh))
      | JsonBlindedBlock vr \<Rightarrow>
          (\<exists>b. sound_bid X fds builders b \<and> ver_data vr = to_blinded_block_response b)
      | JsonDuties ds \<Rightarrow> (\<forall>d\<in>set ds. sound_registration X fds (val_entry d))
      | JsonBids bs \<Rightarrow> (\<forall>b\<in>set bs. sound_bid X fds builders b)
      | _ \<Rightarrow> True)"
| "sound_outcome X fds builders _ = True"

section \<open>Run in a row, a call is served\<close>

lemma run_filtered [simp]:
  "run_prog (filtered_prog r h) w = filtered r (\<lambda>a. run_prog (h a) w) w"
  by (simp add: filtered_prog_def filtered_def split: res.split)

lemma run_dispatch: "run_prog (dispatch_prog X env req) w = dispatch X in_memory_storage env req w"
  by (cases req) (simp_all add: run_handler_progs status_handler_def)

lemma serve_dispatch:
  "serve X S env req w = (let (w', r) = dispatch X S env req w in (w', warp_reply env r))"
  by (simp add: serve_def split: prod.split res.split)

lemma run_call:
  "run_prog (call_prog X fds c) w = (case c of
     HttpCall env req \<Rightarrow> apsnd (HttpReply env req) (serve X in_memory_storage env req w)
   | GrpcCall req \<Rightarrow>
       apsnd (GrpcReply req) (submit_block X (RelayGrpcService_new in_memory_storage fds) req w)
   | EventCall e \<Rightarrow> (on_event in_memory_storage e w, TaskEnded (Ok ())))"
  by (cases c) (simp_all add: run_dispatch serve_dispatch run_handler_progs case_prod_beta apsnd_def
      map_prod_def)

section \<open>Every program is safe for the invariant of the relay\<close>

text \<open>What a read may rely on, when the invariant holds.\<close>

lemma world_inv_reads:
  assumes "world_inv X fds builders w"
  shows "ims_fork_data (w_store w) = fds"
    and "ims_is_whitelisted_builder (w_store w) k \<longleftrightarrow> k \<in> builders"
    and "ims_find_duty_by_slot (w_store w) n = Some d \<Longrightarrow>
      val_slot d = n \<and> sound_registration X fds (val_entry d)"
    and "ims_read_best_bid (w_store w) n h v = Some b \<Longrightarrow>
      bid_key b = (n, h, v) \<and> sound_bid X fds builders b"
    and "ims_read_blinded_block_response (w_store w) k = Some r \<Longrightarrow>
      \<exists>b. sound_bid X fds builders b \<and> r = to_blinded_block_response b"
    and "ims_read_validator_registration (w_store w) k = Some reg \<Longrightarrow> sound_registration X fds reg"
    and "d \<in> set (ims_read_proposer_duties (w_store w)) \<Longrightarrow> sound_registration X fds (val_entry d)"
    and "ims_read_best_bid_by_slot (w_store w) n = None"
    and "ims_read_best_bid_by_block_number (w_store w) n = Some b \<Longrightarrow> sound_bid X fds builders b"
  using assms
  by (auto simp: world_inv_def store_inv_def abs_in_memory_def ims_reader_defs fun_eq_iff
      dest!: find_Some_mem spec [of _ "(n, h, v)"])

text \<open>Which writes keep the invariant.\<close>

lemma world_inv_writes [relay_intros]:
  assumes "world_inv X fds builders w"
  shows "world_inv X fds builders (on_relay f w)"
    and "world_inv X fds builders (on_chain g w)"
    and "world_inv X fds builders (ims_set_head_slot hs w)"
    and "world_inv X fds builders (on_store (\<lambda>s. s\<lparr>im_payload_attributes := a\<rparr>) w)"
    and "world_inv X fds builders
      (on_store (\<lambda>s. s\<lparr>im_delivered_blocks := im_delivered_blocks s @ [bh]\<rparr>) w)"
    and "sound_bid X fds builders b \<Longrightarrow>
      world_inv X fds builders (ims_set_best_bid (bt_slot (bid_trace b)) b w)"
    and "sound_bid X fds builders b \<Longrightarrow>
      world_inv X fds builders (ims_set_blinded_block_response k (to_blinded_block_response b) w)"
    and "\<forall>d\<in>set ds. sound_registration X fds (val_entry d) \<Longrightarrow>
      world_inv X fds builders (ims_set_proposer_duties ds w)"
    and "(\<And>k r. Mapping.lookup m k = Some r \<Longrightarrow> reg_key r = k \<and> sound_registration X fds r) \<Longrightarrow>
      world_inv X fds builders (on_store (\<lambda>s. s\<lparr>im_validator_registrations := m\<rparr>) w)"
    and "sound_task X fds builders t \<Longrightarrow> world_inv X fds builders (spawn t w)"
  using assms
  by (auto simp: world_inv_def store_inv_def abs_in_memory_def ims_set_head_slot_def
      ims_set_best_bid_def ims_set_blinded_block_response_def ims_set_proposer_duties_def Let_def
      bid_key_def fun_eq_iff)

lemma safe_pbind_ok:
  assumes "safe_prog I R p" and "\<And>a. R (Ok a) \<Longrightarrow> safe_prog I Q (f a)"
    and "\<And>e. Q (Err e)" and "\<And>m. Q (Panic m)"
  shows "safe_prog I Q (pbind_ok p f)"
  unfolding pbind_ok_def
  by (rule safe_pbind [OF assms(1)]) (auto simp: assms split: res.split)

lemma pbind_ok_Return [simp]:
  "pbind_ok (Return r) f = (case r of Ok a \<Rightarrow> f a | Err e \<Rightarrow> Return (Err e) | Panic m \<Rightarrow> Return (Panic m))"
  by (simp add: pbind_ok_def)

text \<open>What a handler returns: its reply is sound, whatever it is recovered to.\<close>

definition sound_result ::
    "externs \<Rightarrow> ForkDatas \<Rightarrow> BlsPublicKey set \<Rightarrow> Surroundings \<Rightarrow> ApiRequest \<Rightarrow> WarpResult \<Rightarrow> bool" where
  "sound_result X fds builders env req r = sound_outcome X fds builders (HttpReply env req (warp_reply env r))"

lemma handle_rejection_body: "\<exists>m. rp_body (handle_rejection dbg err) = JsonString m"
  by (simp add: handle_rejection_def with_status_def split: option.split)

lemma sound_result_simps [simp]:
  "sound_result X fds builders env req (Err e)"
  "sound_result X fds builders env req (Panic m)"
  "sound_result X fds builders env req (Ok (with_status (Text t) s))"
  "sound_result X fds builders env req (Ok (reply_json (JsonDuties ds)))
     = (\<forall>d\<in>set ds. sound_registration X fds (val_entry d))"
  "sound_result X fds builders env req (Ok (reply_json (JsonBids bs)))
     = (\<forall>b\<in>set bs. sound_bid X fds builders b)"
  "sound_result X fds builders env req (Ok (reply_json (JsonBlindedBlock vr)))
     = (\<exists>b. sound_bid X fds builders b \<and> ver_data vr = to_blinded_block_response b)"
  "sound_result X fds builders env (GetHeader slot h k) (Ok (reply_json (JsonHeader vh)))
     = (\<exists>b. bid_key b = (slot, h, k) \<and> sound_bid X fds builders b \<and>
          SignedHeader_try_from X b (su_signer env) = Ok (ver_data vh))"
  using handle_rejection_body [of "su_debug env" e]
  by (auto simp: sound_result_def with_status_def reply_json_def)

lemma safe_post_bids:
  "safe_prog (world_inv X fds builders) (sound_result X fds builders env req) (post_bids_prog X b)"
proof -
  have sound: "sound_bid X fds builders b"
    if "\<not> U256_is_zero (bt_value (bid_trace b))" "bt_builder_pubkey (bid_trace b) \<in> builders"
      "BidTrace_verify_signature X (bid_trace b) (bs_signature b) (compute_builder_domain X fds)"
    using that by (simp add: sound_bid_def)
  show ?thesis
    by (auto simp: post_bids_prog_def Let_def BidSubmission_new_eta world_inv_reads sound
        intro!: relay_intros split: res.split option.split)
qed

lemma safe_get_header:
  "safe_prog (world_inv X fds builders) (sound_result X fds builders env (GetHeader slot h k))
     (get_header_prog X (su_signer env) slot h k t)"
  by (auto simp: get_header_prog_def Versioned_new_def res_simps dest: world_inv_reads(4)
      intro!: relay_intros split: res.split option.split)

lemma safe_get_validators:
  "safe_prog (world_inv X fds builders) (sound_result X fds builders env req) get_validators_prog"
  by (auto simp: get_validators_prog_def dest: world_inv_reads(7))

lemma safe_get_bids:
  "safe_prog (world_inv X fds builders) (sound_result X fds builders env req) (get_bids_prog params)"
  by (auto simp: get_bids_prog_def world_inv_reads(8) dest: world_inv_reads(9) [OF _ sym]
      split: option.split)

lemma safe_blinded_blocks:
  "safe_prog (world_inv X fds builders) (sound_result X fds builders env req)
     (blinded_blocks_prog X sb t)"
proof -
  have task: "sound_task X fds builders (PublishTask (signed_beacon_block sb (to_blinded_block_response b)) Ssz)"
    if "sound_bid X fds builders b" "sound_registration X fds (val_entry duty)"
      "val_slot duty = SignedBlindedBlock_slot sb"
      "BlsSignature_verify X (sbl_signature sb) (duty_pubkey duty)
         (signing_root X (BlindedBlock_tree_hash_root X (sbl_message sb)) (compute_proposer_domain X fds))"
    for b duty
    using that by (auto simp: sound_task_def SignedBlindedBlock_slot_def)
  show ?thesis
    by (auto simp: blinded_blocks_prog_def set_delivered_blocks_prog_def Let_def Versioned_new_def
        world_inv_reads(1) dest!: world_inv_reads(3,5) [rotated]
        intro!: relay_intros task split: option.split)
qed

lemma safe_post_validators:
  "safe_prog (world_inv X fds builders) (sound_result X fds builders env req)
     (post_validators_prog X known regs)"
proof -
  have "post_validators_prog X known regs = pbind (get (\<lambda>s. compute_builder_domain X (ims_fork_data s)))
      (\<lambda>domain. pbind (set_validator_registrations_prog (registered_map X domain known regs))
        (\<lambda>_. Return (Ok (with_status (Text ''OK'') StatusOK))))"
    by (simp add: post_validators_prog_def registered_map_def case_prod_beta)
  then show ?thesis
    by (auto simp: set_validator_registrations_prog_def Let_def world_inv_reads(1) sound_registration_def
        dest: registered_map_sound intro!: relay_intros)
qed

lemma safe_validate_bid_and_payload:
  "safe_prog (world_inv X fds builders)
     (\<lambda>r. is_ok r \<longrightarrow> \<not> U256_is_zero (bt_value bid) \<and> bt_builder_pubkey bid \<in> builders)
     (validate_bid_and_payload_prog bid p)"
  by (auto simp: validate_bid_and_payload_prog_def world_inv_reads(2) split: res.split)

lemma safe_update_best:
  assumes "sound_bid X fds builders (BidSubmission_new t p bb sig)"
  shows "safe_prog (world_inv X fds builders) (\<lambda>_. True) (update_best_prog t p bb sig k)"
  using world_inv_writes(6,7) [OF _ assms]
  by (simp add: update_best_prog_def Let_def del: to_blinded_block_response_new)

lemma safe_submit_block:
  "safe_prog (world_inv X fds builders) (\<lambda>_. True) (submit_block_prog X fds req)"
proof -
  have sound: "sound_bid X fds builders (BidSubmission_new t p bb sig)"
    if "\<not> U256_is_zero (bt_value t)" "bt_builder_pubkey t \<in> builders"
      "verify_signature X (RelayGrpcService_new in_memory_storage fds) t sig = Ok u" for t p bb sig u
    using that by (simp add: sound_bid_def verify_signature_Ok RelayGrpcService_new_def)
  show ?thesis
    by (auto simp: submit_block_prog_def Let_def split: res.split
        intro!: safe_pbind_ok [OF safe_validate_bid_and_payload] safe_pbind [OF safe_update_best]
        intro: sound)
qed

lemma safe_on_event:
  "safe_prog (world_inv X fds builders) (\<lambda>_. True) (on_event_prog e)"
  by (auto simp: on_event_prog_def set_payload_attributes_prog_def sound_task_def slot_mod_32
      intro!: relay_intros split: BeaconEvent.split)

lemma safe_find_duties:
  "safe_prog (world_inv X fds builders)
     (\<lambda>r. \<forall>ds. r = Ok ds \<longrightarrow> (\<forall>d\<in>set ds. sound_registration X fds (val_entry d)))
     (find_duties_prog X duties)"
proof (induction duties)
  case (Cons duty duties)
  show ?case
    by (auto intro!: safe_pbind_ok [OF Cons.IH] dest: world_inv_reads(6) split: res.split option.split)
qed simp

lemma safe_refresh_duties:
  "safe_prog (world_inv X fds builders) (\<lambda>_. True) (refresh_duties_prog X api n head)"
proof -
  have "safe_prog (world_inv X fds builders)
      (\<lambda>r. \<forall>ds. r = Ok ds \<longrightarrow> (\<forall>d\<in>set ds. sound_registration X fds (val_entry d)))
      (into_duties_prog X duties)" for duties
    by (simp add: into_duties_prog_def safe_find_duties)
  then show ?thesis
    by (auto simp: refresh_duties_prog_def intro!: safe_pbind_ok relay_intros split: res.split)
qed

lemma safe_filtered:
  assumes "\<And>a. safe_prog I Q (h a)" and "\<And>e. Q (Err e)" and "\<And>m. Q (Panic m)"
  shows "safe_prog I Q (filtered_prog r h)"
  using assms by (simp add: filtered_prog_def split: res.split)

lemma safe_dispatch:
  "safe_prog (world_inv X fds builders) (sound_result X fds builders env req) (dispatch_prog X env req)"
  by (cases req) (auto intro!: safe_filtered safe_post_bids safe_get_header safe_blinded_blocks
      safe_post_validators safe_get_validators safe_get_bids)

lemma safe_call:
  "safe_prog (world_inv X fds builders) (sound_outcome X fds builders) (call_prog X fds c)"
proof (cases c)
  case (HttpCall env req)
  then show ?thesis
    using safe_dispatch [of X fds builders env req]
    by (simp add: safe_map_prog sound_result_def [abs_def])
next
  case (GrpcCall req)
  then show ?thesis using safe_submit_block by (simp add: safe_map_prog)
next
  case (EventCall e)
  then show ?thesis using safe_on_event by (simp add: safe_map_prog)
qed

interpretation relay_server: safe_server "relay_starts X fds n" "world_inv X fds builders"
    "sound_outcome X fds builders"
  for X fds n builders
proof unfold_locales
  fix w w' p
  assume start: "relay_starts X fds n w w' p" and inv: "world_inv X fds builders w"
  from start inv show "world_inv X fds builders w'"
    by (auto elim!: relay_startsE intro: world_inv_tasks)
  from start show "safe_prog (world_inv X fds builders) (sound_outcome X fds builders) p"
    by (auto elim!: relay_startsE intro!: safe_call safe_map_prog safe_refresh_duties)
qed

lemma concurrent_safe:
  assumes "concurrent X fds n builders (w, ps)"
  shows "world_inv X fds (set builders) w \<and>
    (\<forall>a. Return a \<in> set ps \<longrightarrow> sound_outcome X fds (set builders) a)"
proof -
  from assms obtain slot attrs recorder where "(server_step (relay_starts X fds n))\<^sup>*\<^sup>*
      (InMemoryStorage_new slot attrs builders fds Mapping.empty [] recorder, []) (w, ps)"
    unfolding concurrent_def by blast
  from relay_server.run_safe [OF this world_inv_start] relay_server.answers_safe [OF this world_inv_start]
  show ?thesis by blast
qed

section \<open>Turns\<close>

lemma within_handlers:
  "within 8 (post_bids_prog X b)" "within 8 (get_header_prog X signer slot h k t)"
  "within 8 (blinded_blocks_prog X sb t)" "within 8 (post_validators_prog X known regs)"
  "within 8 get_validators_prog" "within 8 (get_bids_prog params)"
  by (simp_all add: post_bids_prog_def get_header_prog_def blinded_blocks_prog_def
      post_validators_prog_def get_validators_prog_def get_bids_prog_def set_delivered_blocks_prog_def
      set_validator_registrations_prog_def Let_def numeral_eq_Suc split: res.split option.split prod.split)

lemma within_submit_block: "within 8 (submit_block_prog X fds req)"
  by (simp add: submit_block_prog_def validate_bid_and_payload_prog_def update_best_prog_def pbind_ok_def
      Let_def numeral_eq_Suc split: res.split)

lemma within_on_event: "within 8 (on_event_prog e)"
  by (simp add: on_event_prog_def set_payload_attributes_prog_def put_def numeral_eq_Suc
      split: BeaconEvent.split)

lemma within_filtered: "(\<And>a. within n (h a)) \<Longrightarrow> within n (filtered_prog r h)"
  by (simp add: filtered_prog_def split: res.split)

lemma within_call: "within 8 (call_prog X fds c)"
proof (cases c)
  case (HttpCall env req)
  then show ?thesis by (cases req) (auto intro!: within_handlers within_filtered)
qed (simp_all add: within_submit_block within_on_event)

lemma concurrent_starts:
  assumes "concurrent X fds n builders (w, ps)" and "relay_starts X fds n w w' p"
  shows "concurrent X fds n builders (fst (run_prog p w'), ps @ [Return (snd (run_prog p w'))])"
  using assms(1) server_runs [of "relay_starts X fds n", OF assms(2)]
  unfolding concurrent_def by (meson rtranclp_trans)

text \<open>Handlers that run one after the other are one of the interleavings.\<close>

lemma reachable_concurrent:
  assumes "reachable X fds slots_per_epoch builders w"
  shows "\<exists>ps. concurrent X fds slots_per_epoch builders (w, ps) \<and> (\<forall>p\<in>set ps. \<exists>a. p = Return a)"
  using assms
proof (induction rule: reachable.induct)
  case (start slot attrs recorder)
  have "concurrent X fds slots_per_epoch builders
      (InMemoryStorage_new slot attrs builders fds Mapping.empty [] recorder, [])"
    unfolding concurrent_def by blast
  then show ?case by (intro exI [of _ "[]"]) simp
next
  case (step w w')
  then obtain ps where ps: "concurrent X fds slots_per_epoch builders (w, ps)"
    "\<forall>p\<in>set ps. \<exists>a. p = Return a" by blast
  have "\<exists>v p. relay_starts X fds slots_per_epoch w v p \<and> w' = fst (run_prog p v)"
    using step.hyps(2)
  proof (cases rule: relay_step.cases)
    case (http env req reply)
    then have "w' = fst (run_prog (call_prog X fds (HttpCall env req)) w)" by (simp add: run_call del: call_prog.simps)
    then show ?thesis by (blast intro: relay_starts.call)
  next
    case (grpc request reply)
    then have "w' = fst (run_prog (call_prog X fds (GrpcCall request)) w)" by (simp add: run_call del: call_prog.simps)
    then show ?thesis by (blast intro: relay_starts.call)
  next
    case (event e)
    then have "w' = fst (run_prog (call_prog X fds (EventCall e)) w)" by (simp add: run_call del: call_prog.simps)
    then show ?thesis by (blast intro: relay_starts.call)
  next
    case (refresh head api r)
    then have "w' = fst (run_prog (map_prog TaskEnded (refresh_duties_prog X api slots_per_epoch head))
        (w\<lparr>w_tasks := remove1 (RefreshDutiesTask head) (w_tasks w)\<rparr>))"
      by (simp add: run_refresh_duties)
    with refresh(1) show ?thesis by (blast intro: relay_starts.refresh)
  next
    case (publish content ty)
    then have "w' = fst (run_prog (Return (TaskEnded (Ok ())))
        (w\<lparr>w_tasks := remove1 (PublishTask content ty) (w_tasks w)\<rparr>))" by simp
    with publish(2) show ?thesis by (blast intro: relay_starts.publish)
  qed
  then obtain v p where p: "relay_starts X fds slots_per_epoch w v p" "w' = fst (run_prog p v)" by blast
  from concurrent_starts [OF ps(1) p(1)] ps(2) show ?case
    unfolding p(2) by (intro exI [of _ "ps @ [Return (snd (run_prog p v))]"]) auto
qed

section \<open>Properties\<close>



text \<open>
  C9. Whatever the interleaving of requests, calls, events and tasks, at every moment: a best bid is stored
  under its own slot, parent hash and proposer, is not zero and was signed by a whitelisted builder; a
  registration and the one of a duty were signed by the key they name; a payload that is kept for a
  proposer is that of such a bid; and what is published is a block signed by the registered proposer of
  a duty for its slot with the payload of such a bid.
\<close>

theorem concurrent_state:
  assumes "concurrent X fds slots_per_epoch builders (w, ps)"
  shows "(read_best_bid in_memory_storage (w_store w) slot h v = Some b \<longrightarrow>
      bid_key b = (slot, h, v) \<and> sound_bid X fds (set builders) b) \<and>
    (read_validator_registration in_memory_storage (w_store w) k = Some r \<longrightarrow>
      reg_key r = k \<and> sound_registration X fds r) \<and>
    (find_duty_by_slot in_memory_storage (w_store w) slot = Some d \<longrightarrow>
      val_slot d = slot \<and> sound_registration X fds (val_entry d)) \<and>
    (read_blinded_block_response in_memory_storage (w_store w) k = Some resp \<longrightarrow>
      (\<exists>b. sound_bid X fds (set builders) b \<and> resp = to_blinded_block_response b)) \<and>
    (\<forall>t\<in>set (w_tasks w). sound_task X fds (set builders) t)"
proof -
  have inv: "world_inv X fds (set builders) w" using concurrent_safe [OF assms] by blast
  have "ims_read_validator_registration (w_store w) k = Some r \<Longrightarrow> reg_key r = k"
    using inv by (auto simp: world_inv_def store_inv_def abs_in_memory_def ims_reader_defs)
  then show ?thesis
    using inv world_inv_reads(3-6) [OF inv] by (auto simp: world_inv_def)
qed

text \<open>
  C10. And so are the replies, whatever ran in between: a header is that of a bid for the slot, parent hash
  and proposer that were asked for, which a whitelisted builder signed, and carries the signature of
  the relay; a payload is that of such a bid; the duties carry signed registrations and the bids are
  such bids.
\<close>

theorem concurrent_replies:
  assumes "concurrent X fds slots_per_epoch builders (w, ps)"
    and "Return (HttpReply env req (Some reply)) \<in> set ps"
  shows "case rp_body reply of
      JsonHeader vh \<Rightarrow>
        (\<exists>slot h k b. req = GetHeader slot h k \<and> bid_key b = (slot, h, k) \<and>
           sound_bid X fds (set builders) b \<and>
           hd_header (sh_message (ver_data vh)) = header_from_payload X (bs_execution_payload b) \<and>
           hd_value (sh_message (ver_data vh)) = bt_value (bid_trace b) \<and>
           sh_signature (ver_data vh) = BlsSigner_sign X (su_signer env)
             (Header_tree_hash_root X (sh_message (ver_data vh))))
    | JsonBlindedBlock vr \<Rightarrow>
        (\<exists>b. sound_bid X fds (set builders) b \<and> ver_data vr = to_blinded_block_response b)
    | JsonDuties ds \<Rightarrow> (\<forall>d\<in>set ds. sound_registration X fds (val_entry d))
    | JsonBids bs \<Rightarrow> (\<forall>b\<in>set bs. sound_bid X fds (set builders) b)
    | _ \<Rightarrow> True"
proof -
  have "sound_outcome X fds (set builders) (HttpReply env req (Some reply))"
    using concurrent_safe [OF assms(1)] assms(2) by blast
  then show ?thesis
    by (fastforce split: ReplyBody.splits dest: SignedHeader_try_from_eq_Ok(1,2,5))
qed


end
