(* ===== verification/Metrics_Consistency.thy ===== *)
theory Metrics_Consistency
  imports Concurrency
begin

text \<open>
  The metrics against the storage. The gauges repeat what the storage holds and a counter counts what
  is delivered; as long as handlers run one after the other they agree, and as soon as two handlers
  overlap the gauge of the registered validators can be left behind.
\<close>

section \<open>One handler after the other\<close>

text \<open>Block and slot of the chain metrics are those of the stored attributes.\<close>

definition chain_consistent :: "relay_world \<Rightarrow> bool" where
  "chain_consistent w \<longleftrightarrow>
     ch_proposal_slot (rm_chain (w_recorder w)) = pa_proposal_slot (im_payload_attributes (w_store w)) \<and>
     ch_block (rm_chain (w_recorder w)) = pa_parent_block_number (im_payload_attributes (w_store w))"

text \<open>The change of a world agrees: a counter with its list, and a gauge with its map.\<close>

definition metrics_follow :: "relay_world \<Rightarrow> relay_world \<Rightarrow> bool" where
  "metrics_follow w w' \<longleftrightarrow>
     rl_blinded_blocks (rm_relay (w_recorder w')) + length (im_delivered_blocks (w_store w))
       = rl_blinded_blocks (rm_relay (w_recorder w)) + length (im_delivered_blocks (w_store w')) \<and>
     (im_validator_registrations (w_store w') = im_validator_registrations (w_store w) \<and>
      rl_registered_validators (rm_relay (w_recorder w'))
        = rl_registered_validators (rm_relay (w_recorder w)) \<or>
      rl_registered_validators (rm_relay (w_recorder w'))
        = Mapping.size (im_validator_registrations (w_store w'))) \<and>
     (chain_consistent w \<longrightarrow> chain_consistent w')"

lemma on_recorder [simp]:
  "rm_chain (w_recorder (spawn t w)) = rm_chain (w_recorder w)"
  "rm_relay (w_recorder (spawn t w)) = rm_relay (w_recorder w)"
  by simp_all

lemma post_bids_commit_metrics: "metrics_follow w (post_bids_commit in_memory_storage b d w)"
  by (simp add: metrics_follow_def chain_consistent_def post_bids_commit_def ims_set_best_bid_def
      ims_set_blinded_block_response_def Let_def)

lemma metrics_follow_refl [simp]: "metrics_follow w w"
  by (simp add: metrics_follow_def)

lemma metrics_follow_blinded_blocks:
  "metrics_follow w (fst (blinded_blocks_handler X in_memory_storage sb t w))"
  by (simp add: blinded_blocks_handler_def ims_set_delivered_blocks_def Let_def metrics_follow_def
      chain_consistent_def inc_blinded_blocks_def set_blinded_block_latency_def split: res.split)

lemma metrics_follow_get_header:
  "metrics_follow w (fst (get_header_handler X in_memory_storage signer slot h k t w))"
  by (simp add: get_header_handler_def Let_def metrics_follow_def chain_consistent_def metrics_defs
      split: res.split option.split)

lemma metrics_follow_post_validators:
  "metrics_follow w (fst (post_validators_handler X in_memory_storage known regs w))"
  by (simp add: post_validators_handler_eq ims_set_validator_registrations_def Let_def metrics_follow_def
      chain_consistent_def set_registered_validators_def)

lemma metrics_follow_post_bids: "metrics_follow w (fst (post_bids_handler X in_memory_storage b w))"
  using post_bids_in_memory [of X b w] by (auto simp: post_bids_commit_metrics)

lemma metrics_follow_submit_block:
  "metrics_follow w (fst (submit_block X (RelayGrpcService_new in_memory_storage fds) req w))"
  by (rule submit_block_cases [where X = X and w = w and req = req
        and self = "RelayGrpcService_new in_memory_storage fds"])
    (simp_all add: metrics_follow_def chain_consistent_def update_best_def ims_set_best_bid_def
      ims_set_blinded_block_response_def Let_def RelayGrpcService_new_def)

lemma metrics_follow_dispatch: "metrics_follow w (fst (dispatch X in_memory_storage env req w))"
proof -
  have filtered: "metrics_follow w (fst (filtered r h w))" if "\<And>a. metrics_follow w (fst (h a))"
    for r :: "('a, Rejection) res" and h
    using filtered_cases [of r h w] that by auto
  show ?thesis
    by (cases req) (auto simp: status_handler_def get_validators_handler_def
        intro!: filtered metrics_follow_post_bids metrics_follow_blinded_blocks
          metrics_follow_get_header metrics_follow_post_validators)
qed

lemma metrics_follow_step:
  assumes "relay_step X fds n w w'"
  shows "metrics_follow w w'"
  using assms
proof (cases rule: relay_step.cases)
  case (http env req reply)
  then show ?thesis using metrics_follow_dispatch serve_fst by (metis fst_conv)
next
  case (grpc request reply)
  then show ?thesis using metrics_follow_submit_block by (metis fst_conv)
next
  case (event e)
  then show ?thesis
    by (auto simp: on_event_def metrics_follow_def chain_consistent_def ims_setter_defs
        ims_record_relayed_block_def metrics_defs Let_def split: BeaconEvent.split)
next
  case (refresh head api r)
  let ?w = "w\<lparr>w_tasks := remove1 (RefreshDutiesTask head) (w_tasks w)\<rparr>"
  have "metrics_follow w (fst (refresh_duties X in_memory_storage api n head ?w))"
    by (auto simp: refresh_duties_def metrics_follow_def chain_consistent_def
        ims_set_proposer_duties_def Let_def split: res.split)
  with refresh show ?thesis by simp
next
  case (publish content ty)
  then show ?thesis by (simp add: metrics_follow_def chain_consistent_def)
qed

section \<open>Properties\<close>

text \<open>
  C24. In every world that handlers reach one after the other, the chain metrics are block and slot of the
  stored attributes; and every further step counts one delivered block for each hash it records, and
  leaves the gauge of the registered validators alone or at the size of the map it stores.
\<close>

theorem metrics_consistent:
  assumes "reachable X fds slots_per_epoch builders w" and "relay_step X fds slots_per_epoch w w'"
  shows "chain_consistent w \<and> chain_consistent w' \<and>
    rl_blinded_blocks (rm_relay (w_recorder w')) + length (im_delivered_blocks (w_store w))
      = rl_blinded_blocks (rm_relay (w_recorder w)) + length (im_delivered_blocks (w_store w')) \<and>
    (rl_registered_validators (rm_relay (w_recorder w)) = Mapping.size (im_validator_registrations (w_store w))
     \<longrightarrow> rl_registered_validators (rm_relay (w_recorder w'))
       = Mapping.size (im_validator_registrations (w_store w')))"
proof -
  have "chain_consistent w"
    using assms(1)
  proof (induction rule: reachable.induct)
    case (step w w')
    then show ?case using metrics_follow_step [OF step.hyps(2)] by (simp add: metrics_follow_def)
  qed (simp add: chain_consistent_def InMemoryStorage_new_def Let_def metrics_defs)
  then show ?thesis using metrics_follow_step [OF assms(2)] unfolding metrics_follow_def by auto
qed

text \<open>
  Two registrations that overlap can leave the gauge of the registered validators at the size of a map
  that is no longer stored: the storage releases its lock between the write of the map and that of the
  gauge. One after the other they cannot.
\<close>

theorem registered_gauge_race:
  "(\<exists>w'. (server_step starts)\<^sup>*\<^sup>*
      (w, [set_validator_registrations_prog m1, set_validator_registrations_prog m2])
      (w', [Return (), Return ()]) \<and>
    im_validator_registrations (w_store w') = m2 \<and>
    rl_registered_validators (rm_relay (w_recorder w')) = Mapping.size m1) \<and>
   (let w' = fst (run_prog (set_validator_registrations_prog m2)
               (fst (run_prog (set_validator_registrations_prog m1) w)))
    in im_validator_registrations (w_store w') = m2 \<and>
       rl_registered_validators (rm_relay (w_recorder w')) = Mapping.size m2)"
proof -
  let ?set = "\<lambda>m. on_store (\<lambda>s. s\<lparr>im_validator_registrations := m\<rparr>) :: relay_world \<Rightarrow> relay_world"
  let ?gauge = "\<lambda>m. on_relay (set_registered_validators (Mapping.size m)) :: relay_world \<Rightarrow> relay_world"
  have p: "set_validator_registrations_prog m = Write (?set m) (Write (?gauge m) (Return ()))" for m
    by (simp add: set_validator_registrations_prog_def put_def)
  have turn: "server_step starts (v, ps) (fst (prog_step (ps ! i) v), ps[i := snd (prog_step (ps ! i) v)])"
    if "i < length ps" for i v and ps :: "unit relay_prog list"
    by (rule server_step.turn [OF that]) simp
  have "(server_step starts)\<^sup>*\<^sup>*
      (w, [set_validator_registrations_prog m1, set_validator_registrations_prog m2])
      (?gauge m1 (?gauge m2 (?set m2 (?set m1 w))), [Return (), Return ()])"
    unfolding p
    using turn [of 0 "[Write (?set m1) (Write (?gauge m1) (Return ())),
        Write (?set m2) (Write (?gauge m2) (Return ()))]" w]
      turn [of 1 "[Write (?gauge m1) (Return ()), Write (?set m2) (Write (?gauge m2) (Return ()))]"
        "?set m1 w"]
      turn [of 1 "[Write (?gauge m1) (Return ()), Write (?gauge m2) (Return ())]" "?set m2 (?set m1 w)"]
      turn [of 0 "[Write (?gauge m1) (Return ()), Return ()]" "?gauge m2 (?set m2 (?set m1 w))"]
    by (simp add: converse_rtranclp_into_rtranclp)
  then show ?thesis
    by (auto intro!: exI [of _ "?gauge m1 (?gauge m2 (?set m2 (?set m1 w)))"]
        simp: run_storage_progs ims_set_validator_registrations_def set_registered_validators_def Let_def)
qed

end
