(* ===== verification/Concurrent_Witnesses.thy ===== *)
theory Concurrent_Witnesses
  imports Run_Witnesses Metrics_Consistency Grpc_Wire
begin

text \<open>
  The properties of the concurrent relay, of the metrics and of the gRPC transport, applied to the run
  of \<open>Run_Witnesses\<close> and to a transport that hands messages over as they are.
\<close>

section \<open>Interleaved handlers\<close>


theorem concurrent_state_witness:
  "sound_bid toy_externs demo_fork {demo_builder} (demo_bid 1 1000) \<and>
   sound_task toy_externs demo_fork {demo_builder} (hd (w_tasks run6))"
proof -
  obtain ps qs where "concurrent toy_externs demo_fork 32 [demo_builder] (run5, ps)"
    "concurrent toy_externs demo_fork 32 [demo_builder] (run6, qs)"
    using reachable_concurrent [OF run_reachable(2)] reachable_concurrent [OF run_reachable(3)] by blast
  from concurrent_state [OF this(1), where slot = 11 and h = "B256 (replicate 32 9)" and v = demo_proposer
      and b = "demo_bid 1 1000"] concurrent_state [OF this(2)] run5_best run6_task
  show ?thesis by simp
qed

theorem concurrent_replies_witness:
  "sound_registration toy_externs demo_fork (val_entry demo_duty)"
proof -
  obtain ps where ps: "concurrent toy_externs demo_fork 32 [demo_builder] (run4, ps)"
    using reachable_concurrent [OF run_reachable(1)] by blast
  let ?call = "call_prog toy_externs demo_fork (HttpCall demo_env GetValidators)"
  have reply: "snd (run_prog ?call run4)
      = HttpReply demo_env GetValidators (Some (reply_json (JsonDuties [demo_duty])))"
    by (simp add: run_get_validators get_validators_handler_def ims_reader_defs run4_eq)
  have "concurrent toy_externs demo_fork 32 [demo_builder]
      (fst (run_prog ?call run4), ps @ [Return (snd (run_prog ?call run4))])"
    by (rule concurrent_starts [OF ps relay_starts.call])
  from concurrent_replies [OF this, where reply = "reply_json (JsonDuties [demo_duty])"
      and env = demo_env and req = GetValidators]
  show ?thesis unfolding reply by (simp add: reply_json_def)
qed


section \<open>Metrics\<close>

theorem metrics_consistent_witness:
  "chain_consistent run4 \<and> chain_consistent run5"
proof -
  have "relay_step toy_externs demo_fork 32 run4 run5"
    unfolding run5_def by (rule relay_step.http [OF prod.collapse [symmetric]])
  from metrics_consistent [OF run_reachable(1) this] show ?thesis by simp
qed

section \<open>A transport\<close>

definition plain_decode :: "UnaryConfig \<Rightarrow> SubmitBlockRequest \<Rightarrow> (SubmitBlockRequest, TonicStatus) res" where
  "plain_decode cfg msg = Ok msg"

definition plain_encode ::
    "UnaryConfig \<Rightarrow> (SubmitBlockResponse, TonicStatus) res
     \<Rightarrow> (SubmitBlockResponse, TonicStatus) res GrpcHttpResponse" where
  "plain_encode cfg r = \<lparr>gr_status = 200, gr_headers = [], gr_body = r\<rparr>"

definition plain_unary ::
    "(relay_world, SubmitBlockRequest, (SubmitBlockResponse, TonicStatus) res) unary" where
  "plain_unary cfg f req w =
     (case f (gq_body req) w of
        (w', Panic m) \<Rightarrow> (w', Panic m)
      | (w', r) \<Rightarrow> (w', Ok (plain_encode cfg (res_map_err wire_status r))))"

definition broken_pipe :: "string \<Rightarrow> TonicStatus" where
  "broken_pipe m = \<lparr>ts_code = 13, ts_message = m\<rparr>"

definition plain_channel ::
    "(SubmitBlockRequest GrpcHttpRequest \<Rightarrow> relay_world \<Rightarrow>
       relay_world \<times> ((SubmitBlockResponse, TonicStatus) res GrpcHttpResponse, string) res)
     \<Rightarrow> relay_world GrpcChannel" where
  "plain_channel server =
     \<lparr>gc_ready = Ok (),
      gc_unary = (\<lambda>req path w.
        case server \<lparr>gq_path = path, gq_body = cr_message req\<rparr> w of
          (w', Ok resp) \<Rightarrow> (w', gr_body resp)
        | (w', Err e) \<Rightarrow> (w', Err (broken_pipe e))
        | (w', Panic m) \<Rightarrow> (w', Err (broken_pipe m)))\<rparr>"

definition demo_server :: "InMemoryStorageInner RelayGrpcService MevRelayServer" where
  "demo_server = MevRelayServer_accept_compressed Gzip
     (MevRelayServer_new (RelayGrpcService_new in_memory_storage demo_fork))"

definition empty_request :: SubmitBlockRequest where
  "empty_request = \<lparr>req_bid_trace = None, req_execution_payload = None, req_signature = [],
     req_blobs_bundle = None\<rparr>"

lemma plain_transport:
  "unary_documented plain_decode plain_encode plain_unary"
  "codec_documented plain_decode plain_encode (\<lambda>msg. msg) gr_body cfg"
  "channel_documented (\<lambda>msg. msg) gr_body broken_pipe server (plain_channel server)"
  by (simp_all add: unary_documented_def codec_documented_def channel_documented_def plain_decode_def
      plain_encode_def plain_unary_def plain_channel_def split: prod.split res.split)


theorem other_paths_witness:
  "MevRelayServer_call plain_unary (Ok \<lparr>resp_code = 0, resp_message = []\<rparr>) (submit_block toy_externs)
       demo_server \<lparr>gq_path = ''/mevrelay.MevRelay/Submit'', gq_body = empty_request\<rparr> run4
     = (run4, Ok \<lparr>gr_status = 200,
          gr_headers = [(''grpc-status'', ''12''), (''content-type'', ''application/grpc'')],
          gr_body = Ok \<lparr>resp_code = 0, resp_message = []\<rparr>\<rparr>) \<and>
   MevRelayClient_submit_block (MevRelayClient_new \<lparr>gc_ready = Err ''refused'',
       gc_unary = gc_unary (plain_channel (\<lambda>req w. (w, Err [])))\<rparr>) empty_request run4
     = (run4, Err \<lparr>ts_code = 2, ts_message = ''Service was not ready: refused''\<rparr>)"
  using other_paths_unimplemented [of "\<lparr>gq_path = ''/mevrelay.MevRelay/Submit'', gq_body = empty_request\<rparr>"
      plain_unary "Ok \<lparr>resp_code = 0, resp_message = []\<rparr>" "submit_block toy_externs" demo_server run4
      "\<lparr>gc_ready = Err ''refused'', gc_unary = gc_unary (plain_channel (\<lambda>req w. (w, Err [])))\<rparr>"
      "''refused''" empty_request]
  by (simp add: MevRelayServer_NAME_def)

end
