(* ===== verification/Codec_Witnesses.thy ===== *)
theory Codec_Witnesses
  imports Concurrent_Witnesses Codec_Laws Http_Routing
begin

text \<open>The properties of the encodings and of the routes, applied to the examples.\<close>

section \<open>Encodings\<close>

definition demo_secret :: BlsSecretKey where "demo_secret = BlsSecretKey (1 # replicate 31 0)"

lemma demo_secret_generated: "generated toy_externs demo_secret"
  unfolding generated_def BlsSecretKey_random_eq_Ok
  by (rule exI [of _ "replicate 32 0"]) (simp add: toy_key_gen_def demo_secret_def)

lemma toy_sig_neq_infinity [simp]: "toy_sig pk msg \<noteq> INFINITY_SIGNATURE"
  by (auto simp: toy_sig_def INFINITY_SIGNATURE_def)

theorem keys_roundtrip_witness:
  "BlsPublicKey_of_str toy_externs (BlsPublicKey_to_string toy_externs
     (BlsSecretKey_public_key toy_externs demo_secret)) = Ok (BlsSecretKey_public_key toy_externs demo_secret)"
  using keys_roundtrip [OF toy_keys toy_documented(6,5) demo_secret_generated, of "replicate 32 7"] by simp

theorem key_lists_decode_witness:
  "BlsPublicKey_from_ssz_bytes toy_externs (take 48 (drop (1 * 48)
     (fold BlsPublicKey_ssz_append [demo_builder, demo_proposer] []))) = Ok demo_proposer"
proof -
  have neq: "replicate 48 1 \<noteq> INFINITY_PUBLIC_KEY" "replicate 48 2 \<noteq> INFINITY_PUBLIC_KEY"
    by (auto simp: INFINITY_PUBLIC_KEY_def dest!: arg_cong [of _ _ hd])
  have keys: "\<forall>k\<in>set [demo_builder, demo_proposer]. valid_key toy_externs k"
    using neq by (simp add: valid_key_def demo_builder_def demo_proposer_def)
  have signatures: "\<forall>s\<in>set [BlsSignature_empty]. valid_signature toy_externs s"
    by (simp add: valid_signature_def BlsSignature_empty_def)
  have "1 < length [demo_builder, demo_proposer]" "0 < length [BlsSignature_empty]" by simp_all
  note decoded = key_lists_decode [OF keys signatures this]
  have "[demo_builder, demo_proposer] ! 1 = demo_proposer" by simp
  with decoded show ?thesis by metis
qed

text \<open>A hasher that keeps what it takes, and cuts it to 32 bytes.\<close>

definition cut :: "nat \<Rightarrow> bytes \<Rightarrow> Hash256" where "cut n bs = take 32 (bs @ replicate 32 0)"

definition plain_hasher :: "(nat \<times> bytes) MerkleHasher" where
  "plain_hasher = \<lparr>mh_with_leaves = (\<lambda>n. (n, [])),
     mh_write = (\<lambda>(n, bs) new. if length bs + length new \<le> 32 * n then Ok (n, bs @ new) else Err ''full''),
     mh_finish = (\<lambda>(n, bs). Ok (cut n bs))\<rparr>"

definition cut_externs :: externs where
  "cut_externs = toy_externs\<lparr>th_merkle_root := (\<lambda>bs n. cut n bs)\<rparr>"

theorem vec_tree_hash_root_witness:
  "vec_tree_hash_root plain_hasher (U256_TreeHash cut_externs) 4 [U256 7, U256 8]
     = Ok (cut 4 (concat (map (U256_tree_hash_root cut_externs) [U256 7, U256 8])))"
proof -
  have H: "hasher_documented plain_hasher (\<lambda>h. h) cut"
    by (auto simp: hasher_documented_def plain_hasher_def)
  have slices: "u256_slices cut_externs"
    by (simp add: u256_slices_def cut_externs_def toy_externs_def)
  have keys: "\<forall>k\<in>set [demo_builder]. length (BlsPublicKey_tree_hash_root cut_externs k) = 32"
    by (simp add: BlsPublicKey_tree_hash_root_def cut_externs_def cut_def)
  show ?thesis
    using vec_tree_hash_root_total [OF H _ _ _ slices keys, of "[U256 7, U256 8]" 4 "[]"] by simp
qed

definition quote_decimal :: "u64 \<Rightarrow> Json" where
  "quote_decimal v = JString (nat_to_string (unat v))"

fun unquote_all :: "Json \<Rightarrow> (u64 list, DeError) res" where
  "unquote_all (JSeq js) = res_mapM (\<lambda>j. res_bind (deserialize_str j) (\<lambda>s. Ok (of_nat (dec_value s)))) js"
| "unquote_all _ = Err DeInvalidType"

theorem json_lists_witness:
  "quoted_list_deserialize toy_externs unquote_all (\<lambda>n. ''too long'') 2
     (quoted_list_serialize quote_decimal [1, 2, 3]) = Err (DeCustom ''invalid length: too long'')"
proof -
  have "serde_hex_encode toy_externs bs = ''0x'' @ hex_encode toy_externs bs" for bs
    by (simp add: toy_externs_def)
  moreover have "unquote_all (JSeq (map quote_decimal vs)) = Ok vs" for vs
    by (induction vs) (simp_all add: quote_decimal_def dec_nat_to_string)
  ultimately show ?thesis
    using json_lists_roundtrip [OF toy_documented(5,4), where visitor = unquote_all
        and quote = quote_decimal and n = 2 and vs = "[1, 2, 3]" and debug = "\<lambda>n. ''too long''"] by simp
qed

section \<open>Routes\<close>

definition demo_decoders :: Decoders where
  "demo_decoders =
     \<lparr>de_blinded_block = (\<lambda>bs. Some (demo_block (header_from_payload toy_externs (demo_payload 1)))),
      de_registrations = (\<lambda>bs. Some [demo_registration]),
      de_submission = (\<lambda>bs. if bs = [1] then Some (demo_bid 1 1000) else None),
      de_api_key = (\<lambda>q. if take 8 q = ''api_key='' then Some (drop 8 q) else None),
      de_params = (\<lambda>q. Some \<lparr>qp_slot = None, qp_block_number = None\<rparr>)\<rparr>"

definition demo_post :: "string list \<Rightarrow> HttpRequest" where
  "demo_post path = \<lparr>hq_method = POST, hq_path = path, hq_query = None, hq_content_type = None,
     hq_content_length = Some 1, hq_body = [1]\<rparr>"


definition demo_get :: HttpRequest where
  "demo_get = (demo_post [''relay'', ''v1'', ''builder'', ''blocks''])\<lparr>hq_method := GET\<rparr>"


end
