(* ===== verification/Json_Witnesses.thy ===== *)
theory Json_Witnesses
  imports Json_Types Codec_Witnesses
begin

text \<open>
  Bytes of JSON values that read back, and the properties of the JSON of the API applied to the example.
  A plain string is its characters between quotes; any other value is a zero byte and the instructions
  that build it on a stack, two bytes each.
\<close>

section \<open>Bytes of JSON values\<close>

datatype Op =
    PushString | AddChar char | PushNumber | Increment | PushBool bool
  | PushSeq | AddElement | PushObject | AddMember | PushOther

fun json_ops :: "Json \<Rightarrow> Op list" where
  "json_ops (JString s) = PushString # map AddChar s"
| "json_ops (JNumber n) = PushNumber # replicate n Increment"
| "json_ops (JBool b) = [PushBool b]"
| "json_ops (JSeq js) = PushSeq # concat (map (\<lambda>j. json_ops j @ [AddElement]) js)"
| "json_ops (JObject fs) =
     PushObject # concat (map (\<lambda>(n, j). PushString # map AddChar n @ json_ops j @ [AddMember]) fs)"
| "json_ops JOther = [PushOther]"

fun exec_op :: "Json list \<Rightarrow> Op \<Rightarrow> Json list" where
  "exec_op st PushString = JString [] # st"
| "exec_op (JString s # st) (AddChar c) = JString (s @ [c]) # st"
| "exec_op st PushNumber = JNumber 0 # st"
| "exec_op (JNumber n # st) Increment = JNumber (Suc n) # st"
| "exec_op st (PushBool b) = JBool b # st"
| "exec_op st PushSeq = JSeq [] # st"
| "exec_op (j # JSeq js # st) AddElement = JSeq (js @ [j]) # st"
| "exec_op st PushObject = JObject [] # st"
| "exec_op (j # JString n # JObject fs # st) AddMember = JObject (fs @ [(n, j)]) # st"
| "exec_op st PushOther = JOther # st"
| "exec_op st _ = st"

fun op_bytes :: "Op \<Rightarrow> bytes" where
  "op_bytes PushString = [0, 0]"
| "op_bytes (AddChar c) = [1, of_char c]"
| "op_bytes PushNumber = [2, 0]"
| "op_bytes Increment = [3, 0]"
| "op_bytes (PushBool b) = [4, if b then 1 else 0]"
| "op_bytes PushSeq = [5, 0]"
| "op_bytes AddElement = [6, 0]"
| "op_bytes PushObject = [7, 0]"
| "op_bytes AddMember = [8, 0]"
| "op_bytes PushOther = [9, 0]"

definition op_of :: "u8 \<Rightarrow> u8 \<Rightarrow> Op" where
  "op_of a b =
     (if a = 0 then PushString else if a = 1 then AddChar (char_of (unat b)) else if a = 2 then PushNumber
      else if a = 3 then Increment else if a = 4 then PushBool (b = 1) else if a = 5 then PushSeq
      else if a = 6 then AddElement else if a = 7 then PushObject else if a = 8 then AddMember
      else PushOther)"

fun ops_of :: "bytes \<Rightarrow> Op list" where
  "ops_of (a # b # bs) = op_of a b # ops_of bs"
| "ops_of _ = []"

definition demo_render :: "Json \<Rightarrow> bytes" where
  "demo_render j =
     (case j of
        JString s \<Rightarrow> if plain_text s then ascii (CHR 0x22 # s @ [CHR 0x22])
                     else 0 # concat (map op_bytes (json_ops j))
      | _ \<Rightarrow> 0 # concat (map op_bytes (json_ops j)))"

definition demo_parse :: "bytes \<Rightarrow> (Json, string) res" where
  "demo_parse bs =
     (if bs = [] then Err ''EOF''
      else if hd bs = 0x22 then Ok (JString (map (\<lambda>b. char_of (unat b)) (butlast (tl bs))))
      else case foldl exec_op [] (ops_of (tl bs)) of [j] \<Rightarrow> Ok j | _ \<Rightarrow> Err ''expected value'')"

lemma char_byte [simp]: "char_of (unat (of_char c :: u8)) = c"
proof -
  have "unat (of_nat n :: u8) = n" if "n < 256" for n
    using that by (simp add: unat_of_nat take_bit_nat_eq_self)
  moreover have "(of_char c :: u8) = of_nat (of_char c)" by (simp add: of_char_def)
  ultimately have "unat (of_char c :: u8) = of_char c" by simp
  then show ?thesis by simp
qed

lemma ops_of_bytes: "ops_of (concat (map op_bytes ops)) = ops"
proof -
  have "ops_of (op_bytes op @ bs) = op # ops_of bs" for op bs
    by (cases op) (simp_all add: op_of_def)
  then show ?thesis by (induction ops) simp_all
qed

lemma run_chars: "foldl exec_op (JString s # st) (map AddChar cs) = JString (s @ cs) # st"
  by (induction cs arbitrary: s) simp_all

lemma run_json: "foldl exec_op st (json_ops j) = j # st"
proof (induction j arbitrary: st)
  case (JString s)
  then show ?case by (simp add: run_chars)
next
  case (JNumber n)
  have "foldl exec_op (JNumber m # st) (replicate n Increment) = JNumber (m + n) # st" for m
    by (induction n arbitrary: m) simp_all
  then show ?case by simp
next
  case (JSeq js)
  then have "foldl exec_op (JSeq is # st) (concat (map (\<lambda>j. json_ops j @ [AddElement]) js))
      = JSeq (is @ js) # st" for "is"
    by (induction js arbitrary: "is") simp_all
  then show ?case by simp
next
  case (JObject fs)
  have "foldl exec_op (JObject gs # st) (concat (map (\<lambda>(n, j). PushString # map AddChar n @ json_ops j @ [AddMember]) fs))
      = JObject (gs @ fs) # st" for gs
    using JObject
  proof (induction fs arbitrary: gs)
    case (Cons p fs)
    obtain n j where p: "p = (n, j)" by (cases p)
    have "foldl exec_op st' (json_ops j) = j # st'" for st'
      using Cons.prems [of p j] p by (simp add: snds.simps)
    moreover have "foldl exec_op (JObject (gs @ [p]) # st)
        (concat (map (\<lambda>(n, j). PushString # map AddChar n @ json_ops j @ [AddMember]) fs))
      = JObject ((gs @ [p]) @ fs) # st"
      by (rule Cons.IH) (use Cons.prems in auto)
    ultimately show ?case by (simp add: p run_chars)
  qed simp
  then show ?case by simp
qed simp_all

lemma demo_texts: "json_texts demo_parse demo_render"
proof -
  have "demo_parse (0 # concat (map op_bytes (json_ops j))) = Ok j" for j
    by (simp add: demo_parse_def ops_of_bytes run_json)
  moreover have "demo_parse (ascii (CHR 0x22 # s @ [CHR 0x22])) = Ok (JString s)" for s
    by (simp add: demo_parse_def ascii_def comp_def)
  ultimately show ?thesis by (auto simp: json_texts_def demo_render_def
        simp del: json_ops.simps split: Json.split)
qed

lemma toy_json: "json_env toy_externs"
  using toy_documented toy_texts toy_serde by (simp add: json_env_def)

section \<open>The example\<close>

lemma demo_keys: "valid_key toy_externs demo_builder" "valid_key toy_externs demo_proposer"
proof -
  have "replicate 48 1 \<noteq> INFINITY_PUBLIC_KEY" "replicate 48 2 \<noteq> INFINITY_PUBLIC_KEY"
    by (auto simp: INFINITY_PUBLIC_KEY_def dest!: arg_cong [of _ _ hd])
  then show "valid_key toy_externs demo_builder" "valid_key toy_externs demo_proposer"
    by (simp_all add: valid_key_def demo_builder_def demo_proposer_def)
qed

lemma demo_signature:
  "valid_signature toy_externs (BlsSignature_from_point (toy_sig pk msg) False)"
  by (simp add: valid_signature_def BlsSignature_from_point_def NONE_SIGNATURE_def SIGNATURE_BYTES_LEN_def)

lemma demo_fits:
  "fits_BidSubmission toy_externs (demo_bid 1 1000)" "fits_Validator toy_externs demo_duty"
  by (simp_all add: demo_bid_def demo_trace_def demo_payload_def demo_duty_def demo_registration_def Let_def
      fits_BidSubmission_def fits_BidTrace_def fits_ExecutionPayload_def fits_BlobsBundle_def
      fits_Validator_def fits_ValidatorRegistration_def fits_ValidatorRegistrationMessage_def
      BlobsBundle_default_def wf_B256_def wf_Address_def B256_zero_def Address_zero_def
      BidSubmission_new_def demo_keys demo_signature)

lemma render_length: "length (demo_render j) \<le> 2 * length (json_ops j) + 2"
proof -
  have two: "length (op_bytes op) = 2" for op by (cases op) simp_all
  have "length (concat (map op_bytes ops)) = 2 * length ops" for ops by (induction ops) (simp_all add: two)
  moreover have "length s \<le> 2 * length (json_ops (JString s))" for s by simp
  ultimately show ?thesis by (cases j) (simp_all add: demo_render_def ascii_def del: json_ops.simps)
qed

lemma demo_length: "length (demo_render (BidSubmission_serialize toy_externs (demo_bid 1 1000))) \<le> bids_limit"
proof -
  have number: "length (json_ops (write_u64 v)) \<le> 21" for v
    using number_width by (simp add: write_u64_def)
  have texts: "length (json_ops (B256_serialize toy_externs h)) = 3 + 2 * length (b256_bytes h)"
    "length (json_ops (Address_serialize toy_externs a)) = 3 + 2 * length (address_bytes a)"
    "length (json_ops (write_hex toy_externs bs)) = 3 + 2 * length bs"
    "length (json_ops (impl_serde_serialize (BlsPublicKey_to_string toy_externs) k)) = 3 + 2 * length (pk_serialize k)"
    "length (json_ops (impl_serde_serialize (BlsSignature_to_string toy_externs) sg)) = 3 + 2 * length (BlsSignature_serialize sg)"
    for h a bs k sg
    by (simp_all add: B256_serialize_def Address_serialize_def write_hex_def impl_serde_serialize_def
        BlsPublicKey_to_string_def BlsSignature_to_string_def toy_externs_def)
  have u256s: "length (json_ops (U256_serialize toy_externs (U256 1000))) \<le> 5"
    "length (json_ops (impl_serde_serialize (U256_to_string toy_externs) (U256 7))) \<le> 2"
    using decimal_width [of 1000 4] decimal_width [of 7 1]
    by (simp_all add: U256_serialize_def impl_serde_serialize_def U256_to_string_def toy_externs_def)
  have "length (json_ops (BidSubmission_serialize toy_externs (demo_bid 1 1000))) \<le> 4000"
    using u256s number [of 0] number [of 5] number [of 11] number [of 100] number [of 21000] number [of 30000000]
    by (simp add: BidSubmission_serialize_def to_object_def BidSubmission_fields_def
       BidTrace_serialize_def BidTrace_fields_def ExecutionPayload_serialize_def ExecutionPayload_fields_def
       BlobsBundle_serialize_def BlobsBundle_fields_def demo_bid_def demo_trace_def demo_payload_def
       BidSubmission_new_def BlobsBundle_default_def write_seq_def texts B256_zero_def Address_zero_def
       demo_builder_def demo_proposer_def BlsSignature_from_point_def BlsSignature_serialize_def)
  with render_length [of "BidSubmission_serialize toy_externs (demo_bid 1 1000)"] show ?thesis
    by (simp add: bids_limit_def)
qed

theorem json_bodies_witness:
  "RelayHttpServer_routes toy_externs in_memory_storage demo_env
     (serde_decoders toy_externs demo_parse (\<lambda>q. None) (\<lambda>q. None))
     (json_post [''relay'', ''v1'', ''builder'', ''blocks''] None
       (demo_render (BidSubmission_serialize toy_externs (demo_bid 1 1000)))) run4
     = post_bids_handler toy_externs in_memory_storage (demo_bid 1 1000) run4 \<and>
   from_body demo_parse (read_seq (Validator_deserialize toy_externs))
     (body_bytes toy_externs demo_render (JsonDuties [demo_duty])) = Some [demo_duty]"
proof -
  note delivered = json_bodies_delivered [OF toy_json demo_texts]
  have "list_all (fits_Validator toy_externs) [demo_duty]" using demo_fits(2) by simp
  with delivered [where b = "demo_bid 1 1000" and duties = "[demo_duty]"] demo_fits(1) demo_length
  show ?thesis unfolding Let_def by blast
qed

theorem blob_text_witness:
  "\<not> is_ok (BidSubmission_deserialize toy_externs (JObject [(''blobs_bundle'',
     JObject [(''commitments'', JSeq []), (''proofs'', JSeq []), (''blobs'', JSeq [JString ''0x00''])])]))"
  using blob_text_rejected [of "[(''blobs_bundle'', JObject [(''commitments'', JSeq []), (''proofs'', JSeq []),
      (''blobs'', JSeq [JString ''0x00''])])]" _ "[]" "''0x00''" "[]" toy_externs]
  by simp

end
