(* ===== verification/Versioned_Bid.thy ===== *)
theory Versioned_Bid
  imports Test_Support
begin

text \<open>
  \<open>crates/primitives/src/beacon/versioned_bid.rs\<close>, with its test: an earlier form of the signed header
  of \<open>header.rs\<close>, which no module declares any more. Its names carry a prime where the modules in use have
  the same ones. The decoder of signed transactions and the trie roots of reth are parameters.
\<close>

section \<open>Fork names\<close>

datatype ForkName' = Base' | Altair' | Merge' | Capella' | Deneb'

definition ForkName'_of_str :: "string \<Rightarrow> (ForkName', string) res" where
  "ForkName'_of_str fork_name =
     (let name = to_lowercase fork_name in
      if name = ''phase0'' \<or> name = ''base'' then Ok Base'
      else if name = ''altair'' then Ok Altair'
      else if name = ''bellatrix'' \<or> name = ''merge'' then Ok Merge'
      else if name = ''capella'' then Ok Capella'
      else if name = ''deneb'' then Ok Deneb'
      else Err (''unknown fork name: '' @ fork_name))"

definition ForkName'_try_from :: "string \<Rightarrow> (ForkName', string) res" where
  "ForkName'_try_from s = ForkName'_of_str s"

fun ForkName'_to_string :: "ForkName' \<Rightarrow> string" where
  "ForkName'_to_string Base' = ''phase0''"
| "ForkName'_to_string Altair' = ''altair''"
| "ForkName'_to_string Merge' = ''bellatrix''"
| "ForkName'_to_string Capella' = ''capella''"
| "ForkName'_to_string Deneb' = ''deneb''"

definition ForkName'_into :: "ForkName' \<Rightarrow> string" where
  "ForkName'_into fork = ForkName'_to_string fork"

section \<open>Bids\<close>

record BuilderBid =
  bbid_header :: ExecutionPayloadHeader
  bbid_value :: U256
  bbid_pubkey :: BlsPublicKey

record SignedBuilderBid =
  sbid_message :: BuilderBid
  sbid_signature :: BlsSignature

record VersionedSignedBuilderBid =
  vbid_version :: ForkName'
  vbid_data :: SignedBuilderBid

definition VersionedSignedBuilderBid_new :: "ForkName' \<Rightarrow> SignedBuilderBid \<Rightarrow> VersionedSignedBuilderBid" where
  "VersionedSignedBuilderBid_new version data = \<lparr>vbid_version = version, vbid_data = data\<rparr>"

text \<open>
  What the file uses of reth: the decoder of a signed transaction, whose error becomes \<open>AlloyRlp\<close>, and the
  two roots.
\<close>

record 't reth =
  decode_tx :: "bytes \<Rightarrow> ('t, string) res"
  calculate_transaction_root :: "'t list \<Rightarrow> bytes"
  ordered_trie_root :: "Withdrawal list \<Rightarrow> bytes"

definition ExecutionPayloadHeader_try_from ::
    "'t reth \<Rightarrow> ExecutionPayload \<Rightarrow> (ExecutionPayloadHeader, ConversionError) res" where
  "ExecutionPayloadHeader_try_from R payload =
     (let txs = res_mapM (\<lambda>t. Bytes_try_into_signed_tx (decode_tx R) (Bytes t)) (ep_transactions payload) in
      res_bind (res_map_err (\<lambda>_. AlloyRlp) txs) (\<lambda>txs.
      let tx_root = calculate_transaction_root R txs;
          withdrawls_root = ordered_trie_root R (ep_withdrawals payload)
      in Ok \<lparr>eph_parent_hash = ep_parent_hash payload,
             eph_fee_recipient = ep_fee_recipient payload,
             eph_state_root = ep_state_root payload,
             eph_receipts_root = ep_receipts_root payload,
             eph_logs_bloom = ep_logs_bloom payload,
             eph_prev_randao = ep_prev_randao payload,
             eph_block_number = ep_block_number payload,
             eph_gas_limit = ep_gas_limit payload,
             eph_gas_used = ep_gas_used payload,
             eph_timestamp = ep_timestamp payload,
             eph_extra_data = ep_extra_data payload,
             eph_base_fee_per_gas = ep_base_fee_per_gas payload,
             eph_block_hash = ep_block_hash payload,
             eph_transactions_root = B256_from tx_root,
             eph_withdrawals_root = B256_from withdrawls_root,
             eph_blob_gas_used = ep_blob_gas_used payload,
             eph_excess_blob_gas = ep_excess_blob_gas payload\<rparr>))"

definition SignedBuilderBid_try_from ::
    "'t reth \<Rightarrow> BidSubmission \<Rightarrow> (SignedBuilderBid, ConversionError) res" where
  "SignedBuilderBid_try_from R submission =
     (let signature = bs_signature submission;
          value = bt_value (bid_trace submission);
          pubkey = bt_builder_pubkey (bid_trace submission) in
      res_bind (ExecutionPayloadHeader_try_from R (bs_execution_payload submission)) (\<lambda>header.
        Ok \<lparr>sbid_message = \<lparr>bbid_header = header, bbid_value = value, bbid_pubkey = pubkey\<rparr>,
            sbid_signature = signature\<rparr>))"

section \<open>The test\<close>

definition vb_logs_bloom :: string where
  "vb_logs_bloom = ''002400000000004000220000800002000000000000000000000000000000100000000000000000100000000000000021020000000800000006000000002100040000000c0004000000000008000008200000000000000000000000008000000001040000020000020000002000000800000002000020000000022010000000000000010002001000000000020200000000000001000200880000004000000900020000000000020000000040000000000000000000000000000080000000000001000002000000000000012000200020000000000000001000000000000020000010321400000000100000000000000000000000000000400000000000000000''"

definition vb_transaction :: string where
  "vb_transaction = ''f861806482520894c245f4624f46f81024f67e7f10790a01bd7a1b3a648082fd20a0bbe2c68866e424d1c41ff602872cbe18406d1b1c81e8807fd31304b769d4f744a04fd6358a20e05661f9d6f7044aaeefe055eff2be7507f766b2bf0bfe1c3b959c''"

definition vb_hash :: string where
  "vb_hash = ''0x0000000000000000000000000000000000000000000000000000000000000001''"

definition vb_execution_payload :: "externs \<Rightarrow> Randomness \<Rightarrow> (ExecutionPayload, string) res" where
  "vb_execution_payload X rd =
     (let logs_bloom = unhex vb_logs_bloom in
      res_bind (unwrap (Bytes_of_str X vb_transaction)) (\<lambda>tx.
      res_bind (unwrap (B256_of_str X vb_hash)) (\<lambda>block_hash.
      res_bind (unwrap (B256_of_str X vb_hash)) (\<lambda>parent_hash.
      res_bind (unwrap (B256_of_str X vb_hash)) (\<lambda>prev_randao.
      res_bind (unwrap (B256_of_str X vb_hash)) (\<lambda>state_root.
      res_bind (unwrap (B256_of_str X vb_hash)) (\<lambda>receipts_root.
        Ok \<lparr>ep_parent_hash = parent_hash, ep_fee_recipient = Address_random (rd_address rd 0),
            ep_state_root = state_root, ep_receipts_root = receipts_root,
            ep_logs_bloom = bloom_bytes (Bloom_new logs_bloom), ep_prev_randao = prev_randao,
            ep_block_number = 10, ep_gas_limit = 1310, ep_gas_used = 110, ep_timestamp = 1132130,
            ep_extra_data = unhex (drop 2 TEST_EXTRA_DATA_HEX), ep_base_fee_per_gas = U256_from_u64 1000,
            ep_block_hash = block_hash, ep_transactions = [bytes_of tx], ep_withdrawals = [],
            ep_blob_gas_used = 0, ep_excess_blob_gas = 0\<rparr>)))))))"

definition exec_payload_to_exec_header :: "externs \<Rightarrow> 't reth \<Rightarrow> Randomness \<Rightarrow> ('w, unit) step" where
  "exec_payload_to_exec_header X R rd =
     step_bind (give (vb_execution_payload X rd)) (\<lambda>exec_payload.
     step_bind (give (unwrap (ExecutionPayloadHeader_try_from R exec_payload))) (\<lambda>exec_header.
     step_bind (assert_eq ''parent_hash'' (eph_parent_hash exec_header) (ep_parent_hash exec_payload)) (\<lambda>_.
     step_bind (assert_eq ''fee_recipient'' (eph_fee_recipient exec_header) (ep_fee_recipient exec_payload)) (\<lambda>_.
     step_bind (assert_eq ''state_root'' (eph_state_root exec_header) (ep_state_root exec_payload)) (\<lambda>_.
     step_bind (assert_eq ''receipts_root'' (eph_receipts_root exec_header) (ep_receipts_root exec_payload)) (\<lambda>_.
       assert_eq ''prev_randao'' (eph_prev_randao exec_header) (ep_prev_randao exec_payload)))))))"

section \<open>Lemmas\<close>

lemma fork_names_agree:
  "ForkName'_of_str s = res_bind (ForkName_of_str s) (\<lambda>f. Ok
     (case f of Base \<Rightarrow> Base' | Altair \<Rightarrow> Altair' | Merge \<Rightarrow> Merge' | Capella \<Rightarrow> Capella' | Deneb \<Rightarrow> Deneb'))"
  by (simp add: ForkName'_of_str_def ForkName_of_str_def Let_def)

lemma header_try_from_Ok:
  assumes "res_mapM (decode_tx R) (ep_transactions p) = Ok txs"
  shows "ExecutionPayloadHeader_try_from R p =
    Ok ((header_from_payload X p)\<lparr>eph_transactions_root := B256 (calculate_transaction_root R txs),
         eph_withdrawals_root := B256 (ordered_trie_root R (ep_withdrawals p))\<rparr>)"
  using assms
  by (simp add: ExecutionPayloadHeader_try_from_def Bytes_try_into_signed_tx_def header_from_payload_def B256_from_def)

lemma header_try_from_Err:
  assumes "res_mapM (decode_tx R) (ep_transactions p) = Err e"
  shows "ExecutionPayloadHeader_try_from R p = Err AlloyRlp"
  using assms by (simp add: ExecutionPayloadHeader_try_from_def Bytes_try_into_signed_tx_def)

lemma builder_bid:
  assumes "res_mapM (decode_tx R) (ep_transactions (bs_execution_payload b)) = Ok txs"
  shows "SignedBuilderBid_try_from R b =
    Ok \<lparr>sbid_message =
          \<lparr>bbid_header = (header_from_payload X (bs_execution_payload b))
             \<lparr>eph_transactions_root := B256 (calculate_transaction_root R txs),
              eph_withdrawals_root := B256 (ordered_trie_root R (ep_withdrawals (bs_execution_payload b)))\<rparr>,
           bbid_value = bt_value (bid_trace b), bbid_pubkey = bt_builder_pubkey (bid_trace b)\<rparr>,
        sbid_signature = bs_signature b\<rparr>"
  by (simp add: SignedBuilderBid_try_from_def header_try_from_Ok [OF assms, of X] Let_def)

lemma vb_hash_Ok:
  assumes "test_environment X rd"
  shows "B256_of_str X vb_hash = Ok (B256 (replicate 31 0 @ [1]))"
proof -
  let ?one = "''0000000000000000000000000000000000000000000000000000000000000001''"
  note env = test_environmentD [OF assms]
  have "hex_literal ?one" by (simp add: hex_literal_def)
  moreover have "unhex ?one = replicate 31 0 @ [1]" by (simp add: hex_value_def numeral_eq_Suc)
  ultimately have "b256_from_str X (''0x'' @ ?one) = Ok (replicate 31 0 @ [1])"
    using texts_literal(2) [OF env(4,5), of ?one] by (simp only:) simp
  then show ?thesis by (simp add: B256_of_str_def vb_hash_def)
qed

lemma vb_transaction_Ok:
  assumes "test_environment X rd"
  shows "Bytes_of_str X vb_transaction = Ok (Bytes (unhex vb_transaction))"
proof -
  have lit: "hex_literal vb_transaction" by (simp add: vb_transaction_def hex_digits_decode)
  have "trim_start_0x vb_transaction = vb_transaction" by (simp add: vb_transaction_def)
  with hex_literal_decodes [OF test_environmentD(4) [OF assms] lit]
  show ?thesis by (simp add: Bytes_of_str_def)
qed

text \<open>
  The conversion of a submission in \<open>versioned_bid.rs\<close> fails exactly when a transaction does not
  decode; otherwise its header is the header that \<open>header.rs\<close> makes of the payload but for the roots of the
  transactions and withdrawals, and its key and signature are those of the builder, where the header in use
  has the key and signature of the relay. The test of the file passes when its transaction decodes.
\<close>

theorem versioned_bid_header:
  assumes "\<And>t m. decode_tx R t \<noteq> Panic m" and "test_environment X rd"
    and "is_ok (decode_tx R (unhex vb_transaction))"
  shows "(is_ok (SignedBuilderBid_try_from R b) \<longleftrightarrow>
        list_all (\<lambda>t. is_ok (decode_tx R t)) (ep_transactions (bs_execution_payload b))) \<and>
    (SignedBuilderBid_try_from R b = Ok bid \<and> SignedHeader_try_from X b signer = Ok sh \<longrightarrow>
      hd_header (sh_message sh) = (bbid_header (sbid_message bid))
        \<lparr>eph_transactions_root := eph_transactions_root (hd_header (sh_message sh)),
         eph_withdrawals_root := eph_withdrawals_root (hd_header (sh_message sh))\<rparr> \<and>
      bbid_value (sbid_message bid) = hd_value (sh_message sh) \<and>
      bbid_pubkey (sbid_message bid) = bt_builder_pubkey (bid_trace b) \<and> sbid_signature bid = bs_signature b \<and>
      hd_pubkey (sh_message sh) = BlsSigner_public_key X signer) \<and>
    snd (exec_payload_to_exec_header X R rd w) = Ok ()"
proof -
  let ?ts = "ep_transactions (bs_execution_payload b)"
  have all: "is_ok (res_mapM (decode_tx R) ts) = list_all (\<lambda>t. is_ok (decode_tx R t)) ts"
    and no_panic: "res_mapM (decode_tx R) ts \<noteq> Panic m" for ts m
  proof (induction ts)
    case (Cons t ts)
    { case 1 show ?case using Cons assms(1) [of t]
        by (cases "decode_tx R t"; cases "res_mapM (decode_tx R) ts") auto }
    { case 2 show ?case using Cons assms(1) [of t]
        by (cases "decode_tx R t"; cases "res_mapM (decode_tx R) ts") auto }
  qed simp_all
  have "is_ok (SignedBuilderBid_try_from R b) = is_ok (res_mapM (decode_tx R) ?ts)"
  proof (cases "res_mapM (decode_tx R) ?ts")
    case (Ok txs)
    then show ?thesis by (simp add: builder_bid [OF Ok, of X])
  next
    case (Err e)
    then show ?thesis by (simp add: SignedBuilderBid_try_from_def header_try_from_Err [OF Err] Let_def)
  qed (simp add: no_panic)
  moreover have "snd (exec_payload_to_exec_header X R rd w) = Ok ()"
  proof -
    obtain t where t: "res_mapM (decode_tx R) [unhex vb_transaction] = Ok [t]"
      using assms(3) by (auto simp: is_ok_iff)
    then show ?thesis
      using vb_hash_Ok [OF assms(2)] vb_transaction_Ok [OF assms(2)]
      by (simp add: exec_payload_to_exec_header_def vb_execution_payload_def header_try_from_Ok [of R _ "[t]" X]
          header_from_payload_def Let_def)
  qed
  moreover have "hd_header (sh_message sh) = (bbid_header (sbid_message bid))
        \<lparr>eph_transactions_root := eph_transactions_root (hd_header (sh_message sh)),
         eph_withdrawals_root := eph_withdrawals_root (hd_header (sh_message sh))\<rparr> \<and>
      bbid_value (sbid_message bid) = hd_value (sh_message sh) \<and>
      bbid_pubkey (sbid_message bid) = bt_builder_pubkey (bid_trace b) \<and> sbid_signature bid = bs_signature b \<and>
      hd_pubkey (sh_message sh) = BlsSigner_public_key X signer"
    if bid: "SignedBuilderBid_try_from R b = Ok bid" and sh: "SignedHeader_try_from X b signer = Ok sh"
  proof -
    from bid calculation(1) obtain txs where "res_mapM (decode_tx R) ?ts = Ok txs"
      by (auto simp: is_ok_iff)
    from builder_bid [OF this, of X] bid sh show ?thesis
      by (auto simp: SignedHeader_try_from_def Let_def header_from_payload_def split: if_splits)
  qed
  ultimately show ?thesis by (simp add: all)
qed

end
