(* ===== verification/Unit_Tests.thy ===== *)
theory Unit_Tests
  imports Versioned_Bid
begin

text \<open>
  The unit tests of \<open>crates/primitives\<close> (head slot, registrations, signer) and of \<open>crates/storage\<close>,
  where ten thousand tasks write and read one storage. A task has no point at which it waits and the runtime
  of the test has one thread, so the tasks run one after the other; their order is an argument.
\<close>

section \<open>Head slot\<close>

definition test_is_first_slot_of_new_epoch_true :: "('w, unit) step" where
  "test_is_first_slot_of_new_epoch_true =
     (let slots_per_epoch = 32; slot = HeadSlot_from 33 in
      step_bind (give (is_first_slot_of_new_epoch slot slots_per_epoch)) (assert_that ''assertion failed''))"

definition test_is_first_slot_of_new_epoch_false :: "('w, unit) step" where
  "test_is_first_slot_of_new_epoch_false =
     (let slots_per_epoch = 32; slot = HeadSlot_from 34 in
      step_bind (give (is_first_slot_of_new_epoch slot slots_per_epoch)) (\<lambda>b.
        assert_that ''assertion failed'' (\<not> b)))"

fun each :: "('a \<Rightarrow> ('w, unit) step) \<Rightarrow> 'a list \<Rightarrow> ('w, unit) step" where
  "each f [] = give (Ok ())"
| "each f (x # xs) = step_bind (f x) (\<lambda>_. each f xs)"

definition test_epoch_calculation :: "('w, unit) step" where
  "test_epoch_calculation =
     (let slots_per_epoch = 32;
          tests = [(32, 1), (33, 1), (64, 2), (65, 2)] in
      each (\<lambda>(slot, expected_epoch).
        step_bind (give (HeadSlot_epoch (HeadSlot_from slot) slots_per_epoch)) (\<lambda>epoch.
          assert_eq ''assertion failed'' epoch expected_epoch)) tests)"

section \<open>Registrations\<close>

definition verified_sig :: "externs \<Rightarrow> Randomness \<Rightarrow> ('w, unit) step" where
  "verified_sig X rd =
     step_bind (give (BlsSigner_default X (rd_ikm rd 2))) (\<lambda>signer.
     let pubkey = BlsSigner_public_key X signer in
     step_bind (give (unwrap (Address_of_str X ''0x0000000000000000000000000000000000000001''))) (\<lambda>fee_recipient.
     let message = \<lparr>vrm_fee_recipient = fee_recipient, vrm_gas_limit = 30000000,
                    vrm_timestamp = 1711287496, vrm_pubkey = pubkey\<rparr>;
         signature = BlsSigner_sign X signer (ValidatorRegistrationMessage_tree_hash_root X message);
         validator = \<lparr>vr_message = message, vr_signature = signature\<rparr>;
         fork_data = fds_builder (sg_fork_data signer)
     in assert_that ''assertion failed'' (ValidatorRegistration_verify_signature X validator fork_data)))"

section \<open>Signer\<close>

definition can_compute_b_domain :: "externs \<Rightarrow> Randomness \<Rightarrow> ('w, unit) step" where
  "can_compute_b_domain X rd =
     step_bind (give (BlsSigner_default X (rd_ikm rd 2))) (\<lambda>signer.
     let domain = compute_builder_domain X (sg_fork_data signer);
         to_string = hex_encode X domain;
         expected = ''00000001f5a5fd42d16a20302798ef6ed309979b43003d2320d9f0e8ea9831a9'' in
     step_bind (assert_eq ''assertion failed'' to_string expected) (\<lambda>_.
     let devnet_fork_version = ''00000001e4b3c03845c9cd15780441feed2a67053b9cc4ae1547af5747433120'' in
     step_bind (give (BlsSecretKey_random X (rd_ikm rd 3))) (\<lambda>sk.
     let signer = BlsSigner_new sk (ForkDatas_new
           \<lparr>fd_current_version = ForkVersion_into (ForkVersion [0x20, 0x00, 0x00, 0x89]),
            fd_genesis_validators_root = replicate 32 0\<rparr> ForkData_default);
         domain = compute_builder_domain X (sg_fork_data signer);
         to_string = hex_encode X domain
     in assert_eq ''assertion failed'' to_string devnet_fork_version)))"

text \<open>A message with one number, whose tree hash root is that of a container of it.\<close>

record SomethingElse =
  ss_inner :: u64

definition SomethingElse_tree_hash_root :: "externs \<Rightarrow> SomethingElse \<Rightarrow> Hash256" where
  "SomethingElse_tree_hash_root X m = th_container X [th_u64 X (ss_inner m)]"

definition can_sign :: "externs \<Rightarrow> Randomness \<Rightarrow> ('w, unit) step" where
  "can_sign X rd =
     step_bind (give (BlsSecretKey_random X (rd_ikm rd 2))) (\<lambda>sk.
     let pk = BlsSecretKey_public_key X sk in
     step_bind (give (ForkDatas_default X)) (\<lambda>fork_datas.
     let signer = BlsSigner_new sk fork_datas;
         domain = compute_builder_domain X (sg_fork_data signer);
         to_sign = \<lparr>ss_inner = 0\<rparr>;
         sig = BlsSigner_sign X signer (SomethingElse_tree_hash_root X to_sign);
         is_verified = BlsSignature_verify X sig pk
           (signing_root X (SomethingElse_tree_hash_root X to_sign) domain)
     in assert_that ''assertion failed'' is_verified))"

section \<open>Storage\<close>

definition st_payload_attr :: "u64 \<Rightarrow> PayloadAttributes" where
  "st_payload_attr timestamp =
     \<lparr>pa_proposal_slot = 0, pa_parent_block_root = replicate 32 0, pa_parent_block_number = 0,
      pa_parent_block_hash = replicate 32 0, pa_proposer_index = 0, pa_timestamp = timestamp,
      pa_prev_randao = replicate 32 0, pa_suggested_fee_recipient = replicate 20 0,
      pa_withdrawals = Some [], pa_parent_beacon_block_root = None\<rparr>"

definition st_validator_registration ::
    "externs \<Rightarrow> Randomness \<Rightarrow> nat \<Rightarrow> u64 \<Rightarrow> (ValidatorRegistration, string) res" where
  "st_validator_registration X rd i timestamp =
     res_bind (test_signature X) (\<lambda>signature.
     res_bind (BlsPublicKey_random X (rd_ikm rd i)) (\<lambda>pubkey.
       Ok \<lparr>vr_message = \<lparr>vrm_fee_recipient = Address_zero, vrm_gas_limit = 0,
                         vrm_timestamp = timestamp, vrm_pubkey = pubkey\<rparr>,
           vr_signature = signature\<rparr>))"

definition st_proposer_duties ::
    "externs \<Rightarrow> Randomness \<Rightarrow> nat \<Rightarrow> u64 \<Rightarrow> (Validator list, string) res" where
  "st_proposer_duties X rd i slot =
     res_bind (st_validator_registration X rd i slot) (\<lambda>entry.
       Ok [\<lparr>val_slot = slot, val_validator_index = 0, val_entry = entry\<rparr>])"

definition assert_storage_contents ::
    "BlsPublicKey \<Rightarrow> ValidatorRegistration \<Rightarrow> Validator list \<Rightarrow> u64 \<Rightarrow> PayloadAttributes
     \<Rightarrow> (relay_world, unit) step" where
  "assert_storage_contents key registration duty slot payload =
     step_bind (look (\<lambda>s. read_validator_registration in_memory_storage s key)) (\<lambda>found.
     step_bind (assert_eq ''registration'' found (Some registration)) (\<lambda>_.
     step_bind (look (read_proposer_duties in_memory_storage)) (\<lambda>duties.
     step_bind (assert_eq ''duties'' duties duty) (\<lambda>_.
     step_bind (look (read_head_slot in_memory_storage)) (\<lambda>head.
     step_bind (assert_eq ''head slot'' head (HeadSlot_from slot)) (\<lambda>_.
     step_bind (look (read_payload_attributes in_memory_storage)) (\<lambda>attributes.
       assert_eq ''payload attributes'' attributes payload)))))))"

text \<open>Task \<open>i\<close> draws its keys from the five generators from number \<open>n\<close> on.\<close>

definition update_storage_contents ::
    "externs \<Rightarrow> Randomness \<Rightarrow> nat \<Rightarrow> u64 \<Rightarrow> BlsPublicKey \<Rightarrow> (relay_world, unit) step" where
  "update_storage_contents X rd n i key =
     step_bind (give (st_validator_registration X rd (n + 3) (i + 1))) (\<lambda>new_registration.
     step_bind (change (set_validator_registration in_memory_storage key new_registration)) (\<lambda>_.
     step_bind (give (st_proposer_duties X rd (n + 4) (i + 1))) (\<lambda>new_duty.
     step_bind (change (set_proposer_duties in_memory_storage new_duty)) (\<lambda>_.
     let new_slot = i + 1 in
     step_bind (change (set_head_slot in_memory_storage (HeadSlot_from new_slot))) (\<lambda>_.
     let new_payload = st_payload_attr (i + 1) in
     step_bind (change (set_payload_attributes in_memory_storage new_payload)) (\<lambda>_.
       assert_storage_contents key new_registration new_duty new_slot new_payload))))))"

definition perform_storage_operations ::
    "externs \<Rightarrow> Randomness \<Rightarrow> nat \<Rightarrow> u64 \<Rightarrow> (relay_world, unit) step" where
  "perform_storage_operations X rd n i =
     step_bind (give (BlsPublicKey_random X (rd_ikm rd n))) (\<lambda>key.
     step_bind (give (st_validator_registration X rd (n + 1) i)) (\<lambda>registration.
     step_bind (give (st_proposer_duties X rd (n + 2) i)) (\<lambda>duty.
     let slot = i; payload = st_payload_attr i in
     step_bind (change (set_validator_registration in_memory_storage key registration)) (\<lambda>_.
     step_bind (change (set_proposer_duties in_memory_storage duty)) (\<lambda>_.
     step_bind (change (set_head_slot in_memory_storage (HeadSlot_from slot))) (\<lambda>_.
     step_bind (change (set_payload_attributes in_memory_storage payload)) (\<lambda>_.
     step_bind (assert_storage_contents key registration duty slot payload) (\<lambda>_.
       update_storage_contents X rd n i key))))))))"

definition can_store_under_high_concurrency ::
    "externs \<Rightarrow> Randomness \<Rightarrow> RelayMetrics \<Rightarrow> nat list \<Rightarrow> (unit, string) res" where
  "can_store_under_high_concurrency X rd recorder order =
     res_bind (ForkDatas_default X) (\<lambda>fork_datas.
     let storage = InMemoryStorage_new (HeadSlot_from 0) (st_payload_attr 0) [] fork_datas Mapping.empty []
           recorder;
         tasks = map (\<lambda>i. perform_storage_operations X rd (5 * i) (of_nat i)) order;
         results = snd (run_tasks tasks storage)
     in snd (assert_that ''assertion failed'' (list_all is_ok results) storage))"

section \<open>Lemmas\<close>

text \<open>
  The tree hash of the source at the two inputs of the tests: numbers are padded with zeros, a hash is its
  own root, and a container of two fields is their SHA-256.
\<close>

definition sha256_documented :: "externs \<Rightarrow> bool" where
  "sha256_documented X \<longleftrightarrow>
     (\<forall>bs. length bs = 4 \<longrightarrow> th_u8_array X bs = bs @ replicate 28 0) \<and>
     (\<forall>h. length h = 32 \<longrightarrow> th_hash256 X h = h) \<and>
     th_container X [replicate 32 0, replicate 32 0] =
       unhex ''f5a5fd42d16a20302798ef6ed309979b43003d2320d9f0e8ea9831a92759fb4b'' \<and>
     th_container X [[0x20, 0, 0, 0x89] @ replicate 28 0, replicate 32 0] =
       unhex ''e4b3c03845c9cd15780441feed2a67053b9cc4ae1547af5747433120582f5a00''"

lemma builder_domain_text:
  assumes "hex_documented X" and "hex_literal (''00000001'' @ take 56 s)"
    and "ForkData_tree_hash_root X fd = unhex s" and "length s = 64"
  shows "hex_encode X (ForkData_compute_builder_domain X fd) = ''00000001'' @ take 56 s"
proof -
  have take: "take n (unhex s) = unhex (take (2 * n) s)" for n s
  proof (induction s arbitrary: n rule: unhex.induct)
    case (1 c d cs)
    then show ?case by (cases n) simp_all
  next
    case "2_2"
    show ?case by (cases n) simp_all
  qed simp
  have "unhex (''00000001'' @ take 56 s) = [0, 0, 0, 1] @ unhex (take 56 s)" by (simp add: hex_value_def)
  then have "ForkData_compute_builder_domain X fd = unhex (''00000001'' @ take 56 s)"
    using assms(3) take [of 28 s] by (simp add: ForkData_compute_builder_domain_def BuilderDomain_default_def)
  moreover have "hex_encode X (unhex (''00000001'' @ take 56 s)) = ''00000001'' @ take 56 s"
    using unhex_hex [OF assms(2)] assms(1) unfolding hex_documented_def by metis
  ultimately show ?thesis by simp
qed

lemma assert_contents_Ok:
  assumes "ims_read_validator_registration (w_store w) key = Some registration"
    and "ims_read_proposer_duties (w_store w) = duty" and "ims_read_head_slot (w_store w) = HeadSlot slot"
    and "ims_read_payload_attributes (w_store w) = payload"
  shows "assert_storage_contents key registration duty slot payload w = (w, Ok ())"
  using assms by (simp add: assert_storage_contents_def HeadSlot_from_def)

lemma contents_written:
  fixes w :: relay_world and registration key duty head payload
  defines "w' \<equiv> ims_set_payload_attributes payload (ims_set_head_slot head
    (ims_set_proposer_duties duty (ims_set_validator_registration key registration w)))"
  shows "ims_read_validator_registration (w_store w') key = Some registration"
    and "ims_read_proposer_duties (w_store w') = duty" and "ims_read_head_slot (w_store w') = head"
    and "ims_read_payload_attributes (w_store w') = payload"
  unfolding w'_def by (simp_all add: ims_reader_defs ims_setter_defs Let_def)

lemma storage_operations_pass:
  assumes "test_environment X rd"
  shows "\<exists>w'. perform_storage_operations X rd n i w = (w', Ok ())"
proof -
  obtain sig where sig: "test_signature X = (Ok sig :: (_, string) res)"
    using test_signature_Ok(1) [OF assms] by blast
  show ?thesis
    by (simp add: perform_storage_operations_def update_storage_contents_def drawn_key_random [OF assms]
        st_validator_registration_def st_proposer_duties_def sig step_Ok [OF assert_contents_Ok]
        assert_contents_Ok contents_written HeadSlot_from_def Let_def)
qed

lemma storage_tasks_pass:
  assumes "test_environment X rd"
  shows "list_all is_ok (snd (run_tasks (map (\<lambda>i. perform_storage_operations X rd (5 * i) (of_nat i)) order) w))"
proof (induction order arbitrary: w)
  case (Cons i order)
  obtain w' where "perform_storage_operations X rd (5 * i) (of_nat i) w = (w', Ok ())"
    using storage_operations_pass [OF assms] by blast
  with Cons [of w'] show ?case by (simp add: Let_def split_def)
qed simp

lemma builder_domain_passes:
  assumes "test_environment X rd" and "sha256_documented X"
  shows "snd (can_compute_b_domain X rd w) = Ok ()"
proof -
  let ?a = "''f5a5fd42d16a20302798ef6ed309979b43003d2320d9f0e8ea9831a92759fb4b''"
  let ?b = "''e4b3c03845c9cd15780441feed2a67053b9cc4ae1547af5747433120582f5a00''"
  have lit: "hex_literal (''00000001'' @ take 56 ?a)" "hex_literal (''00000001'' @ take 56 ?b)"
    by (simp_all add: hex_digits_decode)
  have root: "ForkData_tree_hash_root X ForkData_default = unhex ?a"
    "ForkData_tree_hash_root X \<lparr>fd_current_version = [0x20, 0, 0, 0x89],
       fd_genesis_validators_root = replicate 32 0\<rparr> = unhex ?b"
    using assms(2) by (simp_all add: sha256_documented_def ForkData_tree_hash_root_def ForkData_default_def
        flip: replicate_add)
  note domains = builder_domain_text [OF test_environmentD(4) [OF assms(1)] lit(1) root(1)]
    builder_domain_text [OF test_environmentD(4) [OF assms(1)] lit(2) root(2)]
  show ?thesis
    using domains by (simp add: can_compute_b_domain_def BlsSigner_default_Ok [OF assms(1)]
        drawn_secret_random [OF assms(1)] drawn_signer_def default_forks_def compute_builder_domain_def
        BlsSigner_new_def ForkDatas_new_def ForkVersion_into_def Let_def)
qed

lemma one_address_Ok:
  assumes "test_environment X rd"
  shows "is_ok (Address_of_str X ''0x0000000000000000000000000000000000000001'')"
proof -
  let ?one = "''0000000000000000000000000000000000000001''"
  note env = test_environmentD [OF assms]
  have "hex_literal ?one" by (simp add: hex_literal_def)
  moreover have "length (unhex ?one) = 20" by simp
  ultimately have "address_from_str X (''0x'' @ ?one) = Ok (unhex ?one)"
    using texts_literal(5) [OF env(4,5), of ?one] by (simp only:)
  then show ?thesis by (simp add: Address_of_str_def)
qed

section \<open>Properties\<close>

text \<open>
  The unit tests of the primitives and of the storage pass, whatever random values are drawn: the epoch of
  a slot, the signature of a registration and of any message, the builder domains, and, in whatever order
  its tasks run, that a storage which ten thousand tasks write returns to each what it wrote.
\<close>

theorem unit_tests_pass:
  assumes "test_environment X rd" and "sha256_documented X"
  shows "snd (test_is_first_slot_of_new_epoch_true w) = Ok () \<and>
    snd (test_is_first_slot_of_new_epoch_false w) = Ok () \<and> snd (test_epoch_calculation w) = Ok () \<and>
    snd (verified_sig X rd w) = Ok () \<and> snd (can_compute_b_domain X rd w) = Ok () \<and>
    snd (can_sign X rd w) = Ok () \<and> can_store_under_high_concurrency X rd recorder order = Ok ()"
proof -
  note env = test_environmentD [OF assms(1)]
  note forks = ForkDatas_default_Ok [OF env(4,5)]
  obtain a where a: "Address_of_str X ''0x0000000000000000000000000000000000000001'' = Ok a"
    using one_address_Ok [OF assms(1)] by (auto simp: is_ok_iff)
  note verify = BlsSigner_sign_verify [OF env(3)] BlsSecretKey_sign_verify [OF env(3)]
  have "snd (test_is_first_slot_of_new_epoch_true w) = Ok ()"
    "snd (test_is_first_slot_of_new_epoch_false w) = Ok ()" "snd (test_epoch_calculation w) = Ok ()"
    by (simp_all add: test_is_first_slot_of_new_epoch_true_def test_is_first_slot_of_new_epoch_false_def
        test_epoch_calculation_def is_first_slot_of_new_epoch_def HeadSlot_epoch_def HeadSlot_from_def step_assoc Let_def)
  moreover have "snd (verified_sig X rd w) = Ok ()"
    using verify(1) [of "drawn_signer X rd 2"]
    by (simp add: verified_sig_def BlsSigner_default_Ok [OF assms(1)] a ValidatorRegistration_verify_signature_def
        compute_builder_domain_def Let_def)
  moreover have "snd (can_sign X rd w) = Ok ()"
    by (simp add: can_sign_def drawn_secret_random [OF assms(1)] forks BlsSigner_sign_def BlsSigner_new_def
        verify(2) Let_def)
  moreover have "can_store_under_high_concurrency X rd recorder order = Ok ()"
    by (simp add: can_store_under_high_concurrency_def forks storage_tasks_pass [OF assms(1)] Let_def)
  ultimately show ?thesis by (intro conjI builder_domain_passes [OF assms])
qed

end
