(* ===== verification/Command_Line.thy ===== *)
theory Command_Line
  imports Startup Http_Routing
begin

text \<open>
  The command line of \<open>bin/relay/src/cli.rs\<close>: the options that the derive of clap declares, with their
  defaults, delimiters and parsers. What clap does with such declarations is written out as documented:
  an option takes the next argument or what follows an equals sign, once, unless it collects values;
  of several errors the model reports the first in the order below.
\<close>

section \<open>Constants\<close>

definition DEFAULT_GRPC_PORT :: string where "DEFAULT_GRPC_PORT = ''50051''"
definition DEFAULT_HTTP_PORT :: string where "DEFAULT_HTTP_PORT = ''9063''"
definition DEFAULT_METRICS_PORT :: string where "DEFAULT_METRICS_PORT = ''9090''"
definition DEFAULT_CHAIN :: string where "DEFAULT_CHAIN = ''mainnet''"
definition DEFAULT_FORK_VERSION :: string where "DEFAULT_FORK_VERSION = ''0x00000000''"
definition DEFAULT_CURRENT_VERSION :: string where "DEFAULT_CURRENT_VERSION = ''0x20000093''"
definition DEFAULT_VALIDATORS_ROOT :: string where
  "DEFAULT_VALIDATORS_ROOT = ''0x4b363db94e286120d76eb905340fdd4e54bfe9f06bf33ff6cf5ad27f511bfe95''"
definition DEFAULT_AUTH_URL :: string where "DEFAULT_AUTH_URL = ''https://auth.example.com''"
definition DEFAULT_BEACON_URL :: string where "DEFAULT_BEACON_URL = ''http://127.0.0.1:3500''"

section \<open>Arguments\<close>

datatype ClapError =
    DisplayHelp
  | UnknownArgument string
  | NoValue string
  | Repeated string
  | InvalidValue string string \<comment> \<open>option, message of its parser\<close>
  | MissingRequired string

text \<open>The options that are given, with their values; after \<open>--\<close> there are only positional arguments.\<close>

fun given_options :: "string list \<Rightarrow> string list \<Rightarrow> ((string \<times> string) list, ClapError) res" where
  "given_options names [] = Ok []"
| "given_options names (a # as) =
     (if a = ''--help'' \<or> a = ''-h'' then Err DisplayHelp
      else if a = ''--'' then (case as of [] \<Rightarrow> Ok [] | v # _ \<Rightarrow> Err (UnknownArgument v))
      else if take 2 a \<noteq> ''--'' then Err (UnknownArgument a)
      else
        let name = takeWhile (\<lambda>c. c \<noteq> CHR ''='') (drop 2 a);
            rest = drop (length name) (drop 2 a) in
        if name \<notin> set names then Err (UnknownArgument a)
        else if rest \<noteq> [] then res_bind (given_options names as) (\<lambda>gs. Ok ((name, tl rest) # gs))
        else
          (case as of
             [] \<Rightarrow> Err (NoValue name)
           | v # as' \<Rightarrow>
               if take 1 v = ''-'' \<and> v \<noteq> ''-'' then Err (NoValue name)
               else res_bind (given_options names as') (\<lambda>gs. Ok ((name, v) # gs))))"

definition occurrences :: "string \<Rightarrow> (string \<times> string) list \<Rightarrow> string list" where
  "occurrences name gs = map snd (filter (\<lambda>(n, _). n = name) gs)"

definition parse_value :: "string \<Rightarrow> (string \<Rightarrow> ('a, string) res) \<Rightarrow> string \<Rightarrow> ('a, ClapError) res" where
  "parse_value name parser v = res_map_err (InvalidValue name) (parser v)"

text \<open>An option with one value: with a default text, or without.\<close>

definition single ::
    "(string \<times> string) list \<Rightarrow> string \<Rightarrow> string option \<Rightarrow> (string \<Rightarrow> ('a, string) res) \<Rightarrow> ('a, ClapError) res" where
  "single gs name initial parser =
     (case occurrences name gs of
        [] \<Rightarrow> (case initial of Some v \<Rightarrow> parse_value name parser v | None \<Rightarrow> Err (MissingRequired name))
      | [v] \<Rightarrow> parse_value name parser v
      | _ \<Rightarrow> Err (Repeated name))"

fun split_on :: "char \<Rightarrow> string \<Rightarrow> string list" where
  "split_on d [] = [[]]"
| "split_on d (c # cs) =
     (if c = d then [] # split_on d cs
      else (case split_on d cs of [] \<Rightarrow> [[c]] | w # ws \<Rightarrow> (c # w) # ws))"

text \<open>\<open>value_delimiter\<close>: an option that collects the values of all its occurrences.\<close>

definition collected ::
    "(string \<times> string) list \<Rightarrow> string \<Rightarrow> char \<Rightarrow> (string \<Rightarrow> ('a, string) res) \<Rightarrow> ('a list, ClapError) res" where
  "collected gs name delimiter parser =
     res_mapM (parse_value name parser) (concat (map (split_on delimiter) (occurrences name gs)))"

section \<open>The options of the relay\<close>

text \<open>
  The parsers of other crates: of a URL, given as it is written back, of the bytes of a key and of a
  named chain; and the slots per epoch of reth. Numbers are decimal digits after an optional plus.
\<close>

record ClapParsers =
  cp_url :: "string \<Rightarrow> (string, string) res"
  cp_pubkey :: "string \<Rightarrow> (bytes, string) res"
  cp_chain :: "string \<Rightarrow> (NamedChain, string) res"
  cp_epoch_slots :: u64

definition clap_u64 :: "string \<Rightarrow> (u64, string) res" where
  "clap_u64 s = ok_or (u64_from_str s) ''invalid digit found in string''"

definition clap_u16 :: "string \<Rightarrow> (u16, string) res" where
  "clap_u16 s = res_bind (clap_u64 s) (\<lambda>v.
     if v < 65536 then Ok (ucast v) else Err ''not in 0..=65535'')"

definition option_names :: "string list" where
  "option_names =
     [''auth.url'', ''beacon.url'', ''grpc.port'', ''http.port'', ''metrics.port'', ''epoch.slots'',
      ''builders.enabled'', ''fork-data.genesis-version'', ''fork-data.current-version'',
      ''fork-data.genesis-validators-root'', ''chain'', ''bls-secret-key'']"

text \<open>\<open>parse_from\<close>: the first argument is the name of the program.\<close>

definition CliArgs_parse_from ::
    "externs \<Rightarrow> ClapParsers \<Rightarrow> string list \<Rightarrow> (CliArgs, ClapError) res" where
  "CliArgs_parse_from X P argv =
     res_bind (given_options option_names (drop 1 argv)) (\<lambda>gs.
     res_bind (single gs ''auth.url'' (Some DEFAULT_AUTH_URL) (cp_url P)) (\<lambda>mbs_auth_url.
     res_bind (single gs ''beacon.url'' (Some DEFAULT_BEACON_URL) (cp_url P)) (\<lambda>beacon_url.
     res_bind (single gs ''grpc.port'' (Some DEFAULT_GRPC_PORT) clap_u16) (\<lambda>grpc_port.
     res_bind (single gs ''http.port'' (Some DEFAULT_HTTP_PORT) clap_u16) (\<lambda>http_port.
     res_bind (single gs ''metrics.port'' (Some DEFAULT_METRICS_PORT) clap_u16) (\<lambda>metrics_port.
     res_bind (single gs ''epoch.slots'' (Some (nat_to_string (unat (cp_epoch_slots P)))) clap_u64) (\<lambda>slots_per_epoch.
     res_bind (collected gs ''builders.enabled'' CHR '','' (cp_pubkey P)) (\<lambda>white_listed_builders.
     res_bind (single gs ''fork-data.genesis-version'' (Some DEFAULT_FORK_VERSION)
       (parse_fork_version X)) (\<lambda>genesis_fork_version.
     res_bind (single gs ''fork-data.current-version'' (Some DEFAULT_CURRENT_VERSION)
       (parse_fork_version X)) (\<lambda>current_fork_version.
     res_bind (single gs ''fork-data.genesis-validators-root'' (Some DEFAULT_VALIDATORS_ROOT)
       (parse_genesis_root X)) (\<lambda>genesis_validators_root.
     res_bind (single gs ''chain'' (Some DEFAULT_CHAIN) (cp_chain P)) (\<lambda>chain.
     res_bind (single gs ''bls-secret-key'' None (parse_bls_secret_key X)) (\<lambda>bls_secret_key.
       Ok \<lparr>ca_mbs_auth_url = mbs_auth_url, ca_beacon_url = beacon_url, ca_grpc_port = grpc_port,
           ca_http_port = http_port, ca_metrics_port = metrics_port,
           ca_slots_per_epoch = slots_per_epoch, ca_white_listed_builders = white_listed_builders,
           ca_genesis_fork_version = genesis_fork_version, ca_current_fork_version = current_fork_version,
           ca_genesis_validators_root = genesis_validators_root, ca_chain = chain,
           ca_bls_secret_key = bls_secret_key\<rparr>)))))))))))))"

section \<open>Lemmas\<close>

lemma given_option:
  assumes "name \<in> set names" and "CHR ''='' \<notin> set name" and "name \<notin> {[], ''help''}"
    and "take 1 v \<noteq> ''-'' \<or> v = ''-''"
  shows "given_options names ((CHR ''-'' # CHR ''-'' # name) # v # as) =
    res_bind (given_options names as) (\<lambda>gs. Ok ((name, v) # gs))"
proof -
  have all: "takeWhile (\<lambda>c. c \<noteq> CHR ''='') name = name" using assms(2) by (auto simp: takeWhile_eq_all_conv)
  from assms(3) have "name \<noteq> []" "name \<noteq> ''help''" by simp_all
  with assms(1,4) show ?thesis
    by (subst given_options.simps(2); cases "take (Suc 0) v = ''-''") (simp_all add: all Let_def)
qed

lemma split_on_none: "d \<notin> set s \<Longrightarrow> split_on d s = [s]"
  by (induction s) auto

lemma split_on_delimiter: "d \<notin> set s \<Longrightarrow> split_on d (s @ d # t) = s # split_on d t"
  by (induction s) auto

lemma missing_option:
  assumes "occurrences name gs = []"
  shows "single gs name None parser = Err (MissingRequired name)"
  using assms by (simp add: single_def)

end
