(* ===== verification/Node_Tests.thy ===== *)
theory Node_Tests
  imports Unit_Tests Json_Types Command_Line
begin

text \<open>
  The tests of \<open>crates/beacon\<close> and of \<open>bin/relay\<close>: the merged stream of events, the service that calls
  the beacon node, the service that follows the chain, and the command line. JSON literals are given as
  values, null as \<open>JOther\<close>; the event type of the node, with its JSON, belongs to another crate and is
  read by an argument.
\<close>

section \<open>Duties\<close>

definition duty_json :: "string \<Rightarrow> string \<Rightarrow> string \<Rightarrow> Json" where
  "duty_json slot key index =
     JObject [(''slot'', JString slot), (''pubkey'', JString key), (''validator_index'', JString index)]"

definition duties_json :: "string \<Rightarrow> Json" where
  "duties_json key =
     JObject [(''data'', JSeq [duty_json ''123456'' key ''654321'', duty_json ''123457'' key ''654322'',
       duty_json ''123458'' key ''654323''])]"

definition ev_proposer_duties_response :: "externs \<Rightarrow> Randomness \<Rightarrow> (ProposerDutiesResponse, string) res" where
  "ev_proposer_duties_response X rd =
     res_bind (test_bls_pubkey_str X rd) (\<lambda>key.
       unwrap (ProposerDutiesResponse_deserialize X (duties_json key)))"

definition sv_proposer_duties_response :: "externs \<Rightarrow> Randomness \<Rightarrow> (ProposerDutiesResponse, string) res" where
  "sv_proposer_duties_response X rd =
     res_bind (test_bls_pubkey_str X rd) (\<lambda>key.
       unwrap (ProposerDutiesResponse_deserialize X (duties_json key)))"

definition rs_proposer_duties_response :: "externs \<Rightarrow> Randomness \<Rightarrow> (ProposerDutiesResponse, string) res" where
  "rs_proposer_duties_response X rd =
     res_bind (test_bls_pubkey_str X rd) (\<lambda>key.
       unwrap (ProposerDutiesResponse_deserialize X (duties_json key)))"

section \<open>The API that the tests implement\<close>

definition unimplemented :: "('a, string) res" where
  "unimplemented = Panic ''not implemented''"

definition ev_TestApi :: "externs \<Rightarrow> Randomness \<Rightarrow> BeaconApi" where
  "ev_TestApi X rd =
     \<lparr>api_sync_status = unimplemented, api_proposer_duties = (\<lambda>epoch. ev_proposer_duties_response X rd),
      api_publish_block = (\<lambda>block submission_type. Ok ()), api_get_fork_data = unimplemented,
      api_get_known_validator = (\<lambda>pubkey. unimplemented)\<rparr>"

definition sv_TestApi :: "externs \<Rightarrow> Randomness \<Rightarrow> BeaconApi" where
  "sv_TestApi X rd =
     \<lparr>api_sync_status = Ok \<lparr>bsr_data = \<lparr>bss_head_slot = 0, bss_is_syncing = False\<rparr>\<rparr>,
      api_proposer_duties = (\<lambda>epoch. sv_proposer_duties_response X rd),
      api_publish_block = (\<lambda>block submission_type. Ok ()), api_get_fork_data = unimplemented,
      api_get_known_validator = (\<lambda>pubkey. unimplemented)\<rparr>"

definition rs_TestApi :: "externs \<Rightarrow> Randomness \<Rightarrow> BeaconApi" where
  "rs_TestApi X rd =
     \<lparr>api_sync_status = unimplemented, api_proposer_duties = (\<lambda>epoch. rs_proposer_duties_response X rd),
      api_publish_block = (\<lambda>block submission_type. Ok ()), api_get_fork_data = unimplemented,
      api_get_known_validator = (\<lambda>pubkey. unimplemented)\<rparr>"

section \<open>Events\<close>

definition attributes_json :: "string \<Rightarrow> Json" where
  "attributes_json recipient =
     JObject [
       (''version'', JString ''capella''),
       (''data'', JObject [
         (''proposal_slot'', JString ''7''),
         (''parent_block_root'', JString ''0xc7b8655cfbe8522f2dcd2acef7bb32259f689b8b29605c039cae66447dc339a6''),
         (''parent_block_number'', JString ''6''),
         (''parent_block_hash'', JString ''0x007bf462285673e400338ccd62647e3bed5eb4fb1201c66878230fea1db082fd''),
         (''proposer_index'', JString ''7''),
         (''payload_attributes'', JObject [
           (''timestamp'', JString ''1709293522''),
           (''prev_randao'', JString ''0x336bd018d8def745764831b852953d5debb1d86fa4224374be51c21ce426ed45''),
           (''suggested_fee_recipient'', JString recipient),
           (''withdrawals'', JSeq []),
           (''parent_beacon_block_root'', JOther)])])]"

type_synonym event_reader = "Json \<Rightarrow> (PayloadAttributes, string) res"

definition ev_payload_attribute_event :: "event_reader \<Rightarrow> (PayloadAttributes, string) res" where
  "ev_payload_attribute_event read_event =
     unwrap (read_event (attributes_json ''0x0000000000000000000000000000000000000001''))"

definition rs_payload_attribute_event :: "event_reader \<Rightarrow> (PayloadAttributes, string) res" where
  "rs_payload_attribute_event read_event =
     unwrap (read_event (attributes_json ''0x123463a4b065722e99115d6c222f267d9cabb524''))"

text \<open>A head event; the streams of the model carry its slot.\<close>

record HeadEventFields =
  he_slot :: u64
  he_block :: Hash256
  he_state :: Hash256
  he_epoch_transition :: bool
  he_previous_duty_dependent_root :: Hash256
  he_current_duty_dependent_root :: Hash256
  he_execution_optimistic :: bool

definition ev_head_event :: "u64 \<Rightarrow> HeadEventFields" where
  "ev_head_event slot =
     \<lparr>he_slot = slot,
      he_block = unhex ''1217930f241535c1757cf5245b48a7836ef7ee965e724de94ec1a8d224fbfafe'',
      he_state = unhex ''46982bbe2ca198f7971165be649c3fa9a9d7673ccfc17214ff0f5a03f5a7c641'',
      he_epoch_transition = False,
      he_previous_duty_dependent_root =
        unhex ''dba510ac6871bf5c44721132f5a9de02e6658c64949926b1c4f9cab4841cd76f'',
      he_current_duty_dependent_root =
        unhex ''dba510ac6871bf5c44721132f5a9de02e6658c64949926b1c4f9cab4841cd76f'',
      he_execution_optimistic = False\<rparr>"

definition rs_head_event :: "u64 \<Rightarrow> HeadEventFields" where
  "rs_head_event slot =
     \<lparr>he_slot = slot,
      he_block = unhex ''1217930f241535c1757cf5245b48a7836ef7ee965e724de94ec1a8d224fbfafe'',
      he_state = unhex ''46982bbe2ca198f7971165be649c3fa9a9d7673ccfc17214ff0f5a03f5a7c641'',
      he_epoch_transition = False,
      he_previous_duty_dependent_root =
        unhex ''dba510ac6871bf5c44721132f5a9de02e6658c64949926b1c4f9cab4841cd76f'',
      he_current_duty_dependent_root =
        unhex ''dba510ac6871bf5c44721132f5a9de02e6658c64949926b1c4f9cab4841cd76f'',
      he_execution_optimistic = False\<rparr>"

text \<open>\<open>stream::iter\<close>: the values, then the end at every poll, of which there are \<open>n\<close>.\<close>

definition iter :: "nat \<Rightarrow> ('a, string) res list \<Rightarrow> 'a EventStream" where
  "iter n events = map (\<lambda>e. case e of Ok a \<Rightarrow> Item a | _ \<Rightarrow> Error) events @ replicate n End"

definition test_event_stream ::
    "nat \<Rightarrow> (PayloadAttributes, string) res list \<Rightarrow> (u64, string) res list \<Rightarrow> BeaconEventsStream" where
  "test_event_stream n payload_events head_events =
     \<lparr>es_payload_attributes = iter n payload_events, es_new_head = iter n head_events\<rparr>"

text \<open>\<open>next().await\<close>; a stream that is not ready leaves the test waiting.\<close>

definition next_event :: "(BeaconEventsStream, BeaconEvent option) step" where
  "next_event stream =
     (let (r, stream) = poll_next stream in
      (stream, case r of Ready event \<Rightarrow> Ok event | Pending \<Rightarrow> Err ''waiting''))"

definition assert_next_event :: "BeaconEvent \<Rightarrow> (BeaconEventsStream, unit) step" where
  "assert_next_event expected_event =
     step_bind next_event (\<lambda>event.
     step_bind (give (unwrap_none event)) (\<lambda>event.
       assert_eq ''Unexpected event encountered'' event expected_event))"

definition assert_no_more_events :: "(BeaconEventsStream, unit) step" where
  "assert_no_more_events =
     step_bind next_event (\<lambda>event.
       assert_that ''Expected no more events in the stream'' (event = None))"

definition on_stream :: "BeaconEventsStream \<Rightarrow> (BeaconEventsStream, unit) step \<Rightarrow> (unit, string) res" where
  "on_stream stream test = snd (test stream)"

definition can_emit_events :: "event_reader \<Rightarrow> nat \<Rightarrow> (unit, string) res" where
  "can_emit_events read_event n =
     res_bind (ev_payload_attribute_event read_event) (\<lambda>attributes.
     on_stream (test_event_stream n [Ok attributes] [Ok (he_slot (ev_head_event 1))])
       (step_bind (assert_next_event (PayloadAttributeEvent attributes)) (\<lambda>_.
         assert_next_event (HeadEvent (he_slot (ev_head_event 1))))))"

definition no_epoch_event_on_non_first_slot :: "event_reader \<Rightarrow> nat \<Rightarrow> (unit, string) res" where
  "no_epoch_event_on_non_first_slot read_event n =
     res_bind (ev_payload_attribute_event read_event) (\<lambda>attributes.
     on_stream (test_event_stream n [Ok attributes] [Ok (he_slot (ev_head_event 2))])
       (step_bind (assert_next_event (PayloadAttributeEvent attributes)) (\<lambda>_.
        step_bind (assert_next_event (HeadEvent (he_slot (ev_head_event 2)))) (\<lambda>_.
          assert_no_more_events))))"

definition can_handle_errors :: "nat \<Rightarrow> (unit, string) res" where
  "can_handle_errors n =
     (let payload_error = Err ''MaxRetriesExceeded(10)''; head_error = Err ''MaxRetriesExceeded(10)'' in
      on_stream (test_event_stream n [payload_error] [head_error]) assert_no_more_events)"

section \<open>The service of the beacon node\<close>

text \<open>\<open>rx.await?.await\<close>: the future that was sent, run on the API.\<close>

definition await_sync_status ::
    "BeaconApi \<Rightarrow> nat \<Rightarrow> BeaconService \<Rightarrow> (BeaconSyncStatusResponse, string) res" where
  "await_sync_status api tx s =
     (case oneshot_recv tx s of
        Some SyncStatusFuture \<Rightarrow> api_sync_status api
      | _ \<Rightarrow> Err ''Could not receive response'')"

definition await_proposer_duties ::
    "BeaconApi \<Rightarrow> nat \<Rightarrow> BeaconService \<Rightarrow> (ProposerDutiesResponse, string) res" where
  "await_proposer_duties api tx s =
     (case oneshot_recv tx s of
        Some (ProposerDutyFuture epoch) \<Rightarrow> api_proposer_duties api epoch
      | _ \<Rightarrow> Err ''Could not receive response'')"

text \<open>The service is spawned, and polled whenever the test waits for an answer.\<close>

definition can_send_commands :: "externs \<Rightarrow> Randomness \<Rightarrow> (unit, string) res" where
  "can_send_commands X rd =
     (let api = sv_TestApi X rd;
          service = BeaconService_new;
          (tx, service) = handle_sync_status service;
          service = BeaconService_poll service;
          response = await_sync_status api tx service in
      res_bind (snd (assert_that ''assertion failed'' (is_ok response) ())) (\<lambda>_.
      let (tx, service) = handle_proposer_duties 0 service;
          service = BeaconService_poll service;
          response = await_proposer_duties api tx service
      in snd (assert_that ''assertion failed'' (is_ok response) ())))"

section \<open>The service that follows the chain\<close>

definition MockBeaconConnection :: "nat \<Rightarrow> PayloadAttributes \<Rightarrow> connections" where
  "MockBeaconConnection n attributes k =
     (0, \<lparr>es_payload_attributes = iter n [Ok attributes], es_new_head = iter n [Ok (he_slot (rs_head_event 1))]\<rparr>)"

text \<open>The relay service is polled \<open>polls\<close> times while the test sleeps.\<close>

definition can_fill_storage_from_events_through_service ::
    "externs \<Rightarrow> event_reader \<Rightarrow> RelayMetrics \<Rightarrow> nat \<Rightarrow> nat \<Rightarrow> (unit, string) res" where
  "can_fill_storage_from_events_through_service X read_event recorder n polls =
     res_bind (rs_payload_attribute_event read_event) (\<lambda>attributes.
     res_bind (ForkDatas_default X) (\<lambda>fork_datas.
     let storage = InMemoryStorage_new (HeadSlot_from 0) attributes [] fork_datas Mapping.empty [] recorder;
         connect = MockBeaconConnection n attributes;
         relay_service = RelayService_new connect 32;
         storage = snd (RelayService_run in_memory_storage connect polls (relay_service, storage))
     in snd ((step_bind (look (read_proposer_duties in_memory_storage)) (\<lambda>validators.
              step_bind (look (read_head_slot in_memory_storage)) (\<lambda>slot.
              step_bind (look (read_payload_attributes in_memory_storage)) (\<lambda>payload_attr.
              step_bind (assert_eq ''assertion failed'' (length validators) 0) (\<lambda>_.
              step_bind (assert_eq ''assertion failed'' slot (HeadSlot_from 1)) (\<lambda>_.
                assert_eq ''assertion failed'' payload_attr attributes)))))) storage)))"

section \<open>The command line\<close>

definition trim_end_slash :: "string \<Rightarrow> string" where
  "trim_end_slash s = rev (dropWhile (\<lambda>c. c = CHR ''/'') (rev s))"

text \<open>\<open>parse_from\<close> ends the process when the arguments are not accepted.\<close>

definition parse_or_exit :: "externs \<Rightarrow> ClapParsers \<Rightarrow> string list \<Rightarrow> (CliArgs, string) res" where
  "parse_or_exit X P argv = res_map_err (\<lambda>_. ''exit'') (CliArgs_parse_from X P argv)"

definition key_to_string :: "externs \<Rightarrow> bytes \<Rightarrow> string" where
  "key_to_string X bs = ''0x'' @ hex_encode X bs"

definition parse_configs :: "externs \<Rightarrow> ClapParsers \<Rightarrow> Randomness \<Rightarrow> ('w, unit) step" where
  "parse_configs X P rd =
     step_bind (give (parse_or_exit X P [''test'', ''--bls-secret-key'', TEST_BLS_SECRET_KEY])) (\<lambda>args.
     step_bind (assert_eq ''url'' (trim_end_slash (ca_beacon_url args)) DEFAULT_BEACON_URL) (\<lambda>_.
     step_bind (give (unwrap (clap_u16 DEFAULT_GRPC_PORT))) (\<lambda>grpc_port.
     step_bind (assert_eq ''grpc port'' (ca_grpc_port args) grpc_port) (\<lambda>_.
     step_bind (assert_eq ''slots'' (ca_slots_per_epoch args) (cp_epoch_slots P)) (\<lambda>_.
     step_bind (assert_eq ''builders'' (length (ca_white_listed_builders args)) 0) (\<lambda>_.
     step_bind (give (test_builder_pubkey_str X rd)) (\<lambda>builder1.
     step_bind (give (test_builder_pubkey_str X rd)) (\<lambda>builder2.
     let custom_beacon_url = ''http://localhost:1234'';
         custom_grpc_port = ''50051'';
         custom_slots_per_epoch = ''32'';
         custom_builders = builder1 @ '','' @ builder2;
         custom_fork_version = ''01010101'';
         custom_genesis_root = ''364b5565185058cbade2bd5d4633fb13794bcd7b474c76935c4a053571404352'' in
     step_bind (give (parse_or_exit X P
       [''test'', ''--bls-secret-key'', TEST_BLS_SECRET_KEY, ''--beacon.url'', custom_beacon_url,
        ''--grpc.port'', custom_grpc_port, ''--epoch.slots'', custom_slots_per_epoch,
        ''--builders.enabled'', custom_builders, ''--fork-data.current-version'', custom_fork_version,
        ''--fork-data.genesis-validators-root'', custom_genesis_root, ''--chain'', ''dev''])) (\<lambda>args.
     step_bind (assert_eq ''url'' (trim_end_slash (ca_beacon_url args)) custom_beacon_url) (\<lambda>_.
     step_bind (give (unwrap (clap_u16 custom_grpc_port))) (\<lambda>grpc_port.
     step_bind (assert_eq ''grpc port'' (ca_grpc_port args) grpc_port) (\<lambda>_.
     step_bind (give (unwrap (clap_u64 custom_slots_per_epoch))) (\<lambda>slots.
     step_bind (assert_eq ''slots'' (ca_slots_per_epoch args) slots) (\<lambda>_.
     step_bind (assert_eq ''builders'' (length (ca_white_listed_builders args)) 2) (\<lambda>_.
     step_bind (assert_eq ''builder 0'' (key_to_string X (ca_white_listed_builders args ! 0)) builder1) (\<lambda>_.
     step_bind (assert_eq ''builder 1'' (key_to_string X (ca_white_listed_builders args ! 1)) builder2) (\<lambda>_.
     step_bind (assert_eq ''genesis root'' (hex_encode X (ca_genesis_validators_root args)) custom_genesis_root) (\<lambda>_.
     step_bind (assert_eq ''fork version''
       (hex_encode X (fork_version_bytes (ca_current_fork_version args))) custom_fork_version) (\<lambda>_.
       assert_eq ''chain'' (ca_chain args) Dev)))))))))))))))))))"

definition parse_bls_key :: "externs \<Rightarrow> ClapParsers \<Rightarrow> Randomness \<Rightarrow> ('w, unit) step" where
  "parse_bls_key X P rd =
     step_bind (give (test_builder_pubkey_str X rd)) (\<lambda>key.
     step_bind (give (parse_or_exit X P
       [''test'', ''--builders.enabled'', key, ''--bls-secret-key'', TEST_BLS_SECRET_KEY])) (\<lambda>args.
     step_bind (assert_eq ''builders'' (length (ca_white_listed_builders args)) 1) (\<lambda>_.
     step_bind (assert_eq ''builder'' (key_to_string X (ca_white_listed_builders args ! 0)) key) (\<lambda>_.
     step_bind (give (enabled_builders X args)) (\<lambda>builders.
       assert_eq ''builders'' (length builders) 1)))))"

section \<open>Lemmas\<close>

text \<open>Duties.\<close>

lemma duty_numbers:
  "u64_from_str ''123456'' = Some 123456" "u64_from_str ''123457'' = Some 123457"
  "u64_from_str ''123458'' = Some 123458" "u64_from_str ''654321'' = Some 654321"
  "u64_from_str ''654322'' = Some 654322" "u64_from_str ''654323'' = Some 654323"
  by (simp_all add: u64_literal digits_value_def)

lemma key_text:
  assumes "test_environment X rd"
  shows "BlsPublicKey_to_string X k = ''0x'' @ hex_encode X (pk_serialize k)"
  using test_environmentD(5) [OF assms] by (simp add: texts_documented_def BlsPublicKey_to_string_def)

lemma key_from_json:
  assumes "json_env X" and "length bs = 48"
  shows "read_bytes X 48 (JString (''0x'' @ hex_encode X bs)) = Ok bs"
proof -
  have "fixed_bytes_to_serde X bs = JString (''0x'' @ hex_encode X bs)"
    using json_envD(3) [OF assms(1)] by (simp add: serde_documented_def)
  with bytes_json(1) [OF assms] show ?thesis by (simp only:)
qed

lemma drawn_key_width:
  assumes "test_environment X rd"
  shows "length (pk_serialize (drawn_key X rd i)) = 48"
  using drawn_keys(1) [OF assms] by (simp add: valid_key_def)

lemma duties_Ok:
  assumes "test_environment X rd" and "json_env X"
  shows "is_ok (ProposerDutiesResponse_deserialize X (duties_json (BlsPublicKey_to_string X (drawn_key X rd i))))"
proof -
  have key: "read_bytes X 48 (JString (BlsPublicKey_to_string X (drawn_key X rd i))) = Ok (pk_serialize (drawn_key X rd i))"
    using key_from_json [OF assms(2) drawn_key_width [OF assms(1)]] by (simp add: key_text [OF assms(1)])
  have duty: "is_ok (ProposerDutiesData_deserialize X (duty_json s (BlsPublicKey_to_string X (drawn_key X rd i)) j))"
    if "u64_from_str s = Some a" "u64_from_str j = Some b" for s j a b
    using that key by (simp add: duty_json_def ProposerDutiesData_deserialize_def ProposerDutiesData_fields_def
        read_u64_def field_def)
  show ?thesis
    using duty [OF duty_numbers(1,4)] duty [OF duty_numbers(2,5)] duty [OF duty_numbers(3,6)]
    by (auto simp: is_ok_iff duties_json_def ProposerDutiesResponse_deserialize_def
        ProposerDutiesResponse_fields_def field_def)
qed

text \<open>Streams.\<close>

lemma iter_simps:
  "iter n (Ok a # events) = Item a # iter n events" "iter n (Err e # events) = Error # iter n events"
  "iter (Suc n) [] = End # iter n []"
  by (simp_all add: iter_def)

lemma items_End: "items (replicate n End) = []"
  by (induction n) simp_all

lemma items_iter: "items (iter n [Ok a]) = [a]"
  by (induction n) (simp_all add: iter_def)

text \<open>The relay service on streams that only have one event of each kind, again after every reconnection.\<close>

fun inner_stream :: "Inner \<Rightarrow> BeaconEventsStream" where
  "inner_stream (BeaconEvents s) = s"
| "inner_stream (PendingConnection n s) = s"

definition follows :: "PayloadAttributes \<Rightarrow> u64 \<Rightarrow> RelayService \<times> relay_world \<Rightarrow> bool" where
  "follows attributes slot st \<longleftrightarrow>
     set (items (es_payload_attributes (inner_stream (rs_inner (fst st))))) \<subseteq> {attributes} \<and>
     set (items (es_new_head (inner_stream (rs_inner (fst st))))) \<subseteq> {slot} \<and>
     im_payload_attributes (w_store (snd st)) = attributes \<and> im_slot (w_store (snd st)) = HeadSlot slot \<and>
     im_proposer_duties (w_store (snd st)) = []"

lemma follows_poll:
  assumes "follows attributes slot st" and "slot mod 32 \<noteq> 0"
    and "\<And>k. set (items (es_payload_attributes (snd (connect k)))) \<subseteq> {attributes}"
    and "\<And>k. set (items (es_new_head (snd (connect k)))) \<subseteq> {slot}"
  shows "follows attributes slot (RelayService_poll in_memory_storage connect st)"
proof (cases "rs_inner (fst st)")
  case (BeaconEvents stream)
  obtain r stream' where r: "poll_next stream = (r, stream')" by fastforce
  show ?thesis
  proof (cases r)
    case Pending
    then show ?thesis using assms(1) BeaconEvents r poll_next_items [OF r]
      by (simp add: follows_def RelayService_poll_def split_def)
  next
    case (Ready e)
    show ?thesis
    proof (cases e)
      case None
      then show ?thesis using assms(1,3,4) BeaconEvents Ready r
        by (simp add: follows_def RelayService_poll_def split_def Let_def)
    next
      case (Some event)
      have "event = PayloadAttributeEvent attributes \<or> event = HeadEvent slot"
        using assms(1) BeaconEvents poll_next_items [OF r] Ready Some
        by (cases event) (auto simp: follows_def)
      then show ?thesis
        using assms(1,2) BeaconEvents Ready Some r poll_next_items [OF r]
        by (auto simp: follows_def RelayService_poll_def split_def Let_def on_event_def
            ims_setter_defs)
    qed
  qed
next
  case (PendingConnection n stream)
  then show ?thesis using assms(1) by (cases n) (simp_all add: follows_def RelayService_poll_def split_def Let_def)
qed

lemma follows_run:
  assumes "follows attributes slot st" and "slot mod 32 \<noteq> 0"
    and "\<And>k. set (items (es_payload_attributes (snd (connect k)))) \<subseteq> {attributes}"
    and "\<And>k. set (items (es_new_head (snd (connect k)))) \<subseteq> {slot}"
  shows "follows attributes slot (RelayService_run in_memory_storage connect n st)"
  using assms(1)
  by (induction n) (simp_all add: RelayService_run_def follows_poll [OF _ assms(2,3,4)])

lemma head_slots [simp]:
  "he_slot (ev_head_event slot) = slot" "he_slot (rs_head_event slot) = slot"
  by (simp_all add: ev_head_event_def rs_head_event_def)

text \<open>The tests of the stream: it is polled at most three times.\<close>

lemma stream_tests:
  assumes "is_ok (read_event (attributes_json ''0x0000000000000000000000000000000000000001''))" and "2 \<le> n"
  shows "can_emit_events read_event n = Ok ()" and "no_epoch_event_on_non_first_slot read_event n = Ok ()"
    and "can_handle_errors n = Ok ()"
proof -
  obtain attributes where event: "ev_payload_attribute_event read_event = Ok attributes"
    using assms(1) by (auto simp: is_ok_iff ev_payload_attribute_event_def)
  obtain m where n: "n = Suc (Suc m)" using assms(2) by (metis Suc_le_D numeral_2_eq_2 Suc_le_mono)
  note steps = on_stream_def assert_next_event_def assert_no_more_events_def next_event_def
    test_event_stream_def iter_simps poll_next.simps step_bind_def give_def unwrap_none_def assert_eq_def
    assert_that_def Let_def
  show "can_emit_events read_event n = Ok ()"
    by (simp add: can_emit_events_def event n steps)
  show "no_epoch_event_on_non_first_slot read_event n = Ok ()"
    by (simp add: no_epoch_event_on_non_first_slot_def event n steps)
  show "can_handle_errors n = Ok ()"
    by (simp add: can_handle_errors_def steps)
qed

lemma service_test:
  assumes "test_environment X rd" and "json_env X"
  shows "can_send_commands X rd = Ok ()"
proof -
  obtain r where "ProposerDutiesResponse_deserialize X (duties_json (BlsPublicKey_to_string X (drawn_key X rd 0))) = Ok r"
    using duties_Ok [OF assms, of 0] by (auto simp: is_ok_iff)
  then have "is_ok (sv_proposer_duties_response X rd)"
    by (simp add: sv_proposer_duties_response_def test_bls_pubkey_str_def drawn_key_random(2) [OF assms(1)])
  then show ?thesis
    by (simp add: can_send_commands_def sv_TestApi_def handle_sync_status_def handle_proposer_duties_def
        handle_send_def BeaconService_new_def BeaconService_poll_def oneshot_send_def oneshot_recv_def
        await_sync_status_def await_proposer_duties_def Let_def)
qed

lemma relay_test:
  assumes "test_environment X rd"
    and "is_ok (read_event (attributes_json ''0x123463a4b065722e99115d6c222f267d9cabb524''))"
    and "2 \<le> n" and "2 \<le> polls"
  shows "can_fill_storage_from_events_through_service X read_event recorder n polls = Ok ()"
proof -
  note env = test_environmentD [OF assms(1)]
  obtain attributes where event: "rs_payload_attribute_event read_event = Ok attributes"
    using assms(2) by (auto simp: is_ok_iff rs_payload_attribute_event_def)
  obtain m where n: "n = Suc (Suc m)" using assms(3) by (metis Suc_le_D numeral_2_eq_2 Suc_le_mono)
  obtain k where polls: "polls = k + 2" using assms(4) by (metis le_add_diff_inverse2)
  let ?connect = "MockBeaconConnection n attributes"
  let ?storage = "InMemoryStorage_new (HeadSlot_from 0) attributes [] default_forks Mapping.empty [] recorder"
  have "follows attributes 1
    (RelayService_run in_memory_storage ?connect 2 (RelayService_new ?connect 32, ?storage))"
    by (simp add: items_End RelayService_run_def numeral_2_eq_2 RelayService_new_def MockBeaconConnection_def n
        iter_simps RelayService_poll_def poll_next.simps on_event_def follows_def
        InMemoryStorage_new_def ims_setter_defs iter_def Let_def)
  then have "follows attributes 1
    (RelayService_run in_memory_storage ?connect k
      (RelayService_run in_memory_storage ?connect 2 (RelayService_new ?connect 32, ?storage)))"
    by (rule follows_run) (simp_all add: MockBeaconConnection_def items_iter)
  moreover have "RelayService_run in_memory_storage ?connect polls st =
      RelayService_run in_memory_storage ?connect k (RelayService_run in_memory_storage ?connect 2 st)" for st
    by (simp only: polls RelayService_run_def funpow_add comp_apply)
  ultimately have "follows attributes 1
    (RelayService_run in_memory_storage ?connect polls (RelayService_new ?connect 32, ?storage))"
    by (simp only:)
  then show ?thesis
    by (simp add: can_fill_storage_from_events_through_service_def event ForkDatas_default_Ok [OF env(4,5)]
        follows_def ims_reader_defs HeadSlot_from_def Let_def)
qed

text \<open>The command line.\<close>

definition command_line_documented :: "externs \<Rightarrow> ClapParsers \<Rightarrow> bool" where
  "command_line_documented X P \<longleftrightarrow>
     list_all (\<lambda>url. cp_url P url = Ok (url @ ''/''))
       [DEFAULT_AUTH_URL, DEFAULT_BEACON_URL, ''http://localhost:1234''] \<and>
     (\<forall>bs. length bs = 48 \<longrightarrow> cp_pubkey P (''0x'' @ hex_encode X bs) = Ok bs) \<and>
     cp_chain P ''mainnet'' = Ok Mainnet \<and> cp_chain P ''dev'' = Ok Dev \<and>
     blst_sk_from_bytes X (replicate 31 0 @ [1]) = Ok (replicate 31 0 @ [1])"

lemma test_secret_key:
  assumes "test_environment X rd" and "command_line_documented X P"
  shows "parse_bls_secret_key X TEST_BLS_SECRET_KEY = Ok (BlsSecretKey (replicate 31 0 @ [1]))"
proof -
  let ?one = "''0000000000000000000000000000000000000000000000000000000000000001''"
  note env = test_environmentD [OF assms(1)]
  have "hex_literal ?one" by (simp add: hex_digits_decode)
  moreover have "unhex ?one = replicate 31 0 @ [1]" by (simp add: hex_value_def numeral_eq_Suc)
  ultimately have "serde_hex_decode X (''0x'' @ ?one) = Ok (replicate 31 0 @ [1])"
    using texts_literal(1) [OF env(4,5), of ?one] by (simp only:)
  then have "serde_hex_decode X TEST_BLS_SECRET_KEY = Ok (replicate 31 0 @ [1])"
    by (simp add: TEST_BLS_SECRET_KEY_def)
  moreover have "blst_sk_from_bytes X (replicate 31 0 @ [1]) = Ok (replicate 31 0 @ [1])"
    using assms(2) by (simp add: command_line_documented_def)
  ultimately show ?thesis
    by (simp add: parse_bls_secret_key_def BlsSecretKey_of_str_def BlsSecretKey_deserialize_def
        SECRET_KEY_BYTES_LEN_def)
qed

lemma version_literals:
  assumes "hex_documented X"
  shows "parse_fork_version X DEFAULT_FORK_VERSION = Ok (ForkVersion [0, 0, 0, 0])"
    and "parse_fork_version X DEFAULT_CURRENT_VERSION = Ok (ForkVersion [0x20, 0, 0, 0x93])"
    and "parse_fork_version X ''01010101'' = Ok (ForkVersion [1, 1, 1, 1])"
proof -
  have "hex_literal ''00000000''" "hex_literal ''20000093''" "hex_literal ''01010101''"
    by (simp_all add: hex_digits_decode)
  then have "hex_decode X ''00000000'' = Ok [0, 0, 0, 0]" "hex_decode X ''20000093'' = Ok [0x20, 0, 0, 0x93]"
    "hex_decode X ''01010101'' = Ok [1, 1, 1, 1]"
    using hex_literal_decodes [OF assms, of "''00000000''"] hex_literal_decodes [OF assms, of "''20000093''"]
      hex_literal_decodes [OF assms, of "''01010101''"]
    by (simp_all add: hex_value_def)
  moreover have "trim_start_0x DEFAULT_FORK_VERSION = ''00000000''"
    "trim_start_0x DEFAULT_CURRENT_VERSION = ''20000093''"
    by (simp_all add: DEFAULT_FORK_VERSION_def DEFAULT_CURRENT_VERSION_def trim_start_0x.simps [of "_ # _"])
  ultimately show "parse_fork_version X DEFAULT_FORK_VERSION = Ok (ForkVersion [0, 0, 0, 0])"
    and "parse_fork_version X DEFAULT_CURRENT_VERSION = Ok (ForkVersion [0x20, 0, 0, 0x93])"
    and "parse_fork_version X ''01010101'' = Ok (ForkVersion [1, 1, 1, 1])"
    by (simp_all add: parse_fork_version_def ForkVersion_of_str_def)
qed

lemma root_literal:
  assumes "hex_documented X" and "hex_literal s" and "length s = 64" and "take 2 s \<noteq> ''0x''"
  shows "parse_genesis_root X s = Ok (unhex s)" and "parse_genesis_root X (CHR ''0'' # CHR ''x'' # s) = Ok (unhex s)"
    and "hex_encode X (unhex s) = s"
proof -
  have "trim_start_0x (CHR ''0'' # CHR ''x'' # s) = s" "trim_start_0x s = s"
    using assms(4) by (simp_all add: trim_start_0x.simps [of "_ # _"])
  then show "parse_genesis_root X s = Ok (unhex s)" "parse_genesis_root X (CHR ''0'' # CHR ''x'' # s) = Ok (unhex s)"
    using hex_literal_decodes [OF assms(1,2)] assms(3)
    by (simp_all add: parse_genesis_root_def HASH256_SIZE_def length_unhex Let_def)
  show "hex_encode X (unhex s) = s" using assms(1,2) by (simp add: hex_documented_def unhex_hex)
qed

lemma no_comma:
  assumes "hex_documented X"
  shows "CHR '','' \<notin> set (hex_encode X bs)"
proof -
  have digit: "CHR '','' \<noteq> hex_digit n" if "n < 16" for n
  proof -
    have "hex_digit n \<in> set ''0123456789abcdef''"
      using that unfolding hex_digit_def by (intro nth_mem) simp
    then show ?thesis by auto
  qed
  have bounds: "unat b div 16 < 16 \<and> unat b mod 16 < 16" for b :: u8
  proof -
    have "unat b < 2 ^ LENGTH(8)" by (rule unsigned_less)
    then show ?thesis by simp
  qed
  have "CHR '','' \<notin> set (hex_byte b)" for b
    by (simp add: hex_byte_def digit bounds)
  moreover have "hex_encode X bs = concat (map hex_byte bs)" using assms by (simp add: hex_documented_def)
  ultimately show ?thesis by simp
qed

lemma collected_keys:
  assumes "test_environment X rd" and "command_line_documented X P"
  shows "res_mapM (parse_value name (cp_pubkey P)) (split_on CHR '','' (BlsPublicKey_to_string X (drawn_key X rd i)))
      = Ok [pk_serialize (drawn_key X rd i)]"
    and "res_mapM (parse_value name (cp_pubkey P)) (split_on CHR '',''
        (BlsPublicKey_to_string X (drawn_key X rd i) @ '','' @ BlsPublicKey_to_string X (drawn_key X rd j)))
      = Ok [pk_serialize (drawn_key X rd i), pk_serialize (drawn_key X rd j)]"
proof -
  note env = test_environmentD [OF assms(1)]
  have key: "cp_pubkey P (BlsPublicKey_to_string X (drawn_key X rd i)) = Ok (pk_serialize (drawn_key X rd i))" for i
    using assms(2) drawn_key_width [OF assms(1)]
    by (simp add: key_text [OF assms(1)] command_line_documented_def)
  have comma: "CHR '','' \<notin> set (BlsPublicKey_to_string X (drawn_key X rd i))" for i
    using no_comma [OF env(4)] by (simp add: key_text [OF assms(1)])
  show "res_mapM (parse_value name (cp_pubkey P)) (split_on CHR '','' (BlsPublicKey_to_string X (drawn_key X rd i)))
      = Ok [pk_serialize (drawn_key X rd i)]"
    using key by (simp add: split_on_none [OF comma] parse_value_def)
  show "res_mapM (parse_value name (cp_pubkey P)) (split_on CHR '',''
        (BlsPublicKey_to_string X (drawn_key X rd i) @ '','' @ BlsPublicKey_to_string X (drawn_key X rd j)))
      = Ok [pk_serialize (drawn_key X rd i), pk_serialize (drawn_key X rd j)]"
    using key by (simp add: split_on_delimiter [OF comma] split_on_none [OF comma] parse_value_def)
qed

text \<open>What the options that are given, and the defaults of the others, are read as.\<close>

lemma defaults_read:
  assumes "test_environment X rd" and "command_line_documented X P"
  shows "parse_value name (cp_url P) DEFAULT_AUTH_URL = Ok (DEFAULT_AUTH_URL @ ''/'')"
    and "parse_value name (cp_url P) DEFAULT_BEACON_URL = Ok (DEFAULT_BEACON_URL @ ''/'')"
    and "parse_value name clap_u16 DEFAULT_GRPC_PORT = Ok 50051"
    and "parse_value name clap_u16 DEFAULT_HTTP_PORT = Ok 9063"
    and "parse_value name clap_u16 DEFAULT_METRICS_PORT = Ok 9090"
    and "parse_value name clap_u64 (nat_to_string (unat (cp_epoch_slots P))) = Ok (cp_epoch_slots P)"
    and "parse_value name (parse_fork_version X) DEFAULT_FORK_VERSION = Ok (ForkVersion [0, 0, 0, 0])"
    and "parse_value name (parse_fork_version X) DEFAULT_CURRENT_VERSION = Ok (ForkVersion [0x20, 0, 0, 0x93])"
    and "parse_value name (parse_genesis_root X) DEFAULT_VALIDATORS_ROOT = Ok (text_bytes DEFAULT_VALIDATORS_ROOT)"
    and "parse_value name (cp_chain P) DEFAULT_CHAIN = Ok Mainnet"
    and "parse_value name (parse_bls_secret_key X) TEST_BLS_SECRET_KEY = Ok (BlsSecretKey (replicate 31 0 @ [1]))"
proof -
  note env = test_environmentD [OF assms(1)]
  show "parse_value name (cp_url P) DEFAULT_AUTH_URL = Ok (DEFAULT_AUTH_URL @ ''/'')"
    and "parse_value name (cp_url P) DEFAULT_BEACON_URL = Ok (DEFAULT_BEACON_URL @ ''/'')"
    and "parse_value name (cp_chain P) DEFAULT_CHAIN = Ok Mainnet"
    using assms(2) by (simp_all add: parse_value_def command_line_documented_def DEFAULT_CHAIN_def)
  show "parse_value name clap_u16 DEFAULT_GRPC_PORT = Ok 50051"
    and "parse_value name clap_u16 DEFAULT_HTTP_PORT = Ok 9063"
    and "parse_value name clap_u16 DEFAULT_METRICS_PORT = Ok 9090"
    by (simp_all add: parse_value_def clap_u16_def clap_u64_def DEFAULT_GRPC_PORT_def DEFAULT_HTTP_PORT_def
        DEFAULT_METRICS_PORT_def u64_literal digits_value_def)
  have "unat v < 2 ^ LENGTH(64)" for v :: u64 by (rule unsigned_less)
  then show "parse_value name clap_u64 (nat_to_string (unat (cp_epoch_slots P))) = Ok (cp_epoch_slots P)"
    by (simp add: parse_value_def clap_u64_def u64_text)
  show "parse_value name (parse_fork_version X) DEFAULT_FORK_VERSION = Ok (ForkVersion [0, 0, 0, 0])"
    and "parse_value name (parse_fork_version X) DEFAULT_CURRENT_VERSION = Ok (ForkVersion [0x20, 0, 0, 0x93])"
    by (simp_all add: parse_value_def version_literals [OF env(4)])
  show "parse_value name (parse_genesis_root X) DEFAULT_VALIDATORS_ROOT = Ok (text_bytes DEFAULT_VALIDATORS_ROOT)"
    using root_literal(2) [OF env(4), of "drop 2 DEFAULT_VALIDATORS_ROOT"]
    by (simp add: parse_value_def DEFAULT_VALIDATORS_ROOT_def text_bytes_def hex_digits_decode del: unhex.simps)
  show "parse_value name (parse_bls_secret_key X) TEST_BLS_SECRET_KEY = Ok (BlsSecretKey (replicate 31 0 @ [1]))"
    by (simp add: parse_value_def test_secret_key [OF assms])
qed

lemma parse_only_key:
  assumes "test_environment X rd" and "command_line_documented X P"
  shows "CliArgs_parse_from X P [''test'', ''--bls-secret-key'', TEST_BLS_SECRET_KEY] =
    Ok \<lparr>ca_mbs_auth_url = DEFAULT_AUTH_URL @ ''/'', ca_beacon_url = DEFAULT_BEACON_URL @ ''/'',
        ca_grpc_port = 50051, ca_http_port = 9063, ca_metrics_port = 9090,
        ca_slots_per_epoch = cp_epoch_slots P, ca_white_listed_builders = [],
        ca_genesis_fork_version = ForkVersion [0, 0, 0, 0],
        ca_current_fork_version = ForkVersion [0x20, 0, 0, 0x93],
        ca_genesis_validators_root = text_bytes DEFAULT_VALIDATORS_ROOT, ca_chain = Mainnet,
        ca_bls_secret_key = BlsSecretKey (replicate 31 0 @ [1])\<rparr>"
proof -
  have "given_options option_names [''--bls-secret-key'', TEST_BLS_SECRET_KEY]
      = Ok [(''bls-secret-key'', TEST_BLS_SECRET_KEY)]"
    using given_option [of "''bls-secret-key''" option_names TEST_BLS_SECRET_KEY "[]"]
    by (simp add: option_names_def TEST_BLS_SECRET_KEY_def)
  then show ?thesis
    by (simp add: CliArgs_parse_from_def single_def collected_def occurrences_def defaults_read [OF assms])
qed

lemma key_to_string_key:
  assumes "test_environment X rd"
  shows "key_to_string X (pk_serialize k) = BlsPublicKey_to_string X k"
  by (simp add: key_text [OF assms] key_to_string_def)

lemma no_hyphen:
  assumes "test_environment X rd"
  shows "take 1 (BlsPublicKey_to_string X k @ s) \<noteq> ''-''"
  by (simp add: key_text [OF assms])

lemma single_key_parsed:
  assumes "test_environment X rd" and "command_line_documented X P"
  shows "CliArgs_parse_from X P [''test'', ''--builders.enabled'', BlsPublicKey_to_string X (drawn_key X rd i),
      ''--bls-secret-key'', TEST_BLS_SECRET_KEY] =
    res_bind (CliArgs_parse_from X P [''test'', ''--bls-secret-key'', TEST_BLS_SECRET_KEY]) (\<lambda>args.
      Ok (args\<lparr>ca_white_listed_builders := [pk_serialize (drawn_key X rd i)]\<rparr>))"
proof -
  let ?k = "BlsPublicKey_to_string X (drawn_key X rd i)"
  have "given_options option_names [''--bls-secret-key'', TEST_BLS_SECRET_KEY]
      = Ok [(''bls-secret-key'', TEST_BLS_SECRET_KEY)]"
    using given_option [of "''bls-secret-key''" option_names TEST_BLS_SECRET_KEY "[]"]
    by (simp add: option_names_def TEST_BLS_SECRET_KEY_def)
  then have "given_options option_names [''--builders.enabled'', ?k, ''--bls-secret-key'', TEST_BLS_SECRET_KEY]
      = Ok [(''builders.enabled'', ?k), (''bls-secret-key'', TEST_BLS_SECRET_KEY)]"
    using given_option [of "''builders.enabled''" option_names ?k "[''--bls-secret-key'', TEST_BLS_SECRET_KEY]"]
      no_hyphen [OF assms(1), of "drawn_key X rd i" "[]"]
    by (simp add: option_names_def)
  then show ?thesis
    unfolding parse_only_key [OF assms]
    by (simp add: CliArgs_parse_from_def single_def collected_def occurrences_def defaults_read [OF assms]
        collected_keys(1) [OF assms])
qed

lemma parse_bls_key_passes:
  assumes "test_environment X rd" and "command_line_documented X P"
  shows "parse_bls_key X P rd w = (w, Ok ())"
proof -
  have key: "BlsPublicKey_from_fixed X (pk_serialize (drawn_key X rd 1)) = Ok (drawn_key X rd 1)"
    using drawn_keys(2) [OF assms(1), of 1] by (simp add: BlsPublicKey_from_fixed_def)
  show ?thesis
    unfolding parse_bls_key_def test_builder_pubkey_str_def drawn_key_random(3) [OF assms(1)] parse_or_exit_def
    by (simp add: single_key_parsed [OF assms] parse_only_key [OF assms] key_to_string_key [OF assms(1)]
        enabled_builders_def key [unfolded One_nat_def])
qed

definition custom_configs :: "string \<Rightarrow> string list" where
  "custom_configs builders =
     [''--bls-secret-key'', TEST_BLS_SECRET_KEY, ''--beacon.url'', ''http://localhost:1234'',
      ''--grpc.port'', ''50051'', ''--epoch.slots'', ''32'', ''--builders.enabled'', builders,
      ''--fork-data.current-version'', ''01010101'', ''--fork-data.genesis-validators-root'',
      ''364b5565185058cbade2bd5d4633fb13794bcd7b474c76935c4a053571404352'', ''--chain'', ''dev'']"

lemma custom_given:
  assumes "take 1 builders \<noteq> ''-''"
  shows "given_options option_names (custom_configs builders) =
    Ok [(''bls-secret-key'', TEST_BLS_SECRET_KEY), (''beacon.url'', ''http://localhost:1234''),
        (''grpc.port'', ''50051''), (''epoch.slots'', ''32''), (''builders.enabled'', builders),
        (''fork-data.current-version'', ''01010101''), (''fork-data.genesis-validators-root'',
          ''364b5565185058cbade2bd5d4633fb13794bcd7b474c76935c4a053571404352''), (''chain'', ''dev'')]"
  using assms unfolding custom_configs_def
  by (simp add: given_option option_names_def TEST_BLS_SECRET_KEY_def del: given_options.simps(2))

lemma custom_parsed:
  assumes "test_environment X rd" and "command_line_documented X P"
  shows "CliArgs_parse_from X P (''test'' # custom_configs
      (BlsPublicKey_to_string X (drawn_key X rd i) @ '','' @ BlsPublicKey_to_string X (drawn_key X rd j))) =
    Ok \<lparr>ca_mbs_auth_url = DEFAULT_AUTH_URL @ ''/'', ca_beacon_url = ''http://localhost:1234/'',
        ca_grpc_port = 50051, ca_http_port = 9063, ca_metrics_port = 9090, ca_slots_per_epoch = 32,
        ca_white_listed_builders = [pk_serialize (drawn_key X rd i), pk_serialize (drawn_key X rd j)],
        ca_genesis_fork_version = ForkVersion [0, 0, 0, 0],
        ca_current_fork_version = ForkVersion [1, 1, 1, 1],
        ca_genesis_validators_root = unhex ''364b5565185058cbade2bd5d4633fb13794bcd7b474c76935c4a053571404352'',
        ca_chain = Dev, ca_bls_secret_key = BlsSecretKey (replicate 31 0 @ [1])\<rparr>"
proof -
  note env = test_environmentD [OF assms(1)]
  let ?builders = "BlsPublicKey_to_string X (drawn_key X rd i) @ '','' @ BlsPublicKey_to_string X (drawn_key X rd j)"
  have given: "given_options option_names (custom_configs ?builders) =
    Ok [(''bls-secret-key'', TEST_BLS_SECRET_KEY), (''beacon.url'', ''http://localhost:1234''),
        (''grpc.port'', ''50051''), (''epoch.slots'', ''32''), (''builders.enabled'', ?builders),
        (''fork-data.current-version'', ''01010101''), (''fork-data.genesis-validators-root'',
          ''364b5565185058cbade2bd5d4633fb13794bcd7b474c76935c4a053571404352''), (''chain'', ''dev'')]"
    using custom_given [OF no_hyphen [OF assms(1)]] .
  have url: "parse_value name (cp_url P) ''http://localhost:1234'' = Ok ''http://localhost:1234/''"
    and chain: "parse_value name (cp_chain P) ''dev'' = Ok Dev" for name
    using assms(2) by (simp_all add: parse_value_def command_line_documented_def)
  have port: "parse_value name clap_u16 ''50051'' = Ok 50051"
    and slots: "parse_value name clap_u64 ''32'' = Ok 32" for name
    by (simp_all add: parse_value_def clap_u16_def clap_u64_def u64_literal digits_value_def)
  have root: "parse_value name (parse_genesis_root X)
      ''364b5565185058cbade2bd5d4633fb13794bcd7b474c76935c4a053571404352'' =
      Ok (unhex ''364b5565185058cbade2bd5d4633fb13794bcd7b474c76935c4a053571404352'')" for name
    using root_literal(1) [OF env(4), of "''364b5565185058cbade2bd5d4633fb13794bcd7b474c76935c4a053571404352''"]
    by (simp add: parse_value_def hex_digits_decode del: unhex.simps)
  show ?thesis
    unfolding CliArgs_parse_from_def single_def collected_def occurrences_def list.sel drop_Suc_Cons drop_0 given
      One_nat_def
    by (simp add: defaults_read [OF assms] collected_keys(2) [OF assms, simplified] url chain port slots root
        version_literals(3) [OF env(4)] parse_value_def [of _ "parse_fork_version X" "''01010101''"]
        del: unhex.simps)
qed

lemma parse_configs_passes:
  assumes "test_environment X rd" and "command_line_documented X P"
  shows "parse_configs X P rd w = (w, Ok ())"
proof -
  note env = test_environmentD [OF assms(1)]
  have trim: "trim_end_slash (DEFAULT_BEACON_URL @ ''/'') = DEFAULT_BEACON_URL"
    "trim_end_slash ''http://localhost:1234/'' = ''http://localhost:1234''"
    by (simp_all add: trim_end_slash_def DEFAULT_BEACON_URL_def)
  have numbers: "clap_u16 DEFAULT_GRPC_PORT = Ok 50051" "clap_u16 ''50051'' = Ok 50051" "clap_u64 ''32'' = Ok 32"
    by (simp_all add: clap_u16_def clap_u64_def DEFAULT_GRPC_PORT_def u64_literal digits_value_def)
  have root: "hex_encode X (unhex ''364b5565185058cbade2bd5d4633fb13794bcd7b474c76935c4a053571404352'')
      = ''364b5565185058cbade2bd5d4633fb13794bcd7b474c76935c4a053571404352''"
    by (rule root_literal(3) [OF env(4)]) (simp_all add: hex_digits_decode)
  have "unhex ''01010101'' = [1, 1, 1, 1]" by (simp add: hex_value_def)
  then have version: "hex_encode X [1, 1, 1, 1] = ''01010101''"
    using env(4) unhex_hex [of "''01010101''"] by (simp add: hex_documented_def hex_digits_decode)
  show ?thesis
    unfolding parse_configs_def test_builder_pubkey_str_def drawn_key_random(3) [OF assms(1)] parse_or_exit_def
    by (simp add: parse_only_key [OF assms] custom_parsed [OF assms, unfolded custom_configs_def append_Cons append_Nil]
        trim numbers root version key_to_string_key [OF assms(1)] numeral_2_eq_2 Let_def del: unhex.simps)
qed

section \<open>Properties\<close>

text \<open>
  The tests of the beacon crate and of the relay pass, for every JSON reader that accepts the events they
  write: the merged stream emits both events and stops at an error, the service answers its handle, and
  the relay service, however often it is polled from the second time on and reconnects, has stored both
  events and no duties.
\<close>

theorem node_tests_pass:
  assumes "test_environment X rd" and "json_env X" and "2 \<le> n" and "2 \<le> polls"
    and "is_ok (read_event (attributes_json ''0x0000000000000000000000000000000000000001''))"
    and "is_ok (read_event (attributes_json ''0x123463a4b065722e99115d6c222f267d9cabb524''))"
  shows "can_emit_events read_event n = Ok () \<and> no_epoch_event_on_non_first_slot read_event n = Ok () \<and>
    can_handle_errors n = Ok () \<and> can_send_commands X rd = Ok () \<and>
    can_fill_storage_from_events_through_service X read_event recorder n polls = Ok ()"
  using stream_tests [where read_event = read_event, OF assms(5,3)] service_test [OF assms(1,2)]
    relay_test [where read_event = read_event, OF assms(1,6,3,4)]
  by (intro conjI)


end
