(* ===== verification/Http_Tests.thy ===== *)
theory Http_Tests
  imports Node_Tests
begin

text \<open>
  The tests of the routes of \<open>crates/http\<close>: status, duties, headers, registrations and the composed
  server. A request of \<open>warp::test\<close> is a request of the routing model and its reply is read back from
  the bytes that the reply writes. What a test leaves open (\<open>serde_json\<close>, the reply of warp to a
  rejection that is not recovered, the clock, the random identifiers) is the argument \<open>TestHarness\<close>.
\<close>

section \<open>Requests of \<open>warp::test\<close>\<close>

record TestHarness =
  hh_parse :: "bytes \<Rightarrow> (Json, string) res"
  hh_render :: "Json \<Rightarrow> bytes"
  hh_api_key :: "string \<Rightarrow> string option"
  hh_params :: "string \<Rightarrow> QueryParams option"
  hh_rejected :: "Rejection \<Rightarrow> Reply"
  hh_env :: Surroundings
  hh_uuids :: "nat \<Rightarrow> bytes"
  hh_recorder :: RelayMetrics

definition test_decoders :: "externs \<Rightarrow> TestHarness \<Rightarrow> Decoders" where
  "test_decoders X H = serde_decoders X (hh_parse H) (hh_api_key H) (hh_params H)"

definition plain_request :: "Method \<Rightarrow> string list \<Rightarrow> HttpRequest" where
  "plain_request m path =
     \<lparr>hq_method = m, hq_path = path, hq_query = None, hq_content_type = None, hq_content_length = None,
      hq_body = []\<rparr>"

text \<open>\<open>reply(&filter)\<close>, of a route by itself and of one with \<open>recover(handle_rejection)\<close>.\<close>

definition reply_to :: "TestHarness \<Rightarrow> 's route \<Rightarrow> HttpRequest \<Rightarrow> ('s world, Reply) step" where
  "reply_to H route req w =
     (case route req w of
        (w', Ok reply) \<Rightarrow> (w', Ok reply)
      | (w', Err e) \<Rightarrow> (w', Ok (hh_rejected H e))
      | (w', Panic m) \<Rightarrow> (w', Panic m))"

definition recovered :: "TestHarness \<Rightarrow> 's route \<Rightarrow> 's route" where
  "recovered H route req w =
     (case route req w of
        (w', Err e) \<Rightarrow> (w', Ok (handle_rejection (su_debug (hh_env H)) e))
      | answer \<Rightarrow> answer)"

text \<open>\<open>from_slice\<close> of \<open>serde_json\<close>, and the bytes of a reply.\<close>

definition from_slice :: "TestHarness \<Rightarrow> (Json \<Rightarrow> ('a, DeError) res) \<Rightarrow> bytes \<Rightarrow> ('a, DeError) res" where
  "from_slice H reader bs = res_bind (res_map_err DeCustom (hh_parse H bs)) reader"

definition reply_body :: "externs \<Rightarrow> TestHarness \<Rightarrow> Reply \<Rightarrow> bytes" where
  "reply_body X H resp = body_bytes X (hh_render H) (rp_body resp)"

text \<open>\<open>new\<close> of the containers of \<open>ssz_types\<close>.\<close>

definition VariableList_new :: "externs \<Rightarrow> nat \<Rightarrow> 'a list \<Rightarrow> ('a list, string) res" where
  "VariableList_new X n vs =
     (if variable_list_new_ok X n (length vs) then Ok vs else Err (ssz_error_debug X n (length vs)))"

definition FixedVector_new :: "externs \<Rightarrow> nat \<Rightarrow> 'a list \<Rightarrow> ('a list, string) res" where
  "FixedVector_new X n vs =
     (if fixed_vector_new_ok X n (length vs) then Ok vs else Err (ssz_error_debug X n (length vs)))"

section \<open>\<open>proposer_api/status.rs\<close>\<close>

definition test_status_route :: "TestHarness \<Rightarrow> ('s world, unit) step" where
  "test_status_route H =
     step_bind (reply_to H status_route (plain_request GET [''eth'', ''v1'', ''builder'', ''status''])) (\<lambda>resp.
       assert_eq ''status'' (rp_status resp) StatusOK)"

section \<open>\<open>builder_api/get_validators.rs\<close>\<close>

definition gv_validator_registration :: "externs \<Rightarrow> Randomness \<Rightarrow> (ValidatorRegistration, string) res" where
  "gv_validator_registration X rd =
     res_bind (test_signature X) (\<lambda>signature.
     res_bind (BlsPublicKey_random X (rd_ikm rd 2)) (\<lambda>pubkey.
       Ok \<lparr>vr_message = \<lparr>vrm_fee_recipient = Address_zero, vrm_gas_limit = 0, vrm_timestamp = 0,
                         vrm_pubkey = pubkey\<rparr>,
           vr_signature = signature\<rparr>))"

definition gv_validator :: "externs \<Rightarrow> Randomness \<Rightarrow> (Validator, string) res" where
  "gv_validator X rd =
     res_bind (gv_validator_registration X rd) (\<lambda>entry.
       Ok \<lparr>val_slot = 0, val_validator_index = 0, val_entry = entry\<rparr>)"

definition gv_payload_attr :: "u64 \<Rightarrow> Address \<Rightarrow> PayloadAttributes" where
  "gv_payload_attr slot recipient =
     \<lparr>pa_proposal_slot = slot, pa_parent_block_root = replicate 32 0, pa_parent_block_number = 0,
      pa_parent_block_hash = replicate 32 0, pa_proposer_index = 0, pa_timestamp = 0,
      pa_prev_randao = replicate 32 0, pa_suggested_fee_recipient = Address_as_ref recipient,
      pa_withdrawals = Some [], pa_parent_beacon_block_root = None\<rparr>"

definition gv_setup_storage :: "externs \<Rightarrow> Randomness \<Rightarrow> RelayMetrics \<Rightarrow> (relay_world, string) res" where
  "gv_setup_storage X rd recorder =
     res_bind (ForkDatas_default X) (\<lambda>fork_datas.
       Ok (InMemoryStorage_new (HeadSlot_from 10) (gv_payload_attr 0 (Address_random (rd_address rd 0))) []
             fork_datas Mapping.empty [] recorder))"

text \<open>A test with the storage that \<open>setup_storage\<close> makes.\<close>

definition on_storage :: "(relay_world, string) res \<Rightarrow> (relay_world, unit) step \<Rightarrow> (unit, string) res" where
  "on_storage storage test = res_bind storage (\<lambda>storage. snd (test storage))"

definition test_get_validators :: "externs \<Rightarrow> Randomness \<Rightarrow> TestHarness \<Rightarrow> (unit, string) res" where
  "test_get_validators X rd H =
     on_storage (gv_setup_storage X rd (hh_recorder H))
      (step_bind (give (gv_validator X rd)) (\<lambda>validator.
       step_bind (change (set_proposer_duties in_memory_storage [validator])) (\<lambda>_.
       step_bind (reply_to H (get_validators_route in_memory_storage)
         (plain_request GET [''relay'', ''v1'', ''builder'', ''validators''])) (\<lambda>resp.
       step_bind (assert_eq ''status'' (rp_status resp) StatusOK) (\<lambda>_.
       let body = reply_body X H resp in
       step_bind (give (unwrap (from_slice H (read_seq (Validator_deserialize X)) body))) (\<lambda>duties.
       step_bind (assert_eq ''length'' (length duties) 1) (\<lambda>_.
       step_bind (assert_eq ''index'' (val_validator_index (duties ! 0)) 0) (\<lambda>_.
       step_bind (assert_eq ''slot'' (val_slot (duties ! 0)) 0) (\<lambda>_.
       step_bind (assert_eq ''recipient''
         (vrm_fee_recipient (vr_message (val_entry (duties ! 0)))) Address_zero) (\<lambda>_.
       step_bind (give (test_signature X)) (\<lambda>expected_sig.
         assert_eq ''signature'' (vr_signature (val_entry (duties ! 0))) expected_sig)))))))))))"

section \<open>\<open>proposer_api/get_header.rs\<close>\<close>

definition gh_validator_registration ::
    "externs \<Rightarrow> Randomness \<Rightarrow> u64 \<Rightarrow> (ValidatorRegistration, string) res" where
  "gh_validator_registration X rd timestamp =
     res_bind (test_signature X) (\<lambda>signature.
     res_bind (BlsPublicKey_random X (rd_ikm rd 2)) (\<lambda>pubkey.
       Ok \<lparr>vr_message = \<lparr>vrm_fee_recipient = Address_zero, vrm_gas_limit = 0,
                         vrm_timestamp = timestamp, vrm_pubkey = pubkey\<rparr>,
           vr_signature = signature\<rparr>))"

definition gh_payload_attr :: "u64 \<Rightarrow> Address \<Rightarrow> PayloadAttributes" where
  "gh_payload_attr slot recipient =
     \<lparr>pa_proposal_slot = slot, pa_parent_block_root = replicate 32 0, pa_parent_block_number = 0,
      pa_parent_block_hash = replicate 32 0, pa_proposer_index = 0, pa_timestamp = 0,
      pa_prev_randao = replicate 32 0, pa_suggested_fee_recipient = Address_as_ref recipient,
      pa_withdrawals = Some [], pa_parent_beacon_block_root = None\<rparr>"

definition gh_setup_storage :: "externs \<Rightarrow> Randomness \<Rightarrow> RelayMetrics \<Rightarrow> (relay_world, string) res" where
  "gh_setup_storage X rd recorder =
     res_bind (ForkDatas_default X) (\<lambda>fork_datas.
       Ok (InMemoryStorage_new (HeadSlot_from 10) (gh_payload_attr 0 (Address_random (rd_address rd 0))) []
             fork_datas Mapping.empty [] recorder))"

definition gh_bid_trace :: "externs \<Rightarrow> Randomness \<Rightarrow> u64 \<Rightarrow> string \<Rightarrow> (BidTrace, string) res" where
  "gh_bid_trace X rd slot v =
     res_bind (test_bls_pubkey X rd) (\<lambda>pubkey.
     res_bind (unwrap (U256_of_str X v)) (\<lambda>v.
       Ok \<lparr>bt_slot = slot, bt_parent_hash = B256_zero, bt_block_hash = B256_zero,
           bt_builder_pubkey = pubkey, bt_proposer_pubkey = pubkey,
           bt_proposer_fee_recipient = Address_zero, bt_gas_limit = 0, bt_gas_used = 0, bt_value = v\<rparr>))"

definition gh_execution_payload :: "externs \<Rightarrow> (ExecutionPayload, string) res" where
  "gh_execution_payload X =
     res_bind (unwrap (VariableList_new X 32 [])) (\<lambda>extra_data.
     res_bind (unwrap (VariableList_new X 1048576 [])) (\<lambda>transactions.
     res_bind (unwrap (VariableList_new X 16 [])) (\<lambda>withdrawals.
     res_bind (unwrap (FixedVector_new X 256 (replicate 256 0))) (\<lambda>logs_bloom.
       Ok \<lparr>ep_parent_hash = B256_zero, ep_fee_recipient = Address_zero, ep_state_root = B256_zero,
           ep_receipts_root = B256_zero, ep_logs_bloom = logs_bloom, ep_prev_randao = B256_zero,
           ep_block_number = 0, ep_gas_limit = 0, ep_gas_used = 0, ep_timestamp = 0,
           ep_extra_data = extra_data, ep_base_fee_per_gas = U256_from_u64 0, ep_block_hash = B256_zero,
           ep_transactions = transactions, ep_withdrawals = withdrawals, ep_blob_gas_used = 0,
           ep_excess_blob_gas = 0\<rparr>))))"

definition gh_bid_submission :: "externs \<Rightarrow> Randomness \<Rightarrow> (BidSubmission, string) res" where
  "gh_bid_submission X rd =
     res_bind (gh_bid_trace X rd 10 ''0x0'') (\<lambda>trace.
     res_bind (gh_execution_payload X) (\<lambda>payload.
       Ok (BidSubmission_new trace payload BlobsBundle_default BlsSignature_default)))"

text \<open>The header of a slot, for the parent hash of zeros and the key of the tests.\<close>

definition header_request :: "externs \<Rightarrow> Randomness \<Rightarrow> string \<Rightarrow> (HttpRequest, string) res" where
  "header_request X rd slot =
     res_bind (test_bls_pubkey_str X rd) (\<lambda>key.
       Ok (plain_request GET [''eth'', ''v1'', ''builder'', ''header'', slot,
         ''0x0000000000000000000000000000000000000000000000000000000000000000'', key]))"

definition gh_route :: "externs \<Rightarrow> TestHarness \<Rightarrow> BlsSigner \<Rightarrow> InMemoryStorageInner route" where
  "gh_route X H signer = get_header_route X in_memory_storage ((hh_env H)\<lparr>su_signer := signer\<rparr>)"

definition valid_get_header :: "externs \<Rightarrow> Randomness \<Rightarrow> TestHarness \<Rightarrow> (unit, string) res" where
  "valid_get_header X rd H =
     on_storage (gh_setup_storage X rd (hh_recorder H))
      (step_bind (give (test_bls_pubkey X rd)) (\<lambda>key.
       step_bind (give (gh_validator_registration X rd 1)) (\<lambda>registration.
       step_bind (change (set_validator_registration in_memory_storage key registration)) (\<lambda>_.
       step_bind (give (gh_bid_submission X rd)) (\<lambda>bid.
       step_bind (change (set_best_bid in_memory_storage 11 bid)) (\<lambda>_.
       step_bind (give (BlsSigner_default X (rd_ikm rd 3))) (\<lambda>signer.
       let pub_key = BlsSigner_public_key X signer;
           domain = ForkData_compute_builder_domain X (BlsSigner_fork_data_builder signer);
           get_payload = gh_route X H signer in
       step_bind (give (header_request X rd ''11'')) (\<lambda>req.
       step_bind (reply_to H get_payload req) (\<lambda>resp.
       step_bind (assert_eq ''status'' (rp_status resp) StatusOK) (\<lambda>_.
       let body = reply_body X H resp in
       step_bind (give (unwrap (from_slice H (Versioned_deserialize (SignedHeader_deserialize X)) body)))
         (\<lambda>versioned_bid.
       step_bind (assert_eq ''version'' (ver_version versioned_bid) Deneb) (\<lambda>_.
       let sig = sh_signature (ver_data versioned_bid);
           msg = sh_message (ver_data versioned_bid)
       in assert_that ''signature'' (BlsSignature_verify X sig pub_key
            (signing_root X (Header_tree_hash_root X msg) domain))))))))))))))"

definition test_invalid_slot_error :: "externs \<Rightarrow> Randomness \<Rightarrow> TestHarness \<Rightarrow> (unit, string) res" where
  "test_invalid_slot_error X rd H =
     on_storage (gh_setup_storage X rd (hh_recorder H))
      (step_bind (give (test_bls_pubkey X rd)) (\<lambda>key.
       step_bind (give (gh_validator_registration X rd 1)) (\<lambda>registration.
       step_bind (change (set_validator_registration in_memory_storage key registration)) (\<lambda>_.
       step_bind (give (BlsSigner_default X (rd_ikm rd 3))) (\<lambda>signer.
       let get_payload = recovered H (gh_route X H signer) in
       step_bind (give (header_request X rd ''1'')) (\<lambda>req.
       step_bind (reply_to H get_payload req) (\<lambda>resp.
       step_bind (assert_eq ''status'' (rp_status resp) BAD_REQUEST) (\<lambda>_.
       let msg = reply_body X H resp
       in assert_eq ''message'' msg (ascii (CHR 0x22 # ''slot is too old'' @ [CHR 0x22]))))))))))"

definition test_no_bid_found_error :: "externs \<Rightarrow> Randomness \<Rightarrow> TestHarness \<Rightarrow> (unit, string) res" where
  "test_no_bid_found_error X rd H =
     on_storage (gh_setup_storage X rd (hh_recorder H))
      (step_bind (give (test_bls_pubkey X rd)) (\<lambda>key.
       step_bind (give (gh_validator_registration X rd 1)) (\<lambda>registration.
       step_bind (change (set_validator_registration in_memory_storage key registration)) (\<lambda>_.
       step_bind (give (gh_bid_submission X rd)) (\<lambda>bid.
       step_bind (change (set_best_bid in_memory_storage 10 bid)) (\<lambda>_.
       step_bind (give (BlsSigner_default X (rd_ikm rd 3))) (\<lambda>signer.
       let get_payload = recovered H (gh_route X H signer) in
       step_bind (give (header_request X rd ''11'')) (\<lambda>req.
       step_bind (reply_to H get_payload req) (\<lambda>resp.
       step_bind (assert_eq ''status'' (rp_status resp) BAD_REQUEST) (\<lambda>_.
       let msg = reply_body X H resp
       in assert_eq ''message'' msg (ascii (CHR 0x22 # ''No bid found'' @ [CHR 0x22]))))))))))))"

section \<open>\<open>server/mod.rs\<close>\<close>

definition hs_payload_attr :: "u64 \<Rightarrow> Address \<Rightarrow> PayloadAttributes" where
  "hs_payload_attr slot recipient =
     \<lparr>pa_proposal_slot = slot, pa_parent_block_root = replicate 32 0, pa_parent_block_number = 0,
      pa_parent_block_hash = replicate 32 0, pa_proposer_index = 0, pa_timestamp = 0,
      pa_prev_randao = replicate 32 0, pa_suggested_fee_recipient = Address_as_ref recipient,
      pa_withdrawals = Some [], pa_parent_beacon_block_root = None\<rparr>"

definition known_validator_json :: "string \<Rightarrow> Json" where
  "known_validator_json key =
    JObject [
      (''execution_optimistic'', JBool False),
      (''finalized'', JBool True),
      (''data'', JObject [
        (''index'', JString ''1''),
        (''balance'', JString ''1''),
        (''status'', JString ''active''),
        (''validator'', JObject [
          (''pubkey'', JString key),
          (''withdrawal_credentials'', JString ''WithdrawalCred1''),
          (''effective_balance'', JString ''1''),
          (''slashed'', JBool False),
          (''activation_eligibility_epoch'', JString ''0''),
          (''activation_epoch'', JString ''0''),
          (''exit_epoch'', JString ''12341431''),
          (''withdrawable_epoch'', JString ''1213413'')])])]"

definition known_validators_response :: "externs \<Rightarrow> Randomness \<Rightarrow> (KnownValidatorResponse, string) res" where
  "known_validators_response X rd =
     res_bind (test_bls_pubkey_str X rd) (\<lambda>key.
       unwrap (KnownValidatorResponse_deserialize X (known_validator_json key)))"

definition hs_TestApi :: "externs \<Rightarrow> Randomness \<Rightarrow> BeaconApi" where
  "hs_TestApi X rd =
     \<lparr>api_sync_status = unimplemented, api_proposer_duties = (\<lambda>epoch. unimplemented),
      api_publish_block = (\<lambda>block submission_type. unimplemented), api_get_fork_data = unimplemented,
      api_get_known_validator = (\<lambda>pubkey. known_validators_response X rd)\<rparr>"

definition TestAuth_validate :: "TestHarness \<Rightarrow> string \<Rightarrow> (MbsUser, AuthError) res" where
  "TestAuth_validate H secret = Ok \<lparr>mu_team_id = hh_uuids H 0, mu_id = hh_uuids H 1\<rparr>"

text \<open>
  A call of the handle when the service has been spawned: the service answers with the future, which is
  run on the API. No test meets a panic of the API here; it counts as an error.
\<close>

definition spawned_known :: "BeaconApi \<Rightarrow> known_validators" where
  "spawned_known api i pubkey =
     (let (tx, service) = handle_get_known_validator pubkey BeaconService_new;
          service = BeaconService_poll service
      in case oneshot_recv tx service of
           Some (KnownValidatorFuture key) \<Rightarrow>
             (case api_get_known_validator api key of Ok response \<Rightarrow> Inr response | Err e \<Rightarrow> Inl e
              | Panic m \<Rightarrow> Inl m)
         | _ \<Rightarrow> Inl ''Could not receive response'')"

definition test_env :: "externs \<Rightarrow> Randomness \<Rightarrow> TestHarness \<Rightarrow> Surroundings" where
  "test_env X rd H =
     (hh_env H)\<lparr>su_auth := TestAuth_validate H, su_known := spawned_known (hs_TestApi X rd)\<rparr>"

text \<open>The composed server, without the route of the headers and the one of the bids.\<close>

definition hs_routes :: "externs \<Rightarrow> Randomness \<Rightarrow> TestHarness \<Rightarrow> InMemoryStorageInner route" where
  "hs_routes X rd H =
     (let env = test_env X rd H; D = test_decoders X H;
          proposer_api =
            or_else (or_else status_route (post_blinded_blocks_route X in_memory_storage env D))
              (post_validators_route X in_memory_storage env D);
          builder = get_validators_route in_memory_storage;
          data = get_bids_route in_memory_storage D
      in recovered H (or_else (or_else proposer_api builder) data))"

definition test_server :: "externs \<Rightarrow> Randomness \<Rightarrow> TestHarness \<Rightarrow> (unit, string) res" where
  "test_server X rd H =
     on_storage
      (res_bind (ForkDatas_default X) (\<lambda>fork_datas.
         Ok (InMemoryStorage_new (HeadSlot_from 0) (hs_payload_attr 0 (Address_random (rd_address rd 0))) []
               fork_datas Mapping.empty [] (hh_recorder H))))
      (let routes = hs_routes X rd H in
       step_bind (reply_to H routes (plain_request GET [''relay'', ''v1'', ''builder'', ''validators''])) (\<lambda>resp.
       step_bind (assert_eq ''validators'' (rp_status resp) StatusOK) (\<lambda>_.
       step_bind (reply_to H routes (plain_request GET [''eth'', ''v1'', ''builder'', ''status''])) (\<lambda>resp.
       step_bind (assert_eq ''status'' (rp_status resp) StatusOK) (\<lambda>_.
       step_bind (reply_to H routes (plain_request POST
         [''relay'', ''v1'', ''data'', ''bidtraces'', ''builder_blocks_received''])) (\<lambda>resp.
         assert_eq ''bids'' (rp_status resp) StatusOK))))))"

section \<open>\<open>proposer_api/post_validators.rs\<close>\<close>

definition pv_payload_attr :: "u64 \<Rightarrow> Address \<Rightarrow> PayloadAttributes" where
  "pv_payload_attr slot recipient =
     \<lparr>pa_proposal_slot = slot, pa_parent_block_root = replicate 32 0, pa_parent_block_number = 0,
      pa_parent_block_hash = replicate 32 0, pa_proposer_index = 0, pa_timestamp = 0,
      pa_prev_randao = replicate 32 0, pa_suggested_fee_recipient = Address_as_ref recipient,
      pa_withdrawals = Some [], pa_parent_beacon_block_root = None\<rparr>"

definition pv_setup_storage :: "externs \<Rightarrow> Randomness \<Rightarrow> RelayMetrics \<Rightarrow> (relay_world, string) res" where
  "pv_setup_storage X rd recorder =
     res_bind (ForkDatas_default X) (\<lambda>fork_datas.
       Ok (InMemoryStorage_new (HeadSlot_from 10) (pv_payload_attr 0 (Address_random (rd_address rd 0))) []
             fork_datas Mapping.empty [] recorder))"

text \<open>A registration draws its address with number \<open>i\<close>.\<close>

definition pv_validator_registration ::
    "Randomness \<Rightarrow> nat \<Rightarrow> BlsPublicKey \<Rightarrow> BlsSignature option \<Rightarrow> ValidatorRegistration" where
  "pv_validator_registration rd i pubkey signature =
     \<lparr>vr_message = \<lparr>vrm_fee_recipient = Address_random (rd_address rd i), vrm_gas_limit = 0,
                    vrm_timestamp = 0, vrm_pubkey = pubkey\<rparr>,
      vr_signature = (case signature of Some s \<Rightarrow> s | None \<Rightarrow> BlsSignature_default)\<rparr>"

definition generate_signed_registrations ::
    "externs \<Rightarrow> Randomness \<Rightarrow> nat \<Rightarrow> (ValidatorRegistration list, string) res" where
  "generate_signed_registrations X rd num_regs =
     res_mapM (\<lambda>i.
       res_bind (BlsSigner_default X (rd_ikm rd (3 + i))) (\<lambda>signer.
       let pubkey = BlsSigner_public_key X signer;
           registration = pv_validator_registration rd (2 + i) pubkey None;
           signature = BlsSigner_sign X signer
             (ValidatorRegistrationMessage_tree_hash_root X (vr_message registration));
           registration = registration\<lparr>vr_signature := signature\<rparr>
       in Ok registration)) [0..<num_regs]"

definition post_registrations ::
    "externs \<Rightarrow> Randomness \<Rightarrow> TestHarness \<Rightarrow> ValidatorRegistration list \<Rightarrow> (relay_world, unit) step" where
  "post_registrations X rd H registrations =
     (let post_validators = post_validators_route X in_memory_storage (test_env X rd H) (test_decoders X H) in
      step_bind (reply_to H post_validators
        (json_post [''eth'', ''v1'', ''builder'', ''validators''] (Some ''api_key=123'')
          (hh_render H (write_seq (ValidatorRegistration_serialize X) registrations)))) (\<lambda>resp.
        assert_eq ''status'' (rp_status resp) StatusOK))"

definition invalid_by_sig :: "externs \<Rightarrow> Randomness \<Rightarrow> TestHarness \<Rightarrow> (relay_world, unit) step" where
  "invalid_by_sig X rd H =
     step_bind (give (test_signature X)) (\<lambda>signature.
     step_bind (give (BlsPublicKey_random X (rd_ikm rd 2))) (\<lambda>signer.
     let registrations = pv_validator_registration rd 1 signer (Some signature)
     in post_registrations X rd H [registrations]))"

definition valid_registrations ::
    "externs \<Rightarrow> Randomness \<Rightarrow> TestHarness \<Rightarrow> ValidatorRegistration list \<Rightarrow> (relay_world, unit) step" where
  "valid_registrations X rd H registrations = post_registrations X rd H registrations"

definition test_post_validators :: "externs \<Rightarrow> Randomness \<Rightarrow> TestHarness \<Rightarrow> (unit, string) res" where
  "test_post_validators X rd H =
     on_storage (pv_setup_storage X rd (hh_recorder H))
      (step_bind (invalid_by_sig X rd H) (\<lambda>_.
       step_bind (give (generate_signed_registrations X rd 50)) (\<lambda>registrations.
         valid_registrations X rd H registrations)))"

section \<open>Lemmas\<close>

text \<open>
  The signature of a key that was generated is not the point at infinity.
\<close>

definition finite_signatures :: "externs \<Rightarrow> bool" where
  "finite_signatures X \<longleftrightarrow>
     (\<forall>ikm k msg. blst_sk_key_gen X ikm [] = Ok k \<longrightarrow> blst_sk_sign X k msg DST [] \<noteq> INFINITY_SIGNATURE)"

text \<open>
  The texts of \<open>serde_json\<close> without spaces are at most eight bytes for a character of the value, and the
  text of an integer of \<open>ruint\<close> has at most 80 characters.
\<close>

fun json_size :: "Json \<Rightarrow> nat" where
  "json_size (JString s) = 1 + length s"
| "json_size (JNumber n) = 1 + n"
| "json_size (JBool b) = 1"
| "json_size (JSeq js) = 1 + sum_list (map (\<lambda>j. json_size j + 1) js)"
| "json_size (JObject fs) = 1 + sum_list (map (\<lambda>(n, j). length n + json_size j + 2) fs)"
| "json_size JOther = 4"

definition compact_texts :: "externs \<Rightarrow> (Json \<Rightarrow> bytes) \<Rightarrow> bool" where
  "compact_texts X render \<longleftrightarrow>
     (\<forall>j. length (render j) \<le> 8 * json_size j) \<and> (\<forall>v. length (u256_to_string X v) \<le> 80)"

text \<open>The documented behaviour of what the tests of the routes use.\<close>

definition http_environment :: "externs \<Rightarrow> Randomness \<Rightarrow> TestHarness \<Rightarrow> bool" where
  "http_environment X rd H \<longleftrightarrow>
     test_environment X rd \<and> finite_signatures X \<and> json_env X \<and> tree_hash_width X \<and>
     json_texts (hh_parse H) (hh_render H) \<and>
     compact_texts X (hh_render H) \<and> hh_api_key H ''api_key=123'' = Some ''123'' \<and>
     hh_params H [] = Some \<lparr>qp_slot = None, qp_block_number = None\<rparr>"

lemma http_environmentD:
  assumes "http_environment X rd H"
  shows "test_environment X rd" "finite_signatures X" "json_env X" "tree_hash_width X"
    "json_texts (hh_parse H) (hh_render H)"
    "compact_texts X (hh_render H)" "hh_api_key H ''api_key=123'' = Some ''123''"
    "hh_params H [] = Some \<lparr>qp_slot = None, qp_block_number = None\<rparr>"
  using assms by (simp_all add: http_environment_def)

text \<open>Replies.\<close>

lemma step_reply:
  "route req w = (w', Ok reply) \<Longrightarrow> step_bind (reply_to H route req) f w = f reply w'"
  by (simp add: reply_to_def step_bind_def)

lemma recovered_answer:
  "route req w = (w', Err e) \<Longrightarrow>
     recovered H route req w = (w', Ok (handle_rejection (su_debug (hh_env H)) e))"
  "route req w = (w', Ok reply) \<Longrightarrow> recovered H route req w = (w', Ok reply)"
  by (simp_all add: recovered_def)

lemma from_slice_rendered:
  assumes "json_texts (hh_parse H) (hh_render H)"
  shows "from_slice H reader (hh_render H json) = reader json"
  using assms by (simp add: from_slice_def json_texts_def)

lemma plain_request_sel [simp]:
  "hq_path (plain_request m path) = path" "hq_method (plain_request m path) = m"
  "hq_query (plain_request m path) = None"
  by (simp_all add: plain_request_def)

lemma test_signature_valid:
  assumes "test_environment X rd"
  shows "valid_signature X \<lparr>sig_point = Some test_signature_bytes, sig_is_infinity = False\<rparr>"
proof -
  have "hd test_signature_bytes = 0xad"
    by (simp add: test_signature_bytes_def TEST_BLS_SIGNATURE_def hex_value_def)
  then have "test_signature_bytes \<noteq> NONE_SIGNATURE" "test_signature_bytes \<noteq> INFINITY_SIGNATURE"
    by (auto simp: NONE_SIGNATURE_def INFINITY_SIGNATURE_def SIGNATURE_BYTES_LEN_def
        dest!: arg_cong [where f = hd])
  then show ?thesis
    using test_environmentD(8) [OF assms] test_signature_Ok(2) [OF assms] by (simp add: valid_signature_def)
qed

lemma fits_registration:
  assumes "valid_key X k" and "valid_signature X s" and "length bs = 20"
  shows "fits_ValidatorRegistration X \<lparr>vr_message = \<lparr>vrm_fee_recipient = Address bs, vrm_gas_limit = g,
    vrm_timestamp = t, vrm_pubkey = k\<rparr>, vr_signature = s\<rparr>"
  using assms by (simp add: fits_ValidatorRegistration_def fits_ValidatorRegistrationMessage_def wf_Address_def)


lemma drawn_signatures_valid:
  assumes "test_environment X rd" and "finite_signatures X"
  shows "valid_signature X (BlsSigner_sign X (drawn_signer X rd i) root)"
    and "valid_signature X (BlsSigner_proposer_sign X (drawn_signer X rd i) root)"
proof -
  note env = test_environmentD [OF assms(1)]
  have "length (rd_ikm rd i) = 32" using env(7) by simp
  with env(1) obtain k where k: "blst_sk_key_gen X (rd_ikm rd i) [] = Ok k" unfolding blst_keys_def by blast
  then have "blst_sk_sign X (sk_serialize (drawn_secret X rd i)) msg DST [] \<noteq> INFINITY_SIGNATURE" for msg
    using assms(2) by (simp add: drawn_secret_def finite_signatures_def)
  then show "valid_signature X (BlsSigner_sign X (drawn_signer X rd i) root)"
    "valid_signature X (BlsSigner_proposer_sign X (drawn_signer X rd i) root)"
    using made_signature_valid [OF env(2)]
    by (simp_all add: BlsSigner_sign_def BlsSigner_proposer_sign_def drawn_signer_def)
qed

lemma drawn_signer_key: "BlsSigner_public_key X (drawn_signer X rd i) = drawn_key X rd i"
  by (simp add: BlsSigner_public_key_def drawn_signer_def drawn_key_def)

text \<open>The storages with which the tests begin.\<close>

definition started :: "HeadSlot \<Rightarrow> relay_world \<Rightarrow> bool" where
  "started slot w \<longleftrightarrow> im_slot (w_store w) = slot \<and> im_fork_data (w_store w) = default_forks \<and>
     im_proposer_duties (w_store w) = [] \<and> im_best_bid_per_slot (w_store w) = Mapping.empty"

lemma setup_storages:
  assumes "test_environment X rd"
  shows "\<exists>w. gv_setup_storage X rd recorder = Ok w \<and> started (HeadSlot 10) w"
    and "\<exists>w. gh_setup_storage X rd recorder = Ok w \<and> started (HeadSlot 10) w"
    and "\<exists>w. pv_setup_storage X rd recorder = Ok w \<and> started (HeadSlot 10) w"
  by (simp_all add: gv_setup_storage_def gh_setup_storage_def pv_setup_storage_def
      ForkDatas_default_Ok [OF test_environmentD(4,5) [OF assms]] InMemoryStorage_new_def started_def
      HeadSlot_from_def Let_def metrics_defs)

lemma get_validators_passes:
  assumes "http_environment X rd H"
  shows "test_get_validators X rd H = Ok ()"
proof -
  note env = http_environmentD [OF assms]
  obtain w where w: "gv_setup_storage X rd (hh_recorder H) = Ok w" using setup_storages(1) [OF env(1)] by blast
  let ?sig = "\<lparr>sig_point = Some test_signature_bytes, sig_is_infinity = False\<rparr>"
  let ?v = "\<lparr>val_slot = 0, val_validator_index = 0, val_entry = \<lparr>vr_message = \<lparr>vrm_fee_recipient = Address_zero,
    vrm_gas_limit = 0, vrm_timestamp = 0, vrm_pubkey = drawn_key X rd 2\<rparr>, vr_signature = ?sig\<rparr>\<rparr>"
  have v: "gv_validator X rd = Ok ?v"
    by (simp add: gv_validator_def gv_validator_registration_def test_signature_Ok(1) [OF env(1)]
        drawn_key_random [OF env(1)])
  have "fits_Validator X ?v"
    using fits_registration [OF drawn_keys(1) [OF env(1)] test_signature_valid [OF env(1)], of "replicate 20 0"]
    by (simp add: fits_Validator_def Address_zero_def)
  then have read: "read_seq (Validator_deserialize X) (write_seq (Validator_serialize X) [?v]) = Ok [?v]"
    using env(3) by (intro duty_json.list_reads_back) simp
  have reply: "get_validators_route in_memory_storage
      (plain_request GET [''relay'', ''v1'', ''builder'', ''validators'']) (ims_set_proposer_duties [?v] w)
      = (ims_set_proposer_duties [?v] w, Ok \<lparr>rp_status = StatusOK, rp_body = JsonDuties [?v]\<rparr>)"
    by (simp add: get_validators_route_def get_validators_handler_def reply_json_def
        ims_reader_defs ims_set_proposer_duties_def)
  show ?thesis
    by (simp add: test_get_validators_def on_storage_def w v step_reply reply reply_body_def read
        from_slice_rendered [OF env(5)]
        test_signature_Ok(1) [OF env(1)])
qed

text \<open>Headers.\<close>

lemma zero_hash:
  assumes "test_environment X rd"
  shows "B256_of_str X ''0x0000000000000000000000000000000000000000000000000000000000000000'' = Ok B256_zero"
proof -
  let ?t = "''0x0000000000000000000000000000000000000000000000000000000000000000''"
  note env = test_environmentD [OF assms]
  have pre: "prefixed ?t" by (simp add: prefixed_Cons hex_digits_decode)
  have "text_bytes ?t = replicate 32 0" by (simp add: text_bytes_def hex_value_def numeral_eq_Suc)
  with prefixed_text(1) [OF env(4) pre] have "?t = ''0x'' @ hex_encode X (replicate 32 0)" by (simp only:)
  then have "b256_from_str X ?t = Ok (replicate 32 0)"
    using env(5) unfolding texts_documented_def by (metis length_replicate)
  then show ?thesis by (simp add: B256_of_str_def B256_zero_def)
qed

lemma header_request_Ok:
  assumes "test_environment X rd"
  shows "\<exists>req. header_request X rd slot = Ok req \<and>
    (\<forall>n. u64_from_str slot = Some n \<longrightarrow> header_path X (hq_path req) = Ok (n, B256_zero, drawn_key X rd 0))"
  by (simp add: header_request_def test_bls_pubkey_str_def drawn_key_random [OF assms] zero_hash [OF assms]
      drawn_keys(4) [OF assms])

definition zero_payload :: ExecutionPayload where
  "zero_payload =
     \<lparr>ep_parent_hash = B256_zero, ep_fee_recipient = Address_zero, ep_state_root = B256_zero,
      ep_receipts_root = B256_zero, ep_logs_bloom = replicate 256 0, ep_prev_randao = B256_zero,
      ep_block_number = 0, ep_gas_limit = 0, ep_gas_used = 0, ep_timestamp = 0, ep_extra_data = [],
      ep_base_fee_per_gas = U256_from_u64 0, ep_block_hash = B256_zero, ep_transactions = [],
      ep_withdrawals = [], ep_blob_gas_used = 0, ep_excess_blob_gas = 0\<rparr>"

lemma bid_submission_Ok:
  assumes "test_environment X rd"
  shows "\<exists>trace. gh_bid_submission X rd =
      Ok (BidSubmission_new trace zero_payload BlobsBundle_default BlsSignature_default) \<and>
    bt_parent_hash trace = B256_zero \<and> bt_proposer_pubkey trace = drawn_key X rd 0 \<and> bt_value trace = U256 0"
proof (intro exI conjI)
  show "gh_bid_submission X rd = Ok (BidSubmission_new
      \<lparr>bt_slot = 10, bt_parent_hash = B256_zero, bt_block_hash = B256_zero, bt_builder_pubkey = drawn_key X rd 0,
       bt_proposer_pubkey = drawn_key X rd 0, bt_proposer_fee_recipient = Address_zero, bt_gas_limit = 0,
       bt_gas_used = 0, bt_value = U256 0\<rparr> zero_payload BlobsBundle_default BlsSignature_default)"
    using test_environmentD(5,6) [OF assms]
    by (simp add: gh_bid_submission_def gh_bid_trace_def gh_execution_payload_def VariableList_new_def
        FixedVector_new_def drawn_key_random [OF assms] U256_of_str_def texts_documented_def zero_payload_def)
qed simp_all

lemma gh_registration_Ok:
  assumes "test_environment X rd"
  shows "\<exists>registration. gh_validator_registration X rd t = Ok registration"
  by (simp add: gh_validator_registration_def test_signature_Ok(1) [OF assms] drawn_key_random [OF assms])

lemma zero_header_fits:
  assumes "tree_hash_width X" and "valid_key X k" and "valid_signature X s"
  shows "fits_SignedHeader X \<lparr>sh_message = \<lparr>hd_header = header_from_payload X zero_payload,
    hd_blob_kzg_commitments = [], hd_value = v, hd_pubkey = k\<rparr>, sh_signature = s\<rparr>"
  using assms by (simp add: fits_SignedHeader_def fits_Header_def fits_ExecutionPayloadHeader_def
      header_from_payload_def zero_payload_def wf_B256_def wf_Address_def B256_zero_def Address_zero_def
      B256_from_hash256_def tree_hash_width_def transactions_tree_hash_root_def withdrawals_tree_hash_root_def)

lemma valid_get_header_passes:
  assumes "http_environment X rd H"
  shows "valid_get_header X rd H = Ok ()"
proof -
  note env = http_environmentD [OF assms]
  note tenv = test_environmentD [OF env(1)]
  obtain w where w: "gh_setup_storage X rd (hh_recorder H) = Ok w" "started (HeadSlot 10) w"
    using setup_storages(2) [OF env(1)] by blast
  obtain req where req: "header_request X rd ''11'' = Ok req"
    "header_path X (hq_path req) = Ok (11, B256_zero, drawn_key X rd 0)"
    using header_request_Ok [OF env(1), of "''11''"] by (auto simp: u64_literal digits_value_def)
  obtain registration where reg: "gh_validator_registration X rd 1 = Ok registration"
    using gh_registration_Ok [OF env(1)] by blast
  obtain trace where bid: "gh_bid_submission X rd =
      Ok (BidSubmission_new trace zero_payload BlobsBundle_default BlsSignature_default)"
    "bt_parent_hash trace = B256_zero" "bt_proposer_pubkey trace = drawn_key X rd 0" "bt_value trace = U256 0"
    using bid_submission_Ok [OF env(1)] by blast
  let ?signer = "drawn_signer X rd 3"
  let ?msg = "\<lparr>hd_header = header_from_payload X zero_payload, hd_blob_kzg_commitments = [], hd_value = U256 0,
    hd_pubkey = drawn_key X rd 3\<rparr>"
  let ?h = "\<lparr>ver_version = Deneb,
    ver_data = \<lparr>sh_message = ?msg, sh_signature = BlsSigner_sign X ?signer (Header_tree_hash_root X ?msg)\<rparr>\<rparr>"
  let ?w = "ims_set_best_bid 11 (BidSubmission_new trace zero_payload BlobsBundle_default BlsSignature_default)
    (ims_set_validator_registration (drawn_key X rd 0) registration w)"
  have "snd (gh_route X H ?signer req ?w) = Ok \<lparr>rp_status = StatusOK, rp_body = JsonHeader ?h\<rparr>"
    using w(2) bid(2-) tenv(6)
    by (simp add: gh_route_def get_header_route_def req(2) get_header_snd get_header_response_Ok StatusOK_def
        ims_reader_defs ims_setter_defs on_store_def started_def is_next_slot_def SignedHeader_try_from_def
        BlobsBundle_default_def MAX_COMMITMENTS_def drawn_signer_key Let_def)
  then obtain w' where answer: "gh_route X H ?signer req ?w = (w', Ok \<lparr>rp_status = StatusOK, rp_body = JsonHeader ?h\<rparr>)"
    by (metis prod.collapse)
  have read: "Versioned_deserialize (SignedHeader_deserialize X)
      (Versioned_serialize (SignedHeader_serialize X) ?h) = Ok ?h"
    using env(3) zero_header_fits [OF env(4) drawn_keys(1) [OF env(1)] drawn_signatures_valid(1) [OF env(1,2)]]
    by (intro header_json.versioned_reads_back) simp
  have "BlsSignature_verify X (sh_signature (ver_data ?h)) (drawn_key X rd 3)
      (signing_root X (Header_tree_hash_root X ?msg) (ForkData_compute_builder_domain X
        (BlsSigner_fork_data_builder ?signer)))"
    using signer_signs(1) [OF env(1)]
    by (simp add: compute_builder_domain_def BlsSigner_fork_data_builder_def drawn_signer_def)
  then show ?thesis
    by (simp add: valid_get_header_def on_storage_def w drawn_key_random [OF env(1)] reg bid(1) req(1)
        BlsSigner_default_Ok [OF env(1)] Let_def step_reply answer reply_body_def
        from_slice_rendered [OF env(5)] read drawn_signer_key)
qed

text \<open>A header that is refused: its message between quotes, with status 400.\<close>

lemma refused_header:
  assumes "http_environment X rd H" and "header_path X (hq_path req) = Ok (slot, B256_zero, key)"
    and "get_header_response X in_memory_storage signer slot B256_zero key (w_store w)
      = Err (custom (CauseGetHeader e))"
    and "plain_text (GetHeaderError_to_string e)"
  shows "\<exists>resp. recovered H (gh_route X H signer) req w = (w, Ok resp) \<and> rp_status resp = BAD_REQUEST \<and>
    reply_body X H resp = ascii (CHR 0x22 # GetHeaderError_to_string e @ [CHR 0x22])"
proof -
  have "gh_route X H signer req w = (w, Err (custom (CauseGetHeader e)))"
    using assms(2,3) by (simp add: gh_route_def get_header_route_def get_header_handler_def)
  from recovered_answer(1) [of "gh_route X H signer", OF this] show ?thesis
    using http_environmentD(5) [OF assms(1)] assms(4)
    by (simp add: handle_rejection_status reply_body_def json_texts_def BAD_REQUEST_def)
qed

lemma invalid_slot_passes:
  assumes "http_environment X rd H"
  shows "test_invalid_slot_error X rd H = Ok ()"
proof -
  note env = http_environmentD [OF assms]
  obtain w where w: "gh_setup_storage X rd (hh_recorder H) = Ok w" "started (HeadSlot 10) w"
    using setup_storages(2) [OF env(1)] by blast
  obtain req where req: "header_request X rd ''1'' = Ok req"
    "header_path X (hq_path req) = Ok (1, B256_zero, drawn_key X rd 0)"
    using header_request_Ok [OF env(1), of "''1''"] by (auto simp: u64_literal digits_value_def)
  obtain registration where reg: "gh_validator_registration X rd 1 = Ok registration"
    using gh_registration_Ok [OF env(1)] by blast
  let ?w = "ims_set_validator_registration (drawn_key X rd 0) registration w"
  have "get_header_response X in_memory_storage (drawn_signer X rd 3) 1 B256_zero (drawn_key X rd 0) (w_store ?w)
      = Err (custom (CauseGetHeader InvalidSlot))"
    using w(2) by (simp add: get_header_response_def ims_reader_defs ims_setter_defs on_store_def started_def
        is_next_slot_def Let_def)
  from refused_header [OF assms req(2) this] obtain resp where
    "recovered H (gh_route X H (drawn_signer X rd 3)) req ?w = (?w, Ok resp)" "rp_status resp = BAD_REQUEST"
    "reply_body X H resp = ascii (CHR 0x22 # ''slot is too old'' @ [CHR 0x22])"
    by (auto simp: plain_text_def)
  then show ?thesis
    by (simp add: test_invalid_slot_error_def on_storage_def w drawn_key_random [OF env(1)] reg req(1)
        BlsSigner_default_Ok [OF env(1)] Let_def step_reply)
qed

lemma no_bid_found_passes:
  assumes "http_environment X rd H"
  shows "test_no_bid_found_error X rd H = Ok ()"
proof -
  note env = http_environmentD [OF assms]
  obtain w where w: "gh_setup_storage X rd (hh_recorder H) = Ok w" "started (HeadSlot 10) w"
    using setup_storages(2) [OF env(1)] by blast
  obtain req where req: "header_request X rd ''11'' = Ok req"
    "header_path X (hq_path req) = Ok (11, B256_zero, drawn_key X rd 0)"
    using header_request_Ok [OF env(1), of "''11''"] by (auto simp: u64_literal digits_value_def)
  obtain registration where reg: "gh_validator_registration X rd 1 = Ok registration"
    using gh_registration_Ok [OF env(1)] by blast
  obtain bid where bid: "gh_bid_submission X rd = Ok bid" using bid_submission_Ok [OF env(1)] by blast
  let ?w = "ims_set_best_bid 10 bid (ims_set_validator_registration (drawn_key X rd 0) registration w)"
  have "get_header_response X in_memory_storage (drawn_signer X rd 3) 11 B256_zero (drawn_key X rd 0) (w_store ?w)
      = Err (custom (CauseGetHeader NoBidFound))"
    using w(2) by (simp add: get_header_response_def ims_reader_defs ims_setter_defs on_store_def started_def
        is_next_slot_def Let_def lookup_update')
  from refused_header [OF assms req(2) this] obtain resp where
    "recovered H (gh_route X H (drawn_signer X rd 3)) req ?w = (?w, Ok resp)" "rp_status resp = BAD_REQUEST"
    "reply_body X H resp = ascii (CHR 0x22 # ''No bid found'' @ [CHR 0x22])"
    by (auto simp: plain_text_def)
  then show ?thesis
    by (simp add: test_no_bid_found_error_def on_storage_def w drawn_key_random [OF env(1)] reg req(1) bid
        BlsSigner_default_Ok [OF env(1)] Let_def step_reply)
qed

text \<open>The composed server.\<close>

lemma server_passes:
  assumes "http_environment X rd H"
  shows "test_server X rd H = Ok ()"
proof -
  note env = http_environmentD [OF assms]
  have validators: "\<exists>reply. hs_routes X rd H
      (plain_request GET [''relay'', ''v1'', ''builder'', ''validators'']) w = (w, Ok reply) \<and> rp_status reply = StatusOK"
    and status: "\<exists>reply. hs_routes X rd H
      (plain_request GET [''eth'', ''v1'', ''builder'', ''status'']) w = (w, Ok reply) \<and> rp_status reply = StatusOK"
    and bids: "\<exists>reply. hs_routes X rd H (plain_request POST
      [''relay'', ''v1'', ''data'', ''bidtraces'', ''builder_blocks_received'']) w = (w, Ok reply) \<and>
      rp_status reply = StatusOK" for w
    using env(8) unfolding hs_routes_def Let_def recovered_def
    by (simp_all add: or_else_def other_paths status_route_def get_validators_route_def get_bids_route_def
        status_handler_def get_validators_handler_def get_bids_handler_def with_status_def reply_json_def
        warp_query_def test_decoders_def serde_decoders_def not_found_def)
  show ?thesis
  proof -
    obtain w where w: "res_bind (ForkDatas_default X) (\<lambda>fork_datas.
         Ok (InMemoryStorage_new (HeadSlot_from 0) (hs_payload_attr 0 (Address_random (rd_address rd 0))) []
               fork_datas Mapping.empty [] (hh_recorder H))) = (Ok w :: (relay_world, string) res)"
      by (simp add: ForkDatas_default_Ok [OF test_environmentD(4,5) [OF env(1)]])
    from validators [of w] status [of w] bids [of w] show ?thesis
      by (auto simp: test_server_def on_storage_def w Let_def step_reply)
  qed
qed

text \<open>Sizes of values.\<close>

lemma number_size: "json_size (write_u64 v) \<le> 21"
  using number_width [of v] by (simp add: write_u64_def)

lemma text_sizes:
  assumes "test_environment X rd" and "json_env X"
  shows "json_size (Address_serialize X a) = 3 + 2 * length (address_bytes a)"
    and "json_size (B256_serialize X h) = 3 + 2 * length (b256_bytes h)"
    and "json_size (write_hex X bs) = 3 + 2 * length bs"
    and "valid_key X k \<Longrightarrow> json_size (impl_serde_serialize (BlsPublicKey_to_string X) k) = 99"
    and "valid_signature X s \<Longrightarrow> json_size (impl_serde_serialize (BlsSignature_to_string X) s) = 195"
  using json_envD(1,3) [OF assms(2)] key_text [OF assms(1)] valid_signature_length [of X s]
    test_environmentD(5) [OF assms(1)]
  by (simp_all add: Address_serialize_def B256_serialize_def write_hex_def serde_documented_def hex_documented_def
      impl_serde_serialize_def BlsSignature_to_string_def valid_key_def texts_documented_def)

lemma registration_size:
  assumes "test_environment X rd" and "json_env X" and "fits_ValidatorRegistration X r"
  shows "json_size (ValidatorRegistration_serialize X r) \<le> 500"
proof -
  note sizes = text_sizes [OF assms(1,2)]
  from assms(3) have "json_size (Address_serialize X (vrm_fee_recipient (vr_message r))) = 43"
    "json_size (impl_serde_serialize (BlsPublicKey_to_string X) (vrm_pubkey (vr_message r))) = 99"
    "json_size (impl_serde_serialize (BlsSignature_to_string X) (vr_signature r)) = 195"
    by (simp_all add: sizes fits_ValidatorRegistration_def fits_ValidatorRegistrationMessage_def wf_Address_def)
  then show ?thesis
    using number_size [of "vrm_gas_limit (vr_message r)"] number_size [of "vrm_timestamp (vr_message r)"]
    by (simp add: ValidatorRegistration_serialize_def ValidatorRegistration_fields_def to_object_def
        ValidatorRegistrationMessage_serialize_def ValidatorRegistrationMessage_fields_def)
qed

text \<open>Registrations that are posted are accepted as a request, whatever the handler makes of them.\<close>

lemma posted_registrations:
  assumes "http_environment X rd H" and "list_all (fits_ValidatorRegistration X) regs" and "length regs \<le> 50"
  shows "\<exists>w'. post_registrations X rd H regs w = (w', Ok ())"
proof -
  note env = http_environmentD [OF assms(1)]
  let ?j = "write_seq (ValidatorRegistration_serialize X) regs"
  let ?req = "json_post [''eth'', ''v1'', ''builder'', ''validators''] (Some ''api_key=123'') (hh_render H ?j)"
  have "sum_list (map (\<lambda>r. json_size (ValidatorRegistration_serialize X r) + 1) regs) \<le> 501 * length regs"
    using assms(2) registration_size [OF env(1,3)] by (induction regs) force+
  then have "json_size ?j \<le> 1 + 501 * 50"
    using assms(3) by (simp add: write_seq_def comp_def)
  moreover have "length (hh_render H ?j) \<le> 8 * json_size ?j" using env(6) by (simp add: compact_texts_def)
  ultimately have fits: "length (hh_render H ?j) \<le> validators_limit" by (simp add: validators_limit_def)
  have "read_seq (ValidatorRegistration_deserialize X) ?j = Ok regs"
    using assms(2) env(3) by (intro registration_json.list_reads_back) (simp add: list_all_iff)
  then have "from_body (hh_parse H) (read_seq (ValidatorRegistration_deserialize X)) (hh_render H ?j) = Some regs"
    by (rule from_body_render [OF env(5)])
  then have body: "json_body validators_limit (de_registrations (test_decoders X H)) ?req = Ok regs"
    by (intro json_body_post fits) (simp add: test_decoders_def serde_decoders_def)
  have key: "warp_query (de_api_key (test_decoders X H)) ?req = Ok ''123''"
    using env(7) by (simp add: warp_query_def json_post_def test_decoders_def serde_decoders_def)
  have auth: "validate_api_key (su_auth (test_env X rd H)) ''123'' = Ok ''123''"
    by (simp add: validate_api_key_def test_env_def TestAuth_validate_def)
  have "hq_path ?req = [''eth'', ''v1'', ''builder'', ''validators'']" "warp_post ?req = Ok ()"
    by (simp_all add: json_post_def warp_post_def)
  then have "post_validators_route X in_memory_storage (test_env X rd H) (test_decoders X H) ?req w =
      post_validators_handler X in_memory_storage (su_known (test_env X rd H)) regs w"
    by (simp only: post_validators_route_def filtered_simps path_filter_simps key auth body)
  then have "snd (post_validators_route X in_memory_storage (test_env X rd H) (test_decoders X H) ?req w) =
      Ok \<lparr>rp_status = StatusOK, rp_body = Text ''OK''\<rparr>"
    by (simp add: post_validators_handler_eq StatusOK_def)
  then obtain w' where "post_validators_route X in_memory_storage (test_env X rd H) (test_decoders X H) ?req w =
      (w', Ok \<lparr>rp_status = StatusOK, rp_body = Text ''OK''\<rparr>)" by (metis prod.collapse)
  then have "post_registrations X rd H regs w = (w', Ok ())"
    by (simp add: post_registrations_def Let_def step_reply)
  then show ?thesis ..
qed

lemma generated_registrations:
  assumes "http_environment X rd H"
  shows "\<exists>regs. generate_signed_registrations X rd n = Ok regs \<and> length regs = n \<and>
    list_all (fits_ValidatorRegistration X) regs"
proof -
  note env = http_environmentD [OF assms]
  note tenv = test_environmentD [OF env(1)]
  let ?f = "\<lambda>i. let signer = drawn_signer X rd (3 + i);
      registration = pv_validator_registration rd (2 + i) (BlsSigner_public_key X signer) None
    in registration\<lparr>vr_signature := BlsSigner_sign X signer
         (ValidatorRegistrationMessage_tree_hash_root X (vr_message registration))\<rparr>"
  have "res_mapM (\<lambda>i. Ok (?f i) :: (ValidatorRegistration, string) res) is = Ok (map ?f is)" for "is"
    by (induction "is") (simp_all add: Let_def)
  then have "generate_signed_registrations X rd n = Ok (map ?f [0..<n])"
    by (simp add: generate_signed_registrations_def BlsSigner_default_Ok [OF env(1)] Let_def)
  moreover have "fits_ValidatorRegistration X (?f i)" for i
    using fits_registration [OF drawn_keys(1) [OF env(1)] drawn_signatures_valid(1) [OF env(1,2)]] tenv(7)
    by (simp add: pv_validator_registration_def Address_random_def drawn_signer_key Let_def)
  then have "list_all (fits_ValidatorRegistration X) (map ?f [0..<n])" unfolding list_all_iff by simp
  moreover have "length (map ?f [0..<n]) = n" by simp
  ultimately show ?thesis by blast
qed

lemma post_validators_passes:
  assumes "http_environment X rd H"
  shows "test_post_validators X rd H = Ok ()"
proof -
  note env = http_environmentD [OF assms]
  note tenv = test_environmentD [OF env(1)]
  obtain w where w: "pv_setup_storage X rd (hh_recorder H) = Ok w" using setup_storages(3) [OF env(1)] by blast
  let ?r = "pv_validator_registration rd 1 (drawn_key X rd 2)
    (Some \<lparr>sig_point = Some test_signature_bytes, sig_is_infinity = False\<rparr>)"
  have "fits_ValidatorRegistration X ?r"
    using fits_registration [OF drawn_keys(1) [OF env(1)] test_signature_valid [OF env(1)]] tenv(7)
    by (simp add: pv_validator_registration_def Address_random_def)
  then obtain w1 where first: "invalid_by_sig X rd H w = (w1, Ok ())"
    using posted_registrations [OF assms, of "[?r]" w]
    by (auto simp: invalid_by_sig_def test_signature_Ok(1) [OF env(1)] drawn_key_random [OF env(1)] Let_def)
  obtain regs where regs: "generate_signed_registrations X rd 50 = Ok regs" "length regs = 50"
    "list_all (fits_ValidatorRegistration X) regs"
    using generated_registrations [OF assms] by blast
  then obtain w2 where "valid_registrations X rd H regs w1 = (w2, Ok ())"
    using posted_registrations [OF assms regs(3), of w1] by (auto simp: valid_registrations_def)
  with first regs(1) show ?thesis
    by (simp add: test_post_validators_def on_storage_def w step_Ok)
qed

end
