(* ===== verification/Http_Fixtures.thy ===== *)
theory Http_Fixtures
  imports Http_Tests
begin

text \<open>
  The JSON literals of \<open>proposer_api/blinded_blocks.rs\<close> and \<open>builder_api/post_bids.rs\<close> as values: a signed
  blinded block, a stored response and a submission, and what the readers of \<open>Json_Types\<close> make of them.
\<close>

section \<open>A signed blinded block\<close>

definition header_json :: "Json" where
  "header_json =
    JObject [
      (''parent_hash'', JString ''0xb05e822983bf40f95fd29745a6f197ced438547d7ba2ea1ffe4585e0aa8a85d8''),
      (''fee_recipient'', JString ''0x0000000000000000000000000000000000000001''),
      (''state_root'', JString ''0x0b61a994773b5e9b6789034559386a62d4831fb74efd5277573dd0913803e2f5''),
      (''receipts_root'', JString ''0x66ba7d16f10900d45932f3667e48904816300d1471c7b177f7c1ec597e057194''),
      (''logs_bloom'', JString (''0x'' @ replicate 512 CHR ''0'')),
      (''prev_randao'', JString ''0x0704821e9081571c9abed4967fd180f945fd4fa8799492e5bc34997659df7888''),
      (''block_number'', JString ''44''),
      (''gas_limit'', JString ''30000000''),
      (''gas_used'', JString ''2121000''),
      (''timestamp'', JString ''1712160326''),
      (''extra_data'', JString ''0x7465737400000000000000000000000000000000000000000000000000000000''),
      (''base_fee_per_gas'', JString ''2807727''),
      (''block_hash'', JString ''0xfe739553c4dca9f03fb1ed1773fbefe394d525d98d9012a22517d4976a95fe79''),
      (''transactions_root'', JString ''0x1c22cb966103ab6be8819a478cbdaed75138204745d6c53397bbb7c070518645''),
      (''withdrawals_root'', JString ''0x792930bbd5baac43bcc798ee49aa8185ef76bb3b44ba62b91d86ae569e4bb535''),
      (''blob_gas_used'', JString ''0''),
      (''excess_blob_gas'', JString ''0'')]"

definition attestation_json :: "Json" where
  "attestation_json =
    JObject [
      (''aggregation_bits'', JString ''0x07''),
      (''data'', JObject [
        (''slot'', JString ''45''),
        (''index'', JString ''0''),
        (''beacon_block_root'', JString ''0x018ae046795a46532d3a9a38826f323ef34b8381c6fcc8c1a6ba81229663476b''),
        (''source'', JObject [
          (''epoch'', JString ''0''),
          (''root'', JString ''0x0000000000000000000000000000000000000000000000000000000000000000'')]),
        (''target'', JObject [
          (''epoch'', JString ''1''),
          (''root'', JString ''0xaae421d67d88fe420dc7dd1fc37199ed8e523cdabba46aa9ffa499dd7195a87b'')])]),
      (''signature'', JString ''0x82bb1d0497ccce8a1e761fff78a1862b711fc5c5043d35774cceae092324f0408a969b3b49775e58419f2bd27b7792cd1858d3dedc24b5a6d1fd98c89f7bb21be9de9f4668a51fa5d1a64ca4585c841a9dbd6ab757a1a9f6b9b39d9efa47f63a'')]"

definition block_body_json :: "Json" where
  "block_body_json =
    JObject [
      (''randao_reveal'', JString ''0x93b0506f7754cf1d73213cad2866d6db547b25e323660457b6c0d8bf8f4ee203a76e6a6007fd70af6334b0fb636832e109ef06082cb958eeb6ea739870d2fb3f631659d9d07631a1d9f3fbe99dc1fedc7dc997badcff549a167d45efd2cfdc85''),
      (''eth1_data'', JObject [
        (''deposit_root'', JString ''0x8e9bcd43f7a4b257953cbc2b531c31f6361278e8a9bdb19f9da72658ead1ec25''),
        (''deposit_count'', JString ''0''),
        (''block_hash'', JString ''0x6e8d3ca42def0f3bf60f415f60028a70c60033515118ebc419453d3d176dbc24'')]),
      (''graffiti'', JString ''0x0000000000000000000000000000000000000000000000000000000000000000''),
      (''proposer_slashings'', JSeq []),
      (''attester_slashings'', JSeq []),
      (''attestations'', JSeq [
        attestation_json]),
      (''deposits'', JSeq []),
      (''voluntary_exits'', JSeq []),
      (''sync_aggregate'', JObject [
        (''sync_committee_bits'', JString (''0x'' @ replicate 128 CHR ''f'')),
        (''sync_committee_signature'', JString ''0x8cc00bf45244dd3dc8d7980fb307f9addca49471986969567ae9d3473595bf76b8b372bd9fb4c16754d1f3d4589c42230018a045924151e44574255a0d538a2534d9279dd835b7a6e896522de29d0f0e69159e7aa843803843a02a1217bc1432'')]),
      (''execution_payload_header'', header_json),
      (''bls_to_execution_changes'', JSeq []),
      (''blob_kzg_commitments'', JSeq [])]"

definition signed_block_json :: "Json" where
  "signed_block_json =
    JObject [
      (''message'', JObject [
        (''slot'', JString ''46''),
        (''proposer_index'', JString ''26''),
        (''parent_root'', JString ''0x018ae046795a46532d3a9a38826f323ef34b8381c6fcc8c1a6ba81229663476b''),
        (''state_root'', JString ''0xbcca323c304aca7a104c490d3699b01856a5236317ba62eb4c98d2f64d67df47''),
        (''body'', block_body_json)]),
      (''signature'', JString ''0x8b31d25f6560a9e51a6ab6617ae1601d75fb044c9592ae0d7ee1cdb721d4451971327fc3948287937d1269926fd9b3a709f7fb95835be8b1c0ad34f0b5b1e61add41400c48b461a96c20a143894b990217b7b2fad5a876e523d896bf8f281eae'')]"

section \<open>A stored response and a submission\<close>

definition response_payload_json :: "Json" where
  "response_payload_json =
    JObject [
      (''parent_hash'', JString ''0x6e8d3ca42def0f3bf60f415f60028a70c60033515118ebc419453d3d176dbc24''),
      (''fee_recipient'', JString ''0x0000000000000000000000000000000000000001''),
      (''state_root'', JString ''0xcf8e0d4e9587369b2301d0790347320302cc0943d5a1884560367e8208d920f2''),
      (''receipts_root'', JString ''0xcf8e0d4e9587369b2301d0790347320302cc0943d5a1884560367e8208d920f2''),
      (''logs_bloom'', JString (''0x'' @ replicate 512 CHR ''0'')),
      (''prev_randao'', JString ''0xcf8e0d4e9587369b2301d0790347320302cc0943d5a1884560367e8208d920f2''),
      (''block_number'', JString ''1''),
      (''gas_limit'', JString ''1''),
      (''gas_used'', JString ''1''),
      (''timestamp'', JString ''1''),
      (''extra_data'', JString ''0xcf8e0d4e9587369b2301d0790347320302cc0943d5a1884560367e8208d920f2''),
      (''base_fee_per_gas'', JString ''1''),
      (''blob_gas_used'', JString ''1''),
      (''excess_blob_gas'', JString ''1''),
      (''block_hash'', JString ''0xfe739553c4dca9f03fb1ed1773fbefe394d525d98d9012a22517d4976a95fe79''),
      (''transactions'', JSeq [
        JString ''0x02f878831469668303f51d843b9ac9f9843b9aca0082520894c93269b73096998db66be0441e836d873535cb9c8894a19041886f000080c001a031cc29234036afbf9a1fb9476b463367cb1f957ac0b919b69bbc798436e604aaa018c4e9c3914eb27aadd0b91e10b18655739fcf8c1fc398763a9f1beecb8ddc86'']),
      (''withdrawals'', JSeq [
        JObject [
          (''index'', JString ''1''),
          (''validator_index'', JString ''1''),
          (''address'', JString ''0xabcf8e0d4e9587369b2301d0790347320302cc09''),
          (''amount'', JString ''32000000000'')]])]"

definition response_bundle_json :: "Json" where
  "response_bundle_json =
    JObject [
      (''commitments'', JSeq [
        JString ''0x8dab030c51e16e84be9caab84ee3d0b8bbec1db4a0e4de76439da8424d9b957370a10a78851f97e4b54d2ce1ab0d686f'']),
      (''proofs'', JSeq [
        JString ''0xb4021b0de10f743893d4f71e1bf830c019e832958efd6795baf2f83b8699a9eccc5dc99015d8d4d8ec370d0cc333c06a'']),
      (''blobs'', JSeq [])]"

definition response_json :: "Json" where
  "response_json =
    JObject [
      (''version'', JString ''deneb''),
      (''data'', JObject [
        (''execution_payload'', response_payload_json),
        (''blobs_bundle'', response_bundle_json)])]"

definition bid_payload_json :: "Json" where
  "bid_payload_json =
    JObject [
      (''parent_hash'', JString ''0x0000000000000000000000000000000000000000000000000000000000000001''),
      (''fee_recipient'', JString ''0x0000000000000000000000000000000000000001''),
      (''state_root'', JString ''0x0000000000000000000000000000000000000000000000000000000000000001''),
      (''receipts_root'', JString ''0x0000000000000000000000000000000000000000000000000000000000000001''),
      (''logs_bloom'', JString (''0x'' @ replicate 512 CHR ''0'')),
      (''prev_randao'', JString ''0x0000000000000000000000000000000000000000000000000000000000000001''),
      (''block_number'', JString ''1''),
      (''gas_limit'', JString ''1''),
      (''gas_used'', JString ''1''),
      (''timestamp'', JString ''1''),
      (''extra_data'', JString ''0x7465737400000000000000000000000000000000000000000000000000000000''),
      (''base_fee_per_gas'', JString ''1''),
      (''blob_gas_used'', JString ''1''),
      (''excess_blob_gas'', JString ''1''),
      (''block_hash'', JString ''0x0000000000000000000000000000000000000000000000000000000000000001''),
      (''transactions'', JSeq [
        JString ''0x02f87880648252089400000000000000000000000000000000000000018080c001a00000000000000000000000000000000000000000000000000000000000000000a00000000000000000000000000000000000000000000000000000000000000000'']),
      (''withdrawals'', JSeq [
        JObject [
          (''index'', JString ''1''),
          (''validator_index'', JString ''1''),
          (''address'', JString ''0x0000000000000000000000000000000000000001''),
          (''amount'', JString ''32000000000'')]])]"

definition bid_json :: "string \<Rightarrow> Json" where
  "bid_json key =
    JObject [
      (''message'', JObject [
        (''slot'', JString ''1''),
        (''parent_hash'', JString ''0x0000000000000000000000000000000000000000000000000000000000000001''),
        (''block_hash'', JString ''0x0000000000000000000000000000000000000000000000000000000000000001''),
        (''builder_pubkey'', JString key),
        (''proposer_pubkey'', JString key),
        (''proposer_fee_recipient'', JString ''0x0000000000000000000000000000000000000001''),
        (''gas_limit'', JString ''1''),
        (''gas_used'', JString ''1''),
        (''value'', JString ''1'')]),
      (''execution_payload'', bid_payload_json),
      (''blobs_bundle'', JObject [
        (''commitments'', JSeq [
          JString ''0x8dab030c51e16e84be9caab84ee3d0b8bbec1db4a0e4de76439da8424d9b957370a10a78851f97e4b54d2ce1ab0d686f'']),
        (''proofs'', JSeq [
          JString ''0xb4021b0de10f743893d4f71e1bf830c019e832958efd6795baf2f83b8699a9eccc5dc99015d8d4d8ec370d0cc333c06a'']),
        (''blobs'', JSeq [])]),
      (''signature'', JString ''0xad92d76a40ecc96a5ab46ae0a7e62c50fc895412be3ae3e0cddad60c54be7aa2c4bbe90b40345e3c2d1a6925aa3a9c6e03f4e30e28b9a315cac4d73de4b8f77a77e0a4f63fa7d6e0a73393cb15cfe596d845eaa146fd52cd9f3b80cde3f2b27a'')]"

section \<open>The literals\<close>

lemma literals_prefixed [simp]:
  "prefixed ''0x6e8d3ca42def0f3bf60f415f60028a70c60033515118ebc419453d3d176dbc24''"
  "prefixed ''0x0000000000000000000000000000000000000001''"
  "prefixed ''0xcf8e0d4e9587369b2301d0790347320302cc0943d5a1884560367e8208d920f2''"
  "prefixed ''0xfe739553c4dca9f03fb1ed1773fbefe394d525d98d9012a22517d4976a95fe79''"
  "prefixed ''0x02f878831469668303f51d843b9ac9f9843b9aca0082520894c93269b73096998db66be0441e836d873535cb9c8894a19041886f000080c001a031cc29234036afbf9a1fb9476b463367cb1f957ac0b919b69bbc798436e604aaa018c4e9c3914eb27aadd0b91e10b18655739fcf8c1fc398763a9f1beecb8ddc86''"
  "prefixed ''0xabcf8e0d4e9587369b2301d0790347320302cc09''"
  "prefixed ''0x8dab030c51e16e84be9caab84ee3d0b8bbec1db4a0e4de76439da8424d9b957370a10a78851f97e4b54d2ce1ab0d686f''"
  "prefixed ''0xb4021b0de10f743893d4f71e1bf830c019e832958efd6795baf2f83b8699a9eccc5dc99015d8d4d8ec370d0cc333c06a''"
  "prefixed ''0x018ae046795a46532d3a9a38826f323ef34b8381c6fcc8c1a6ba81229663476b''"
  "prefixed ''0xbcca323c304aca7a104c490d3699b01856a5236317ba62eb4c98d2f64d67df47''"
  "prefixed ''0x93b0506f7754cf1d73213cad2866d6db547b25e323660457b6c0d8bf8f4ee203a76e6a6007fd70af6334b0fb636832e109ef06082cb958eeb6ea739870d2fb3f631659d9d07631a1d9f3fbe99dc1fedc7dc997badcff549a167d45efd2cfdc85''"
  "prefixed ''0x8e9bcd43f7a4b257953cbc2b531c31f6361278e8a9bdb19f9da72658ead1ec25''"
  "prefixed ''0x0000000000000000000000000000000000000000000000000000000000000000''"
  "prefixed ''0x07''"
  "prefixed ''0xaae421d67d88fe420dc7dd1fc37199ed8e523cdabba46aa9ffa499dd7195a87b''"
  "prefixed ''0x82bb1d0497ccce8a1e761fff78a1862b711fc5c5043d35774cceae092324f0408a969b3b49775e58419f2bd27b7792cd1858d3dedc24b5a6d1fd98c89f7bb21be9de9f4668a51fa5d1a64ca4585c841a9dbd6ab757a1a9f6b9b39d9efa47f63a''"
  "prefixed ''0x8cc00bf45244dd3dc8d7980fb307f9addca49471986969567ae9d3473595bf76b8b372bd9fb4c16754d1f3d4589c42230018a045924151e44574255a0d538a2534d9279dd835b7a6e896522de29d0f0e69159e7aa843803843a02a1217bc1432''"
  "prefixed ''0xb05e822983bf40f95fd29745a6f197ced438547d7ba2ea1ffe4585e0aa8a85d8''"
  "prefixed ''0x0b61a994773b5e9b6789034559386a62d4831fb74efd5277573dd0913803e2f5''"
  "prefixed ''0x66ba7d16f10900d45932f3667e48904816300d1471c7b177f7c1ec597e057194''"
  "prefixed ''0x0704821e9081571c9abed4967fd180f945fd4fa8799492e5bc34997659df7888''"
  "prefixed ''0x7465737400000000000000000000000000000000000000000000000000000000''"
  "prefixed ''0x1c22cb966103ab6be8819a478cbdaed75138204745d6c53397bbb7c070518645''"
  "prefixed ''0x792930bbd5baac43bcc798ee49aa8185ef76bb3b44ba62b91d86ae569e4bb535''"
  "prefixed ''0x8b31d25f6560a9e51a6ab6617ae1601d75fb044c9592ae0d7ee1cdb721d4451971327fc3948287937d1269926fd9b3a709f7fb95835be8b1c0ad34f0b5b1e61add41400c48b461a96c20a143894b990217b7b2fad5a876e523d896bf8f281eae''"
  "prefixed ''0x0000000000000000000000000000000000000000000000000000000000000001''"
  "prefixed ''0x02f87880648252089400000000000000000000000000000000000000018080c001a00000000000000000000000000000000000000000000000000000000000000000a00000000000000000000000000000000000000000000000000000000000000000''"
  "prefixed ''0xad92d76a40ecc96a5ab46ae0a7e62c50fc895412be3ae3e0cddad60c54be7aa2c4bbe90b40345e3c2d1a6925aa3a9c6e03f4e30e28b9a315cac4d73de4b8f77a77e0a4f63fa7d6e0a73393cb15cfe596d845eaa146fd52cd9f3b80cde3f2b27a''"
  by (simp_all add: prefixed_Cons hex_digits_decode)

lemma literals_u64 [simp]:
  "u64_from_str ''1'' = Some 1"
  "u64_from_str ''32000000000'' = Some 32000000000"
  "u64_from_str ''46'' = Some 46"
  "u64_from_str ''26'' = Some 26"
  "u64_from_str ''0'' = Some 0"
  "u64_from_str ''45'' = Some 45"
  "u64_from_str ''44'' = Some 44"
  "u64_from_str ''30000000'' = Some 30000000"
  "u64_from_str ''2121000'' = Some 2121000"
  "u64_from_str ''1712160326'' = Some 1712160326"
  "u64_from_str ''2807727'' = Some 2807727"
  by (simp_all add: u64_literal digits_value_def)

lemma literals_decimal:
  "nat_to_string 1 = ''1''"
  "nat_to_string 2807727 = ''2807727''"
  by (simp_all add: nat_to_string.simps char_of_eq_iff)

text \<open>The signatures of the block, its attestation and its sync aggregate.\<close>

definition fixture_signatures :: "string list" where
  "fixture_signatures =
     [''0x93b0506f7754cf1d73213cad2866d6db547b25e323660457b6c0d8bf8f4ee203a76e6a6007fd70af6334b0fb636832e109ef06082cb958eeb6ea739870d2fb3f631659d9d07631a1d9f3fbe99dc1fedc7dc997badcff549a167d45efd2cfdc85'',
      ''0x82bb1d0497ccce8a1e761fff78a1862b711fc5c5043d35774cceae092324f0408a969b3b49775e58419f2bd27b7792cd1858d3dedc24b5a6d1fd98c89f7bb21be9de9f4668a51fa5d1a64ca4585c841a9dbd6ab757a1a9f6b9b39d9efa47f63a'',
      ''0x8cc00bf45244dd3dc8d7980fb307f9addca49471986969567ae9d3473595bf76b8b372bd9fb4c16754d1f3d4589c42230018a045924151e44574255a0d538a2534d9279dd835b7a6e896522de29d0f0e69159e7aa843803843a02a1217bc1432'',
      ''0x8b31d25f6560a9e51a6ab6617ae1601d75fb044c9592ae0d7ee1cdb721d4451971327fc3948287937d1269926fd9b3a709f7fb95835be8b1c0ad34f0b5b1e61add41400c48b461a96c20a143894b990217b7b2fad5a876e523d896bf8f281eae'']"

section \<open>Reading the literals\<close>

named_theorems literal_reads

lemma bytes_literal [literal_reads]:
  assumes "json_env X" and "prefixed t"
  shows "(length t - 2) div 2 = n \<Longrightarrow> read_bytes X n (JString t) = Ok (text_bytes t)"
    and "(length t - 2) div 2 = 32 \<Longrightarrow> B256_deserialize X (JString t) = Ok (B256 (text_bytes t))"
    and "(length t - 2) div 2 = 20 \<Longrightarrow> Address_deserialize X (JString t) = Ok (Address (text_bytes t))"
    and "(length t - 2) div 2 = 48 \<Longrightarrow> Bytes48_deserialize X (JString t) = Ok (Bytes48 (text_bytes t))"
proof -
  note env = json_envD [OF assms(1)]
  have "fixed_bytes_to_serde X (text_bytes t) = JString t"
    using env(3) prefixed_text(1) [OF env(1) assms(2)] by (simp add: serde_documented_def)
  then show *: "(length t - 2) div 2 = n \<Longrightarrow> read_bytes X n (JString t) = Ok (text_bytes t)" for n
    using bytes_json(1) [OF assms(1), of "text_bytes t" n] prefixed_text(2) [OF env(1) assms(2)] by simp
  show "(length t - 2) div 2 = 32 \<Longrightarrow> B256_deserialize X (JString t) = Ok (B256 (text_bytes t))"
    and "(length t - 2) div 2 = 20 \<Longrightarrow> Address_deserialize X (JString t) = Ok (Address (text_bytes t))"
    and "(length t - 2) div 2 = 48 \<Longrightarrow> Bytes48_deserialize X (JString t) = Ok (Bytes48 (text_bytes t))"
    by (simp_all add: * B256_deserialize_def Address_deserialize_def Bytes48_deserialize_def)
qed

lemma hex_literal_reads [literal_reads]:
  assumes "json_env X" and "prefixed t"
  shows "(length t - 2) div 2 \<le> n \<Longrightarrow> read_hex_list X n (JString t) = Ok (text_bytes t)"
    and "(length t - 2) div 2 = n \<Longrightarrow> read_hex_fixed X n (JString t) = Ok (text_bytes t)"
    and "(length t - 2) div 2 = n \<Longrightarrow> logs_bloom_deserialize X debug n (JString t) = Ok (text_bytes t)"
    and "(length t - 2) div 2 = 48 \<Longrightarrow> KzgCommitment_deserialize X (JString t) = Ok (KzgCommitment (text_bytes t))"
    and "(length t - 2) div 2 = 32 \<Longrightarrow> B256_of_str X t = Ok (B256 (text_bytes t))"
proof -
  note env = json_envD [OF assms(1)]
  note t = prefixed_text [OF env(1) assms(2)]
  have hex: "write_hex X (text_bytes t) = JString t" "logs_bloom_serialize X (text_bytes t) = JString t"
    "KzgCommitment_json X (KzgCommitment (text_bytes t)) = JString t"
    using t(1) env(2) by (simp_all add: write_hex_def logs_bloom_serialize_def KzgCommitment_json_def
        KzgCommitment_serialize_def texts_documented_def)
  show "(length t - 2) div 2 \<le> n \<Longrightarrow> read_hex_list X n (JString t) = Ok (text_bytes t)"
    and "(length t - 2) div 2 = n \<Longrightarrow> read_hex_fixed X n (JString t) = Ok (text_bytes t)"
    and "(length t - 2) div 2 = n \<Longrightarrow> logs_bloom_deserialize X debug n (JString t) = Ok (text_bytes t)"
    and "(length t - 2) div 2 = 48 \<Longrightarrow> KzgCommitment_deserialize X (JString t) = Ok (KzgCommitment (text_bytes t))"
    using hex_json(2) [OF assms(1), of "text_bytes t" n] hex_json(3,4) [OF assms(1), of "text_bytes t"]
      hex_json(5) [OF assms(1), of "KzgCommitment (text_bytes t)"]
    by (simp_all add: hex t(2))
  show "(length t - 2) div 2 = 32 \<Longrightarrow> B256_of_str X t = Ok (B256 (text_bytes t))"
  proof -
    assume "(length t - 2) div 2 = 32"
    then have "b256_from_str X (''0x'' @ hex_encode X (text_bytes t)) = Ok (text_bytes t)"
      using env(2) t(2) unfolding texts_documented_def by presburger
    then show ?thesis by (simp only: t(1) [symmetric] B256_of_str_def res_bind.simps res_map_err.simps)
  qed
qed

lemma text_width [simp]: "length (text_bytes t) = (length t - 2) div 2"
  by (simp add: text_bytes_def length_unhex)

text \<open>Texts of zeros.\<close>

lemma prefixed_zeros [simp]:
  "even n \<Longrightarrow> prefixed (CHR ''0'' # CHR ''x'' # replicate n CHR ''0'')"
  by (simp add: prefixed_Cons hex_literal_def list_all_iff)

text \<open>Bit fields.\<close>

lemma bits_bytes_ones: "bits_bytes (replicate (8 * n) True) = replicate n 255"
proof (induction n)
  case (Suc n)
  have "horner_sum of_bool 2 (take 8 (True # replicate 7 True @ replicate (8 * n) True)) = (255 :: u8)"
    by (simp add: numeral_eq_Suc)
  then have "bits_bytes (True # replicate 7 True @ replicate (8 * n) True) = 255 # bits_bytes (replicate (8 * n) True)"
    by (simp only: bits_bytes.simps) simp
  moreover have "replicate (8 * Suc n) True = True # replicate 7 True @ replicate (8 * n) True"
    unfolding replicate_add [symmetric] replicate_Suc [symmetric] by simp
  ultimately show ?case using Suc by simp
qed simp

lemma bit_literals [literal_reads]:
  assumes "json_env X"
  shows "read_bitlist X 2048 (JString ''0x07'') = Ok [True, True]"
    and "read_bitvector X 512 (JString (CHR ''0'' # CHR ''x'' # replicate 128 CHR ''f'')) = Ok (replicate 512 True)"
proof -
  note env = json_envD [OF assms]
  have "bitlist_to_serde X 2048 [True, True] = JString ''0x07''"
    using env(1,3) by (simp add: serde_documented_def hex_documented_def hex_byte_def hex_digit_def)
  with container_json(4) [OF assms, of "[True, True]" 2048] show "read_bitlist X 2048 (JString ''0x07'') = Ok [True, True]"
    by simp
  have "hex_byte 255 = [CHR ''f'', CHR ''f'']" by (simp add: hex_byte_def hex_digit_def)
  then have "concat (map hex_byte (replicate n 255)) = replicate (2 * n) CHR ''f''" for n
    by (induction n) simp_all
  from this [of 64] have "bitvector_to_serde X 512 (replicate 512 True) = JString (''0x'' @ replicate 128 CHR ''f'')"
    using env(1,3) bits_bytes_ones [of 64] by (simp add: serde_documented_def hex_documented_def)
  with container_json(5) [OF assms, of "replicate 512 True" 512]
  show "read_bitvector X 512 (JString (CHR ''0'' # CHR ''x'' # replicate 128 CHR ''f'')) = Ok (replicate 512 True)"
    by simp
qed

text \<open>Integers.\<close>

lemma u64_literal_reads [literal_reads]: "u64_from_str s = Some n \<Longrightarrow> read_u64 (JString s) = Ok n"
  by (simp add: read_u64_def)

lemma number_literals [literal_reads]:
  assumes "json_env X"
  shows "impl_serde_deserialize (U256_of_str X) (JString ''1'') = Ok (U256 1)"
    and "impl_serde_deserialize (U256_of_str X) (JString ''2807727'') = Ok (U256 2807727)"
    and "U256_deserialize X (JString ''1'') = Ok (U256 1)"
proof -
  note env = json_envD [OF assms]
  have "u256_from_str X (nat_to_string 1) = Ok 1" "u256_from_str X (nat_to_string 2807727) = Ok 2807727"
    "u256_from_serde X (JString (nat_to_string 1)) = Ok 1"
    using env(2,3) unfolding texts_documented_def serde_documented_def by simp_all
  then have "u256_from_str X ''1'' = Ok 1" "u256_from_str X ''2807727'' = Ok 2807727"
    "u256_from_serde X (JString ''1'') = Ok 1"
    by (simp_all only: literals_decimal)
  then show "impl_serde_deserialize (U256_of_str X) (JString ''1'') = Ok (U256 1)"
    "impl_serde_deserialize (U256_of_str X) (JString ''2807727'') = Ok (U256 2807727)"
    "U256_deserialize X (JString ''1'') = Ok (U256 1)"
    by (simp_all add: impl_serde_deserialize_def U256_of_str_def U256_deserialize_def)
qed

text \<open>Signatures: the texts of the fixtures are encodings of points.\<close>

definition fixture_points :: "externs \<Rightarrow> bool" where
  "fixture_points X \<longleftrightarrow> list_all (\<lambda>t. blst_sig_from_bytes X (text_bytes t) = Ok (text_bytes t)) fixture_signatures"

definition signature_of_text :: "string \<Rightarrow> BlsSignature" where
  "signature_of_text t = \<lparr>sig_point = Some (text_bytes t), sig_is_infinity = False\<rparr>"

lemma signature_literal:
  assumes "json_env X" and "prefixed t" and "length t = 194"
    and "blst_sig_from_bytes X (text_bytes t) = Ok (text_bytes t)" and "hd (text_bytes t) \<notin> {0, 0xc0}"
  shows "valid_signature X (signature_of_text t)"
    and "impl_serde_deserialize (BlsSignature_of_str X) (JString t) = Ok (signature_of_text t)"
proof -
  note env = json_envD [OF assms(1)]
  have "text_bytes t \<noteq> NONE_SIGNATURE" "text_bytes t \<noteq> INFINITY_SIGNATURE"
    using assms(5) by (auto simp: NONE_SIGNATURE_def INFINITY_SIGNATURE_def SIGNATURE_BYTES_LEN_def)
  then show valid: "valid_signature X (signature_of_text t)"
    using assms(3,4) by (simp add: valid_signature_def signature_of_text_def)
  have "BlsSignature_to_string X (signature_of_text t) = t"
    using prefixed_text(1) [OF env(1) assms(2)] env(2)
    by (simp add: BlsSignature_to_string_def signature_of_text_def BlsSignature_serialize_def texts_documented_def)
  then show "impl_serde_deserialize (BlsSignature_of_str X) (JString t) = Ok (signature_of_text t)"
    using key_json(2) [OF assms(1) valid] by (simp add: impl_serde_serialize_def)
qed

section \<open>The values\<close>

lemma bb_signatures:
  assumes "json_env X" and "fixture_points X" and "t \<in> set fixture_signatures"
  shows "valid_signature X (signature_of_text t)"
    and "impl_serde_deserialize (BlsSignature_of_str X) (JString t) = Ok (signature_of_text t)"
proof -
  have "list_all (\<lambda>t. prefixed t \<and> length t = 194 \<and> hd (text_bytes t) \<notin> {0, 0xc0}) fixture_signatures"
    by (simp add: fixture_signatures_def text_bytes_def hex_value_def)
  with assms(3) have "prefixed t" "length t = 194" "hd (text_bytes t) \<notin> {0, 0xc0}"
    by (simp_all add: list_all_iff)
  moreover have "blst_sig_from_bytes X (text_bytes t) = Ok (text_bytes t)"
    using assms(2,3) by (simp add: fixture_points_def list_all_iff)
  ultimately show "valid_signature X (signature_of_text t)"
    "impl_serde_deserialize (BlsSignature_of_str X) (JString t) = Ok (signature_of_text t)"
    using signature_literal [OF assms(1)] by blast+
qed

definition fixture_block_hash :: B256 where
  "fixture_block_hash =
     B256 (text_bytes ''0xfe739553c4dca9f03fb1ed1773fbefe394d525d98d9012a22517d4976a95fe79'')"

lemmas json_readers = object_of.simps field_Cons literal_reads

lemma header_reads:
  assumes "json_env X"
  shows "\<exists>v. ExecutionPayloadHeader_deserialize X header_json = Ok v \<and> fits_ExecutionPayloadHeader X v \<and>
    eph_block_hash v = fixture_block_hash"
  by (simp add: header_json_def ExecutionPayloadHeader_deserialize_def ExecutionPayloadHeader_fields_def
      json_readers assms fits_ExecutionPayloadHeader_def wf_B256_def wf_Address_def fixture_block_hash_def)


lemma attestation_reads:
  assumes "json_env X" and "fixture_points X"
  shows "\<exists>v. Attestation_deserialize X attestation_json = Ok v \<and> fits_Attestation X v \<and>
    at_aggregation_bits v = [True, True]"
  using assms(2)
  by (simp add: attestation_json_def Attestation_deserialize_def Attestation_fields_def
      AttestationData_deserialize_def AttestationData_fields_def Checkpoint_deserialize_def Checkpoint_fields_def
      json_readers assms(1) fits_Attestation_def fits_AttestationData_def fits_Checkpoint_def wf_B256_def
      bb_signatures [OF assms] fixture_signatures_def)


text \<open>The block has one attestation, no other operation and no commitment.\<close>

definition fixture_body :: "BlindedBlockBody \<Rightarrow> bool" where
  "fixture_body v \<longleftrightarrow>
     blbb_proposer_slashings v = [] \<and> blbb_attester_slashings v = [] \<and>
     (\<exists>a. blbb_attestations v = [a] \<and> at_aggregation_bits a = [True, True]) \<and> blbb_deposits v = [] \<and>
     blbb_voluntary_exits v = [] \<and> blbb_bls_to_execution_changes v = [] \<and> blbb_blob_kzg_commitments v = [] \<and>
     eph_block_hash (blbb_execution_payload_header v) = fixture_block_hash"

lemma body_reads:
  assumes "json_env X" and "fixture_points X"
  shows "\<exists>v. BlindedBlockBody_deserialize X block_body_json = Ok v \<and> fits_BlindedBlockBody X v \<and> fixture_body v"
proof -
  note env = json_envD [OF assms(1)]
  obtain h where h: "ExecutionPayloadHeader_deserialize X header_json = Ok h" "fits_ExecutionPayloadHeader X h"
    "eph_block_hash h = fixture_block_hash" using header_reads [OF assms(1)] by blast
  obtain a where a: "Attestation_deserialize X attestation_json = Ok a" "fits_Attestation X a"
    "at_aggregation_bits a = [True, True]"
    using attestation_reads [OF assms] by blast
  have lists: "k \<le> n \<Longrightarrow> variable_list_serde_ok X n k" for n k using env(3) by (simp add: serde_documented_def)
  show ?thesis
    by (simp add: block_body_json_def BlindedBlockBody_deserialize_def BlindedBlockBody_fields_def
        Eth1Data_deserialize_def Eth1Data_fields_def SyncAggregate_deserialize_def SyncAggregate_fields_def
        json_readers assms(1) h a read_variable_list_def lists bb_signatures [OF assms] fixture_signatures_def
        fits_BlindedBlockBody_def fixture_body_def fits_Eth1Data_def fits_SyncAggregate_def wf_B256_def)
qed

lemma signed_block_reads:
  assumes "json_env X" and "fixture_points X"
  shows "\<exists>v. SignedBlindedBlock_deserialize X signed_block_json = Ok v \<and> fits_SignedBlindedBlock X v \<and>
    blb_slot (sbl_message v) = 46 \<and> blb_proposer_index (sbl_message v) = 26 \<and> fixture_body (blb_body (sbl_message v)) \<and>
    sbl_signature v = signature_of_text (last fixture_signatures)"
proof -
  obtain body where body: "BlindedBlockBody_deserialize X block_body_json = Ok body"
    "fits_BlindedBlockBody X body" "fixture_body body" using body_reads [OF assms] by blast
  show ?thesis
    by (simp add: signed_block_json_def SignedBlindedBlock_deserialize_def SignedBlindedBlock_fields_def
        BlindedBlock_deserialize_def BlindedBlock_fields_def json_readers assms(1) body
        bb_signatures [OF assms] fixture_signatures_def fits_SignedBlindedBlock_def fits_BlindedBlock_def wf_B256_def)
qed

lemma response_reads:
  assumes "json_env X"
  shows "\<exists>v. Versioned_deserialize (BlindedBlockResponse_deserialize X) response_json = Ok v \<and>
    fits_BlindedBlockResponse X (ver_data v) \<and>
    ep_block_hash (bbr_execution_payload (ver_data v)) = fixture_block_hash"
proof -
  note env = json_envD [OF assms]
  have lists: "k \<le> n \<Longrightarrow> variable_list_serde_ok X n k" for n k using env(3) by (simp add: serde_documented_def)
  have fork: "ForkName_deserialize (JString ''deneb'') = Ok Deneb"
    by (simp add: ForkName_deserialize_def ForkName_try_from_def ForkName_of_str_def to_lowercase_def ascii_lower_def)
  obtain p where p: "ExecutionPayload_deserialize X response_payload_json = Ok p" "fits_ExecutionPayload X p"
    "ep_block_hash p = fixture_block_hash"
    by (simp add: response_payload_json_def ExecutionPayload_deserialize_def ExecutionPayload_fields_def
        Withdrawal_deserialize_def Withdrawal_fields_def json_readers assms read_variable_list_def lists
        fits_ExecutionPayload_def fits_Withdrawal_def wf_B256_def wf_Address_def fixture_block_hash_def)
  obtain b where b: "BlobsBundle_deserialize X response_bundle_json = Ok b" "fits_BlobsBundle X b"
    by (simp add: response_bundle_json_def BlobsBundle_deserialize_def BlobsBundle_fields_def json_readers assms
        read_variable_list_def lists fits_BlobsBundle_def)
  show ?thesis
    by (simp add: response_json_def Versioned_deserialize_def Versioned_fields_def
        BlindedBlockResponse_deserialize_def BlindedBlockResponse_fields_def json_readers fork p b
        fits_BlindedBlockResponse_def)
qed

lemma bid_reads:
  assumes "test_environment X rd" and "json_env X"
  shows "is_ok (BidSubmission_deserialize X (bid_json (BlsPublicKey_to_string X (drawn_key X rd i))))"
proof -
  note env = json_envD [OF assms(2)]
  have lists: "k \<le> n \<Longrightarrow> variable_list_serde_ok X n k" for n k using env(3) by (simp add: serde_documented_def)
  have key: "impl_serde_deserialize (BlsPublicKey_of_str X) (JString (BlsPublicKey_to_string X (drawn_key X rd i)))
      = Ok (drawn_key X rd i)"
    using drawn_keys(4) [OF assms(1)] by (simp add: impl_serde_deserialize_def)
  obtain p where p: "ExecutionPayload_deserialize X bid_payload_json = Ok p"
    by (simp add: bid_payload_json_def ExecutionPayload_deserialize_def ExecutionPayload_fields_def
        Withdrawal_deserialize_def Withdrawal_fields_def json_readers assms read_variable_list_def lists)
  have sig: "impl_serde_deserialize (BlsSignature_of_str X) (JString TEST_BLS_SIGNATURE)
      = Ok \<lparr>sig_point = Some test_signature_bytes, sig_is_infinity = False\<rparr>"
    using test_signature_Ok(1) [OF assms(1), where 'a = DeError]
    by (cases "BlsSignature_of_str X TEST_BLS_SIGNATURE")
      (simp_all add: impl_serde_deserialize_def test_signature_def unwrap_def)
  show ?thesis
    unfolding bid_json_def TEST_BLS_SIGNATURE_def [symmetric]
    by (simp add: BidSubmission_deserialize_def BidSubmission_fields_def BidTrace_deserialize_def BidTrace_fields_def
        BlobsBundle_deserialize_def BlobsBundle_fields_def json_readers assms p key sig read_variable_list_def lists)
qed

end
