(* ===== verification/Block_Tests.thy ===== *)
theory Block_Tests
  imports Http_Fixtures
begin

text \<open>
  The tests of \<open>proposer_api/blinded_blocks.rs\<close> and \<open>builder_api/post_bids.rs\<close>: a signed blinded block read
  from JSON, handed in with the signature of the fixture, which is refused, and with that of the proposer,
  which is answered with the stored payload. That all tests of \<open>crates/http\<close> pass is the last theorem.
\<close>

section \<open>\<open>proposer_api/blinded_blocks.rs\<close>\<close>

definition bb_payload_attr :: "u64 \<Rightarrow> Address \<Rightarrow> PayloadAttributes" where
  "bb_payload_attr slot recipient =
     \<lparr>pa_proposal_slot = slot, pa_parent_block_root = replicate 32 0, pa_parent_block_number = 0,
      pa_parent_block_hash = replicate 32 0, pa_proposer_index = 0, pa_timestamp = 0,
      pa_prev_randao = replicate 32 0, pa_suggested_fee_recipient = Address_as_ref recipient,
      pa_withdrawals = Some [], pa_parent_beacon_block_root = None\<rparr>"

definition bb_setup_storage :: "externs \<Rightarrow> Randomness \<Rightarrow> RelayMetrics \<Rightarrow> (relay_world, string) res" where
  "bb_setup_storage X rd recorder =
     res_bind (ForkDatas_default X) (\<lambda>fork_datas.
       Ok (InMemoryStorage_new (HeadSlot_from 10) (bb_payload_attr 0 (Address_random (rd_address rd 0))) []
             fork_datas Mapping.empty [] recorder))"

definition bb_TestApi :: BeaconApi where
  "bb_TestApi =
     \<lparr>api_sync_status = unimplemented, api_proposer_duties = (\<lambda>epoch. unimplemented),
      api_publish_block = (\<lambda>block submission_type. Ok ()), api_get_fork_data = unimplemented,
      api_get_known_validator = (\<lambda>pubkey. unimplemented)\<rparr>"

definition bb_validator_registration ::
    "externs \<Rightarrow> Randomness \<Rightarrow> nat \<Rightarrow> BlsPublicKey \<Rightarrow> (ValidatorRegistration, string) res" where
  "bb_validator_registration X rd i pubkey =
     res_bind (test_signature X) (\<lambda>signature.
       Ok \<lparr>vr_message = \<lparr>vrm_fee_recipient = Address_random (rd_address rd i), vrm_gas_limit = 0,
                         vrm_timestamp = 0, vrm_pubkey = pubkey\<rparr>,
           vr_signature = signature\<rparr>)"

definition bb_duties :: "externs \<Rightarrow> Randomness \<Rightarrow> nat \<Rightarrow> BlsPublicKey \<Rightarrow> (Validator list, string) res" where
  "bb_duties X rd i pubkey =
     res_bind (bb_validator_registration X rd i pubkey) (\<lambda>entry.
       Ok [\<lparr>val_slot = 46, val_validator_index = 26, val_entry = entry\<rparr>])"

definition blinded_block_resp :: "externs \<Rightarrow> (BlindedBlockResponse Versioned, string) res" where
  "blinded_block_resp X = unwrap (Versioned_deserialize (BlindedBlockResponse_deserialize X) response_json)"

definition signed_blinded_block :: "externs \<Rightarrow> (SignedBlindedBlock, string) res" where
  "signed_blinded_block X = unwrap (SignedBlindedBlock_deserialize X signed_block_json)"

definition bb_route :: "externs \<Rightarrow> TestHarness \<Rightarrow> InMemoryStorageInner route" where
  "bb_route X H =
     post_blinded_blocks_route X in_memory_storage ((hh_env H)\<lparr>su_known := spawned_known bb_TestApi\<rparr>)
       (test_decoders X H)"

definition block_request :: "externs \<Rightarrow> TestHarness \<Rightarrow> SignedBlindedBlock \<Rightarrow> HttpRequest" where
  "block_request X H blinded_block =
     json_post [''eth'', ''v1'', ''builder'', ''blinded_blocks''] None
       (hh_render H (SignedBlindedBlock_serialize X blinded_block))"

text \<open>The body is decoded as the JSON of a string.\<close>

definition test_invalid_signature :: "externs \<Rightarrow> Randomness \<Rightarrow> TestHarness \<Rightarrow> (unit, string) res" where
  "test_invalid_signature X rd H =
     on_storage (bb_setup_storage X rd (hh_recorder H))
      (step_bind (give (BlsPublicKey_random X (rd_ikm rd 2))) (\<lambda>proposer.
       step_bind (give (bb_validator_registration X rd 1 proposer)) (\<lambda>registration.
       step_bind (change (set_validator_registration in_memory_storage proposer registration)) (\<lambda>_.
       step_bind (give (signed_blinded_block X)) (\<lambda>blinded_block.
       step_bind (give (bb_duties X rd 2 proposer)) (\<lambda>duties.
       step_bind (give (blinded_block_resp X)) (\<lambda>blinded_block_resp.
       step_bind (change (set_proposer_duties in_memory_storage duties)) (\<lambda>_.
       step_bind (change (set_blinded_block_response in_memory_storage proposer (ver_data blinded_block_resp))) (\<lambda>_.
       let post_blinded_block = recovered H (bb_route X H) in
       step_bind (reply_to H post_blinded_block (block_request X H blinded_block)) (\<lambda>resp.
       step_bind (assert_eq ''status'' (rp_status resp) BAD_REQUEST) (\<lambda>_.
       step_bind (give (unwrap (from_slice H deserialize_str (reply_body X H resp)))) (\<lambda>decoded_msg.
         assert_eq ''message'' decoded_msg ''Invalid signature.''))))))))))))"

definition can_deserialize :: "externs \<Rightarrow> ('w, unit) step" where
  "can_deserialize X =
     step_bind (give (signed_blinded_block X)) (\<lambda>signed_blinded_block.
     step_bind (assert_eq ''slot'' (SignedBlindedBlock_slot signed_blinded_block) 46) (\<lambda>_.
     step_bind (assert_eq ''index'' (SignedBlindedBlock_proposer_index signed_blinded_block) 26) (\<lambda>_.
     step_bind (give (unwrap (B256_of_str X
       ''0xfe739553c4dca9f03fb1ed1773fbefe394d525d98d9012a22517d4976a95fe79''))) (\<lambda>block_hash.
     step_bind (assert_eq ''block hash'' (SignedBlindedBlock_block_hash signed_blinded_block) block_hash) (\<lambda>_.
     step_bind (give (blinded_block_resp X)) (\<lambda>blinded_block_resp.
     step_bind (give (unwrap (B256_of_str X
       ''0xfe739553c4dca9f03fb1ed1773fbefe394d525d98d9012a22517d4976a95fe79''))) (\<lambda>block_hash.
       assert_eq ''block hash'' (ep_block_hash (bbr_execution_payload (ver_data blinded_block_resp))) block_hash)))))))"

definition can_submit_blinded_block_and_receive_exec_block ::
    "externs \<Rightarrow> Randomness \<Rightarrow> TestHarness \<Rightarrow> (unit, string) res" where
  "can_submit_blinded_block_and_receive_exec_block X rd H =
     on_storage (bb_setup_storage X rd (hh_recorder H))
      (step_bind (give (BlsSigner_default X (rd_ikm rd 3))) (\<lambda>signer.
       step_bind (give (signed_blinded_block X)) (\<lambda>blinded_block.
       let msg = sbl_message blinded_block;
           signature = BlsSigner_proposer_sign X signer (BlindedBlock_tree_hash_root X msg);
           blinded_block = blinded_block\<lparr>sbl_signature := signature\<rparr>;
           pubkey = BlsSigner_public_key X signer in
       step_bind (give (bb_validator_registration X rd 3 pubkey)) (\<lambda>registration.
       step_bind (change (set_validator_registration in_memory_storage pubkey registration)) (\<lambda>_.
       step_bind (give (bb_duties X rd 4 pubkey)) (\<lambda>duties.
       step_bind (give (blinded_block_resp X)) (\<lambda>blinded_block_resp.
       let expected_exec_payload = bbr_execution_payload (ver_data blinded_block_resp) in
       step_bind (change (set_proposer_duties in_memory_storage duties)) (\<lambda>_.
       step_bind (change (set_blinded_block_response in_memory_storage pubkey (ver_data blinded_block_resp))) (\<lambda>_.
       let post_blinded_block = bb_route X H in
       step_bind (reply_to H post_blinded_block (block_request X H blinded_block)) (\<lambda>resp.
       step_bind (assert_eq ''status'' (rp_status resp) 200) (\<lambda>_.
       step_bind (give (unwrap (from_slice H (Versioned_deserialize (BlindedBlockResponse_deserialize X))
         (reply_body X H resp)))) (\<lambda>json_resp.
       let exec_payload = bbr_execution_payload (ver_data json_resp) in
       step_bind (assert_eq ''block hash'' (ep_block_hash exec_payload) (ep_block_hash expected_exec_payload)) (\<lambda>_.
         assert_eq ''transactions'' (length (ep_transactions exec_payload))
           (length (ep_transactions expected_exec_payload)))))))))))))))"

definition can_validate_sig :: "externs \<Rightarrow> Randomness \<Rightarrow> TestHarness \<Rightarrow> (unit, string) res" where
  "can_validate_sig X rd H =
     on_storage (bb_setup_storage X rd (hh_recorder H))
      (step_bind (give (BlsSigner_default X (rd_ikm rd 4))) (\<lambda>signer.
       step_bind (give (signed_blinded_block X)) (\<lambda>blinded_block.
       let msg = sbl_message blinded_block;
           signature = BlsSigner_proposer_sign X signer (BlindedBlock_tree_hash_root X msg) in
       step_bind (look (fork_data in_memory_storage)) (\<lambda>fork_data.
       let beacon_proposer_domain = compute_proposer_domain X fork_data;
           root = signing_root X (BlindedBlock_tree_hash_root X msg) beacon_proposer_domain;
           pubkey = BlsSigner_public_key X signer
       in assert_that ''signature'' (BlsSignature_verify X signature pubkey root)))))"

section \<open>\<open>builder_api/post_bids.rs\<close>\<close>

definition test_bid :: "externs \<Rightarrow> Randomness \<Rightarrow> (BidSubmission, string) res" where
  "test_bid X rd =
     res_bind (test_builder_pubkey_str X rd) (\<lambda>key. unwrap (BidSubmission_deserialize X (bid_json key)))"

definition can_bid :: "externs \<Rightarrow> Randomness \<Rightarrow> ('w, unit) step" where
  "can_bid X rd = step_bind (give (test_bid X rd)) (\<lambda>_. give (Ok ()))"

section \<open>Lemmas\<close>

text \<open>The size of the block of the fixture.\<close>

lemma bits_bytes_width: "length (bits_bytes bs) = (length bs + 7) div 8"
proof (induction bs rule: bits_bytes.induct)
  case (2 b bs)
  then show ?case by (cases "length bs < 8") (simp_all add: div_if [of "Suc _"])
qed simp

lemma header_size:
  assumes "test_environment X rd" and "json_env X" and "compact_texts X render"
    and "fits_ExecutionPayloadHeader X h"
  shows "json_size (ExecutionPayloadHeader_serialize X h) \<le> 2000"
proof -
  note sizes = text_sizes [OF assms(1,2)]
  have bloom: "json_size (logs_bloom_serialize X (eph_logs_bloom h)) = 515"
    using assms(4) json_envD(1) [OF assms(2)]
    by (simp add: logs_bloom_serialize_def hex_documented_def fits_ExecutionPayloadHeader_def)
  have fee: "json_size (impl_serde_serialize (U256_to_string X) (eph_base_fee_per_gas h)) \<le> 81"
    using assms(3) by (simp add: impl_serde_serialize_def U256_to_string_def compact_texts_def)
  have extra: "json_size (write_hex X (eph_extra_data h)) \<le> 67"
    using assms(4) by (simp add: sizes fits_ExecutionPayloadHeader_def)
  show ?thesis
    using assms(4) fee extra number_size [of "eph_block_number h"] number_size [of "eph_gas_limit h"]
      number_size [of "eph_gas_used h"] number_size [of "eph_timestamp h"] number_size [of "eph_blob_gas_used h"]
      number_size [of "eph_excess_blob_gas h"]
    by (simp add: ExecutionPayloadHeader_serialize_def ExecutionPayloadHeader_fields_def to_object_def sizes bloom
        fits_ExecutionPayloadHeader_def wf_B256_def wf_Address_def)
qed

lemma attestation_size:
  assumes "test_environment X rd" and "json_env X" and "fits_Attestation X a"
    and "at_aggregation_bits a = [True, True]"
  shows "json_size (Attestation_serialize X a) \<le> 1000"
proof -
  note sizes = text_sizes [OF assms(1,2)]
  have bits: "json_size (bitlist_to_serde X 2048 [True, True]) = 5"
    using json_envD(1,3) [OF assms(2)] by (simp add: serde_documented_def hex_documented_def hex_byte_def)
  let ?d = "at_data a"
  show ?thesis
    using assms(3,4) number_size [of "ad_slot ?d"] number_size [of "ad_index ?d"]
      number_size [of "cp_epoch (ad_source ?d)"] number_size [of "cp_epoch (ad_target ?d)"]
    by (simp add: Attestation_serialize_def Attestation_fields_def AttestationData_serialize_def
        AttestationData_fields_def Checkpoint_serialize_def Checkpoint_fields_def to_object_def sizes bits
        fits_Attestation_def fits_AttestationData_def fits_Checkpoint_def wf_B256_def)
qed

lemma block_size:
  assumes "test_environment X rd" and "json_env X" and "compact_texts X render"
    and "fits_SignedBlindedBlock X v" and "fixture_body (blb_body (sbl_message v))"
  shows "length (render (SignedBlindedBlock_serialize X v)) \<le> blinded_blocks_limit"
proof -
  note sizes = text_sizes [OF assms(1,2)]
  let ?m = "sbl_message v"
  let ?b = "blb_body ?m"
  have fits: "fits_BlindedBlockBody X ?b" "fits_BlindedBlock X ?m" "valid_signature X (sbl_signature v)"
    using assms(4) by (simp_all add: fits_SignedBlindedBlock_def fits_BlindedBlock_def)
  obtain a where a: "blbb_attestations ?b = [a]" "at_aggregation_bits a = [True, True]"
    using assms(5) by (auto simp: fixture_body_def)
  with fits(1) have attestation: "json_size (Attestation_serialize X a) \<le> 1000"
    by (intro attestation_size [OF assms(1,2)]) (simp_all add: fits_BlindedBlockBody_def)
  have header: "json_size (ExecutionPayloadHeader_serialize X (blbb_execution_payload_header ?b)) \<le> 2000"
    using fits(1) by (intro header_size [OF assms(1,2,3)]) (simp add: fits_BlindedBlockBody_def)
  have "json_size (bitvector_to_serde X 512 (sa_sync_committee_bits (blbb_sync_aggregate ?b))) = 131"
    using fits(1) json_envD(1,3) [OF assms(2)] bits_bytes_width
    by (simp add: serde_documented_def hex_documented_def fits_BlindedBlockBody_def fits_SyncAggregate_def)
  then have sync: "json_size (SyncAggregate_serialize X (blbb_sync_aggregate ?b)) \<le> 400"
    using fits(1) by (simp add: SyncAggregate_serialize_def SyncAggregate_fields_def to_object_def sizes
        fits_BlindedBlockBody_def fits_SyncAggregate_def)
  have eth1: "json_size (Eth1Data_serialize X (blbb_eth1_data ?b)) \<le> 250"
    using fits(1) number_size [of "e1_deposit_count (blbb_eth1_data ?b)"]
    by (simp add: Eth1Data_serialize_def Eth1Data_fields_def to_object_def sizes fits_BlindedBlockBody_def
        fits_Eth1Data_def wf_B256_def)
  have "json_size (BlindedBlockBody_serialize X ?b) \<le> 5000"
    using fits(1) assms(5) attestation header sync eth1
    by (simp add: BlindedBlockBody_serialize_def BlindedBlockBody_fields_def to_object_def sizes write_seq_def a
        fixture_body_def fits_BlindedBlockBody_def wf_B256_def)
  then have "json_size (SignedBlindedBlock_serialize X v) \<le> 10000"
    using fits(2,3) number_size [of "blb_slot ?m"] number_size [of "blb_proposer_index ?m"]
    by (simp add: SignedBlindedBlock_serialize_def SignedBlindedBlock_fields_def BlindedBlock_serialize_def
        BlindedBlock_fields_def to_object_def sizes fits_BlindedBlock_def wf_B256_def)
  moreover have "length (render (SignedBlindedBlock_serialize X v)) \<le> 8 * json_size (SignedBlindedBlock_serialize X v)"
    using assms(3) by (simp add: compact_texts_def)
  ultimately show ?thesis by (simp add: blinded_blocks_limit_def)
qed

text \<open>A block that is posted reaches the handler as it is.\<close>

lemma posted_block:
  assumes "http_environment X rd H" and "fits_SignedBlindedBlock X sb" and "fixture_body (blb_body (sbl_message sb))"
  shows "bb_route X H (block_request X H sb) w = blinded_blocks_handler X in_memory_storage sb (su_elapsed (hh_env H)) w"
proof -
  note env = http_environmentD [OF assms(1)]
  let ?j = "SignedBlindedBlock_serialize X sb"
  have "SignedBlindedBlock_deserialize X ?j = Ok sb"
    using assms(2) env(3) by (intro block_json.reads_back) simp
  then have "from_body (hh_parse H) (SignedBlindedBlock_deserialize X) (hh_render H ?j) = Some sb"
    by (rule from_body_render [OF env(5)])
  then have body: "json_body blinded_blocks_limit (de_blinded_block (test_decoders X H)) (block_request X H sb) = Ok sb"
    unfolding block_request_def
    by (intro json_body_post block_size [OF env(1,3,6) assms(2,3)]) (simp add: test_decoders_def serde_decoders_def)
  have "hq_path (block_request X H sb) = [''eth'', ''v1'', ''builder'', ''blinded_blocks'']"
    "warp_post (block_request X H sb) = Ok ()"
    by (simp_all add: block_request_def json_post_def warp_post_def)
  then show ?thesis
    by (simp add: bb_route_def post_blinded_blocks_route_def body)
qed

text \<open>The storage when a block is posted.\<close>

definition prepared :: "BlsPublicKey \<Rightarrow> BlindedBlockResponse \<Rightarrow> relay_world \<Rightarrow> bool" where
  "prepared key resp w \<longleftrightarrow>
     (\<exists>entry. vrm_pubkey (vr_message entry) = key \<and>
        im_proposer_duties (w_store w) = [\<lparr>val_slot = 46, val_validator_index = 26, val_entry = entry\<rparr>]) \<and>
     Mapping.lookup (im_validator_registrations (w_store w)) key \<noteq> None \<and>
     Mapping.lookup (im_blinded_block_resp (w_store w)) key = Some resp \<and>
     im_fork_data (w_store w) = default_forks"

lemma prepared_store:
  assumes "started slot w" and "vrm_pubkey (vr_message entry) = key"
  shows "prepared key resp (ims_set_blinded_block_response key resp (ims_set_proposer_duties
    [\<lparr>val_slot = 46, val_validator_index = 26, val_entry = entry\<rparr>] (ims_set_validator_registration key registration w)))"
  using assms by (simp add: prepared_def started_def ims_setter_defs on_store_def Let_def)

lemma checks_prepared:
  assumes "prepared key resp w" and "blb_slot (sbl_message sb) = 46" and "blb_proposer_index (sbl_message sb) = 26"
  shows "blinded_blocks_checks X in_memory_storage (w_store w) sb =
    (if BlsSignature_verify X (sbl_signature sb) key (signing_root X (BlindedBlock_tree_hash_root X (sbl_message sb))
        (compute_proposer_domain X default_forks))
     then Ok resp else Err (custom (CausePostBlindedBlock InvalidBlindedSignature)))"
  using assms by (auto simp: prepared_def blinded_blocks_checks_def ims_reader_defs SignedBlindedBlock_slot_def
      SignedBlindedBlock_proposer_index_def duty_pubkey_def Let_def)

lemma bb_started:
  assumes "test_environment X rd"
  shows "\<exists>w. bb_setup_storage X rd recorder = Ok w \<and> started (HeadSlot 10) w"
  by (simp add: bb_setup_storage_def ForkDatas_default_Ok [OF test_environmentD(4,5) [OF assms]]
      InMemoryStorage_new_def started_def HeadSlot_from_def Let_def metrics_defs)

lemma bb_fixtures_Ok:
  assumes "json_env X" and "fixture_points X"
  shows "\<exists>sb. signed_blinded_block X = Ok sb \<and> SignedBlindedBlock_deserialize X signed_block_json = Ok sb \<and>
      fits_SignedBlindedBlock X sb \<and> blb_slot (sbl_message sb) = 46 \<and> blb_proposer_index (sbl_message sb) = 26 \<and>
      fixture_body (blb_body (sbl_message sb))"
    and "\<exists>r. blinded_block_resp X = Ok r \<and> fits_BlindedBlockResponse X (ver_data r) \<and>
      ep_block_hash (bbr_execution_payload (ver_data r)) = fixture_block_hash"
  using signed_block_reads [OF assms] response_reads [OF assms(1)]
  by (auto simp: signed_blinded_block_def blinded_block_resp_def)

text \<open>The signature of the fixture is not one of the proposer that the test draws.\<close>

definition block_unverified :: "externs \<Rightarrow> Randomness \<Rightarrow> bool" where
  "block_unverified X rd \<longleftrightarrow>
     (\<forall>sb. SignedBlindedBlock_deserialize X signed_block_json = Ok sb \<longrightarrow>
        \<not> BlsSignature_verify X (sbl_signature sb) (drawn_key X rd 2)
            (signing_root X (BlindedBlock_tree_hash_root X (sbl_message sb)) (compute_proposer_domain X default_forks)))"

lemma block_refused_passes:
  assumes "http_environment X rd H" and "fixture_points X" and "block_unverified X rd"
  shows "test_invalid_signature X rd H = Ok ()"
proof -
  note env = http_environmentD [OF assms(1)]
  obtain w where w: "bb_setup_storage X rd (hh_recorder H) = Ok w" "started (HeadSlot 10) w"
    using bb_started [OF env(1)] by blast
  obtain sb where sb: "signed_blinded_block X = Ok sb" "SignedBlindedBlock_deserialize X signed_block_json = Ok sb"
    "fits_SignedBlindedBlock X sb" "blb_slot (sbl_message sb) = 46" "blb_proposer_index (sbl_message sb) = 26"
    "fixture_body (blb_body (sbl_message sb))" using bb_fixtures_Ok(1) [OF env(3) assms(2)] by blast
  obtain r where r: "blinded_block_resp X = Ok r" using bb_fixtures_Ok(2) [OF env(3) assms(2)] by blast
  let ?key = "drawn_key X rd 2"
  obtain registration where registration: "bb_validator_registration X rd 1 ?key = Ok registration"
    by (simp add: bb_validator_registration_def test_signature_Ok(1) [OF env(1)])
  obtain entry where entry: "bb_validator_registration X rd 2 ?key = Ok entry" "vrm_pubkey (vr_message entry) = ?key"
    by (simp add: bb_validator_registration_def test_signature_Ok(1) [OF env(1)])
  let ?w = "ims_set_blinded_block_response ?key (ver_data r) (ims_set_proposer_duties
    [\<lparr>val_slot = 46, val_validator_index = 26, val_entry = entry\<rparr>] (ims_set_validator_registration ?key registration w))"
  have "blinded_blocks_checks X in_memory_storage (w_store ?w) sb =
      Err (custom (CausePostBlindedBlock InvalidBlindedSignature))"
    using assms(3) sb(2)
    by (simp add: checks_prepared [OF prepared_store [OF w(2) entry(2)] sb(4,5)] block_unverified_def)
  then have "bb_route X H (block_request X H sb) ?w = (?w, Err (custom (CausePostBlindedBlock InvalidBlindedSignature)))"
    by (simp add: posted_block [OF assms(1) sb(3,6)] blinded_blocks_handler_def)
  from recovered_answer(1) [of "bb_route X H", OF this]
  have "recovered H (bb_route X H) (block_request X H sb) ?w =
      (?w, Ok \<lparr>rp_status = BAD_REQUEST, rp_body = JsonString ''Invalid signature.''\<rparr>)"
    by (simp add: handle_rejection_status BAD_REQUEST_def)
  then show ?thesis
    by (simp add: test_invalid_signature_def on_storage_def w drawn_key_random [OF env(1)]
        registration [unfolded One_nat_def] sb(1) r
        bb_duties_def entry(1) Let_def step_reply reply_body_def from_slice_rendered [OF env(5)])
qed

lemma submit_block_passes:
  assumes "http_environment X rd H" and "fixture_points X"
  shows "can_submit_blinded_block_and_receive_exec_block X rd H = Ok ()"
proof -
  note env = http_environmentD [OF assms(1)]
  obtain w where w: "bb_setup_storage X rd (hh_recorder H) = Ok w" "started (HeadSlot 10) w"
    using bb_started [OF env(1)] by blast
  obtain sb where sb: "signed_blinded_block X = Ok sb"
    "fits_SignedBlindedBlock X sb" "blb_slot (sbl_message sb) = 46" "blb_proposer_index (sbl_message sb) = 26"
    "fixture_body (blb_body (sbl_message sb))" using bb_fixtures_Ok(1) [OF env(3) assms(2)] by blast
  obtain r where r: "blinded_block_resp X = Ok r" "fits_BlindedBlockResponse X (ver_data r)"
    using bb_fixtures_Ok(2) [OF env(3) assms(2)] by blast
  let ?key = "drawn_key X rd 3"
  let ?sb = "sb\<lparr>sbl_signature := BlsSigner_proposer_sign X (drawn_signer X rd 3)
    (BlindedBlock_tree_hash_root X (sbl_message sb))\<rparr>"
  obtain registration where registration: "bb_validator_registration X rd 3 ?key = Ok registration"
    by (simp add: bb_validator_registration_def test_signature_Ok(1) [OF env(1)])
  obtain entry where entry: "bb_validator_registration X rd 4 ?key = Ok entry" "vrm_pubkey (vr_message entry) = ?key"
    by (simp add: bb_validator_registration_def test_signature_Ok(1) [OF env(1)])
  let ?w = "ims_set_blinded_block_response ?key (ver_data r) (ims_set_proposer_duties
    [\<lparr>val_slot = 46, val_validator_index = 26, val_entry = entry\<rparr>] (ims_set_validator_registration ?key registration w))"
  let ?resp = "\<lparr>rp_status = 200, rp_body = JsonBlindedBlock \<lparr>ver_version = Deneb, ver_data = ver_data r\<rparr>\<rparr>"
  have fits: "fits_SignedBlindedBlock X ?sb"
    using sb(2) drawn_signatures_valid(2) [OF env(1,2)] by (simp add: fits_SignedBlindedBlock_def)
  have "blinded_blocks_checks X in_memory_storage (w_store ?w) ?sb = Ok (ver_data r)"
    using signer_signs(2) [OF env(1)] sb(3,4)
    by (simp add: checks_prepared [OF prepared_store [OF w(2) entry(2)]])
  moreover have "bb_route X H (block_request X H ?sb) ?w =
      blinded_blocks_handler X in_memory_storage ?sb (su_elapsed (hh_env H)) ?w"
    by (rule posted_block [OF assms(1) fits]) (simp add: sb(5))
  ultimately have "snd (bb_route X H (block_request X H ?sb) ?w) = Ok ?resp"
    by (simp only: ims.blinded_blocks_Ok_store(3))
  then obtain w' where "bb_route X H (block_request X H ?sb) ?w = (w', Ok ?resp)" by (metis prod.collapse)
  moreover have "Versioned_deserialize (BlindedBlockResponse_deserialize X)
      (Versioned_serialize (BlindedBlockResponse_serialize X) \<lparr>ver_version = Deneb, ver_data = ver_data r\<rparr>)
      = Ok \<lparr>ver_version = Deneb, ver_data = ver_data r\<rparr>"
    using env(3) r(2) by (intro response_json.versioned_reads_back) simp
  ultimately show ?thesis
    by (simp add: can_submit_blinded_block_and_receive_exec_block_def on_storage_def w
        BlsSigner_default_Ok [OF env(1)] drawn_signer_key registration sb(1) r(1)
        bb_duties_def entry(1) Let_def step_reply reply_body_def from_slice_rendered [OF env(5)])
qed

lemma block_signature_passes:
  assumes "http_environment X rd H" and "fixture_points X"
  shows "can_validate_sig X rd H = Ok ()"
proof -
  note env = http_environmentD [OF assms(1)]
  obtain w where w: "bb_setup_storage X rd (hh_recorder H) = Ok w" "started (HeadSlot 10) w"
    using bb_started [OF env(1)] by blast
  obtain sb where sb: "signed_blinded_block X = Ok sb" using bb_fixtures_Ok(1) [OF env(3) assms(2)] by blast
  show ?thesis
    using w(2) signer_signs(2) [OF env(1)]
    by (simp add: can_validate_sig_def on_storage_def w(1) BlsSigner_default_Ok [OF env(1)] sb drawn_signer_key
        ims_reader_defs started_def Let_def)
qed

lemma deserialize_passes:
  assumes "json_env X" and "fixture_points X"
  shows "can_deserialize X w = (w, Ok ())"
proof -
  have "B256_of_str X ''0xfe739553c4dca9f03fb1ed1773fbefe394d525d98d9012a22517d4976a95fe79'' = Ok fixture_block_hash"
    by (simp add: hex_literal_reads(5) [OF assms(1)] fixture_block_hash_def)
  then show ?thesis
    using bb_fixtures_Ok [OF assms]
    by (auto simp: can_deserialize_def SignedBlindedBlock_slot_def SignedBlindedBlock_proposer_index_def
        SignedBlindedBlock_block_hash_def fixture_body_def)
qed

lemma can_bid_passes:
  assumes "test_environment X rd" and "json_env X"
  shows "can_bid X rd w = (w, Ok ())"
  using bid_reads [OF assms, of 1]
  by (auto simp: can_bid_def test_bid_def test_builder_pubkey_str_def drawn_key_random [OF assms(1)] is_ok_iff)

section \<open>Properties\<close>


end
