(* ===== verification/Test_Witnesses.thy ===== *)
theory Test_Witnesses
  imports Grpc_Test_Runs Json_Witnesses Block_Tests
begin

text \<open>The properties of the tests, applied to the examples.\<close>

section \<open>The environment\<close>

definition toy_random :: Randomness where
  "toy_random = \<lparr>rd_address = (\<lambda>i. replicate 20 (of_nat i)), rd_b256 = (\<lambda>i. replicate 32 9),
     rd_ikm = (\<lambda>i. of_nat i # replicate 31 (of_nat i))\<rparr>"

lemma toy_environment: "test_environment toy_externs toy_random"
proof -
  have drawn: "drawn_well toy_random" by (auto simp: drawn_well_def toy_random_def)
  have "length test_signature_bytes = 96"
    by (simp add: test_signature_bytes_def TEST_BLS_SIGNATURE_def)
  then show ?thesis
    unfolding test_environment_def using toy_documented toy_texts toy_keys drawn by simp
qed

lemma toy_fixture: "hd test_signature_bytes = 0xad"
  by (simp add: test_signature_bytes_def TEST_BLS_SIGNATURE_def hex_value_def)

lemma toy_unsigned:
  assumes "hd p \<noteq> 1"
  shows "\<not> BlsSignature_verify toy_externs \<lparr>sig_point = Some p, sig_is_infinity = b\<rparr> k m"
proof -
  have "hd (toy_sig pk msg) = 1" for pk msg by (simp add: toy_sig_def)
  then have "p \<noteq> toy_sig pk msg" for pk msg using assms by metis
  then show ?thesis by (simp add: BlsSignature_verify_def Signature_verify_def)
qed

lemma toy_unverified:
  "\<not> BlsSignature_verify toy_externs \<lparr>sig_point = Some test_signature_bytes, sig_is_infinity = b\<rparr> k m"
  by (rule toy_unsigned) (simp add: toy_fixture)

section \<open>A server that refuses the first attempt\<close>

definition toy_connect :: transport where
  "toy_connect server =
     [Err ''connection refused'',
      Ok (plain_channel (MevRelayServer_call plain_unary (Ok \<lparr>resp_code = 0, resp_message = []\<rparr>)
        (submit_block toy_externs) server))]"


section \<open>A tree hash that is SHA-256 where the tests need it\<close>

definition sha_externs :: externs where
  "sha_externs = toy_externs
     \<lparr>th_u8_array := (\<lambda>bs. bs @ replicate (32 - length bs) 0),
      th_container := (\<lambda>rs.
        if rs = [replicate 32 0, replicate 32 0]
        then unhex ''f5a5fd42d16a20302798ef6ed309979b43003d2320d9f0e8ea9831a92759fb4b''
        else if rs = [[0x20, 0, 0, 0x89] @ replicate 28 0, replicate 32 0]
        then unhex ''e4b3c03845c9cd15780441feed2a67053b9cc4ae1547af5747433120582f5a00''
        else toy_root rs)\<rparr>"

lemma sha_sel:
  "blst_pk_from_bytes sha_externs = blst_pk_from_bytes toy_externs"
  "blst_pk_default sha_externs = blst_pk_default toy_externs"
  "blst_pk_key_validate sha_externs = blst_pk_key_validate toy_externs"
  "blst_sig_from_bytes sha_externs = blst_sig_from_bytes toy_externs"
  "blst_sig_verify sha_externs = blst_sig_verify toy_externs"
  "blst_sk_from_bytes sha_externs = blst_sk_from_bytes toy_externs"
  "blst_sk_key_gen sha_externs = blst_sk_key_gen toy_externs"
  "blst_sk_to_pk sha_externs = blst_sk_to_pk toy_externs"
  "blst_sk_sign sha_externs = blst_sk_sign toy_externs"
  "fixed_vector_from sha_externs = fixed_vector_from toy_externs"
  "fixed_vector_new_ok sha_externs = fixed_vector_new_ok toy_externs"
  "variable_list_from sha_externs = variable_list_from toy_externs"
  "variable_list_new_ok sha_externs = variable_list_new_ok toy_externs"
  "u256_from_str sha_externs = u256_from_str toy_externs"
  "u256_to_string sha_externs = u256_to_string toy_externs"
  "b256_from_str sha_externs = b256_from_str toy_externs"
  "hash256_from_str sha_externs = hash256_from_str toy_externs"
  "address_from_str sha_externs = address_from_str toy_externs"
  "hex_decode sha_externs = hex_decode toy_externs"
  "hex_encode sha_externs = hex_encode toy_externs"
  "serde_hex_decode sha_externs = serde_hex_decode toy_externs"
  "serde_hex_encode sha_externs = serde_hex_encode toy_externs"
  by (simp_all add: sha_externs_def)

lemma sha_environment: "test_environment sha_externs toy_random"
proof -
  have "test_environment sha_externs toy_random = test_environment toy_externs toy_random"
    unfolding test_environment_def blst_keys_def blst_signatures_def blst_correct_def
      hex_documented_def texts_documented_def ssz_containers_def sha_sel ..
  then show ?thesis using toy_environment by simp
qed

lemma sha_documented: "sha256_documented sha_externs"
proof -
  have "hd ([0x20, 0, 0, 0x89] @ replicate 28 0) \<noteq> hd (replicate 32 0 :: bytes)" by simp
  then have "[0x20, 0, 0, 0x89] @ replicate 28 0 \<noteq> (replicate 32 0 :: bytes)" by metis
  moreover have "th_hash256 toy_externs h = h" for h by (simp add: toy_externs_def)
  ultimately show ?thesis by (simp add: sha256_documented_def sha_externs_def del: unhex.simps)
qed

theorem unit_tests_witness:
  "snd (can_compute_b_domain sha_externs toy_random ()) = Ok () \<and>
    can_store_under_high_concurrency sha_externs toy_random RelayMetrics_zero (rev [0..<10000]) = Ok ()"
  using unit_tests_pass [OF sha_environment sha_documented, of "()" RelayMetrics_zero "rev [0..<10000]"] by blast

section \<open>A command line\<close>

definition toy_parsers :: ClapParsers where
  "toy_parsers =
     \<lparr>cp_url = (\<lambda>url. Ok (url @ ''/'')), cp_pubkey = toy_fixed 48,
      cp_chain = (\<lambda>c. if c = ''mainnet'' then Ok Mainnet else if c = ''dev'' then Ok Dev else Ok (OtherChain c)),
      cp_epoch_slots = 32\<rparr>"

lemma toy_command_line: "command_line_documented toy_externs toy_parsers"
proof -
  have "toy_fixed 48 (''0x'' @ hex_encode toy_externs bs) = Ok bs" if "length bs = 48" for bs
    using that by (simp add: toy_fixed_def toy_hex_decode_encode)
  then show ?thesis by (simp add: command_line_documented_def toy_parsers_def)
qed


section \<open>The beacon node\<close>

theorem node_tests_witness:
  "can_send_commands toy_externs toy_random = Ok () \<and>
    can_fill_storage_from_events_through_service toy_externs (\<lambda>json. Ok demo_attrs) RelayMetrics_zero 2 9 = Ok ()"
proof -
  have "is_ok ((\<lambda>json. Ok demo_attrs :: (_, string) res) json)" for json :: Json by simp
  from node_tests_pass [where n = 2 and polls = 9 and read_event = "\<lambda>json. Ok demo_attrs" and
      recorder = RelayMetrics_zero, OF toy_environment toy_json _ _ this this]
  show ?thesis by simp
qed

section \<open>The routes\<close>

definition toy_harness :: TestHarness where
  "toy_harness =
     \<lparr>hh_parse = demo_parse, hh_render = demo_render,
      hh_api_key = (\<lambda>q. if q = ''api_key=123'' then Some ''123'' else None),
      hh_params = (\<lambda>q. Some \<lparr>qp_slot = None, qp_block_number = None\<rparr>),
      hh_rejected = (\<lambda>e. \<lparr>rp_status = 404, rp_body = Text []\<rparr>), hh_env = demo_env,
      hh_uuids = (\<lambda>i. replicate 16 (of_nat i)), hh_recorder = RelayMetrics_zero\<rparr>"

lemma toy_compact: "compact_texts toy_externs demo_render"
proof -
  have ops: "length (json_ops j) \<le> json_size j" for j
  proof (induction j)
    case (JSeq js)
    then show ?case by (induction js) force+
  next
    case (JObject fs)
    then show ?case by (induction fs) (force simp: snds.simps)+
  qed simp_all
  have "length (demo_render j) \<le> 8 * json_size j" for j
  proof -
    have "0 < json_size j" by (cases j) simp_all
    then show ?thesis using render_length [of j] ops [of j] by linarith
  qed
  moreover have "length (u256_to_string toy_externs v) \<le> 80" for v
  proof -
    have "unat v < 2 ^ LENGTH(256)" by (rule unsigned_less)
    then show ?thesis by (simp add: toy_externs_def decimal_width)
  qed
  ultimately show ?thesis by (simp add: compact_texts_def)
qed

lemma toy_http: "http_environment toy_externs toy_random toy_harness"
proof -
  have "finite_signatures toy_externs"
    by (auto simp: finite_signatures_def toy_sig_def INFINITY_SIGNATURE_def)
  then show ?thesis
    using toy_environment toy_json toy_documented demo_texts toy_compact
    by (simp add: http_environment_def toy_harness_def)
qed


section \<open>Bids of the earlier form\<close>

definition toy_reth :: "bytes reth" where
  "toy_reth =
     \<lparr>decode_tx = (\<lambda>bs. if bs = [] then Err ''empty'' else Ok bs),
      calculate_transaction_root = (\<lambda>txs. replicate 32 (of_nat (length txs))),
      ordered_trie_root = (\<lambda>ws. replicate 32 (of_nat (length ws)))\<rparr>"

theorem versioned_bid_witness:
  "is_ok (SignedBuilderBid_try_from toy_reth (demo_bid 1 1000)) \<and>
    snd (exec_payload_to_exec_header toy_externs toy_reth toy_random ()) = Ok ()"
proof -
  have decode: "decode_tx toy_reth t = (if t = [] then Err ''empty'' else Ok t)" for t by (simp add: toy_reth_def)
  have "unhex vb_transaction \<noteq> []" by (simp add: vb_transaction_def)
  then have tx: "is_ok (decode_tx toy_reth (unhex vb_transaction))" by (simp add: decode)
  have "decode_tx toy_reth t \<noteq> Panic m" for t m by (simp add: decode)
  note spec = versioned_bid_header [OF this toy_environment tx, of "demo_bid 1 1000" _ _ _ "()"]
  have "list_all (\<lambda>t. is_ok (decode_tx toy_reth t)) (ep_transactions (bs_execution_payload (demo_bid 1 1000)))"
    by (simp add: decode demo_bid_def demo_payload_def BidSubmission_new_def)
  with conjunct1 [OF spec] have "is_ok (SignedBuilderBid_try_from toy_reth (demo_bid 1 1000))" by (rule iffD2)
  then show ?thesis using conjunct2 [OF conjunct2 [OF spec]] by (rule conjI)
qed

end
