(* ===== verification/Auction_Round.thy ===== *)
theory Auction_Round
  imports System
begin

text \<open>
  A round of the auction from end to end: an accepted bid stays on offer while the relay serves
  anything else, so that a proposer who asks for the header and signs it is served the payload and has
  the block published. \<open>gap_step\<close> is a step of \<open>System\<close> with the only four occurrences left out that can
  stand in between: another bid accepted for the proposer, registrations that no longer hold the
  proposer, duties that no longer hold the slot, and, before the header is fetched, a new head.
\<close>

section \<open>The steps in between\<close>

text \<open>A bid that would be accepted for a duty of the proposer with key \<open>k\<close>, over HTTP and over gRPC.\<close>

definition bid_taken_for :: "externs \<Rightarrow> BlsPublicKey \<Rightarrow> BidSubmission \<Rightarrow> relay_world \<Rightarrow> bool" where
  "bid_taken_for X k b w \<longleftrightarrow>
     (case post_bids_checks X in_memory_storage (w_store w) b of
        Ok duty \<Rightarrow> duty_pubkey duty = k
      | _ \<Rightarrow> False)"

definition grpc_taken_for ::
    "externs \<Rightarrow> ForkDatas \<Rightarrow> BlsPublicKey \<Rightarrow> SubmitBlockRequest \<Rightarrow> relay_world \<Rightarrow> bool" where
  "grpc_taken_for X fds k request w \<longleftrightarrow>
     (case submit_block_checks X (RelayGrpcService_new in_memory_storage fds) (w_store w) request of
        Ok (Accepted t p bb sig key) \<Rightarrow> key = k
      | _ \<Rightarrow> False)"

text \<open>A list of registrations that leaves the proposer registered.\<close>

definition keeps_registered ::
    "externs \<Rightarrow> Surroundings \<Rightarrow> BlsPublicKey \<Rightarrow> ValidatorRegistration list \<Rightarrow> relay_world \<Rightarrow> bool" where
  "keeps_registered X env k regs w \<longleftrightarrow>
     Mapping.lookup (registered_map X (compute_builder_domain X (im_fork_data (w_store w)))
       (su_known env) regs) k \<noteq> None"

fun spares :: "externs \<Rightarrow> Surroundings \<Rightarrow> BlsPublicKey \<Rightarrow> ApiRequest \<Rightarrow> relay_world \<Rightarrow> bool" where
  "spares X env k (PostBid body) w \<longleftrightarrow>
     (case with_json_body bids_limit body of Ok b \<Rightarrow> \<not> bid_taken_for X k b w | _ \<Rightarrow> True)"
| "spares X env k (PostValidators api_key body) w \<longleftrightarrow>
     (case with_json_body validators_limit body of
        Ok regs \<Rightarrow> keeps_registered X env k regs w | _ \<Rightarrow> True)"
| "spares X env k req w \<longleftrightarrow> True"

inductive gap_step ::
    "externs \<Rightarrow> ForkDatas \<Rightarrow> u64 \<Rightarrow> bool \<Rightarrow> Validator \<Rightarrow> relay_world \<Rightarrow> relay_world \<Rightarrow> bool"
  for X :: externs and fds :: ForkDatas and slots_per_epoch :: u64 and moving :: bool
    and duty :: Validator where
  http: "serve X in_memory_storage env req w = (w', reply) \<Longrightarrow>
     spares X env (duty_pubkey duty) req w \<Longrightarrow>
     gap_step X fds slots_per_epoch moving duty w w'"
| grpc: "submit_block X (RelayGrpcService_new in_memory_storage fds) request w = (w', reply) \<Longrightarrow>
     \<not> grpc_taken_for X fds (duty_pubkey duty) request w \<Longrightarrow>
     gap_step X fds slots_per_epoch moving duty w w'"
| attributes: "gap_step X fds slots_per_epoch moving duty w
     (on_event in_memory_storage (PayloadAttributeEvent attrs) w)"
| head: "moving \<Longrightarrow> gap_step X fds slots_per_epoch moving duty w
     (on_event in_memory_storage (HeadEvent slot) w)"
| refresh: "RefreshDutiesTask head \<in> set (w_tasks w) \<Longrightarrow>
     refresh_duties X in_memory_storage api slots_per_epoch head
       (w\<lparr>w_tasks := remove1 (RefreshDutiesTask head) (w_tasks w)\<rparr>) = (w', r) \<Longrightarrow>
     find_duty_by_slot in_memory_storage (w_store w') (val_slot duty) = Some duty \<Longrightarrow>
     gap_step X fds slots_per_epoch moving duty w w'"
| publish: "PublishTask content ty \<in> set (w_tasks w) \<Longrightarrow>
     gap_step X fds slots_per_epoch moving duty w
       (w\<lparr>w_tasks := remove1 (PublishTask content ty) (w_tasks w)\<rparr>)"

lemma gap_step_is_step: "gap_step X fds n moving duty w w' \<Longrightarrow> relay_step X fds n w w'"
  by (erule gap_step.cases) (auto intro: relay_step.intros)

section \<open>What stays\<close>

definition on_offer :: "bool \<Rightarrow> ForkDatas \<Rightarrow> Validator \<Rightarrow> BidSubmission \<Rightarrow> StorageSpec \<Rightarrow> bool" where
  "on_offer moving F duty b \<sigma> \<longleftrightarrow>
     bt_slot (bid_trace b) = val_slot duty \<and> ss_fork_data \<sigma> = F \<and>
     duty_of \<sigma> (val_slot duty) = Some duty \<and> ss_registrations \<sigma> (duty_pubkey duty) \<noteq> None \<and>
     ss_best_bid \<sigma> (bid_key b) = Some b \<and>
     ss_responses \<sigma> (duty_pubkey duty) = Some (to_blinded_block_response b) \<and>
     (\<not> moving \<longrightarrow> val_slot duty = head_slot (ss_head_slot \<sigma>) + 1)"

abbreviation offered :: "bool \<Rightarrow> ForkDatas \<Rightarrow> Validator \<Rightarrow> BidSubmission \<Rightarrow> relay_world \<Rightarrow> bool" where
  "offered moving F duty b w \<equiv> on_offer moving F duty b (abs_in_memory (w_store w))"

lemma on_offer_moving: "on_offer moving F duty b \<sigma> \<Longrightarrow> on_offer True F duty b \<sigma>"
  by (simp add: on_offer_def)

text \<open>A bid for another proposer has another key and another response.\<close>

lemma on_offer_record_bid:
  assumes "on_offer moving F duty b \<sigma>" and "duty_of \<sigma> (bt_slot (bid_trace c)) = Some d"
    and "duty_pubkey d \<noteq> duty_pubkey duty"
  shows "on_offer moving F duty b (record_bid c d \<sigma>)"
proof -
  have "bid_key c \<noteq> bid_key b" using assms by (auto simp: on_offer_def bid_key_def)
  with assms show ?thesis by (simp add: on_offer_def)
qed

lemma on_offer_frame:
  assumes "on_offer moving F duty b \<sigma>"
  shows "on_offer moving F duty b (\<sigma>\<lparr>ss_payload_attributes := a\<rparr>)"
    and "on_offer moving F duty b (\<sigma>\<lparr>ss_delivered := D\<rparr>)"
    and "moving \<Longrightarrow> on_offer moving F duty b (\<sigma>\<lparr>ss_head_slot := h\<rparr>)"
  using assms by (simp_all add: on_offer_def duty_of_def)

lemma offered_post_bids:
  assumes "offered moving F duty b w" and "\<not> bid_taken_for X (duty_pubkey duty) c w"
  shows "offered moving F duty b (fst (post_bids_handler X in_memory_storage c w))"
proof (rule ims.post_bids_handler_cases [where w = w and X = X and b = c])
  fix d
  let ?\<sigma> = "abs_in_memory (w_store w)"
  assume ok: "outbids ?\<sigma> c" "admissible_static X ?\<sigma> c" "duty_of ?\<sigma> (bt_slot (bid_trace c)) = Some d"
    and eq: "post_bids_handler X in_memory_storage c w
      = (post_bids_commit in_memory_storage c d w, Ok (with_status (Text ''OK'') StatusOK))"
  then have "post_bids_checks X in_memory_storage (w_store w) c = Ok d"
    by (simp add: ims.post_bids_checks_Ok)
  with assms(2) have "duty_pubkey d \<noteq> duty_pubkey duty" by (simp add: bid_taken_for_def)
  with assms(1) ok(3) show ?thesis
    by (simp add: eq ims.post_bids_commit_store on_offer_record_bid)
qed (use assms(1) in simp_all)

lemma offered_submit_block:
  assumes off: "offered moving F duty b w" and "\<not> grpc_taken_for X fds (duty_pubkey duty) req w"
  shows "offered moving F duty b
    (fst (submit_block X (RelayGrpcService_new in_memory_storage fds) req w))"
proof (rule submit_block_cases [where X = X and w = w and req = req
      and self = "RelayGrpcService_new in_memory_storage fds"])
  let ?self = "RelayGrpcService_new in_memory_storage fds"
  fix t p bb sig key
  assume acc: "submit_block_checks X ?self (w_store w) req = Ok (Accepted t p bb sig key)"
    and eq: "submit_block X ?self req w
      = (update_best ?self t p bb sig key w, Ok \<lparr>resp_code = 200, resp_message = ''Success''\<rparr>)"
  from ims.submit_block_Accepted_abs [OF acc refl] obtain d where d: "key = duty_pubkey d"
    "duty_of (abs_in_memory (w_store w)) (bt_slot t) = Some d" by blast
  moreover from assms(2) acc have "key \<noteq> duty_pubkey duty" by (simp add: grpc_taken_for_def)
  ultimately show ?thesis
    using on_offer_record_bid [OF off, of "BidSubmission_new t p bb sig" d] unfolding eq
    by (simp add: update_best_commit RelayGrpcService_new_def ims.post_bids_commit_store)
qed (use off in simp_all)

lemma offered_blinded_blocks:
  assumes "offered moving F duty b w"
  shows "offered moving F duty b (fst (blinded_blocks_handler X in_memory_storage sb t w))"
proof (cases "blinded_blocks_checks X in_memory_storage (w_store w) sb")
  case (Ok resp)
  with assms show ?thesis
    by (simp add: ims.blinded_blocks_Ok_store(1) [OF Ok] on_offer_frame)
qed (use assms in \<open>simp_all add: blinded_blocks_handler_def\<close>)

lemma offered_post_validators:
  assumes "offered moving F duty b w" and "keeps_registered X env (duty_pubkey duty) regs w"
  shows "offered moving F duty b
    (fst (post_validators_handler X in_memory_storage (su_known env) regs w))"
  using assms by (simp add: on_offer_def keeps_registered_def post_validators_store duty_of_def
      abs_in_memory_def)

lemma offered_filtered:
  assumes "offered moving F duty b w" and "\<And>a. r = Ok a \<Longrightarrow> offered moving F duty b (fst (h a))"
  shows "offered moving F duty b (fst (filtered r h w))"
  using filtered_cases [of r h w] assms by auto

lemma offered_dispatch:
  assumes "offered moving F duty b w" and "spares X env (duty_pubkey duty) req w"
  shows "offered moving F duty b (fst (dispatch X in_memory_storage env req w))"
  using assms
  by (cases req)
    (auto simp: status_handler_def get_validators_handler_def
      intro!: offered_filtered offered_post_bids offered_blinded_blocks offered_post_validators)

lemma offered_refresh:
  assumes "offered moving F duty b w"
    and "refresh_duties X in_memory_storage api n head w = (w', r)"
    and "find_duty_by_slot in_memory_storage (w_store w') (val_slot duty) = Some duty"
  shows "offered moving F duty b w'"
  using refresh_duties_cases [of X in_memory_storage api n head w] assms
  by (auto simp: on_offer_def find_duty_abs ims.setters_store duty_of_def
      simp del: in_memory_setters in_memory_readers abs_in_memory_sel)

lemma offered_gap_step:
  assumes "gap_step X fds n moving duty w w'" and "offered moving F duty b w"
  shows "offered moving F duty b w'"
  using assms
proof (cases rule: gap_step.cases)
  case (http env req reply)
  then show ?thesis
    using offered_dispatch [OF assms(2), of X env req] by (metis serve_fst fst_conv)
next
  case (grpc request reply)
  then show ?thesis using offered_submit_block [OF assms(2)] by (metis fst_conv)
next
  case (attributes attrs)
  with assms(2) show ?thesis
    by (simp add: on_event_def ims.setters_store on_offer_frame del: in_memory_setters)
next
  case (head slot)
  with assms(2) show ?thesis
    by (auto simp: on_event_def ims.setters_store on_offer_frame Let_def simp del: in_memory_setters)
next
  case (refresh head api r)
  then show ?thesis using assms(2) by (intro offered_refresh [OF _ refresh(2)]) simp_all
next
  case publish
  with assms(2) show ?thesis by simp
qed

lemma offered_gap:
  assumes "(gap_step X fds n moving duty)\<^sup>*\<^sup>* w w'" and "offered moving F duty b w"
  shows "offered moving F duty b w'"
  using assms by (induction rule: rtranclp_induct) (auto intro: offered_gap_step)

section \<open>From the bid to the block\<close>

lemma accepted_bid_offered:
  assumes "is_ok (snd (post_bids_handler X in_memory_storage b w))"
    and "find_duty_by_slot in_memory_storage (w_store w) (bt_slot (bid_trace b)) = Some duty"
    and "Mapping.lookup (im_validator_registrations (w_store w)) (duty_pubkey duty) \<noteq> None"
  shows "offered False (im_fork_data (w_store w)) duty b
    (fst (post_bids_handler X in_memory_storage b w))"
proof (rule ims.post_bids_handler_cases [where w = w and X = X and b = b])
  fix d
  let ?\<sigma> = "abs_in_memory (w_store w)"
  assume "admissible_static X ?\<sigma> b" and d: "duty_of ?\<sigma> (bt_slot (bid_trace b)) = Some d"
    and eq: "post_bids_handler X in_memory_storage b w
      = (post_bids_commit in_memory_storage b d w, Ok (with_status (Text ''OK'') StatusOK))"
  moreover from d assms(2) have "d = duty" by (simp add: find_duty_abs del: in_memory_readers)
  moreover from d have "val_slot d = bt_slot (bid_trace b)" using duty_of_slot by blast
  ultimately show ?thesis
    using assms(3)
    by (simp add: eq ims.post_bids_commit_store on_offer_def admissible_static_def Let_def)
qed (use assms(1) in \<open>simp add: is_ok_iff\<close>)

lemma offered_header:
  assumes "offered False F duty b w" and "bt_proposer_pubkey (bid_trace b) = duty_pubkey duty"
    and "variable_list_new_ok X 4096 (length (bb_commitments (bs_blobs_bundle b)))"
  obtains h where "snd (get_header_handler X in_memory_storage signer (bt_slot (bid_trace b))
      (bt_parent_hash (bid_trace b)) (duty_pubkey duty) t w)
      = Ok \<lparr>rp_status = 200, rp_body = JsonHeader \<lparr>ver_version = Deneb, ver_data = h\<rparr>\<rparr>"
    and "SignedHeader_try_from X b signer = Ok h"
proof -
  from assms(3) obtain h where h: "SignedHeader_try_from X b signer = Ok h"
    using SignedHeader_try_from_is_Ok [of X b signer] by (auto simp: is_ok_iff)
  from assms(1,2) have "read_best_bid in_memory_storage (w_store w) (bt_slot (bid_trace b))
      (bt_parent_hash (bid_trace b)) (duty_pubkey duty) = Some b"
    by (auto simp: on_offer_def bid_key_def ims_reader_defs)
  with h assms(1) show thesis by (intro that [OF _ h]) (simp add: get_header_Ok_iff on_offer_def)
qed

lemma offered_block:
  assumes "offered True F duty b w" and "blst_correct X"
    and "duty_pubkey duty = BlsSecretKey_public_key X sk"
    and "blb_slot (sbl_message sb) = val_slot duty"
    and "blb_proposer_index (sbl_message sb) = val_validator_index duty"
    and "sbl_signature sb = BlsSecretKey_sign X sk
      (signing_root X (BlindedBlock_tree_hash_root X (sbl_message sb)) (compute_proposer_domain X F))"
  shows "snd (blinded_blocks_handler X in_memory_storage sb t w) = Ok \<lparr>rp_status = 200,
      rp_body = JsonBlindedBlock \<lparr>ver_version = Deneb, ver_data = to_blinded_block_response b\<rparr>\<rparr>"
    and "w_tasks (fst (blinded_blocks_handler X in_memory_storage sb t w)) =
      w_tasks w @ [PublishTask (signed_beacon_block sb (to_blinded_block_response b)) Ssz]"
proof -
  have "authorized_block X (abs_in_memory (w_store w)) sb duty"
    using assms BlsSecretKey_sign_verify [OF assms(2), of sk]
    by (simp add: authorized_block_def on_offer_def del: abs_in_memory_sel)
  with assms(1) have ok: "is_ok (snd (blinded_blocks_handler X in_memory_storage sb t w))"
    unfolding ims.blinded_blocks_is_ok by (auto simp: on_offer_def simp del: abs_in_memory_sel)
  from assms(1,4) have "duty_of (abs_in_memory (w_store w)) (blb_slot (sbl_message sb)) = Some duty"
    "ss_responses (abs_in_memory (w_store w)) (duty_pubkey duty) = Some (to_blinded_block_response b)"
    by (simp_all add: on_offer_def del: abs_in_memory_sel)
  from blinded_blocks_answer [OF ok this] show
    "snd (blinded_blocks_handler X in_memory_storage sb t w) = Ok \<lparr>rp_status = 200,
      rp_body = JsonBlindedBlock \<lparr>ver_version = Deneb, ver_data = to_blinded_block_response b\<rparr>\<rparr>"
    "w_tasks (fst (blinded_blocks_handler X in_memory_storage sb t w)) =
      w_tasks w @ [PublishTask (signed_beacon_block sb (to_blinded_block_response b)) Ssz]" .
qed

section \<open>Properties\<close>

text \<open>
  C7. An honest proposer is served. When a bid is accepted for a registered proposer whose duty the
  slot is, then, whatever requests, calls, events and tasks the relay serves in between, other than the
  four that \<open>gap_step\<close> leaves out, the proposer gets the header of this bid; and, whatever the relay
  serves after that, new heads included, a block with this header that the proposer has signed is
  answered with the payload of the bid, and is published with the block hash that was signed.
\<close>

theorem honest_round_completes:
  assumes "blst_correct X"
    and "is_ok (snd (post_bids_handler X in_memory_storage b w))"
    and "find_duty_by_slot in_memory_storage (w_store w) (bt_slot (bid_trace b)) = Some duty"
    and "bt_proposer_pubkey (bid_trace b) = duty_pubkey duty"
    and "duty_pubkey duty = BlsSecretKey_public_key X sk"
    and "Mapping.lookup (im_validator_registrations (w_store w)) (duty_pubkey duty) \<noteq> None"
    and "variable_list_new_ok X 4096 (length (bb_commitments (bs_blobs_bundle b)))"
    and "(gap_step X fds n False duty)\<^sup>*\<^sup>* (fst (post_bids_handler X in_memory_storage b w)) w1"
    and "get_header_handler X in_memory_storage signer (bt_slot (bid_trace b))
           (bt_parent_hash (bid_trace b)) (duty_pubkey duty) t1 w1 = (w2, reply)"
    and "(gap_step X fds n True duty)\<^sup>*\<^sup>* w2 w3"
  shows "\<exists>h. reply = Ok \<lparr>rp_status = 200, rp_body = JsonHeader \<lparr>ver_version = Deneb, ver_data = h\<rparr>\<rparr> \<and>
    hd_header (sh_message h) = header_from_payload X (bs_execution_payload b) \<and>
    hd_value (sh_message h) = bid_value b \<and>
    (\<forall>sb. blb_slot (sbl_message sb) = bt_slot (bid_trace b) \<and>
       blb_proposer_index (sbl_message sb) = val_validator_index duty \<and>
       blbb_execution_payload_header (blb_body (sbl_message sb)) = hd_header (sh_message h) \<and>
       sbl_signature sb = BlsSecretKey_sign X sk
         (signing_root X (BlindedBlock_tree_hash_root X (sbl_message sb))
           (compute_proposer_domain X (im_fork_data (w_store w)))) \<longrightarrow>
       snd (blinded_blocks_handler X in_memory_storage sb t2 w3) = Ok \<lparr>rp_status = 200,
         rp_body = JsonBlindedBlock \<lparr>ver_version = Deneb, ver_data = to_blinded_block_response b\<rparr>\<rparr> \<and>
       w_tasks (fst (blinded_blocks_handler X in_memory_storage sb t2 w3)) =
         w_tasks w3 @ [PublishTask (signed_beacon_block sb (to_blinded_block_response b)) Ssz] \<and>
       content_block_hash (signed_beacon_block sb (to_blinded_block_response b))
         = SignedBlindedBlock_block_hash sb)"
proof -
  let ?F = "im_fork_data (w_store w)"
  have off1: "offered False ?F duty b w1"
    by (rule offered_gap [OF assms(8) accepted_bid_offered [OF assms(2,3,6)]])
  obtain h where h: "reply = Ok \<lparr>rp_status = 200, rp_body = JsonHeader \<lparr>ver_version = Deneb, ver_data = h\<rparr>\<rparr>"
    "SignedHeader_try_from X b signer = Ok h"
    using offered_header [OF off1 assms(4,7), of signer t1] assms(9) by auto
  have "w_store w2 = w_store w1" using assms(9) by (metis fst_conv get_header_store(1))
  with off1 have off3: "offered True ?F duty b w3"
    by (intro offered_gap [OF assms(10)]) (simp add: on_offer_moving)
  have slot: "bt_slot (bid_trace b) = val_slot duty" using off3 by (simp add: on_offer_def)
  note hdr = SignedHeader_try_from_eq_Ok [OF h(2)]
  show ?thesis
    using h(1) hdr offered_block [OF off3 assms(1,5)] slot
    by (intro exI [of _ h])
      (auto simp: SignedBlindedBlock_block_hash_def to_blinded_block_response_def)
qed

end
