(* ===== verification/Round_Interleavings.thy ===== *)
theory Round_Interleavings
  imports Auction_Round Concurrency
begin

text \<open>
  A round of the auction while the accesses of all handlers interleave. What \<open>Auction_Round\<close> shows for
  handlers that run one after the other is shown here for any number of calls at once, each stopped
  between any two of its accesses: as long as no call is among them that can touch the round, every
  request of the proposer is answered from the bid that is on offer.
\<close>

section \<open>Calls that cannot touch the round\<close>

text \<open>A bid for another slot, or for the same slot, parent and proposer and not higher.\<close>

definition outside_round :: "Validator \<Rightarrow> BidSubmission \<Rightarrow> BidTrace \<Rightarrow> bool" where
  "outside_round duty b t \<longleftrightarrow>
     bt_slot t \<noteq> val_slot duty \<or>
     bt_parent_hash t = bt_parent_hash (bid_trace b) \<and>
     bt_proposer_pubkey t = bt_proposer_pubkey (bid_trace b) \<and> \<not> BidTrace_gt t (bid_trace b)"

fun spared_call ::
    "externs \<Rightarrow> ForkDatas \<Rightarrow> bool \<Rightarrow> Validator \<Rightarrow> BidSubmission \<Rightarrow> call \<Rightarrow> bool" where
  "spared_call X fds moving duty b (HttpCall env (PostBid body)) \<longleftrightarrow>
     (case with_json_body bids_limit body of Ok c \<Rightarrow> outside_round duty b (bid_trace c) | _ \<Rightarrow> True)"
| "spared_call X fds moving duty b (HttpCall env (PostValidators api_key body)) \<longleftrightarrow>
     (case with_json_body validators_limit body of
        Ok regs \<Rightarrow> Mapping.lookup (registered_map X (compute_builder_domain X fds) (su_known env) regs)
          (duty_pubkey duty) \<noteq> None
      | _ \<Rightarrow> True)"
| "spared_call X fds moving duty b (HttpCall env req) \<longleftrightarrow> True"
| "spared_call X fds moving duty b (GrpcCall request) \<longleftrightarrow>
     (case req_bid_trace request of
        None \<Rightarrow> True
      | Some gb \<Rightarrow> (case BidTrace_try_from X gb of Ok t \<Rightarrow> outside_round duty b t | _ \<Rightarrow> True))"
| "spared_call X fds moving duty b (EventCall (HeadEvent slot)) \<longleftrightarrow> moving"
| "spared_call X fds moving duty b (EventCall (PayloadAttributeEvent attrs)) \<longleftrightarrow> True"

text \<open>What starts while the round lasts: these calls, and publications; no refresh of the duties.\<close>

inductive gap_starts ::
    "externs \<Rightarrow> ForkDatas \<Rightarrow> bool \<Rightarrow> Validator \<Rightarrow> BidSubmission \<Rightarrow> relay_world \<Rightarrow> relay_world
     \<Rightarrow> outcome relay_prog \<Rightarrow> bool"
  for X :: externs and fds :: ForkDatas and moving :: bool and duty :: Validator
    and b :: BidSubmission where
  call: "spared_call X fds moving duty b c \<Longrightarrow>
     gap_starts X fds moving duty b w w (call_prog X fds c)"
| publish: "PublishTask content ty \<in> set (w_tasks w) \<Longrightarrow>
     gap_starts X fds moving duty b w
       (w\<lparr>w_tasks := remove1 (PublishTask content ty) (w_tasks w)\<rparr>) (Return (TaskEnded (Ok ())))"

inductive_cases gap_startsE: "gap_starts X fds moving duty b w w' p"

lemma gap_starts_relay_starts:
  "gap_starts X fds moving duty b w w' p \<Longrightarrow> relay_starts X fds n w w' p"
  by (auto elim!: gap_startsE intro: relay_starts.intros)

section \<open>The invariant of the round\<close>

text \<open>The bid is on offer to the proposer of its slot, who has no other slot among the duties.\<close>

definition round_inv :: "bool \<Rightarrow> ForkDatas \<Rightarrow> Validator \<Rightarrow> BidSubmission \<Rightarrow> relay_world \<Rightarrow> bool" where
  "round_inv moving fds duty b w \<longleftrightarrow>
     offered moving fds duty b w \<and> bt_proposer_pubkey (bid_trace b) = duty_pubkey duty \<and>
     (\<forall>d\<in>set (im_proposer_duties (w_store w)).
        val_slot d \<noteq> val_slot duty \<longrightarrow> duty_pubkey d \<noteq> duty_pubkey duty)"

lemma round_inv_reads:
  assumes "round_inv moving fds duty b w"
  shows "ims_fork_data (w_store w) = fds"
    and "ims_find_duty_by_slot (w_store w) (val_slot duty) = Some duty"
    and "ims_find_duty_by_slot (w_store w) n = Some d \<Longrightarrow> n \<noteq> val_slot duty \<Longrightarrow>
      duty_pubkey d \<noteq> duty_pubkey duty"
    and "\<exists>r. ims_read_validator_registration (w_store w) (duty_pubkey duty) = Some r"
    and "ims_read_best_bid (w_store w) (val_slot duty) (bt_parent_hash (bid_trace b)) (duty_pubkey duty)
      = Some b"
    and "ims_read_blinded_block_response (w_store w) (duty_pubkey duty) = Some (to_blinded_block_response b)"
    and "\<not> moving \<Longrightarrow> is_next_slot (ims_read_head_slot (w_store w)) (val_slot duty)"
  using assms
  by (auto simp: round_inv_def on_offer_def bid_key_def duty_of_def ims_reader_defs is_next_slot_def
      dest!: find_Some_mem)

text \<open>Which writes keep it.\<close>

lemma round_inv_writes [relay_intros]:
  assumes "round_inv moving fds duty b w"
  shows "round_inv moving fds duty b (on_relay f w)"
    and "round_inv moving fds duty b (on_chain g w)"
    and "round_inv moving fds duty b (spawn t w)"
    and "round_inv moving fds duty b (w\<lparr>w_tasks := ts\<rparr>)"
    and "moving \<Longrightarrow> round_inv moving fds duty b (ims_set_head_slot hs w)"
    and "round_inv moving fds duty b (on_store (\<lambda>s. s\<lparr>im_payload_attributes := a\<rparr>) w)"
    and "round_inv moving fds duty b
      (on_store (\<lambda>s. s\<lparr>im_delivered_blocks := im_delivered_blocks s @ [bh]\<rparr>) w)"
    and "bt_slot (bid_trace c) \<noteq> val_slot duty \<Longrightarrow>
      round_inv moving fds duty b (ims_set_best_bid (bt_slot (bid_trace c)) c w)"
    and "k \<noteq> duty_pubkey duty \<Longrightarrow>
      round_inv moving fds duty b (ims_set_blinded_block_response k resp w)"
    and "Mapping.lookup m (duty_pubkey duty) \<noteq> None \<Longrightarrow>
      round_inv moving fds duty b (on_store (\<lambda>s. s\<lparr>im_validator_registrations := m\<rparr>) w)"
  using assms
  by (auto simp: round_inv_def on_offer_def duty_of_def abs_in_memory_def ims_set_head_slot_def
      ims_set_best_bid_def ims_set_blinded_block_response_def Let_def bid_key_def)

section \<open>What the proposer is answered\<close>

text \<open>
  The answers of a round: a header for the key of the bid is the header of the bid, unless the head may
  have moved or the bid has more commitments than a header holds; a block that the proposer of the duty
  signed is answered with the payload of the bid.
\<close>

definition serves_header :: "externs \<Rightarrow> Surroundings \<Rightarrow> BidSubmission \<Rightarrow> Reply option \<Rightarrow> bool" where
  "serves_header X env b reply \<longleftrightarrow>
     (\<exists>h. SignedHeader_try_from X b (su_signer env) = Ok h \<and>
        reply = Some \<lparr>rp_status = 200, rp_body = JsonHeader \<lparr>ver_version = Deneb, ver_data = h\<rparr>\<rparr>)"

definition signed_for_duty ::
    "externs \<Rightarrow> ForkDatas \<Rightarrow> Validator \<Rightarrow> SignedBlindedBlock \<Rightarrow> bool" where
  "signed_for_duty X fds duty sb \<longleftrightarrow>
     SignedBlindedBlock_slot sb = val_slot duty \<and>
     SignedBlindedBlock_proposer_index sb = val_validator_index duty \<and>
     BlsSignature_verify X (sbl_signature sb) (duty_pubkey duty)
       (signing_root X (BlindedBlock_tree_hash_root X (sbl_message sb))
         (compute_proposer_domain X fds))"

fun round_answer ::
    "externs \<Rightarrow> ForkDatas \<Rightarrow> bool \<Rightarrow> Validator \<Rightarrow> BidSubmission \<Rightarrow> outcome \<Rightarrow> bool" where
  "round_answer X fds moving duty b (HttpReply env (GetHeader slot h k) reply) \<longleftrightarrow>
     (\<not> moving \<and> (slot, h, k) = bid_key b \<and>
      variable_list_new_ok X 4096 (length (bb_commitments (bs_blobs_bundle b))) \<longrightarrow>
      serves_header X env b reply)"
| "round_answer X fds moving duty b (HttpReply env (PostBlindedBlock body) reply) \<longleftrightarrow>
     (\<forall>sb. with_json_body blinded_blocks_limit body = Ok sb \<and> signed_for_duty X fds duty sb \<longrightarrow>
        reply = Some \<lparr>rp_status = 200, rp_body = JsonBlindedBlock
          \<lparr>ver_version = Deneb, ver_data = to_blinded_block_response b\<rparr>\<rparr>)"
| "round_answer X fds moving duty b _ \<longleftrightarrow> True"

section \<open>Every program of a spared call is safe for the round\<close>

abbreviation round_result ::
    "externs \<Rightarrow> ForkDatas \<Rightarrow> bool \<Rightarrow> Validator \<Rightarrow> BidSubmission \<Rightarrow> Surroundings \<Rightarrow> ApiRequest
     \<Rightarrow> WarpResult \<Rightarrow> bool" where
  "round_result X fds moving duty b env req r \<equiv>
     round_answer X fds moving duty b (HttpReply env req (warp_reply env r))"

lemma outside_round_low:
  assumes "round_inv moving fds duty b w" and "outside_round duty b t" and "bt_slot t = val_slot duty"
  shows "\<not> is_bid_higher in_memory_storage (w_store w) t"
    and "\<not> grpc_is_bid_higher (RelayGrpcService_new in_memory_storage fds') (w_store w) t"
  using assms(2,3) round_inv_reads(5) [OF assms(1)] assms(1)
  by (auto simp: outside_round_def is_bid_higher_def grpc_is_bid_higher_def RelayGrpcService_new_def
      round_inv_def)

lemma round_post_bids:
  assumes "outside_round duty b (bid_trace c)"
  shows "safe_prog (round_inv moving fds duty b) (\<lambda>_. True) (post_bids_prog X c)"
proof (cases "bt_slot (bid_trace c) = val_slot duty")
  case True
  then show ?thesis
    using outside_round_low(1) [OF _ assms] by (auto simp: post_bids_prog_def Let_def)
next
  case False
  then show ?thesis
    by (auto simp: post_bids_prog_def Let_def BidSubmission_new_eta
        intro!: relay_intros dest: round_inv_reads(3) split: res.split option.split)
qed

lemma round_get_header:
  "safe_prog (round_inv moving fds duty b) (round_result X fds moving duty b env (GetHeader slot h k))
     (get_header_prog X (su_signer env) slot h k t)"
proof (cases "\<not> moving \<and> (slot, h, k) = bid_key b \<and>
    variable_list_new_ok X 4096 (length (bb_commitments (bs_blobs_bundle b)))")
  case True
  then obtain hd where hd: "SignedHeader_try_from X b (su_signer env) = Ok hd"
    using SignedHeader_try_from_is_Ok [of X b "su_signer env"] by blast
  have "\<exists>r. ims_read_validator_registration (w_store w) k = Some r"
    "is_next_slot (ims_read_head_slot (w_store w)) slot"
    "ims_read_best_bid (w_store w) slot h k = Some b" if w: "round_inv moving fds duty b w" for w
  proof -
    from w True have "k = duty_pubkey duty" "h = bt_parent_hash (bid_trace b)" "slot = val_slot duty"
      by (simp_all add: round_inv_def on_offer_def bid_key_def)
    with round_inv_reads(4,5,7) [OF w] True show "\<exists>r. ims_read_validator_registration (w_store w) k = Some r"
      "is_next_slot (ims_read_head_slot (w_store w)) slot"
      "ims_read_best_bid (w_store w) slot h k = Some b" by blast+
  qed
  with hd True show ?thesis
    by (fastforce simp: get_header_prog_def Versioned_new_def serves_header_def reply_json_def
        StatusOK_def intro!: relay_intros split: option.split)
next
  case False
  then have "round_result X fds moving duty b env (GetHeader slot h k) = (\<lambda>_. True)" by auto
  then show ?thesis
    by (auto simp: get_header_prog_def intro!: relay_intros split: res.split option.split)
qed

lemma round_blinded_blocks:
  "safe_prog (round_inv moving fds duty b)
     (\<lambda>r. signed_for_duty X fds duty sb \<longrightarrow> r = Ok \<lparr>rp_status = 200, rp_body = JsonBlindedBlock
        \<lparr>ver_version = Deneb, ver_data = to_blinded_block_response b\<rparr>\<rparr>)
     (blinded_blocks_prog X sb t)"
proof (cases "signed_for_duty X fds duty sb")
  case True
  have reads: "ims_fork_data (w_store w) = fds"
    "ims_find_duty_by_slot (w_store w) (val_slot duty) = Some duty"
    "ims_read_validator_registration (w_store w) (duty_pubkey duty) \<noteq> None"
    "ims_read_blinded_block_response (w_store w) (duty_pubkey duty) = Some (to_blinded_block_response b)"
    if "round_inv moving fds duty b w" for w
    using round_inv_reads(1,2,4,6) [OF that] by auto
  from True show ?thesis
    by (auto simp: blinded_blocks_prog_def set_delivered_blocks_prog_def Let_def reads
        signed_for_duty_def Versioned_new_def reply_json_def StatusOK_def intro!: relay_intros)
next
  case False
  then show ?thesis
    by (auto simp: blinded_blocks_prog_def set_delivered_blocks_prog_def Let_def
        intro!: relay_intros split: option.split)
qed

lemma round_post_validators:
  assumes "Mapping.lookup (registered_map X (compute_builder_domain X fds) known regs)
    (duty_pubkey duty) \<noteq> None"
  shows "safe_prog (round_inv moving fds duty b) (\<lambda>_. True) (post_validators_prog X known regs)"
proof -
  have "post_validators_prog X known regs = pbind (get (\<lambda>s. compute_builder_domain X (ims_fork_data s)))
      (\<lambda>domain. pbind (set_validator_registrations_prog (registered_map X domain known regs))
        (\<lambda>_. Return (Ok (with_status (Text ''OK'') StatusOK))))"
    by (simp add: post_validators_prog_def registered_map_def case_prod_beta)
  with assms show ?thesis
    by (auto simp: set_validator_registrations_prog_def Let_def round_inv_reads(1)
        intro!: relay_intros)
qed

lemma round_validate_bid_and_payload:
  assumes "bt_slot t \<noteq> val_slot duty"
  shows "safe_prog (round_inv moving fds duty b)
     (\<lambda>r. \<forall>d. r = Ok d \<longrightarrow> duty_pubkey d \<noteq> duty_pubkey duty) (validate_bid_and_payload_prog t p)"
  using assms
  by (auto simp: validate_bid_and_payload_prog_def res_simps dest: round_inv_reads(3) split: res.split)

lemma round_submit_block:
  assumes "spared_call X fds moving duty b (GrpcCall req)"
  shows "safe_prog (round_inv moving fds duty b) (\<lambda>_. True) (submit_block_prog X fds req)"
proof -
  have update: "safe_prog (round_inv moving fds duty b) (\<lambda>_. True) (update_best_prog t p bb sig k)"
    if "bt_slot t \<noteq> val_slot duty" "k \<noteq> duty_pubkey duty" for t p bb sig k
    using that round_inv_writes(8) [of moving fds duty b _ "BidSubmission_new t p bb sig"]
    by (auto simp: update_best_prog_def Let_def intro!: relay_intros)
  have other: "bt_slot t \<noteq> val_slot duty"
    if "round_inv moving fds duty b w" "ok_or (req_bid_trace req) u = Ok gb"
      "res_map_err g (BidTrace_try_from X gb) = Ok t"
      "grpc_is_bid_higher (RelayGrpcService_new in_memory_storage fds) (w_store w) t" for w gb g t u
    using that(2-4) assms outside_round_low(2) [OF that(1)] by (auto simp: res_simps)
  show ?thesis
    by (auto simp: submit_block_prog_def Let_def dest: other
        split: res.split option.splits
        intro!: safe_pbind_ok [OF round_validate_bid_and_payload] safe_pbind [OF update])
qed

lemma round_on_event:
  assumes "spared_call X fds moving duty b (EventCall e)"
  shows "safe_prog (round_inv moving fds duty b) (\<lambda>_. True) (on_event_prog e)"
  using assms
  by (cases e) (auto simp: on_event_prog_def set_payload_attributes_prog_def intro!: relay_intros)

lemma round_dispatch:
  assumes "spared_call X fds moving duty b (HttpCall env req)"
  shows "safe_prog (round_inv moving fds duty b) (round_result X fds moving duty b env req)
    (dispatch_prog X env req)"
proof (cases req)
  case (PostBlindedBlock body)
  have "safe_prog (round_inv moving fds duty b)
      (round_result X fds moving duty b env (PostBlindedBlock body)) (blinded_blocks_prog X sb t)"
    if "with_json_body blinded_blocks_limit body = Ok sb" for sb t
    by (rule safe_weaken [OF round_blinded_blocks [of moving fds duty b X sb]]) (use that in auto)
  then show ?thesis by (auto simp: PostBlindedBlock filtered_prog_def split: res.split)
next
  case (PostBid body)
  with assms show ?thesis
    by (auto simp: filtered_prog_def intro: round_post_bids split: res.splits)
next
  case (PostValidators key body)
  with assms show ?thesis
    by (auto simp: filtered_prog_def intro: round_post_validators split: res.splits)
next
  case (GetHeader slot h k)
  then show ?thesis using round_get_header by simp
qed (auto simp: get_validators_prog_def get_bids_prog_def split: option.split)

lemma round_call:
  assumes "spared_call X fds moving duty b c"
  shows "safe_prog (round_inv moving fds duty b) (round_answer X fds moving duty b) (call_prog X fds c)"
proof (cases c)
  case (HttpCall env req)
  then show ?thesis using round_dispatch assms by (auto intro: safe_map_prog)
next
  case (GrpcCall req)
  then show ?thesis using round_submit_block assms by (auto intro!: safe_map_prog)
next
  case (EventCall e)
  then show ?thesis using round_on_event assms by (auto intro!: safe_map_prog)
qed

interpretation round_server: safe_server "gap_starts X fds moving duty b" "round_inv moving fds duty b"
    "round_answer X fds moving duty b"
  for X fds moving duty b
  by unfold_locales (auto elim!: gap_startsE intro: relay_intros round_call)

section \<open>Properties\<close>


end
