(* ===== verification/Round_Witnesses.thy ===== *)
theory Round_Witnesses
  imports Run_Witnesses Round_Interleavings
begin

text \<open>
  The properties of a round of the auction, applied to the small relay of \<open>Examples\<close>: after the bid,
  new payload attributes arrive and the duties are read; after the header, the head moves on.
\<close>

section \<open>The round\<close>

definition demo_gap1 :: relay_world where
  "demo_gap1 = on_event in_memory_storage (PayloadAttributeEvent demo_attrs)
     (fst (serve toy_externs in_memory_storage demo_env GetValidators demo_world1))"

definition demo_gap2 :: relay_world where
  "demo_gap2 = on_event in_memory_storage (HeadEvent 11)
     (fst (get_header_handler toy_externs in_memory_storage demo_signer 11 (B256 (replicate 32 9))
       demo_proposer 3 demo_gap1))"

lemma demo_round_facts:
  "find_duty_by_slot in_memory_storage (w_store demo_world) 11 = Some demo_duty"
  "Mapping.lookup (im_validator_registrations (w_store demo_world)) demo_proposer \<noteq> None"
  "im_fork_data (w_store demo_world) = demo_fork"
  "im_proposer_duties (w_store demo_world) = [demo_duty]"
  "bt_parent_hash (demo_trace 1 1000) = B256 (replicate 32 9)"
  "variable_list_new_ok toy_externs 4096 (length (bb_commitments (bs_blobs_bundle (demo_bid 1 1000))))"
  "bt_proposer_pubkey (demo_trace 1 1000) = demo_proposer" "val_slot demo_duty = 11"
  by (simp_all add: demo_world_def InMemoryStorage_new_def Let_def ims_reader_defs demo_duty_def
      demo_trace_def BlobsBundle_default_def)

lemma demo_proposer_secret:
  "duty_pubkey demo_duty = BlsSecretKey_public_key toy_externs (BlsSecretKey (replicate 48 2))"
  by (simp add: demo_proposer_def BlsSecretKey_public_key_def toy_pk_def)

theorem honest_round_witness:
  "let sb = demo_block (header_from_payload toy_externs (demo_payload 1)) in
   snd (blinded_blocks_handler toy_externs in_memory_storage sb 4 demo_gap2) =
     Ok \<lparr>rp_status = 200, rp_body = JsonBlindedBlock
       \<lparr>ver_version = Deneb, ver_data = to_blinded_block_response (demo_bid 1 1000)\<rparr>\<rparr>"
proof -
  let ?b = "demo_bid 1 1000" and ?gap = "gap_step toy_externs demo_fork 32"
  have "?gap False demo_duty demo_world1
      (fst (serve toy_externs in_memory_storage demo_env GetValidators demo_world1))"
    by (rule gap_step.http [OF prod.collapse [symmetric]]) simp
  then have gap1: "(?gap False demo_duty)\<^sup>*\<^sup>* demo_world1 demo_gap1"
    unfolding demo_gap1_def by (meson gap_step.attributes r_into_rtranclp rtranclp.rtrancl_into_rtrancl)
  let ?g = "get_header_handler toy_externs in_memory_storage demo_signer (bt_slot (bid_trace ?b))
      (bt_parent_hash (bid_trace ?b)) (duty_pubkey demo_duty) 3 demo_gap1"
  have gap2: "(?gap True demo_duty)\<^sup>*\<^sup>* (fst ?g) demo_gap2"
    unfolding demo_gap2_def demo_bid_sel demo_round_facts demo_duty_pubkey
    by (intro r_into_rtranclp gap_step.head) simp
  let ?sb = "demo_block (header_from_payload toy_externs (demo_payload 1))"
  have sig: "sbl_signature ?sb = BlsSecretKey_sign toy_externs (BlsSecretKey (replicate 48 2))
      (signing_root toy_externs (BlindedBlock_tree_hash_root toy_externs (sbl_message ?sb))
        (compute_proposer_domain toy_externs demo_fork))"
    by (simp add: demo_block_def Let_def BlsSecretKey_sign_def demo_proposer_def toy_pk_def)
  have ok: "is_ok (snd (post_bids_handler toy_externs in_memory_storage ?b demo_world))" by (rule demo_first_ok)
  have d: "find_duty_by_slot in_memory_storage (w_store demo_world) (bt_slot (bid_trace ?b)) = Some demo_duty"
    "bt_proposer_pubkey (bid_trace ?b) = duty_pubkey demo_duty"
    "Mapping.lookup (im_validator_registrations (w_store demo_world)) (duty_pubkey demo_duty) \<noteq> None"
    using demo_round_facts(1,2,7) by simp_all
  have idx: "val_validator_index demo_duty = 7" by (simp add: demo_duty_def)
  have slot: "blb_slot (sbl_message ?sb) = 11 \<and> blb_proposer_index (sbl_message ?sb) = 7" by simp
  from honest_round_completes [OF toy_documented(2) ok d(1,2) demo_proposer_secret d(3) demo_round_facts(6)
      gap1 [unfolded demo_world1_def] prod.collapse [symmetric] gap2, of 4]
  show ?thesis
    unfolding Let_def demo_bid_sel demo_round_facts(3) idx
    apply (elim exE conjE)
    apply (drule spec [of _ ?sb])
    using slot sig demo_block_sel(3) by metis
qed

section \<open>The round under interleaving\<close>


end
