(* ===== verification/Bls_Traits.thy ===== *)
theory Bls_Traits
  imports Codecs
begin

text \<open>
  The traits of \<open>crates/primitives/src/blst\<close>. The keys and signatures of the source are generic over
  traits of points, \<open>TPublicKey\<close>, \<open>TSignature\<close> and \<open>TSecretKey\<close>; here a trait is a record of its
  functions, the generic types are definitions over such a record, and the instance on the \<open>blst\<close> types
  gives the functions of \<open>Bls\<close>, which the rest of the model uses. The last part is the contract
  between \<open>Eq\<close> and \<open>Hash\<close> that makes a hash table over keys a map.
\<close>

section \<open>The traits of points\<close>

record 'pub TPublicKey =
  tpk_serialize :: "'pub \<Rightarrow> bytes"
  tpk_deserialize :: "bytes \<Rightarrow> ('pub, BlsError) res"

record ('pub, 'sig) TSignature =
  tsg_serialize :: "'sig \<Rightarrow> bytes"
  tsg_deserialize :: "bytes \<Rightarrow> ('sig, BlsError) res"
  tsg_verify :: "'sig \<Rightarrow> 'pub \<Rightarrow> Hash256 \<Rightarrow> bool"

text \<open>\<open>random\<close> is given the bytes that the generator of random numbers draws; it may panic.\<close>

record ('sig, 'pub, 'sec) TSecretKey =
  tsk_random :: "bytes \<Rightarrow> ('sec, BlsError) res"
  tsk_sign :: "'sec \<Rightarrow> Hash256 \<Rightarrow> 'sig"
  tsk_public_key :: "'sec \<Rightarrow> 'pub"
  tsk_deserialize :: "bytes \<Rightarrow> ('sec, BlsError) res"
  tsk_serialize :: "'sec \<Rightarrow> bytes"

text \<open>
  The implementations for the points of the \<open>blst\<close> crate, which are represented by their compressed
  bytes, so that \<open>to_bytes\<close> is the identity.
\<close>

definition PublicKey_TPublicKey :: "externs \<Rightarrow> bytes TPublicKey" where
  "PublicKey_TPublicKey X =
     \<lparr>tpk_serialize = (\<lambda>p. p), tpk_deserialize = PublicKey_deserialize X\<rparr>"

definition Signature_TSignature :: "externs \<Rightarrow> (bytes, bytes) TSignature" where
  "Signature_TSignature X =
     \<lparr>tsg_serialize = (\<lambda>p. p),
      tsg_deserialize = (\<lambda>bs. res_map_err Blst (blst_sig_from_bytes X bs)),
      tsg_verify = Signature_verify X\<rparr>"

definition SecretKey_random :: "externs \<Rightarrow> bytes \<Rightarrow> (bytes, BlsError) res" where
  "SecretKey_random X ikm = unwrap (blst_sk_key_gen X ikm [])"

definition SecretKey_public_key :: "externs \<Rightarrow> bytes \<Rightarrow> bytes" where
  "SecretKey_public_key X sk = blst_sk_to_pk X sk"

definition SecretKey_sign :: "externs \<Rightarrow> bytes \<Rightarrow> Hash256 \<Rightarrow> bytes" where
  "SecretKey_sign X sk msg = blst_sk_sign X sk msg DST []"

definition SecretKey_deserialize :: "externs \<Rightarrow> bytes \<Rightarrow> (bytes, BlsError) res" where
  "SecretKey_deserialize X bs = res_map_err Blst (blst_sk_from_bytes X bs)"

definition SecretKey_serialize :: "bytes \<Rightarrow> bytes" where
  "SecretKey_serialize sk = sk"

definition SecretKey_TSecretKey :: "externs \<Rightarrow> (bytes, bytes, bytes) TSecretKey" where
  "SecretKey_TSecretKey X =
     \<lparr>tsk_random = SecretKey_random X, tsk_sign = SecretKey_sign X,
      tsk_public_key = SecretKey_public_key X, tsk_deserialize = SecretKey_deserialize X,
      tsk_serialize = SecretKey_serialize\<rparr>"

section \<open>Generic keys and signatures\<close>

record 'pub GenericPublicKey =
  gpk_point :: 'pub

definition GenericPublicKey_from_point :: "'pub \<Rightarrow> 'pub GenericPublicKey" where
  "GenericPublicKey_from_point point = \<lparr>gpk_point = point\<rparr>"

definition GenericPublicKey_point :: "'pub GenericPublicKey \<Rightarrow> 'pub" where
  "GenericPublicKey_point self = gpk_point self"

definition GenericPublicKey_serialize :: "'pub TPublicKey \<Rightarrow> 'pub GenericPublicKey \<Rightarrow> bytes" where
  "GenericPublicKey_serialize T self = tpk_serialize T (gpk_point self)"

definition GenericPublicKey_deserialize ::
    "'pub TPublicKey \<Rightarrow> bytes \<Rightarrow> ('pub GenericPublicKey, BlsError) res" where
  "GenericPublicKey_deserialize T bs =
     (if bs = INFINITY_PUBLIC_KEY then Err InvalidInfinityPublicKey
      else res_bind (tpk_deserialize T bs) (\<lambda>point. Ok \<lparr>gpk_point = point\<rparr>))"

text \<open>\<open>PartialEq\<close>, and \<open>Hash\<close> with \<open>write\<close> the function of the hasher that takes in bytes.\<close>

definition GenericPublicKey_eq ::
    "'pub TPublicKey \<Rightarrow> 'pub GenericPublicKey \<Rightarrow> 'pub GenericPublicKey \<Rightarrow> bool" where
  "GenericPublicKey_eq T self other \<longleftrightarrow>
     GenericPublicKey_serialize T self = GenericPublicKey_serialize T other"

definition GenericPublicKey_hash ::
    "'pub TPublicKey \<Rightarrow> ('h \<Rightarrow> bytes \<Rightarrow> 'h) \<Rightarrow> 'pub GenericPublicKey \<Rightarrow> 'h \<Rightarrow> 'h" where
  "GenericPublicKey_hash T write self state = write state (GenericPublicKey_serialize T self)"

record 'sig GenericSignature =
  gsg_point :: "'sig option"
  gsg_is_infinity :: bool

definition GenericSignature_from_point :: "'sig \<Rightarrow> bool \<Rightarrow> 'sig GenericSignature" where
  "GenericSignature_from_point point is_infinity =
     \<lparr>gsg_point = Some point, gsg_is_infinity = is_infinity\<rparr>"

definition GenericSignature_is_infinity :: "'sig GenericSignature \<Rightarrow> bool" where
  "GenericSignature_is_infinity self = gsg_is_infinity self"

definition GenericSignature_serialize ::
    "('pub, 'sig) TSignature \<Rightarrow> 'sig GenericSignature \<Rightarrow> bytes" where
  "GenericSignature_serialize T self =
     (case gsg_point self of Some point \<Rightarrow> tsg_serialize T point | None \<Rightarrow> NONE_SIGNATURE)"

definition GenericSignature_deserialize ::
    "('pub, 'sig) TSignature \<Rightarrow> bytes \<Rightarrow> ('sig GenericSignature, BlsError) res" where
  "GenericSignature_deserialize T bs =
     res_bind
       (if bs = NONE_SIGNATURE then Ok None
        else res_bind (tsg_deserialize T bs) (\<lambda>point. Ok (Some point)))
       (\<lambda>point. Ok \<lparr>gsg_point = point, gsg_is_infinity = (bs = INFINITY_SIGNATURE)\<rparr>)"

definition GenericSignature_verify ::
    "('pub, 'sig) TSignature \<Rightarrow> 'sig GenericSignature \<Rightarrow> 'pub GenericPublicKey \<Rightarrow> Hash256 \<Rightarrow> bool" where
  "GenericSignature_verify T self pubkey msg =
     (case gsg_point self of
        Some point \<Rightarrow> tsg_verify T point (GenericPublicKey_point pubkey) msg
      | None \<Rightarrow> False)"

record 'sec GenericSecretKey =
  gsk_point :: 'sec

definition GenericSecretKey_random ::
    "('sig, 'pub, 'sec) TSecretKey \<Rightarrow> bytes \<Rightarrow> ('sec GenericSecretKey, BlsError) res" where
  "GenericSecretKey_random T ikm = res_bind (tsk_random T ikm) (\<lambda>point. Ok \<lparr>gsk_point = point\<rparr>)"

definition GenericSecretKey_sign ::
    "('sig, 'pub, 'sec) TSecretKey \<Rightarrow> 'sec GenericSecretKey \<Rightarrow> Hash256 \<Rightarrow> 'sig GenericSignature" where
  "GenericSecretKey_sign T self msg =
     (let is_infinity = False in
      GenericSignature_from_point (tsk_sign T (gsk_point self) msg) is_infinity)"

definition GenericSecretKey_public_key ::
    "('sig, 'pub, 'sec) TSecretKey \<Rightarrow> 'sec GenericSecretKey \<Rightarrow> 'pub GenericPublicKey" where
  "GenericSecretKey_public_key T self = GenericPublicKey_from_point (tsk_public_key T (gsk_point self))"

definition GenericSecretKey_deserialize ::
    "('sig, 'pub, 'sec) TSecretKey \<Rightarrow> bytes \<Rightarrow> ('sec GenericSecretKey, BlsError) res" where
  "GenericSecretKey_deserialize T bs =
     (if length bs \<noteq> SECRET_KEY_BYTES_LEN
      then Err (InvalidSecretKeyLength (length bs) SECRET_KEY_BYTES_LEN)
      else if list_all (\<lambda>b. b = 0) bs then Err InvalidZeroSecretKey
      else res_bind (tsk_deserialize T bs) (\<lambda>point. Ok \<lparr>gsk_point = point\<rparr>))"

definition GenericSecretKey_serialize ::
    "('sig, 'pub, 'sec) TSecretKey \<Rightarrow> 'sec GenericSecretKey \<Rightarrow> bytes" where
  "GenericSecretKey_serialize T self = tsk_serialize T (gsk_point self)"

section \<open>Texts and JSON of the generic types\<close>

text \<open>
  The macros of \<open>macros.rs\<close> at a type with its \<open>serialize\<close> and \<open>deserialize\<close>, and their uses; those for
  JSON are \<open>impl_serde_serialize\<close> and \<open>impl_serde_deserialize\<close> of \<open>Codecs\<close>.
\<close>

definition impl_display :: "externs \<Rightarrow> ('a \<Rightarrow> bytes) \<Rightarrow> 'a \<Rightarrow> string" where
  "impl_display X serialize self = serde_hex_encode X (serialize self)"

definition impl_debug :: "externs \<Rightarrow> ('a \<Rightarrow> bytes) \<Rightarrow> 'a \<Rightarrow> string" where
  "impl_debug X serialize self = serde_hex_encode X (serialize self)"

definition impl_from_str ::
    "externs \<Rightarrow> (bytes \<Rightarrow> ('a, BlsError) res) \<Rightarrow> string \<Rightarrow> ('a, string) res" where
  "impl_from_str X deserialize s =
     res_bind (serde_hex_decode X s) (\<lambda>bs. res_map_err BlsError_debug (deserialize bs))"

definition GenericPublicKey_Display :: "externs \<Rightarrow> 'pub TPublicKey \<Rightarrow> 'pub GenericPublicKey \<Rightarrow> string" where
  "GenericPublicKey_Display X T = impl_display X (GenericPublicKey_serialize T)"

definition GenericPublicKey_Debug :: "externs \<Rightarrow> 'pub TPublicKey \<Rightarrow> 'pub GenericPublicKey \<Rightarrow> string" where
  "GenericPublicKey_Debug X T = impl_debug X (GenericPublicKey_serialize T)"

definition GenericPublicKey_FromStr ::
    "externs \<Rightarrow> 'pub TPublicKey \<Rightarrow> string \<Rightarrow> ('pub GenericPublicKey, string) res" where
  "GenericPublicKey_FromStr X T = impl_from_str X (GenericPublicKey_deserialize T)"

definition GenericPublicKey_Serialize :: "externs \<Rightarrow> 'pub TPublicKey \<Rightarrow> 'pub GenericPublicKey \<Rightarrow> Json" where
  "GenericPublicKey_Serialize X T = impl_serde_serialize (GenericPublicKey_Display X T)"

definition GenericPublicKey_Deserialize ::
    "externs \<Rightarrow> 'pub TPublicKey \<Rightarrow> Json \<Rightarrow> ('pub GenericPublicKey, DeError) res" where
  "GenericPublicKey_Deserialize X T = impl_serde_deserialize (GenericPublicKey_FromStr X T)"

definition GenericSignature_Display ::
    "externs \<Rightarrow> ('pub, 'sig) TSignature \<Rightarrow> 'sig GenericSignature \<Rightarrow> string" where
  "GenericSignature_Display X T = impl_display X (GenericSignature_serialize T)"

definition GenericSignature_Debug ::
    "externs \<Rightarrow> ('pub, 'sig) TSignature \<Rightarrow> 'sig GenericSignature \<Rightarrow> string" where
  "GenericSignature_Debug X T = impl_debug X (GenericSignature_serialize T)"

definition GenericSignature_FromStr ::
    "externs \<Rightarrow> ('pub, 'sig) TSignature \<Rightarrow> string \<Rightarrow> ('sig GenericSignature, string) res" where
  "GenericSignature_FromStr X T = impl_from_str X (GenericSignature_deserialize T)"

definition GenericSignature_Serialize ::
    "externs \<Rightarrow> ('pub, 'sig) TSignature \<Rightarrow> 'sig GenericSignature \<Rightarrow> Json" where
  "GenericSignature_Serialize X T = impl_serde_serialize (GenericSignature_Display X T)"

definition GenericSignature_Deserialize ::
    "externs \<Rightarrow> ('pub, 'sig) TSignature \<Rightarrow> Json \<Rightarrow> ('sig GenericSignature, DeError) res" where
  "GenericSignature_Deserialize X T = impl_serde_deserialize (GenericSignature_FromStr X T)"

definition GenericSecretKey_Display ::
    "externs \<Rightarrow> ('sig, 'pub, 'sec) TSecretKey \<Rightarrow> 'sec GenericSecretKey \<Rightarrow> string" where
  "GenericSecretKey_Display X T = impl_display X (GenericSecretKey_serialize T)"

definition GenericSecretKey_FromStr ::
    "externs \<Rightarrow> ('sig, 'pub, 'sec) TSecretKey \<Rightarrow> string \<Rightarrow> ('sec GenericSecretKey, string) res" where
  "GenericSecretKey_FromStr X T = impl_from_str X (GenericSecretKey_deserialize T)"

definition GenericSecretKey_Serialize ::
    "externs \<Rightarrow> ('sig, 'pub, 'sec) TSecretKey \<Rightarrow> 'sec GenericSecretKey \<Rightarrow> Json" where
  "GenericSecretKey_Serialize X T = impl_serde_serialize (GenericSecretKey_Display X T)"

definition GenericSecretKey_Deserialize ::
    "externs \<Rightarrow> ('sig, 'pub, 'sec) TSecretKey \<Rightarrow> Json \<Rightarrow> ('sec GenericSecretKey, DeError) res" where
  "GenericSecretKey_Deserialize X T = impl_serde_deserialize (GenericSecretKey_FromStr X T)"

section \<open>The instance that the crate uses\<close>

text \<open>\<open>BlsPublicKey\<close>, \<open>BlsSignature\<close> and \<open>BlsSecretKey\<close> are the generic types at the \<open>blst\<close> points.\<close>

definition public_key_of :: "bytes GenericPublicKey \<Rightarrow> BlsPublicKey" where
  "public_key_of k = BlsPublicKey (gpk_point k)"

definition signature_of :: "bytes GenericSignature \<Rightarrow> BlsSignature" where
  "signature_of s = \<lparr>sig_point = gsg_point s, sig_is_infinity = gsg_is_infinity s\<rparr>"

definition secret_key_of :: "bytes GenericSecretKey \<Rightarrow> BlsSecretKey" where
  "secret_key_of k = BlsSecretKey (gsk_point k)"

lemmas trait_defs =
  PublicKey_TPublicKey_def Signature_TSignature_def SecretKey_TSecretKey_def
  SecretKey_random_def SecretKey_public_key_def SecretKey_sign_def SecretKey_deserialize_def
  SecretKey_serialize_def public_key_of_def signature_of_def secret_key_of_def

lemmas generic_defs =
  GenericPublicKey_from_point_def GenericPublicKey_point_def GenericPublicKey_serialize_def
  GenericPublicKey_deserialize_def GenericPublicKey_eq_def GenericPublicKey_hash_def
  GenericSignature_from_point_def GenericSignature_is_infinity_def GenericSignature_serialize_def
  GenericSignature_deserialize_def GenericSignature_verify_def GenericSecretKey_random_def
  GenericSecretKey_sign_def GenericSecretKey_public_key_def GenericSecretKey_deserialize_def
  GenericSecretKey_serialize_def

lemma map_res_bind:
  "map_res f id (res_bind r (\<lambda>p. Ok (h p))) = res_bind r (\<lambda>p. Ok (f (h p)))"
  by (cases r) simp_all

section \<open>Keys in hash tables\<close>

text \<open>
  A hash table finds a key by its hash first and by its equality then; it is a map as long as equal keys
  have equal hashes, which the author of a hand-written \<open>Hash\<close> has to see to.
\<close>

locale hash_key =
  fixes eq :: "'k \<Rightarrow> 'k \<Rightarrow> bool" and hash :: "'k \<Rightarrow> 'h"
  assumes eq_refl: "eq k k"
    and eq_trans: "eq k l \<Longrightarrow> eq k m \<Longrightarrow> eq l m"
    and eq_hash: "eq k l \<Longrightarrow> hash k = hash l"

text \<open>A table of entries; a look-up skips entries of another hash, an insertion replaces an equal key.\<close>

fun table_lookup :: "('k \<Rightarrow> 'k \<Rightarrow> bool) \<Rightarrow> ('k \<Rightarrow> 'h) \<Rightarrow> ('k \<times> 'v) list \<Rightarrow> 'k \<Rightarrow> 'v option" where
  "table_lookup eq hash [] k = None"
| "table_lookup eq hash ((l, v) # es) k =
     (if hash l = hash k \<and> eq l k then Some v else table_lookup eq hash es k)"

fun table_insert ::
    "('k \<Rightarrow> 'k \<Rightarrow> bool) \<Rightarrow> ('k \<Rightarrow> 'h) \<Rightarrow> 'k \<Rightarrow> 'v \<Rightarrow> ('k \<times> 'v) list \<Rightarrow> ('k \<times> 'v) list" where
  "table_insert eq hash k v [] = [(k, v)]"
| "table_insert eq hash k v ((l, u) # es) =
     (if hash l = hash k \<and> eq l k then (l, v) # es else (l, u) # table_insert eq hash k v es)"

context hash_key
begin

lemma eq_sym: "eq k l \<Longrightarrow> eq l k"
  using eq_trans [of k l k] eq_refl by blast

lemma same_key: "hash l = hash k \<and> eq l k \<longleftrightarrow> eq l k"
  using eq_hash by blast

lemma table_simps:
  "table_lookup eq hash ((l, v) # es) k = (if eq l k then Some v else table_lookup eq hash es k)"
  "table_insert eq hash k v ((l, u) # es) =
     (if eq l k then (l, v) # es else (l, u) # table_insert eq hash k v es)"
  unfolding table_lookup.simps table_insert.simps same_key by (rule refl)+

lemma lookup_insert:
  "table_lookup eq hash (table_insert eq hash k v es) m =
     (if eq k m then Some v else table_lookup eq hash es m)"
proof (induction es)
  case Nil
  show ?case unfolding table_insert.simps table_simps by simp
next
  case (Cons e es)
  obtain l u where e: "e = (l, u)" by (cases e)
  have "eq l k \<Longrightarrow> eq l m \<longleftrightarrow> eq k m" "eq l m \<Longrightarrow> eq k m \<longleftrightarrow> eq l k"
    using eq_trans eq_sym by blast+
  with Cons show ?case unfolding e table_simps by (auto simp: table_simps simp del: table_lookup.simps)
qed

text \<open>Tables are maps of the classes of equal keys: \<open>rep\<close> names a class.\<close>

lemma lookup_is_map:
  assumes "\<And>k l. eq k l \<longleftrightarrow> rep k = rep l"
  shows "table_lookup eq hash es k = map_of (map (\<lambda>(l, v). (rep l, v)) es) (rep k)"
proof (induction es)
  case (Cons e es)
  obtain l v where e: "e = (l, v)" by (cases e)
  from Cons show ?case unfolding e table_simps by (simp add: assms [of l k])
qed simp

end

interpretation public_key_table: hash_key "GenericPublicKey_eq T" "\<lambda>k. GenericPublicKey_hash T write k st"
  for T :: "'pub TPublicKey" and "write" :: "'h \<Rightarrow> bytes \<Rightarrow> 'h" and st
  by unfold_locales (simp_all add: GenericPublicKey_eq_def GenericPublicKey_hash_def)

section \<open>Properties\<close>

text \<open>
  The generic functions at the \<open>blst\<close> points are the functions that the model uses, for keys,
  signatures and secret keys, errors included.
\<close>

theorem generic_at_blst:
  "map_res public_key_of id (GenericPublicKey_deserialize (PublicKey_TPublicKey X) bs)
     = BlsPublicKey_deserialize X bs \<and>
   GenericPublicKey_serialize (PublicKey_TPublicKey X) pk = pk_serialize (public_key_of pk) \<and>
   map_res signature_of id (GenericSignature_deserialize (Signature_TSignature X) bs)
     = BlsSignature_deserialize X bs \<and>
   GenericSignature_serialize (Signature_TSignature X) sig = BlsSignature_serialize (signature_of sig) \<and>
   GenericSignature_verify (Signature_TSignature X) sig pk msg
     = BlsSignature_verify X (signature_of sig) (public_key_of pk) msg \<and>
   map_res secret_key_of id (GenericSecretKey_random (SecretKey_TSecretKey X) ikm)
     = BlsSecretKey_random X ikm \<and>
   signature_of (GenericSecretKey_sign (SecretKey_TSecretKey X) sk msg)
     = BlsSecretKey_sign X (secret_key_of sk) msg \<and>
   public_key_of (GenericSecretKey_public_key (SecretKey_TSecretKey X) sk)
     = BlsSecretKey_public_key X (secret_key_of sk) \<and>
   map_res secret_key_of id (GenericSecretKey_deserialize (SecretKey_TSecretKey X) bs)
     = BlsSecretKey_deserialize X bs \<and>
   GenericSecretKey_serialize (SecretKey_TSecretKey X) sk = sk_serialize (secret_key_of sk)"
  by (auto simp: generic_defs trait_defs BlsPublicKey_deserialize_def BlsSignature_deserialize_def
      BlsSignature_serialize_def BlsSignature_verify_def BlsSecretKey_random_def BlsSecretKey_sign_def
      BlsSignature_from_point_def BlsSecretKey_public_key_def BlsSecretKey_deserialize_def
      map_res_bind split: option.split)

text \<open>The same for texts and JSON.\<close>

lemma map_res_map_err: "map_res f id (res_map_err g r) = res_map_err g (map_res f id r)"
  by (cases r) simp_all

lemma map_res_from_str:
  "map_res f id (impl_from_str X deserialize s) = impl_from_str X (\<lambda>bs. map_res f id (deserialize bs)) s"
  by (cases "serde_hex_decode X s") (simp_all add: impl_from_str_def map_res_map_err)

lemma map_res_serde:
  "map_res f id (impl_serde_deserialize from_str json)
     = impl_serde_deserialize (\<lambda>s. map_res f id (from_str s)) json"
  by (cases "deserialize_str json") (simp_all add: impl_serde_deserialize_def map_res_map_err)

theorem generic_texts_at_blst:
  "GenericPublicKey_Display X (PublicKey_TPublicKey X) pk = BlsPublicKey_to_string X (public_key_of pk) \<and>
   GenericPublicKey_Debug X (PublicKey_TPublicKey X) pk = BlsPublicKey_debug X (public_key_of pk) \<and>
   map_res public_key_of id (GenericPublicKey_FromStr X (PublicKey_TPublicKey X) s)
     = BlsPublicKey_of_str X s \<and>
   map_res public_key_of id (GenericPublicKey_Deserialize X (PublicKey_TPublicKey X) json)
     = impl_serde_deserialize (BlsPublicKey_of_str X) json \<and>
   GenericSignature_Display X (Signature_TSignature X) sig = BlsSignature_to_string X (signature_of sig) \<and>
   map_res signature_of id (GenericSignature_FromStr X (Signature_TSignature X) s)
     = BlsSignature_of_str X s \<and>
   map_res signature_of id (GenericSignature_Deserialize X (Signature_TSignature X) json)
     = impl_serde_deserialize (BlsSignature_of_str X) json \<and>
   GenericSecretKey_Display X (SecretKey_TSecretKey X) sk = BlsSecretKey_to_string X (secret_key_of sk) \<and>
   map_res secret_key_of id (GenericSecretKey_FromStr X (SecretKey_TSecretKey X) s)
     = BlsSecretKey_of_str X s \<and>
   map_res secret_key_of id (GenericSecretKey_Deserialize X (SecretKey_TSecretKey X) json)
     = impl_serde_deserialize (BlsSecretKey_of_str X) json"
proof -
  have 1: "map_res public_key_of id (GenericPublicKey_FromStr X (PublicKey_TPublicKey X) s)
      = BlsPublicKey_of_str X s" for s
    unfolding GenericPublicKey_FromStr_def map_res_from_str
    by (simp add: generic_at_blst impl_from_str_def BlsPublicKey_of_str_def)
  have 2: "map_res signature_of id (GenericSignature_FromStr X (Signature_TSignature X) s)
      = BlsSignature_of_str X s" for s
    unfolding GenericSignature_FromStr_def map_res_from_str
    by (simp add: generic_at_blst impl_from_str_def BlsSignature_of_str_def)
  have 3: "map_res secret_key_of id (GenericSecretKey_FromStr X (SecretKey_TSecretKey X) s)
      = BlsSecretKey_of_str X s" for s
    unfolding GenericSecretKey_FromStr_def map_res_from_str
    by (simp add: generic_at_blst impl_from_str_def BlsSecretKey_of_str_def)
  show ?thesis
    by (simp add: 1 2 3 generic_at_blst GenericPublicKey_Deserialize_def GenericSignature_Deserialize_def
        GenericSecretKey_Deserialize_def map_res_serde GenericPublicKey_Display_def
        GenericPublicKey_Debug_def GenericSignature_Display_def GenericSecretKey_Display_def
        impl_display_def impl_debug_def BlsPublicKey_to_string_def BlsPublicKey_debug_def
        BlsSignature_to_string_def BlsSecretKey_to_string_def)
qed

text \<open>
  A hash table over public keys is a map over the bytes of the keys, whatever the hasher is: the
  hand-written equality and hash agree, so the tables of the storage are modelled by maps.
\<close>

theorem key_tables_are_maps:
  "table_lookup (GenericPublicKey_eq T) (\<lambda>k. GenericPublicKey_hash T write k st) es k =
     map_of (map (\<lambda>(l, v). (GenericPublicKey_serialize T l, v)) es) (GenericPublicKey_serialize T k) \<and>
   table_lookup (GenericPublicKey_eq T) (\<lambda>k. GenericPublicKey_hash T write k st)
     (table_insert (GenericPublicKey_eq T) (\<lambda>k. GenericPublicKey_hash T write k st) k v es) m =
     (if GenericPublicKey_serialize T k = GenericPublicKey_serialize T m then Some v
      else table_lookup (GenericPublicKey_eq T) (\<lambda>k. GenericPublicKey_hash T write k st) es m)"
  unfolding public_key_table.lookup_insert
  by (simp add: public_key_table.lookup_is_map [of T "GenericPublicKey_serialize T"]
      GenericPublicKey_eq_def)

end
