(* ===== verification/Events_Client.thy ===== *)
theory Events_Client
  imports Relay_Service Post_Validators
begin

text \<open>
  The clients of the node and of the API-key service as they are made, and the connection to the event
  stream: \<open>BeaconEventsClient\<close> of \<open>crates/beacon/src/events/mod.rs\<close> subscribes to its two topics one
  after the other and retries each until it succeeds; \<open>BeaconNodeApi\<close> and \<open>MbsAuth\<close> keep the address
  they are given. The subscription itself and the HTTP clients are code of other crates and
  arguments here.
\<close>

section \<open>The client of the event stream\<close>

definition RETRY_DELAY_SECS :: nat where "RETRY_DELAY_SECS = 5"

record BeaconEventsClient =
  bec_url :: string

definition BeaconEventsClient_new :: "string \<Rightarrow> BeaconEventsClient" where
  "BeaconEventsClient_new url = \<lparr>bec_url = url\<rparr>"

definition BeaconEventsStream_new ::
    "PayloadAttributes EventStream \<Rightarrow> u64 EventStream \<Rightarrow> BeaconEventsStream" where
  "BeaconEventsStream_new payload_attributes new_head =
     \<lparr>es_payload_attributes = payload_attributes, es_new_head = new_head\<rparr>"

text \<open>
  \<open>subscribe url k\<close> is the outcome of the \<open>k\<close>-th attempt on a URL; the result counts the failed attempts,
  each of which is followed by a delay. The fuel bounds the attempts on one topic.
\<close>

definition client_subscribe ::
    "nat \<Rightarrow> (string \<Rightarrow> nat \<Rightarrow> ('a EventStream, string) res) \<Rightarrow> BeaconEventsClient \<Rightarrow> BeaconEventTopic
     \<Rightarrow> ('a EventStream \<times> nat) option" where
  "client_subscribe fuel subscribe self topic =
     subscribe_with_retry fuel (subscribe (events_url (bec_url self) topic)) 0"

definition client_payload_attributes ::
    "nat \<Rightarrow> (string \<Rightarrow> nat \<Rightarrow> (PayloadAttributes EventStream, string) res) \<Rightarrow> BeaconEventsClient
     \<Rightarrow> (PayloadAttributes EventStream \<times> nat) option" where
  "client_payload_attributes fuel subscribe self =
     client_subscribe fuel subscribe self PayloadAttributesTopic"

definition client_new_head ::
    "nat \<Rightarrow> (string \<Rightarrow> nat \<Rightarrow> (u64 EventStream, string) res) \<Rightarrow> BeaconEventsClient
     \<Rightarrow> (u64 EventStream \<times> nat) option" where
  "client_new_head fuel subscribe self = client_subscribe fuel subscribe self NewHead"

text \<open>\<open>BeaconConnection::stream\<close>: the stream, and the seconds that were spent waiting.\<close>

definition BeaconEventsClient_stream ::
    "nat \<Rightarrow> (string \<Rightarrow> nat \<Rightarrow> (PayloadAttributes EventStream, string) res)
     \<Rightarrow> (string \<Rightarrow> nat \<Rightarrow> (u64 EventStream, string) res) \<Rightarrow> BeaconEventsClient
     \<Rightarrow> (BeaconEventsStream \<times> nat) option" where
  "BeaconEventsClient_stream fuel subscribe_attrs subscribe_head self =
     (case client_payload_attributes fuel subscribe_attrs self of
        None \<Rightarrow> None
      | Some (payload_attributes, n) \<Rightarrow>
     (case client_new_head fuel subscribe_head self of
        None \<Rightarrow> None
      | Some (new_head, m) \<Rightarrow>
          Some (BeaconEventsStream_new payload_attributes new_head, (n + m) * RETRY_DELAY_SECS)))"

section \<open>The clients that keep an address\<close>

text \<open>\<open>'client\<close> is the HTTP client of \<open>reqwest\<close>; building one can fail.\<close>

record 'client NodeApi =
  na_client :: 'client
  na_url :: string

definition BeaconNodeApi_new :: "'client \<Rightarrow> string \<Rightarrow> 'client NodeApi" where
  "BeaconNodeApi_new client url = \<lparr>na_client = client, na_url = url\<rparr>"

record 'client MbsAuth =
  ma_url :: string
  ma_client :: 'client

definition MbsAuth_new :: "('client, string) res \<Rightarrow> string \<Rightarrow> ('client MbsAuth, AuthError) res" where
  "MbsAuth_new build url =
     res_bind (res_map_err RequestError build) (\<lambda>client. Ok \<lparr>ma_url = url, ma_client = client\<rparr>)"

record SecretBody =
  sb_secret :: string

text \<open>\<open>post client url body\<close> sends the body as JSON.\<close>

definition MbsAuth_Auth ::
    "('client \<Rightarrow> string \<Rightarrow> SecretBody \<Rightarrow> (HttpResponse, string) res) \<Rightarrow> 'client MbsAuth \<Rightarrow> string
     \<Rightarrow> (MbsUser, AuthError) res" where
  "MbsAuth_Auth post self secret =
     MbsAuth_validate (ma_url self) (\<lambda>url secret. post (ma_client self) url \<lparr>sb_secret = secret\<rparr>) secret"

section \<open>Properties\<close>

lemma client_subscribe_returns:
  assumes "\<And>j. j < n \<Longrightarrow> \<not> is_ok (subscribe (events_url (bec_url self) topic) j)"
    and "subscribe (events_url (bec_url self) topic) n = Ok a" and "n < fuel"
  shows "client_subscribe fuel subscribe self topic = Some (a, n)"
  using subscribe_first [of 0 n "subscribe (events_url (bec_url self) topic)" a fuel] assms
  by (simp add: client_subscribe_def)

lemma client_subscribe_waits:
  assumes "\<And>j. \<not> is_ok (subscribe (events_url (bec_url self) topic) j)"
  shows "client_subscribe fuel subscribe self topic = None"
proof -
  have "subscribe_with_retry fuel (subscribe (events_url (bec_url self) topic)) k = None" for k
    using assms by (induction fuel arbitrary: k) (simp_all add: is_ok_iff split: res.split)
  then show ?thesis by (simp add: client_subscribe_def)
qed

text \<open>
  The client connects as soon as the node accepts both subscriptions: when the attempts on the payload
  attributes succeed after \<open>n\<close> failures and those on the heads after \<open>m\<close>, the stream is that of these two
  subscriptions, after \<open>n + m\<close> delays of five seconds, and any fuel above both counts is enough. While one
  of the two is refused forever, no fuel is.
\<close>

theorem events_client_connects:
  assumes "\<And>j. j < n \<Longrightarrow> \<not> is_ok (attrs (url @ ''eth/v1/events?topics=payload_attributes'') j)"
    and "attrs (url @ ''eth/v1/events?topics=payload_attributes'') n = Ok pa"
    and "\<And>j. j < m \<Longrightarrow> \<not> is_ok (heads (url @ ''eth/v1/events?topics=head'') j)"
    and "heads (url @ ''eth/v1/events?topics=head'') m = Ok nh"
    and "n < fuel" and "m < fuel"
  shows "BeaconEventsClient_stream fuel attrs heads (BeaconEventsClient_new url)
    = Some (\<lparr>es_payload_attributes = pa, es_new_head = nh\<rparr>, 5 * n + 5 * m)"
  using client_subscribe_returns [of n attrs "BeaconEventsClient_new url" PayloadAttributesTopic pa fuel]
    client_subscribe_returns [of m heads "BeaconEventsClient_new url" NewHead nh fuel] assms
  by (simp add: BeaconEventsClient_stream_def client_payload_attributes_def client_new_head_def
      BeaconEventsStream_new_def BeaconEventsClient_new_def events_url_def RETRY_DELAY_SECS_def)

theorem events_client_waits:
  assumes "(\<forall>j. \<not> is_ok (attrs (url @ ''eth/v1/events?topics=payload_attributes'') j)) \<or>
    (\<forall>j. \<not> is_ok (heads (url @ ''eth/v1/events?topics=head'') j))"
  shows "BeaconEventsClient_stream fuel attrs heads (BeaconEventsClient_new url) = None"
  using assms
    client_subscribe_waits [of attrs "BeaconEventsClient_new url" PayloadAttributesTopic fuel]
    client_subscribe_waits [of heads "BeaconEventsClient_new url" NewHead fuel]
  by (auto simp: BeaconEventsClient_stream_def client_payload_attributes_def client_new_head_def
      BeaconEventsClient_new_def events_url_def split: option.split)

text \<open>
  The API-key service is asked at the address it was made with, and nothing is asked when its client
  could not be built.
\<close>

theorem auth_uses_address:
  "(case MbsAuth_new build url of
      Ok auth \<Rightarrow> build = Ok (ma_client auth) \<and>
        MbsAuth_Auth post auth secret =
          MbsAuth_validate url (\<lambda>u s. post (ma_client auth) u \<lparr>sb_secret = s\<rparr>) secret
    | Err e \<Rightarrow> (\<exists>m. e = RequestError m \<and> build = Err m)
    | Panic m \<Rightarrow> build = Panic m)"
  by (cases build) (simp_all add: MbsAuth_new_def MbsAuth_Auth_def)

end
