(* ===== verification/Grpc_Interceptors.thy ===== *)
theory Grpc_Interceptors
  imports Grpc_Wire
begin

text \<open>
  The rest of \<open>crates/grpc/src/gen/mevrelay.rs\<close>: servers and clients behind an interceptor, a client
  with an origin, the readiness of the server. \<open>InterceptedService\<close> and \<open>Grpc::with_origin\<close> are code of
  \<open>tonic\<close> and arguments; what is documented of the former is \<open>intercepted_documented\<close>.
\<close>

section \<open>The generated code\<close>

text \<open>A service of the server: what it makes of a request; \<open>f\<close> is an interceptor.\<close>

type_synonym ('w, 'q, 'r) grpc_server =
  "'q GrpcHttpRequest \<Rightarrow> 'w \<Rightarrow> 'w \<times> ('r GrpcHttpResponse, string) res"

definition MevRelayServer_with_interceptor ::
    "('t MevRelayServer \<Rightarrow> 'f \<Rightarrow> 'i) \<Rightarrow> 't \<Rightarrow> 'f \<Rightarrow> 'i" where
  "MevRelayServer_with_interceptor InterceptedService_new inner interceptor =
     InterceptedService_new (MevRelayServer_new inner) interceptor"

definition MevRelayClient_with_interceptor ::
    "('c \<Rightarrow> 'f \<Rightarrow> 'w GrpcChannel) \<Rightarrow> 'c \<Rightarrow> 'f \<Rightarrow> 'w MevRelayClient" where
  "MevRelayClient_with_interceptor InterceptedService_new inner interceptor =
     MevRelayClient_new (InterceptedService_new inner interceptor)"

definition MevRelayClient_with_origin ::
    "('c \<Rightarrow> 'u \<Rightarrow> 'w GrpcChannel) \<Rightarrow> 'c \<Rightarrow> 'u \<Rightarrow> 'w MevRelayClient" where
  "MevRelayClient_with_origin Grpc_with_origin inner origin =
     (let inner = Grpc_with_origin inner origin in \<lparr>mc_inner = inner\<rparr>)"

text \<open>\<open>poll_ready\<close>: the server is always ready.\<close>

definition MevRelayServer_poll_ready :: "'t MevRelayServer \<Rightarrow> (unit, string) res option" where
  "MevRelayServer_poll_ready self = Some (Ok ())"

section \<open>Documented behaviour of interceptors\<close>

text \<open>
  An interceptor looks at a request, here with its body, and hands it on, changed or not, or ends it with
  a status. An intercepted server replies with the encoded status then, and calls the server inside with
  what was handed on otherwise; an intercepted channel gives the status back without sending anything.
\<close>

type_synonym 'q interceptor = "'q GrpcHttpRequest \<Rightarrow> ('q GrpcHttpRequest, TonicStatus) res"

definition intercepted_documented ::
    "((SubmitBlockResponse, TonicStatus) res \<Rightarrow> 'r GrpcHttpResponse)
     \<Rightarrow> ('t MevRelayServer \<Rightarrow> ('w, 'q, 'r) grpc_server)
     \<Rightarrow> ('t MevRelayServer \<Rightarrow> 'q interceptor \<Rightarrow> ('w, 'q, 'r) grpc_server) \<Rightarrow> bool" where
  "intercepted_documented encode serve InterceptedService_new \<longleftrightarrow>
     (\<forall>server f req w. InterceptedService_new server f req w =
        (case f req of
           Ok req' \<Rightarrow> serve server req' w
         | Err status \<Rightarrow> (w, Ok (encode (Err status)))
         | Panic m \<Rightarrow> (w, Panic m)))"

section \<open>Properties\<close>

text \<open>
  A server behind an interceptor: a request that the interceptor ends does not reach the service and
  changes nothing; one that it hands on unchanged is served as without it.
\<close>

theorem interceptor_guards_service:
  assumes "intercepted_documented encode (MevRelayServer_call unary eb (submit_block X)) new"
  shows "(f req = Err status \<longrightarrow>
      MevRelayServer_with_interceptor new service f req w = (w, Ok (encode (Err status)))) \<and>
    (f req = Ok req \<longrightarrow> MevRelayServer_with_interceptor new service f req w =
      MevRelayServer_call unary eb (submit_block X) (MevRelayServer_new service) req w)"
  using assms by (simp add: intercepted_documented_def MevRelayServer_with_interceptor_def)

text \<open>A client with an origin or an interceptor calls the service through the channel it was made with.\<close>

theorem wrapped_clients_call:
  "MevRelayClient_submit_block (MevRelayClient_with_origin with_origin inner origin) msg w
     = MevRelayClient_submit_block (MevRelayClient_new (with_origin inner origin)) msg w \<and>
   MevRelayClient_submit_block (MevRelayClient_with_interceptor new inner f) msg w
     = MevRelayClient_submit_block (MevRelayClient_new (new inner f)) msg w"
  by (simp add: MevRelayClient_with_origin_def MevRelayClient_with_interceptor_def
      MevRelayClient_new_def)

end
