(* ===== verification/Spec2Isabelle.thy ===== *)
theory Spec2Isabelle
  imports Test_Witnesses Round_Witnesses Bls_Traits Events_Client Grpc_Interceptors
begin

text \<open>
  A model of the MEV relay \<open>rs-mev-relay\<close> and the theorems about it.

  \<^bold>\<open>The program.\<close> Builders submit bids (a payload of transactions with the value they pay) over HTTP
  or gRPC. The relay keeps, for each slot, parent block and proposer, the best admissible bid. A proposer
  registers over HTTP with an API key, asks for the header of the best bid, signs a blinded block with
  this header and hands it in; the relay puts the payload in place of the header, publishes the block
  through a beacon node, and returns the payload. A service follows the events of the beacon node: the
  head slot, the attributes of the next payload, and, at every multiple of 32 slots, the proposer duties.
  All parts share one storage behind locks.

  \<^bold>\<open>The theories\<close>, in the order of their imports, with the sources they model:

  \<^item> \<open>Relay_Prelude\<close>: machine integers at their width (\<open>u64\<close> is \<open>64 word\<close>, so \<open>+\<close> wraps), \<open>res\<close>
    (\<open>Ok\<close>, \<open>Err\<close> or \<open>Panic\<close>) with the \<open>?\<close> operator, strings, lemmas on lists and maps.
  \<^item> \<open>Externs\<close>: the code of other crates as one record of functions, and what is documented of it as
    named hypotheses (\<open>blst_encodings\<close>, \<open>blst_correct\<close>, \<open>tree_hash_width\<close>, \<open>ssz_containers\<close>,
    \<open>u256_slices\<close>, \<open>hex_documented\<close>, \<open>texts_documented\<close>, \<open>serde_documented\<close>, \<open>blst_keys\<close>, \<open>blst_signatures\<close>).
  \<^item> \<open>Types\<close>, \<open>Bls\<close>, \<open>Beacon_Types\<close>, \<open>Bids\<close>: \<open>crates/primitives\<close>, the data of the relay with their
    checked conversions, roots, signatures and signing domains.
  \<^item> \<open>Codecs\<close>, \<open>Codec_Laws\<close>: the encodings that the crate writes by hand (texts, JSON, SSZ, tree hashes,
    random and default keys), with round trips and the locale \<open>fixed_width\<close> of SSZ codecs.
  \<^item> \<open>Bls_Traits\<close>: the keys and signatures as \<open>crates/primitives/src/blst\<close> writes them, generic over a
    library of points that implements three traits; at \<open>blst\<close> they are the ones of \<open>Bls\<close>. The locale
    \<open>hash_key\<close> is the contract of a key of a hash table, which the hand-written equality and hash of
    public keys keep.
  \<^item> \<open>World\<close>: \<open>crates/primitives/src/metrics\<close> and the state that every handler reads and writes: the
    storage, the metrics recorder and the tasks that were spawned.
  \<^item> \<open>Storage\<close>: \<open>crates/storage\<close>. The trait is a record of functions; \<open>in_memory_storage\<close> is the
    implementation, \<open>spec_storage\<close> the specification over maps and sets, the locale
    \<open>storage_contract\<close> the contract that both satisfy and that the handlers are verified against.
  \<^item> \<open>Http_Errors\<close>, \<open>Post_Bids\<close>, \<open>Get_Header\<close>, \<open>Blinded_Blocks\<close>, \<open>Post_Validators\<close>,
    \<open>Http_Server\<close>: \<open>crates/http\<close> and \<open>crates/auth\<close>, one handler each, and the server that dispatches a
    request, limits its body and turns rejections into replies.
  \<^item> \<open>Http_Routing\<close>: the routes as filters with their paths, methods and queries, tried one after the
    other as the server tries them, and the metrics server.
  \<^item> \<open>Grpc_Gen\<close>, \<open>Grpc_Service\<close>: \<open>crates/grpc\<close>, the messages with their conversions, and the service.
  \<^item> \<open>Auction\<close>, \<open>Bid_Routes\<close>, \<open>Bid_Race\<close>, \<open>Delivery\<close>: properties over several calls. The best bid
    after any sequence of submissions; the same over both interfaces, which are instances of the locale
    \<open>bid_route\<close>; any interleaving of the steps of bid handlers; bid, header and block together.
  \<^item> \<open>Beacon_Service\<close>: \<open>crates/beacon\<close>, the client of the node, its command queue, the event stream.
  \<^item> \<open>Relay_Service\<close>, \<open>Startup\<close>: \<open>bin/relay\<close>, the service that follows the chain poll by poll, the
    command line, the fork data, and the order of the start.
  \<^item> \<open>Events_Client\<close>: the clients of the node and of the API-key service as they are made, and the
    connection to the event stream.
  \<^item> \<open>System\<close>: the relay as a step relation: a step is one HTTP request, gRPC call, event, refresh or
    publication; \<open>reachable\<close> are the worlds from the storage that start-up makes.
  \<^item> \<open>Programs\<close>, \<open>Handler_Programs\<close>, \<open>Concurrency\<close>, \<open>Metrics_Consistency\<close>: the same handlers as
    programs, trees of single accesses to the storage, the metrics and the task queue, one for each time
    that the source takes a lock; \<open>concurrent\<close> are the states of a server that starts any of them at any
    time and lets them make their accesses in any order. The locale \<open>safe_server\<close> proves an invariant
    for all interleavings from the single programs. The gauges and counters against the storage.
  \<^item> \<open>Auction_Round\<close>, \<open>Round_Interleavings\<close>: a round of the auction, from the acceptance of a bid to the
    block, while other steps of the relay, or other handlers access by access, run in between.
  \<^item> \<open>Grpc_Wire\<close>: the generated client and server of \<open>crates/grpc/src/gen/mevrelay.rs\<close> and the start of
    the gRPC server, over documented behaviour of \<open>tonic\<close>. \<open>Grpc_Interceptors\<close>: the same behind
    interceptors.
  \<^item> \<open>Json_Types\<close>: the JSON that \<open>serde\<close> derives for the types of the API, with the locale
    \<open>json_codec\<close> of what is read back, and requests and replies as bytes.
  \<^item> \<open>Test_Support\<close>, \<open>Grpc_Tests\<close>, \<open>Grpc_Test_Runs\<close>: the tests of the repository. A test is a
    sequence of steps that panics where an assertion fails; that it passes is proved for all random
    values and all orders of its tasks.
  \<^item> \<open>Versioned_Bid\<close>: \<open>versioned_bid.rs\<close>, an earlier form of the signed header that no module declares,
    compared with the one in use. \<open>Command_Line\<close>: the options of \<open>cli.rs\<close>, read as clap documents.
  \<^item> \<open>Unit_Tests\<close>, \<open>Node_Tests\<close>: the tests of the primitives and the storage, and of the beacon crate, the
    relay service and the command line.
  \<^item> \<open>Http_Tests\<close>, \<open>Http_Fixtures\<close>, \<open>Block_Tests\<close>: the tests of \<open>crates/http\<close>, on the routes with requests
    and replies as bytes; the JSON literals of the tests as values, and what is read from them.
  \<^item> \<open>Examples\<close>, \<open>Witnesses\<close>, \<open>Run_Witnesses\<close>, \<open>Round_Witnesses\<close>, \<open>Concurrent_Witnesses\<close>, \<open>Codec_Witnesses\<close>,
    \<open>Json_Witnesses\<close>, \<open>Test_Witnesses\<close>: an instance of the code of other crates that satisfies all
    hypotheses, a small relay, a run of it from its start to a published block, and the properties with
    hypotheses applied to them.

  \<^bold>\<open>State and operations.\<close> A handler of the source is a function from its arguments and the world to
  the world after it and its result; an early return is an \<open>Err\<close> with the world unchanged. A read of the
  clock is an argument. A call of another service (the API-key service, the beacon node, the HTTP client)
  is a function argument or its answer. A spawned task is an entry of \<open>w_tasks\<close> and runs as a step of its
  own. A hash table is a \<open>mapping\<close>, a vector a list. Each function of the storage is atomic, as it is
  under its lock; the handlers are atomic in \<open>System\<close>, split at the point between their reads and their
  writes in \<open>Bid_Race\<close>, and split into single accesses in \<open>Concurrency\<close>.

  \<^bold>\<open>What the lemmas show.\<close> The in-memory storage refines its specification; a bid is accepted under
  exactly the documented conditions, and the best bid is the first maximum of the admissible ones over
  both interfaces; in every reachable world best bids, registrations, duties and publications carry the
  signatures they need, and this holds for every interleaving of the single accesses of all handlers,
  where every handler is still answered after at most eight accesses; a payload matches the header that
  was signed as long as no other bid is accepted in between, and does not otherwise; a proposer who registered, asks
  for the header and signs it gets the payload of the best bid, whatever else the relay does in between
  other than accepting another bid for the proposer, dropping its registration or its duty, or, before
  the header is fetched, following a new head; overlapping
  bid handlers can lose the better bid but never fall below the bid they started from; every command of the beacon service is answered and the event stream
  is faithful; the start ends in a reachable world.

  \<^bold>\<open>Bounds and fuel.\<close> \<open>subscribe_with_retry\<close> counts its attempts, and as many attempts as there are
  failures and one more are enough; \<open>first_events\<close> counts its polls, and as many as the two subscriptions
  have entries are enough, while without an event of one kind no number is
  (\<open>setup_storage_spec\<close>). Every other loop is structural recursion.

  \<^bold>\<open>Not modelled.\<close> Elliptic-curve arithmetic, merkleization, the SSZ codecs that are derived, the text of
  JSON, and the transport of HTTP and gRPC are code of other crates. Imports and re-exports, module
  declarations, \<open>build.rs\<close> and the feature-gated \<open>impl_arbitrary\<close> have no behaviour of their own to model. Logging and timers have no effect on
  the state. In a release build, which is the one that is modelled, \<open>u64\<close> addition wraps.
\<close>

end
